(* ===== verification/Titan_Prelude.thy ===== *)
theory Titan_Prelude
  imports Complex_Main "HOL-Library.Word" "HOL-Library.Monad_Syntax"
    "HOL-Library.Code_Target_Nat"
begin

text \<open>
  Shared vocabulary of the development: machine integers and byte strings, the
  RocksDB \<open>Status\<close> values, assertions and undefined behaviour as
  \<open>None\<close>, the containers of the C++ standard library that the code uses
  (\<open>std::unordered_map\<close>, \<open>std::map\<close>) as association lists, and the
  part of \<open>double\<close> arithmetic that the garbage-collection thresholds need.

  Conventions. A \<open>Slice\<close> or \<open>std::string\<close> is a list of bytes. A C++
  method that mutates \<open>*this\<close> becomes a function that takes the object and
  returns it updated. A computation of type \<open>'a option\<close> returns
  \<open>None\<close> exactly where the C++ has no defined result: a failed
  \<open>assert\<close> in a build with assertions, a call of \<open>abort\<close>, a null
  dereference or an out-of-range access. The build flag \<open>nd\<close> (NDEBUG) is an
  argument wherever an \<open>assert\<close> matters, so both kinds of build are covered.
\<close>

section \<open>Types\<close>

type_synonym byte = "8 word"
type_synonym bytes = "8 word list"
type_synonym u32 = "32 word"
type_synonym u64 = "64 word"

datatype status =
    OK
  | NotFound string
  | Corruption string string
  | InvalidArgument string
  | IOError string
  | Incomplete string
  | ShutdownInProgress
  | Aborted string
  | Busy string

abbreviation IsOk :: "status \<Rightarrow> bool" where
  "IsOk s \<equiv> s = OK"

fun IsNotFound :: "status \<Rightarrow> bool" where
  "IsNotFound (NotFound _) = True"
| "IsNotFound _ = False"

fun IsCorruption :: "status \<Rightarrow> bool" where
  "IsCorruption (Corruption _ _) = True"
| "IsCorruption _ = False"

fun IsBusy :: "status \<Rightarrow> bool" where
  "IsBusy (Busy _) = True"
| "IsBusy _ = False"

fun IsInvalidArgument :: "status \<Rightarrow> bool" where
  "IsInvalidArgument (InvalidArgument _) = True"
| "IsInvalidArgument _ = False"

section \<open>Collections of simplification rules\<close>

named_theorems coding_simps \<open>round trips of the RocksDB coding primitives\<close>
named_theorems amap_simps \<open>lookup after update of association lists\<close>
named_theorems exec_simps \<open>unfolding of assertions and guarded steps\<close>

section \<open>Assertions\<close>

definition cpp_assert :: "bool \<Rightarrow> bool \<Rightarrow> unit option" where
  "cpp_assert nd b = (if b \<or> nd then Some () else None)"

lemma cpp_assert_release [simp]: "cpp_assert True b = Some ()"
  by (simp add: cpp_assert_def)

lemma cpp_assert_holds [simp]: "b \<Longrightarrow> cpp_assert nd b = Some ()"
  by (simp add: cpp_assert_def)

lemma cpp_assert_eq_Some [exec_simps]: "(cpp_assert nd b = Some u) \<longleftrightarrow> b \<or> nd"
  by (simp add: cpp_assert_def)

lemma cpp_assert_eq_None [exec_simps]: "(cpp_assert nd b = None) \<longleftrightarrow> \<not> b \<and> \<not> nd"
  by (simp add: cpp_assert_def)

lemmas bind_Some_conv [exec_simps] = bind_eq_Some_conv

section \<open>Decimal printing of unsigned integers\<close>

fun nat_to_string :: "nat \<Rightarrow> string" where
  "nat_to_string n =
     (if n < 10 then [char_of (48 + n)]
      else nat_to_string (n div 10) @ [char_of (48 + n mod 10)])"

declare nat_to_string.simps [simp del]

definition to_string :: "'a::len word \<Rightarrow> string" where
  "to_string w = nat_to_string (unat w)"

section \<open>Hash maps as association lists\<close>

text \<open>
  The order of the list stands for the iteration order of an
  \<open>std::unordered_map\<close>, which C++ leaves open. \<open>amap_emplace\<close> keeps an
  existing entry, as \<open>emplace\<close> does; \<open>amap_set\<close> is \<open>operator[]=\<close>.
\<close>

definition amap_emplace :: "'k \<Rightarrow> 'v \<Rightarrow> ('k \<times> 'v) list \<Rightarrow> ('k \<times> 'v) list" where
  "amap_emplace k v m = (if map_of m k = None then m @ [(k, v)] else m)"

fun amap_set :: "'k \<Rightarrow> 'v \<Rightarrow> ('k \<times> 'v) list \<Rightarrow> ('k \<times> 'v) list" where
  "amap_set k v [] = [(k, v)]"
| "amap_set k v ((k', v') # m) =
     (if k' = k then (k, v) # m else (k', v') # amap_set k v m)"

definition amap_erase :: "'k \<Rightarrow> ('k \<times> 'v) list \<Rightarrow> ('k \<times> 'v) list" where
  "amap_erase k m = filter (\<lambda>p. fst p \<noteq> k) m"

definition amap_update :: "'k \<Rightarrow> ('v \<Rightarrow> 'v) \<Rightarrow> ('k \<times> 'v) list \<Rightarrow> ('k \<times> 'v) list" where
  "amap_update k f m = map (\<lambda>(k', v). (k', if k' = k then f v else v)) m"

abbreviation amap_ok :: "('k \<times> 'v) list \<Rightarrow> bool" where
  "amap_ok m \<equiv> distinct (map fst m)"

lemma map_of_append_single:
  "map_of (m @ [(k, v)]) = (case map_of m k of None \<Rightarrow> (map_of m)(k \<mapsto> v) | Some _ \<Rightarrow> map_of m)"
proof
  fix x
  show "map_of (m @ [(k, v)]) x
        = (case map_of m k of None \<Rightarrow> (map_of m)(k \<mapsto> v) | Some _ \<Rightarrow> map_of m) x"
    by (cases "map_of m x"; cases "map_of m k") (auto simp: map_add_def)
qed

lemma map_of_amap_emplace [amap_simps]:
  "map_of (amap_emplace k v m) =
     (case map_of m k of None \<Rightarrow> (map_of m)(k \<mapsto> v) | Some _ \<Rightarrow> map_of m)"
  by (simp add: amap_emplace_def map_of_append_single del: map_of_append split: option.split)

lemma map_of_amap_set [amap_simps]: "map_of (amap_set k v m) = (map_of m)(k \<mapsto> v)"
  by (induction k v m rule: amap_set.induct) auto

lemma map_of_amap_erase [amap_simps]: "map_of (amap_erase k m) = (map_of m)(k := None)"
  by (induction m) (auto simp: amap_erase_def)

lemma map_of_amap_update [amap_simps]:
  "map_of (amap_update k f m) = (map_of m)(k := map_option f (map_of m k))"
  by (induction m) (auto simp: amap_update_def fun_eq_iff)

lemma keys_amap_update [simp]: "map fst (amap_update k f m) = map fst m"
  by (induction m) (auto simp: amap_update_def)

lemma amap_ok_emplace [simp]: "amap_ok m \<Longrightarrow> amap_ok (amap_emplace k v m)"
  by (auto simp: amap_emplace_def map_of_eq_None_iff)

lemma set_amap_set_keys: "set (map fst (amap_set k v m)) = insert k (set (map fst m))"
  by (induction k v m rule: amap_set.induct) auto

lemma amap_ok_set [simp]: "amap_ok m \<Longrightarrow> amap_ok (amap_set k v m)"
proof (induction k v m rule: amap_set.induct)
  case (2 k v k' v' m)
  then show ?case using set_amap_set_keys [of k v m] by auto
qed simp

lemma amap_ok_erase [simp]: "amap_ok m \<Longrightarrow> amap_ok (amap_erase k m)"
  by (induction m) (auto simp: amap_erase_def)

section \<open>Ordered maps\<close>

text \<open>
  An \<open>std::map\<close> is a list sorted by key, so that iteration is in key order.
\<close>

fun omap_set :: "'k::linorder \<Rightarrow> 'v \<Rightarrow> ('k \<times> 'v) list \<Rightarrow> ('k \<times> 'v) list" where
  "omap_set k v [] = [(k, v)]"
| "omap_set k v ((k', v') # m) =
     (if k < k' then (k, v) # (k', v') # m
      else if k = k' then (k, v) # m
      else (k', v') # omap_set k v m)"

definition omap_emplace :: "'k::linorder \<Rightarrow> 'v \<Rightarrow> ('k \<times> 'v) list \<Rightarrow> ('k \<times> 'v) list" where
  "omap_emplace k v m = (if map_of m k = None then omap_set k v m else m)"

abbreviation omap_ok :: "('k::linorder \<times> 'v) list \<Rightarrow> bool" where
  "omap_ok m \<equiv> sorted_wrt (<) (map fst m)"

lemma omap_ok_None: "omap_ok ((k', v') # m) \<Longrightarrow> k < k' \<Longrightarrow> map_of m k = None"
  by (force simp: map_of_eq_None_iff)

lemma set_omap_set_keys: "set (map fst (omap_set k v m)) = insert k (set (map fst m))"
  by (induction k v m rule: omap_set.induct) auto

lemma map_of_omap_set [amap_simps]: "map_of (omap_set k v m) = (map_of m)(k \<mapsto> v)"
  by (induction k v m rule: omap_set.induct) auto

lemma omap_ok_set [simp]: "omap_ok m \<Longrightarrow> omap_ok (omap_set k v m)"
proof (induction k v m rule: omap_set.induct)
  case (2 k v k' v' m)
  then show ?case using set_omap_set_keys [of k v m] by fastforce
qed simp

lemma omap_ok_emplace [simp]: "omap_ok m \<Longrightarrow> omap_ok (omap_emplace k v m)"
  by (simp add: omap_emplace_def)

lemma omap_set_last:
  "\<forall>k'\<in>set (map fst m). k' < k \<Longrightarrow> omap_set k v m = m @ [(k, v)]"
  by (induction k v m rule: omap_set.induct) auto

lemma omap_ok_amap_ok: "omap_ok m \<Longrightarrow> amap_ok m"
  by (simp add: strict_sorted_iff)

section \<open>Ratios of sizes as doubles\<close>

text \<open>
  The thresholds compare a quotient of two 64-bit sizes with a configured
  \<open>double\<close>. The model computes the quotient exactly (no rounding) and keeps the
  two results of a division by zero apart.
\<close>

datatype dbl = Fin rat | PosInf | NaN

definition dbl_div :: "u64 \<Rightarrow> u64 \<Rightarrow> dbl" where
  "dbl_div a b =
     (if b = 0 then (if a = 0 then NaN else PosInf)
      else Fin (of_nat (unat a) / of_nat (unat b)))"

fun dbl_less :: "dbl \<Rightarrow> dbl \<Rightarrow> bool" where
  "dbl_less (Fin a) (Fin b) = (a < b)"
| "dbl_less (Fin a) PosInf = True"
| "dbl_less _ _ = False"

fun dbl_le :: "dbl \<Rightarrow> dbl \<Rightarrow> bool" where
  "dbl_le (Fin a) (Fin b) = (a \<le> b)"
| "dbl_le (Fin a) PosInf = True"
| "dbl_le PosInf PosInf = True"
| "dbl_le _ _ = False"

lemma dbl_less_irrefl [simp]: "\<not> dbl_less d d"
  by (cases d) auto

lemma dbl_less_trans: "dbl_less a b \<Longrightarrow> dbl_less b c \<Longrightarrow> dbl_less a c"
  by (cases a; cases b; cases c) auto

lemma dbl_less_asym: "dbl_less a b \<Longrightarrow> \<not> dbl_less b a"
  by (cases a; cases b) auto

end
