(* ===== verification/Coding.thy ===== *)
theory Coding
  imports Titan_Prelude
begin

text \<open>
  The interface to RocksDB's \<open>util/coding.h\<close>, \<open>util/crc32c.h\<close> and
  \<open>table/format.h\<close> (\<open>BlockHandle\<close>), which are not part of this repository. The
  record \<open>coding\<close> is the parameter every encoder and decoder takes. The locale
  \<open>coding_laws\<close> states what the code relies on: what was put is got back, with the
  rest of the input returned. \<open>leb128\<close> is an instance built from the documented
  formats (little-endian fixed width, base-128 varints), used where a concrete coding
  is needed.

  \<open>PutX C v\<close> is the byte string appended to the destination; \<open>GetX C s\<close> is
  \<open>None\<close> when the function returns false and the value with the advanced slice
  otherwise.
\<close>

section \<open>The parameter\<close>

record coding =
  PutFixed32 :: "u32 \<Rightarrow> bytes"
  GetFixed32 :: "bytes \<Rightarrow> (u32 \<times> bytes) option"
  PutFixed64 :: "u64 \<Rightarrow> bytes"
  GetFixed64 :: "bytes \<Rightarrow> (u64 \<times> bytes) option"
  PutVarint32 :: "u32 \<Rightarrow> bytes"
  GetVarint32 :: "bytes \<Rightarrow> (u32 \<times> bytes) option"
  PutVarint64 :: "u64 \<Rightarrow> bytes"
  GetVarint64 :: "bytes \<Rightarrow> (u64 \<times> bytes) option"
  PutLengthPrefixedSlice :: "bytes \<Rightarrow> bytes"
  GetLengthPrefixedSlice :: "bytes \<Rightarrow> (bytes \<times> bytes) option"
  crc32c_Value :: "bytes \<Rightarrow> u32"
  crc32c_Extend :: "u32 \<Rightarrow> bytes \<Rightarrow> u32"
  kMaxEncodedLength :: nat
  BlockHandle_EncodeTo :: "u64 \<times> u64 \<Rightarrow> bytes"
  BlockHandle_DecodeFrom :: "u64 \<times> u64 \<Rightarrow> bytes \<Rightarrow> status \<times> (u64 \<times> u64) \<times> bytes"

section \<open>The laws\<close>

locale coding_laws =
  fixes C :: coding
  assumes fixed32 [simp, coding_simps]: "GetFixed32 C (PutFixed32 C v @ r) = Some (v, r)"
    and fixed32_length [simp, coding_simps]: "length (PutFixed32 C v) = 4"
    and fixed64 [simp, coding_simps]: "GetFixed64 C (PutFixed64 C w @ r) = Some (w, r)"
    and fixed64_length [simp, coding_simps]: "length (PutFixed64 C w) = 8"
    and varint32 [simp, coding_simps]: "GetVarint32 C (PutVarint32 C v @ r) = Some (v, r)"
    and varint32_progress: "GetVarint32 C s = Some (v, r) \<Longrightarrow> length r < length s"
    and varint64 [simp, coding_simps]: "GetVarint64 C (PutVarint64 C w @ r) = Some (w, r)"
    and varint64_progress: "GetVarint64 C s = Some (w, r) \<Longrightarrow> length r < length s"
    and prefixed [simp, coding_simps]:
      "length k < 2 ^ 32 \<Longrightarrow>
       GetLengthPrefixedSlice C (PutLengthPrefixedSlice C k @ r) = Some (k, r)"
    and prefixed_progress:
      "GetLengthPrefixedSlice C s = Some (k, r) \<Longrightarrow> length r < length s"
    and extend: "crc32c_Extend C (crc32c_Value C a) b = crc32c_Value C (a @ b)"
    and handle_length: "length (BlockHandle_EncodeTo C h) \<le> kMaxEncodedLength C"
    and handle [simp, coding_simps]:
      "BlockHandle_DecodeFrom C h0 (BlockHandle_EncodeTo C h @ r) = (OK, h, r)"
begin

lemma fixed32_end [simp, coding_simps]: "GetFixed32 C (PutFixed32 C v) = Some (v, [])"
  using fixed32 [of v "[]"] by simp

lemma fixed64_end [simp, coding_simps]: "GetFixed64 C (PutFixed64 C w) = Some (w, [])"
  using fixed64 [of w "[]"] by simp

lemma varint32_end [simp, coding_simps]: "GetVarint32 C (PutVarint32 C v) = Some (v, [])"
  using varint32 [of v "[]"] by simp

lemma varint64_end [simp, coding_simps]: "GetVarint64 C (PutVarint64 C w) = Some (w, [])"
  using varint64 [of w "[]"] by simp

lemma prefixed_end [simp, coding_simps]:
  "length k < 2 ^ 32 \<Longrightarrow>
   GetLengthPrefixedSlice C (PutLengthPrefixedSlice C k) = Some (k, [])"
  using prefixed [of k "[]"] by simp

lemma varint32_nonempty [simp]: "PutVarint32 C v \<noteq> []"
  using varint32_progress [OF varint32 [of v "[]"]] by auto

lemma varint64_nonempty [simp]: "PutVarint64 C w \<noteq> []"
  using varint64_progress [OF varint64 [of w "[]"]] by auto

end

section \<open>A concrete coding\<close>

fun enc_fixed :: "nat \<Rightarrow> nat \<Rightarrow> bytes" where
  "enc_fixed 0 n = []"
| "enc_fixed (Suc k) n = of_nat (n mod 256) # enc_fixed k (n div 256)"

fun dec_fixed :: "nat \<Rightarrow> bytes \<Rightarrow> (nat \<times> bytes) option" where
  "dec_fixed 0 s = Some (0, s)"
| "dec_fixed (Suc k) s = (case s of
      [] \<Rightarrow> None
    | b # s' \<Rightarrow> (case dec_fixed k s' of
          None \<Rightarrow> None
        | Some (n, r) \<Rightarrow> Some (unat b + 256 * n, r)))"

fun enc_varint :: "nat \<Rightarrow> bytes" where
  "enc_varint n =
     (if n < 128 then [of_nat n] else of_nat (n mod 128 + 128) # enc_varint (n div 128))"

declare enc_varint.simps [simp del]

fun dec_varint :: "bytes \<Rightarrow> (nat \<times> bytes) option" where
  "dec_varint [] = None"
| "dec_varint (b # s) =
     (if unat b < 128 then Some (unat b, s)
      else case dec_varint s of None \<Rightarrow> None
           | Some (n, r) \<Rightarrow> Some (unat b - 128 + 128 * n, r))"

definition of_dec :: "(nat \<times> bytes) option \<Rightarrow> ('w::len word \<times> bytes) option" where
  "of_dec d = (case d of
      None \<Rightarrow> None
    | Some (n, r) \<Rightarrow> if n < 2 ^ LENGTH('w) then Some (of_nat n, r) else None)"

definition get_prefixed :: "bytes \<Rightarrow> (bytes \<times> bytes) option" where
  "get_prefixed s = (case dec_varint s of
      None \<Rightarrow> None
    | Some (n, r) \<Rightarrow> if n \<le> length r then Some (take n r, drop n r) else None)"

definition checksum :: "u32 \<Rightarrow> bytes \<Rightarrow> u32" where
  "checksum c s = c + of_nat (sum_list (map unat s))"

definition get_handle :: "u64 \<times> u64 \<Rightarrow> bytes \<Rightarrow> status \<times> (u64 \<times> u64) \<times> bytes" where
  "get_handle h s = (case of_dec (dec_varint s) of
      None \<Rightarrow> (Corruption ''bad block handle'' '''', (0, 0), s)
    | Some (off, r) \<Rightarrow> (case of_dec (dec_varint r) of
          None \<Rightarrow> (Corruption ''bad block handle'' '''', (0, 0), s)
        | Some (sz, r') \<Rightarrow> (OK, (off, sz), r')))"

definition leb128 :: coding where
  "leb128 = \<lparr>
     PutFixed32 = (\<lambda>v. enc_fixed 4 (unat v)),
     GetFixed32 = (\<lambda>s. of_dec (dec_fixed 4 s)),
     PutFixed64 = (\<lambda>v. enc_fixed 8 (unat v)),
     GetFixed64 = (\<lambda>s. of_dec (dec_fixed 8 s)),
     PutVarint32 = (\<lambda>v. enc_varint (unat v)),
     GetVarint32 = (\<lambda>s. of_dec (dec_varint s)),
     PutVarint64 = (\<lambda>v. enc_varint (unat v)),
     GetVarint64 = (\<lambda>s. of_dec (dec_varint s)),
     PutLengthPrefixedSlice = (\<lambda>s. enc_varint (length s) @ s),
     GetLengthPrefixedSlice = get_prefixed,
     crc32c_Value = checksum 0,
     crc32c_Extend = checksum,
     kMaxEncodedLength = 20,
     BlockHandle_EncodeTo = (\<lambda>(a, b). enc_varint (unat a) @ enc_varint (unat b)),
     BlockHandle_DecodeFrom = get_handle\<rparr>"

lemma dec_enc_fixed: "n < 256 ^ k \<Longrightarrow> dec_fixed k (enc_fixed k n @ r) = Some (n, r)"
proof (induction k arbitrary: n)
  case (Suc k)
  then have "n div 256 < 256 ^ k" by (simp add: less_mult_imp_div_less mult.commute)
  with Suc.IH have "dec_fixed k (enc_fixed k (n div 256) @ r) = Some (n div 256, r)" by blast
  then show ?case by (simp add: unat_of_nat mod_mod_trivial)
qed simp

lemma length_enc_fixed [simp]: "length (enc_fixed k n) = k"
  by (induction k arbitrary: n) auto

lemma dec_enc_varint: "dec_varint (enc_varint n @ r) = Some (n, r)"
proof (induction n rule: enc_varint.induct)
  case (1 n)
  show ?case
  proof (cases "n < 128")
    case True
    then show ?thesis by (simp add: enc_varint.simps [of n] unat_of_nat)
  next
    case False
    have "unat (of_nat (n mod 128 + 128) :: byte) = n mod 128 + 128"
    proof -
      have "n mod 128 + 128 < 256" by (simp add: less_diff_conv)
      then show ?thesis by (subst unat_of_nat) simp
    qed
    with 1 False show ?thesis by (simp add: enc_varint.simps [of n])
  qed
qed

lemma dec_varint_progress: "dec_varint s = Some (n, r) \<Longrightarrow> length r < length s"
  by (induction s arbitrary: n r) (fastforce split: if_splits option.splits)+

lemma of_dec_Some: "n < 2 ^ LENGTH('w) \<Longrightarrow> of_dec (Some (n, r)) = Some (of_nat n :: 'w::len word, r)"
  by (simp add: of_dec_def)

lemma of_dec_progress: "of_dec (dec_varint s) = Some (v, r) \<Longrightarrow> length r < length s"
  by (auto simp: of_dec_def dest: dec_varint_progress split: option.splits if_splits)

lemma length_enc_varint: "n < 128 ^ k \<Longrightarrow> 0 < k \<Longrightarrow> length (enc_varint n) \<le> k"
proof (induction k arbitrary: n)
  case (Suc k)
  show ?case
  proof (cases "n < 128")
    case True
    then show ?thesis by (simp add: enc_varint.simps [of n])
  next
    case False
    with Suc.prems have "0 < k" by (cases k) auto
    moreover from Suc.prems have "n div 128 < 128 ^ k"
      by (simp add: less_mult_imp_div_less mult.commute)
    ultimately have "length (enc_varint (n div 128)) \<le> k" by (rule Suc.IH [rotated])
    with False show ?thesis by (simp add: enc_varint.simps [of n])
  qed
qed simp

lemma length_enc_u64: "length (enc_varint (unat (w :: u64))) \<le> 10"
proof (rule length_enc_varint)
  have "unat w < 2 ^ 64" using unsigned_less [of w] by simp
  also have "(2::nat) ^ 64 < 128 ^ 10" by simp
  finally show "unat w < 128 ^ 10" .
qed simp

lemma unat_bound [simp]: "unat (w :: 'w::len word) < 2 ^ LENGTH('w)"
  by (rule unsigned_less)

lemma of_dec_fixed_u32 [simp]: "of_dec (dec_fixed 4 (enc_fixed 4 (unat (v :: u32)) @ r)) = Some (v, r)"
proof -
  have "unat v < 256 ^ 4" using unsigned_less [of v] by simp
  then show ?thesis using unsigned_less [of v] by (simp add: dec_enc_fixed of_dec_Some del: enc_fixed.simps)
qed

lemma of_dec_fixed_u64 [simp]: "of_dec (dec_fixed 8 (enc_fixed 8 (unat (v :: u64)) @ r)) = Some (v, r)"
proof -
  have "unat v < 256 ^ 8" using unsigned_less [of v] by simp
  then show ?thesis using unsigned_less [of v] by (simp add: dec_enc_fixed of_dec_Some del: enc_fixed.simps)
qed

lemma of_dec_varint [simp]:
  "of_dec (dec_varint (enc_varint (unat (v :: 'w::len word)) @ r)) = Some (v, r)"
  by (simp add: dec_enc_varint of_dec_Some)

interpretation leb: coding_laws leb128
proof
  show "GetLengthPrefixedSlice leb128 (PutLengthPrefixedSlice leb128 k @ r) = Some (k, r)"
    if "length k < 2 ^ 32" for k r
    by (simp add: leb128_def get_prefixed_def dec_enc_varint)
  show "length r < length s" if "GetLengthPrefixedSlice leb128 s = Some (k, r)" for s k r
    using that dec_varint_progress [of s]
    by (fastforce simp: leb128_def get_prefixed_def split: option.splits if_splits)
  show "length (BlockHandle_EncodeTo leb128 h) \<le> kMaxEncodedLength leb128" for h
    using length_enc_u64 [of "fst h"] length_enc_u64 [of "snd h"]
    by (simp add: leb128_def case_prod_beta)
  show "BlockHandle_DecodeFrom leb128 h0 (BlockHandle_EncodeTo leb128 h @ r) = (OK, h, r)" for h0 h r
    by (cases h) (simp add: leb128_def get_handle_def)
qed (auto simp: leb128_def checksum_def dest: of_dec_progress)

lemma coding_laws_leb128: "coding_laws leb128"
  by (rule leb.coding_laws_axioms)

end
