(* ===== verification/Titan_Util.thy ===== *)
theory Titan_Util
  imports Titan_Prelude
begin

text \<open>
  \<open>src/util.h\<close> and \<open>src/util.cc\<close>: compression of blob records and the blocking
  queue between writers and the foreground builders. The compressors and the
  numbers of the RocksDB enumeration \<open>CompressionType\<close> are not part of this
  repository: the record \<open>codec\<close> is the parameter that stands for them, and the
  locale \<open>codec_laws\<close> says what the code relies on.
\<close>

section \<open>The compression libraries\<close>

text \<open>
  Each compressor returns \<open>None\<close> when the library is not linked in or fails, each
  decompressor when it returns a null buffer.
\<close>

record codec =
  kNoCompression :: byte
  kSnappyCompression :: byte
  kZlibCompression :: byte
  kBZip2Compression :: byte
  kLZ4Compression :: byte
  kLZ4HCCompression :: byte
  kXpressCompression :: byte
  kZSTD :: byte
  kZSTDNotFinalCompression :: byte
  Snappy_Compress :: "bytes \<Rightarrow> bytes option"
  Zlib_Compress :: "bytes \<Rightarrow> bytes option"
  BZip2_Compress :: "bytes \<Rightarrow> bytes option"
  LZ4_Compress :: "bytes \<Rightarrow> bytes option"
  LZ4HC_Compress :: "bytes \<Rightarrow> bytes option"
  XPRESS_Compress :: "bytes \<Rightarrow> bytes option"
  ZSTD_Compress :: "bytes \<Rightarrow> bytes option"
  Snappy_GetUncompressedLength :: "bytes \<Rightarrow> nat option"
  Snappy_Uncompress :: "bytes \<Rightarrow> bytes option"
  Zlib_Uncompress :: "bytes \<Rightarrow> bytes option"
  BZip2_Uncompress :: "bytes \<Rightarrow> bytes option"
  LZ4_Uncompress :: "bytes \<Rightarrow> bytes option"
  XPRESS_Uncompress :: "bytes \<Rightarrow> bytes option"
  ZSTD_Uncompress :: "bytes \<Rightarrow> bytes option"

definition compression_types :: "codec \<Rightarrow> byte list" where
  "compression_types L = [kNoCompression L, kSnappyCompression L, kZlibCompression L,
     kBZip2Compression L, kLZ4Compression L, kLZ4HCCompression L, kXpressCompression L,
     kZSTD L, kZSTDNotFinalCompression L]"

section \<open>Compress and Uncompress\<close>

definition GoodCompressionRatio :: "nat \<Rightarrow> nat \<Rightarrow> bool" where
  "GoodCompressionRatio compressed_size raw_size = (compressed_size < raw_size - raw_size div 8)"

definition try_compress :: "codec \<Rightarrow> byte \<Rightarrow> bytes \<Rightarrow> bytes option" where
  "try_compress L ty input =
     (if ty = kSnappyCompression L then Snappy_Compress L input
      else if ty = kZlibCompression L then Zlib_Compress L input
      else if ty = kBZip2Compression L then BZip2_Compress L input
      else if ty = kLZ4Compression L then LZ4_Compress L input
      else if ty = kLZ4HCCompression L then LZ4HC_Compress L input
      else if ty = kXpressCompression L then XPRESS_Compress L input
      else if ty = kZSTD L \<or> ty = kZSTDNotFinalCompression L then ZSTD_Compress L input
      else None)"

definition Compress :: "codec \<Rightarrow> byte \<Rightarrow> bytes \<Rightarrow> bytes \<times> byte" where
  "Compress L ty input =
     (if ty = kNoCompression L then (input, ty)
      else case try_compress L ty input of
        Some out \<Rightarrow> if GoodCompressionRatio (length out) (length input) then (out, ty)
                    else (input, kNoCompression L)
      | None \<Rightarrow> (input, kNoCompression L))"

definition corrupted_blob :: "string \<Rightarrow> bytes option \<Rightarrow> status \<times> bytes" where
  "corrupted_blob name r =
     (case r of None \<Rightarrow> (Corruption ''Corrupted compressed blob'' name, [])
      | Some out \<Rightarrow> (OK, out))"

definition Uncompress :: "bool \<Rightarrow> codec \<Rightarrow> byte \<Rightarrow> bytes \<Rightarrow> (status \<times> bytes) option" where
  "Uncompress nd L ty input = do {
     cpp_assert nd (ty \<noteq> kNoCompression L);
     Some
      (if ty = kSnappyCompression L then
         (case Snappy_GetUncompressedLength L input of
            None \<Rightarrow> (Corruption ''Corrupted compressed blob'' ''Snappy'', [])
          | Some usize \<Rightarrow> corrupted_blob ''Snappy'' (Snappy_Uncompress L input))
       else if ty = kZlibCompression L then corrupted_blob ''Zlib'' (Zlib_Uncompress L input)
       else if ty = kBZip2Compression L then corrupted_blob ''Bzip2'' (BZip2_Uncompress L input)
       else if ty = kLZ4Compression L then corrupted_blob ''LZ4'' (LZ4_Uncompress L input)
       else if ty = kLZ4HCCompression L then corrupted_blob ''LZ4HC'' (LZ4_Uncompress L input)
       else if ty = kXpressCompression L then corrupted_blob ''Xpress'' (XPRESS_Uncompress L input)
       else if ty = kZSTD L \<or> ty = kZSTDNotFinalCompression L
         then corrupted_blob ''ZSTD'' (ZSTD_Uncompress L input)
       else (Corruption ''bad compression type'' '''', []))
   }"

section \<open>What the code relies on\<close>

locale codec_laws =
  fixes L :: codec
  assumes types_distinct: "distinct (compression_types L)"
    and snappy: "Snappy_Compress L x = Some y \<Longrightarrow> Snappy_Uncompress L y = Some x"
    and snappy_length: "Snappy_Compress L x = Some y \<Longrightarrow> Snappy_GetUncompressedLength L y = Some (length x)"
    and zlib: "Zlib_Compress L x = Some y \<Longrightarrow> Zlib_Uncompress L y = Some x"
    and bzip2: "BZip2_Compress L x = Some y \<Longrightarrow> BZip2_Uncompress L y = Some x"
    and lz4: "LZ4_Compress L x = Some y \<Longrightarrow> LZ4_Uncompress L y = Some x"
    and lz4hc: "LZ4HC_Compress L x = Some y \<Longrightarrow> LZ4_Uncompress L y = Some x"
    and xpress: "XPRESS_Compress L x = Some y \<Longrightarrow> XPRESS_Uncompress L y = Some x"
    and zstd: "ZSTD_Compress L x = Some y \<Longrightarrow> ZSTD_Uncompress L y = Some x"
begin

lemma types_neq:
  "kSnappyCompression L \<noteq> kNoCompression L" "kZlibCompression L \<noteq> kNoCompression L"
  "kBZip2Compression L \<noteq> kNoCompression L" "kLZ4Compression L \<noteq> kNoCompression L"
  "kLZ4HCCompression L \<noteq> kNoCompression L" "kXpressCompression L \<noteq> kNoCompression L"
  "kZSTD L \<noteq> kNoCompression L" "kZSTDNotFinalCompression L \<noteq> kNoCompression L"
  using types_distinct by (auto simp: compression_types_def)

lemma Uncompress_try_compress:
  assumes "ty \<noteq> kNoCompression L" and "try_compress L ty x = Some y"
  shows "Uncompress nd L ty y = Some (OK, x)"
proof -
  have "cpp_assert nd (ty \<noteq> kNoCompression L) = Some ()"
    using assms(1) by simp
  with assms(2) types_distinct show ?thesis
    by (auto simp: try_compress_def Uncompress_def corrupted_blob_def compression_types_def
          snappy snappy_length zlib bzip2 lz4 lz4hc xpress zstd split: if_splits)
qed

lemma Compress_cases:
  obtains (raw) "Compress L ty x = (x, kNoCompression L)"
  | (packed) y where "Compress L ty x = (y, ty)" "ty \<noteq> kNoCompression L"
      "Uncompress nd L ty y = Some (OK, x)" "length y < length x"
proof (cases "ty = kNoCompression L \<or> try_compress L ty x = None
              \<or> \<not> GoodCompressionRatio (length (the (try_compress L ty x))) (length x)")
  case True
  then have "Compress L ty x = (x, kNoCompression L)"
    by (auto simp: Compress_def split: option.splits)
  then show ?thesis by (rule raw)
next
  case False
  then obtain y where y: "try_compress L ty x = Some y" "ty \<noteq> kNoCompression L"
      "GoodCompressionRatio (length y) (length x)" by auto
  then have "length y < length x" by (auto simp: GoodCompressionRatio_def)
  with y show ?thesis
    using Uncompress_try_compress [OF y(2,1)] by (intro packed) (auto simp: Compress_def)
qed

lemma Compress_length: "length (fst (Compress L ty x)) \<le> length x"
  by (rule Compress_cases [where ty = ty and x = x]) auto

end

section \<open>A concrete library\<close>

text \<open>
  A library in which only Snappy is linked in, as a run-length code for constant
  blocks. It shows that the laws can hold with a compressor that does compress.
\<close>

definition rle :: "bytes \<Rightarrow> bytes option" where
  "rle x = (case x of [] \<Rightarrow> None
     | b # _ \<Rightarrow> if length x < 256 \<and> x = replicate (length x) b
                then Some [b, of_nat (length x)] else None)"

definition unrle :: "bytes \<Rightarrow> bytes option" where
  "unrle y = (case y of [b, n] \<Rightarrow> Some (replicate (unat n) b) | _ \<Rightarrow> None)"

definition rle_codec :: codec where
  "rle_codec = \<lparr>
     kNoCompression = 0, kSnappyCompression = 1, kZlibCompression = 2, kBZip2Compression = 3,
     kLZ4Compression = 4, kLZ4HCCompression = 5, kXpressCompression = 6, kZSTD = 7,
     kZSTDNotFinalCompression = 64,
     Snappy_Compress = rle, Zlib_Compress = Map.empty, BZip2_Compress = Map.empty,
     LZ4_Compress = Map.empty, LZ4HC_Compress = Map.empty, XPRESS_Compress = Map.empty,
     ZSTD_Compress = Map.empty,
     Snappy_GetUncompressedLength = (\<lambda>y. map_option length (unrle y)), Snappy_Uncompress = unrle,
     Zlib_Uncompress = Map.empty, BZip2_Uncompress = Map.empty, LZ4_Uncompress = Map.empty,
     XPRESS_Uncompress = Map.empty, ZSTD_Uncompress = Map.empty\<rparr>"

lemma unrle_rle:
  assumes "rle x = Some y"
  shows "unrle y = Some x"
proof -
  from assms obtain b xs where x: "x = b # xs" by (cases x) (auto simp: rle_def)
  with assms have len: "length x < 256" and rep: "x = replicate (length x) b"
    and y: "y = [b, of_nat (length x)]"
    by (auto simp: rle_def simp del: of_nat_Suc replicate_Suc split: if_splits)
  from len have "unat (of_nat (length x) :: byte) = length x" by (subst unat_of_nat) simp
  with rep y show ?thesis by (simp add: unrle_def)
qed

lemma rle_replicate: "0 < n \<Longrightarrow> n < 256 \<Longrightarrow> rle (replicate n b) = Some [b, of_nat n]"
  by (cases n) (auto simp: rle_def)

interpretation rle: codec_laws rle_codec
  by unfold_locales (auto simp: rle_codec_def compression_types_def unrle_rle)

lemma codec_laws_rle: "codec_laws rle_codec"
  by (rule rle.codec_laws_axioms)

section \<open>The blocking queue\<close>

text \<open>
  \<open>BlockQueue\<close> guards a list with a mutex, so each call is one atomic step on the
  list. \<open>Get\<close> and \<open>GetBulk\<close> wait while the queue is empty: the step is not
  enabled then, which is \<open>None\<close>. \<open>Put\<close> also reports whether it signals the
  waiting readers. \<open>GetBulk\<close> takes its argument \<open>max\<close> and does not use it.
\<close>

definition BlockQueue_Put :: "'a \<Rightarrow> 'a list \<Rightarrow> 'a list \<times> bool" where
  "BlockQueue_Put item q = (let q' = q @ [item] in (q', length q' = 1))"

definition BlockQueue_Get :: "'a list \<Rightarrow> ('a \<times> 'a list) option" where
  "BlockQueue_Get q = (case q of [] \<Rightarrow> None | x # q' \<Rightarrow> Some (x, q'))"

definition BlockQueue_GetBulk :: "nat \<Rightarrow> 'a list \<Rightarrow> ('a list \<times> 'a list) option" where
  "BlockQueue_GetBulk n q = (if q = [] then None else Some (q, []))"

text \<open>
  The contract a client of the queue uses: items come out in the order they went in,
  none is lost and none is invented, and a reader blocks only on an empty queue, whose
  next \<open>Put\<close> signals.
\<close>

locale blocking_fifo =
  fixes put :: "'a \<Rightarrow> 'q \<Rightarrow> 'q \<times> bool"
    and get :: "'q \<Rightarrow> ('a \<times> 'q) option"
    and bulk :: "'q \<Rightarrow> ('a list \<times> 'q) option"
    and items :: "'q \<Rightarrow> 'a list"
  assumes items_put: "items (fst (put x q)) = items q @ [x]"
    and get_blocks: "get q = None \<longleftrightarrow> items q = []"
    and get_first: "get q = Some (x, q') \<Longrightarrow> items q = x # items q'"
    and bulk_blocks: "bulk q = None \<longleftrightarrow> items q = []"
    and bulk_all: "bulk q = Some (xs, q') \<Longrightarrow> items q = xs \<and> items q' = []"
    and put_signals: "items q = [] \<Longrightarrow> snd (put x q)"
begin

definition put_all :: "'a list \<Rightarrow> 'q \<Rightarrow> 'q" where
  "put_all xs q = fold (\<lambda>x q. fst (put x q)) xs q"

lemma items_put_all: "items (put_all xs q) = items q @ xs"
  by (induction xs arbitrary: q) (auto simp: put_all_def items_put)

lemma bulk_put_all:
  assumes "xs \<noteq> []" and "items q = []"
  obtains q' where "bulk (put_all xs q) = Some (xs, q')" "items q' = []"
proof -
  have i: "items (put_all xs q) = xs" by (simp add: items_put_all assms(2))
  with assms(1) obtain ys q' where "bulk (put_all xs q) = Some (ys, q')"
    using bulk_blocks [of "put_all xs q"] by (cases "bulk (put_all xs q)") auto
  with i bulk_all that show ?thesis by metis
qed

lemma no_reader_left_waiting: "get q = None \<Longrightarrow> snd (put x q) \<and> get (fst (put x q)) \<noteq> None"
  by (simp add: get_blocks put_signals items_put)

end

interpretation bq: blocking_fifo BlockQueue_Put BlockQueue_Get "BlockQueue_GetBulk n" "\<lambda>q. q"
  for n
  by unfold_locales
     (auto simp: BlockQueue_Put_def BlockQueue_Get_def BlockQueue_GetBulk_def Let_def
           split: list.splits if_splits)

end
