(* ===== verification/Titan_Stats.thy ===== *)
theory Titan_Stats
  imports Titan_Prelude
begin

text \<open>
  The statistics of \<open>src/titan_stats.h\<close> and \<open>src/titan_stats.cc\<close>: per column
  family counters (\<open>TitanInternalStats\<close>), the container \<open>TitanStats\<close> with
  its ticker array, and the free functions \<open>AddStats\<close>, \<open>SubStats\<close> and
  \<open>ResetStats\<close> that the other components call. The counters are atomics updated
  with relaxed ordering; each update is one atomic step, so sequential state
  passing is what one thread sees. The RocksDB constant \<open>TICKER_ENUM_MAX\<close> and
  the wrapped RocksDB statistics object are parameters.
\<close>

section \<open>Counters of one column family\<close>

datatype StatsType =
    LIVE_BLOB_SIZE
  | NUM_LIVE_BLOB_FILE
  | NUM_OBSOLETE_BLOB_FILE
  | LIVE_BLOB_FILE_SIZE
  | OBSOLETE_BLOB_FILE_SIZE
  | NUM_DISCARDABLE_RATIO_LE0
  | NUM_DISCARDABLE_RATIO_LE20
  | NUM_DISCARDABLE_RATIO_LE50
  | NUM_DISCARDABLE_RATIO_LE80
  | NUM_DISCARDABLE_RATIO_LE100

datatype InternalOpStatsType =
    COUNT
  | BYTES_READ
  | BYTES_WRITTEN
  | IO_BYTES_READ
  | IO_BYTES_WRITTEN
  | INPUT_FILE_NUM
  | OUTPUT_FILE_NUM
  | GC_SAMPLING_MICROS
  | GC_READ_LSM_MICROS
  | GC_UPDATE_LSM_MICROS

datatype InternalOpType = FLUSH | COMPACTION | GC

type_synonym InternalOpStats = "InternalOpStatsType \<Rightarrow> u64"

record TitanInternalStats =
  stats :: "StatsType \<Rightarrow> u64"
  internal_op_stats :: "InternalOpType \<Rightarrow> InternalOpStats"

definition Stats_Clear :: "TitanInternalStats \<Rightarrow> TitanInternalStats" where
  "Stats_Clear t = t\<lparr>stats := (\<lambda>_. 0), internal_op_stats := (\<lambda>_ _. 0)\<rparr>"

definition new_TitanInternalStats :: TitanInternalStats where
  "new_TitanInternalStats = \<lparr>stats = (\<lambda>_. 0), internal_op_stats = (\<lambda>_ _. 0)\<rparr>"

definition Internal_ResetStats :: "StatsType \<Rightarrow> TitanInternalStats \<Rightarrow> TitanInternalStats" where
  "Internal_ResetStats ty t = t\<lparr>stats := (stats t)(ty := 0)\<rparr>"

definition Internal_AddStats :: "StatsType \<Rightarrow> u64 \<Rightarrow> TitanInternalStats \<Rightarrow> TitanInternalStats" where
  "Internal_AddStats ty v t = t\<lparr>stats := (stats t)(ty := stats t ty + v)\<rparr>"

definition Internal_SubStats :: "StatsType \<Rightarrow> u64 \<Rightarrow> TitanInternalStats \<Rightarrow> TitanInternalStats" where
  "Internal_SubStats ty v t = t\<lparr>stats := (stats t)(ty := stats t ty - v)\<rparr>"

definition titandb_prefix :: string where
  "titandb_prefix = ''rocksdb.titandb.''"

definition stats_type_string_map :: "(string \<times> StatsType) list" where
  "stats_type_string_map =
    [(titandb_prefix @ ''live-blob-size'', LIVE_BLOB_SIZE),
     (titandb_prefix @ ''num-live-blob-file'', NUM_LIVE_BLOB_FILE),
     (titandb_prefix @ ''num-obsolete-blob-file'', NUM_OBSOLETE_BLOB_FILE),
     (titandb_prefix @ ''live-blob-file-size'', LIVE_BLOB_FILE_SIZE),
     (titandb_prefix @ ''obsolete-blob-file-size'', OBSOLETE_BLOB_FILE_SIZE),
     (titandb_prefix @ ''num-discardable-ratio-le0-file'', NUM_DISCARDABLE_RATIO_LE0),
     (titandb_prefix @ ''num-discardable-ratio-le20-file'', NUM_DISCARDABLE_RATIO_LE20),
     (titandb_prefix @ ''num-discardable-ratio-le50-file'', NUM_DISCARDABLE_RATIO_LE50),
     (titandb_prefix @ ''num-discardable-ratio-le80-file'', NUM_DISCARDABLE_RATIO_LE80),
     (titandb_prefix @ ''num-discardable-ratio-le100-file'', NUM_DISCARDABLE_RATIO_LE100)]"

definition Internal_GetIntProperty :: "string \<Rightarrow> TitanInternalStats \<Rightarrow> u64 option" where
  "Internal_GetIntProperty property t =
     (case map_of stats_type_string_map property of
        Some ty \<Rightarrow> Some (stats t ty)
      | None \<Rightarrow> None)"

definition Internal_GetStringProperty :: "string \<Rightarrow> TitanInternalStats \<Rightarrow> string option" where
  "Internal_GetStringProperty property t =
     (case Internal_GetIntProperty property t of
        Some v \<Rightarrow> Some (to_string v)
      | None \<Rightarrow> None)"

definition GetInternalOpStatsForType :: "InternalOpType \<Rightarrow> TitanInternalStats \<Rightarrow> InternalOpStats" where
  "GetInternalOpStatsForType ty t = internal_op_stats t ty"

section \<open>Operation counters\<close>

definition Op_GetAndResetStats :: "InternalOpStatsType \<Rightarrow> InternalOpStats \<Rightarrow> u64 \<times> InternalOpStats" where
  "Op_GetAndResetStats ty s = (s ty, s(ty := 0))"

definition Op_AddStats :: "InternalOpStatsType \<Rightarrow> u64 \<Rightarrow> InternalOpStats \<Rightarrow> InternalOpStats" where
  "Op_AddStats ty v s = s(ty := s ty + v)"

definition Op_SubStats :: "InternalOpStatsType \<Rightarrow> u64 \<Rightarrow> InternalOpStats \<Rightarrow> InternalOpStats" where
  "Op_SubStats ty v s = s(ty := s ty - v)"

text \<open>
  \<open>DumpAndResetInternalOpStats\<close> logs seven counters of each operation and resets
  exactly those; the log line is the list of the values read.
\<close>

definition dumped_counters :: "InternalOpStatsType list" where
  "dumped_counters = [COUNT, BYTES_READ, BYTES_WRITTEN, IO_BYTES_READ, IO_BYTES_WRITTEN,
                      INPUT_FILE_NUM, OUTPUT_FILE_NUM]"

fun Op_drain :: "InternalOpStatsType list \<Rightarrow> InternalOpStats \<Rightarrow> u64 list \<times> InternalOpStats" where
  "Op_drain [] s = ([], s)"
| "Op_drain (ty # tys) s =
     (let (v, s1) = Op_GetAndResetStats ty s; (vs, s2) = Op_drain tys s1 in (v # vs, s2))"

fun dump_ops :: "InternalOpType list \<Rightarrow> TitanInternalStats
    \<Rightarrow> (InternalOpType \<times> u64 list) list \<times> TitanInternalStats" where
  "dump_ops [] t = ([], t)"
| "dump_ops (op # ops) t =
     (let (vs, s) = Op_drain dumped_counters (internal_op_stats t op);
          (ls, t') = dump_ops ops (t\<lparr>internal_op_stats := (internal_op_stats t)(op := s)\<rparr>)
      in ((op, vs) # ls, t'))"

definition DumpAndResetInternalOpStats ::
    "TitanInternalStats \<Rightarrow> (InternalOpType \<times> u64 list) list \<times> TitanInternalStats" where
  "DumpAndResetInternalOpStats t = dump_ops [FLUSH, COMPACTION, GC] t"

section \<open>The container\<close>

text \<open>
  \<open>internal_stats_\<close> maps a column family to its counters. The rest of the code
  reaches it through a \<open>TitanStats*\<close> that is null when statistics are off; the
  type \<open>stats_ptr\<close> is that pointer, narrowed to the part the free functions use.
\<close>

type_synonym internal_stats_map = "(u32 \<times> TitanInternalStats) list"
type_synonym stats_ptr = "internal_stats_map option"

definition TitanStats_Initialize :: "(u32 \<times> 'o) list \<Rightarrow> internal_stats_map \<Rightarrow> internal_stats_map" where
  "TitanStats_Initialize cf_options m =
     fold (\<lambda>(cf, _) m. amap_set cf new_TitanInternalStats m) cf_options m"

definition TitanStats_internal_stats :: "u32 \<Rightarrow> internal_stats_map \<Rightarrow> TitanInternalStats option" where
  "TitanStats_internal_stats cf_id m = map_of m cf_id"

definition ResetStats :: "u32 \<Rightarrow> StatsType \<Rightarrow> stats_ptr \<Rightarrow> stats_ptr" where
  "ResetStats cf_id ty sp = map_option (amap_update cf_id (Internal_ResetStats ty)) sp"

definition AddStats :: "u32 \<Rightarrow> StatsType \<Rightarrow> u64 \<Rightarrow> stats_ptr \<Rightarrow> stats_ptr" where
  "AddStats cf_id ty v sp = map_option (amap_update cf_id (Internal_AddStats ty v)) sp"

definition SubStats :: "u32 \<Rightarrow> StatsType \<Rightarrow> u64 \<Rightarrow> stats_ptr \<Rightarrow> stats_ptr" where
  "SubStats cf_id ty v sp = map_option (amap_update cf_id (Internal_SubStats ty v)) sp"

definition stat_of :: "u32 \<Rightarrow> StatsType \<Rightarrow> stats_ptr \<Rightarrow> u64 option" where
  "stat_of cf_id ty sp = do { m \<leftarrow> sp; t \<leftarrow> map_of m cf_id; Some (stats t ty) }"

section \<open>Tickers\<close>

text \<open>
  The wrapped RocksDB object is a parameter: \<open>base_ops\<close> holds the operations that
  are delegated to it. \<open>tickers\<close> has \<open>INTERNAL_TICKER_ENUM_MAX - TICKER_ENUM_MAX\<close>
  entries, that is eleven: the ten ticker types of Titan start at
  \<open>TICKER_ENUM_MAX + 1\<close>.
\<close>

record 's base_statistics =
  base_getTickerCount :: "'s \<Rightarrow> u32 \<Rightarrow> u64"
  base_recordTick :: "'s \<Rightarrow> u32 \<Rightarrow> u64 \<Rightarrow> 's"
  base_setTickerCount :: "'s \<Rightarrow> u32 \<Rightarrow> u64 \<Rightarrow> 's"
  base_getAndResetTickerCount :: "'s \<Rightarrow> u32 \<Rightarrow> u64 \<times> 's"
  base_Reset :: "'s \<Rightarrow> status \<times> 's"
  TICKER_ENUM_MAX :: u32

record 's TitanStats =
  base_stats :: "'s option"
  internal_stats :: internal_stats_map
  tickers :: "u64 list"

definition n_tickers :: nat where
  "n_tickers = 11"

definition ticker_index :: "'s base_statistics \<Rightarrow> u32 \<Rightarrow> nat" where
  "ticker_index B ty = unat (ty - (TICKER_ENUM_MAX B + 1))"

definition getTickerCount :: "'s base_statistics \<Rightarrow> u32 \<Rightarrow> 's TitanStats \<Rightarrow> u64 option" where
  "getTickerCount B ty t =
     (case base_stats t of
        None \<Rightarrow> Some 0
      | Some b \<Rightarrow>
          if ty > TICKER_ENUM_MAX B
          then (if ticker_index B ty < length (tickers t)
                then Some (tickers t ! ticker_index B ty) else None)
          else Some (base_getTickerCount B b ty))"

definition recordTick :: "'s base_statistics \<Rightarrow> u32 \<Rightarrow> u64 \<Rightarrow> 's TitanStats \<Rightarrow> 's TitanStats option" where
  "recordTick B ty c t =
     (case base_stats t of
        None \<Rightarrow> Some t
      | Some b \<Rightarrow>
          if ty > TICKER_ENUM_MAX B
          then (let i = ticker_index B ty in
                if i < length (tickers t)
                then Some (t\<lparr>tickers := (tickers t)[i := tickers t ! i + c]\<rparr>) else None)
          else Some (t\<lparr>base_stats := Some (base_recordTick B b ty c)\<rparr>))"

definition setTickerCount :: "'s base_statistics \<Rightarrow> u32 \<Rightarrow> u64 \<Rightarrow> 's TitanStats \<Rightarrow> 's TitanStats option" where
  "setTickerCount B ty c t =
     (case base_stats t of
        None \<Rightarrow> Some t
      | Some b \<Rightarrow>
          if ty > TICKER_ENUM_MAX B
          then (let i = ticker_index B ty in
                if i < length (tickers t)
                then Some (t\<lparr>tickers := (tickers t)[i := c]\<rparr>) else None)
          else Some (t\<lparr>base_stats := Some (base_setTickerCount B b ty c)\<rparr>))"

definition getAndResetTickerCount ::
    "'s base_statistics \<Rightarrow> u32 \<Rightarrow> 's TitanStats \<Rightarrow> (u64 \<times> 's TitanStats) option" where
  "getAndResetTickerCount B ty t =
     (case base_stats t of
        None \<Rightarrow> Some (0, t)
      | Some b \<Rightarrow>
          if ty > TICKER_ENUM_MAX B
          then (let i = ticker_index B ty in
                if i < length (tickers t)
                then Some (tickers t ! i, t\<lparr>tickers := (tickers t)[i := 0]\<rparr>) else None)
          else (let (v, b') = base_getAndResetTickerCount B b ty
                in Some (v, t\<lparr>base_stats := Some b'\<rparr>)))"

text \<open>
  \<open>Reset\<close> clears the column-family counters, then writes \<open>tickers_[type]\<close> for
  \<open>type\<close> from \<open>TICKER_ENUM_MAX\<close> up to the last Titan ticker: the array index is
  the ticker type itself. The histograms are RocksDB objects and not modelled.
\<close>

fun store_range :: "nat \<Rightarrow> nat \<Rightarrow> u64 list \<Rightarrow> u64 list option" where
  "store_range i 0 xs = Some xs"
| "store_range i (Suc n) xs =
     (if i < length xs then store_range (Suc i) n (xs[i := 0]) else None)"

definition TitanStats_Reset :: "'s base_statistics \<Rightarrow> 's TitanStats \<Rightarrow> (status \<times> 's TitanStats) option" where
  "TitanStats_Reset B t = do {
     let t1 = t\<lparr>internal_stats := map (\<lambda>(cf, s). (cf, Stats_Clear s)) (internal_stats t)\<rparr>;
     ts \<leftarrow> store_range (unat (TICKER_ENUM_MAX B)) n_tickers (tickers t1);
     b \<leftarrow> base_stats t1;
     let (s, b') = base_Reset B b;
     Some (s, t1\<lparr>tickers := ts, base_stats := Some b'\<rparr>)
   }"

section \<open>Lemmas\<close>

lemma stat_of_AddStats:
  "stat_of cf ty (AddStats cf' ty' v sp) =
     map_option (\<lambda>x. if cf = cf' \<and> ty = ty' then x + v else x) (stat_of cf ty sp)"
  by (cases sp; cases "map_of (the sp) cf")
     (auto simp: stat_of_def AddStats_def amap_simps Internal_AddStats_def)

lemma stat_of_SubStats:
  "stat_of cf ty (SubStats cf' ty' v sp) =
     map_option (\<lambda>x. if cf = cf' \<and> ty = ty' then x - v else x) (stat_of cf ty sp)"
  by (cases sp; cases "map_of (the sp) cf")
     (auto simp: stat_of_def SubStats_def amap_simps Internal_SubStats_def)

lemmas stat_simps = stat_of_AddStats stat_of_SubStats option.map_comp comp_def

lemma Op_drain_value: "distinct tys \<Longrightarrow> fst (Op_drain tys s) = map s tys"
proof (induction tys arbitrary: s)
  case (Cons ty tys)
  have "fst (Op_drain tys (s(ty := 0))) = map (s(ty := 0)) tys"
    using Cons by simp
  also have "\<dots> = map s tys" using Cons.prems by (auto intro!: map_cong)
  finally show ?case by (simp add: Op_GetAndResetStats_def case_prod_beta)
qed simp

lemma Op_drain_state: "snd (Op_drain tys s) = (\<lambda>ty. if ty \<in> set tys then 0 else s ty)"
  by (induction tys arbitrary: s) (auto simp: Op_GetAndResetStats_def fun_eq_iff case_prod_beta)

lemma store_range_None: "length xs \<le> i \<Longrightarrow> 0 < n \<Longrightarrow> store_range i n xs = None"
  by (cases n) auto

end
