(* ===== verification/Blob_Format.thy ===== *)
theory Blob_Format
  imports Coding Titan_Util Titan_Stats
begin

text \<open>
  \<open>src/blob_format.h\<close> and \<open>src/blob_format.cc\<close>: records, handles, indexes, file
  metadata, file header and footer, their encodings, and the life cycle of a blob
  file. \<open>EncodeTo\<close> is the byte string it appends; \<open>DecodeFrom\<close> takes the object
  and the slice and returns the status, the object (updated as far as the decoder
  came) and the advanced slice. After a failure no caller looks at the slice. Where
  the source nests the text of one status in another (\<open>s.ToString()\<close>, RocksDB code),
  the model nests the message of that status.
\<close>

section \<open>Constants\<close>

definition kBlobHeaderSize :: u64 where
  "kBlobHeaderSize = 8"

definition kRecordHeaderSize :: nat where
  "kRecordHeaderSize = 9"

definition kBlobFooterSize :: "coding \<Rightarrow> nat" where
  "kBlobFooterSize C = kMaxEncodedLength C + 8 + 4"

definition kSorted :: u32 where
  "kSorted = 0"

definition kUnSorted :: u32 where
  "kUnSorted = 1"

section \<open>Decoding helpers\<close>

definition GetChar :: "bytes \<Rightarrow> (byte \<times> bytes) option" where
  "GetChar src = (case src of [] \<Rightarrow> None | c # r \<Rightarrow> Some (c, r))"

definition DecodeInto :: "('a \<Rightarrow> bytes \<Rightarrow> status \<times> 'a \<times> bytes) \<Rightarrow> bytes \<Rightarrow> 'a \<Rightarrow> status \<times> 'a" where
  "DecodeInto dec src target =
     (let (s, t, tmp) = dec target src
      in (if IsOk s \<and> tmp \<noteq> [] then Corruption '''' '''' else s, t))"

section \<open>Blob records\<close>

record BlobRecord =
  r_key :: bytes
  r_value :: bytes
  only_value :: bool

definition empty_BlobRecord :: BlobRecord where
  "empty_BlobRecord = \<lparr>r_key = [], r_value = [], only_value = False\<rparr>"

definition BlobRecord_size :: "BlobRecord \<Rightarrow> nat" where
  "BlobRecord_size r = length (r_key r) + length (r_value r)"

definition BlobRecord_EncodeTo :: "coding \<Rightarrow> BlobRecord \<Rightarrow> bytes" where
  "BlobRecord_EncodeTo C r =
     (if only_value r then r_value r
      else PutLengthPrefixedSlice C (r_key r) @ PutLengthPrefixedSlice C (r_value r))"

definition BlobRecord_DecodeFrom :: "coding \<Rightarrow> BlobRecord \<Rightarrow> bytes \<Rightarrow> status \<times> BlobRecord \<times> bytes" where
  "BlobRecord_DecodeFrom C r src =
     (if only_value r then (OK, r\<lparr>r_value := src\<rparr>, [])
      else case GetLengthPrefixedSlice C src of
        None \<Rightarrow> (Corruption ''BlobRecord'' '''', r, src)
      | Some (k, s1) \<Rightarrow> (case GetLengthPrefixedSlice C s1 of
          None \<Rightarrow> (Corruption ''BlobRecord'' '''', r\<lparr>r_key := k\<rparr>, s1)
        | Some (v, s2) \<Rightarrow> (OK, r\<lparr>r_key := k, r_value := v\<rparr>, s2)))"

definition BlobRecord_eq :: "BlobRecord \<Rightarrow> BlobRecord \<Rightarrow> bool" where
  "BlobRecord_eq a b = (r_key a = r_key b \<and> r_value a = r_value b)"

section \<open>The record encoder and decoder\<close>

text \<open>
  \<open>EncodeRecord\<close> leaves the nine header bytes in \<open>header_\<close> and the possibly
  compressed payload in \<open>record_\<close>; the model returns the pair. Its assertion bounds
  the payload by the largest 32-bit value.
\<close>

definition BlobEncoder_EncodeRecord ::
    "bool \<Rightarrow> coding \<Rightarrow> codec \<Rightarrow> byte \<Rightarrow> BlobRecord \<Rightarrow> (bytes \<times> bytes) option" where
  "BlobEncoder_EncodeRecord nd C L ty rec = do {
     let (record, compression) = Compress L ty (BlobRecord_EncodeTo C rec);
     cpp_assert nd (length record < 2 ^ 32 - 1);
     let tail = PutFixed32 C (of_nat (length record)) @ [compression];
     let crc = crc32c_Extend C (crc32c_Value C tail) record;
     Some (PutFixed32 C crc @ tail, record)
   }"

definition GetEncodedSize :: "bytes \<times> bytes \<Rightarrow> u64" where
  "GetEncodedSize hr = of_nat (kRecordHeaderSize + length (snd hr))"

record BlobDecoder =
  d_crc :: u32
  d_header_crc :: u32
  d_record_size :: u32
  d_compression :: byte

definition new_BlobDecoder :: "codec \<Rightarrow> BlobDecoder" where
  "new_BlobDecoder L =
     \<lparr>d_crc = 0, d_header_crc = 0, d_record_size = 0, d_compression = kNoCompression L\<rparr>"

text \<open>
  The header checksum is computed over five bytes before their presence is checked;
  reading them past the end of the slice is undefined.
\<close>

definition BlobDecoder_DecodeHeader ::
    "coding \<Rightarrow> BlobDecoder \<Rightarrow> bytes \<Rightarrow> (status \<times> BlobDecoder \<times> bytes) option" where
  "BlobDecoder_DecodeHeader C d src =
     (case GetFixed32 C src of
        None \<Rightarrow> Some (Corruption ''BlobHeader'' '''', d, src)
      | Some (crc, s1) \<Rightarrow>
          if length s1 < kRecordHeaderSize - 4 then None
          else (let d1 = d\<lparr>d_crc := crc,
                           d_header_crc := crc32c_Value C (take (kRecordHeaderSize - 4) s1)\<rparr>
                in case GetFixed32 C s1 of
                     None \<Rightarrow> Some (Corruption ''BlobHeader'' '''', d1, s1)
                   | Some (sz, s2) \<Rightarrow> (case GetChar s2 of
                       None \<Rightarrow> Some (Corruption ''BlobHeader'' '''', d1\<lparr>d_record_size := sz\<rparr>, s2)
                     | Some (c, s3) \<Rightarrow>
                         Some (OK, d1\<lparr>d_record_size := sz, d_compression := c\<rparr>, s3))))"

text \<open>
  \<open>DecodeRecord\<close> takes \<open>record_size_\<close> bytes without looking at the size of the
  slice. The comparison of the checksums is commented out in the source, so neither
  \<open>crc_\<close> nor \<open>header_crc_\<close> is used. The last argument and result is the buffer that
  owns the data of the record: a compressed record moves into a new one.
\<close>

definition BlobDecoder_DecodeRecord ::
    "bool \<Rightarrow> coding \<Rightarrow> codec \<Rightarrow> BlobDecoder \<Rightarrow> bytes \<Rightarrow> BlobRecord \<Rightarrow> bytes
     \<Rightarrow> (status \<times> BlobRecord \<times> bytes \<times> bytes) option" where
  "BlobDecoder_DecodeRecord nd C L d src rec buffer =
     (let n = unat (d_record_size d) in
      if length src < n then None
      else let input = take n src; rest = drop n src in
        if d_compression d = kNoCompression L
        then (let (s, r) = DecodeInto (BlobRecord_DecodeFrom C) input rec in Some (s, r, rest, buffer))
        else do {
          (s, out) \<leftarrow> Uncompress nd L (d_compression d) input;
          if \<not> IsOk s then Some (s, rec, rest, buffer)
          else (let (s', r) = DecodeInto (BlobRecord_DecodeFrom C) out rec
                in Some (s', r, rest, out))
        })"

section \<open>Handles and indexes\<close>

record BlobHandle =
  bh_offset :: u64
  bh_size :: u64

definition BlobHandle_EncodeTo :: "coding \<Rightarrow> BlobHandle \<Rightarrow> bytes" where
  "BlobHandle_EncodeTo C h = PutVarint64 C (bh_offset h) @ PutVarint64 C (bh_size h)"

definition BlobHandle_DecodeFrom :: "coding \<Rightarrow> BlobHandle \<Rightarrow> bytes \<Rightarrow> status \<times> BlobHandle \<times> bytes" where
  "BlobHandle_DecodeFrom C h src =
     (case GetVarint64 C src of
        None \<Rightarrow> (Corruption ''BlobHandle'' '''', h, src)
      | Some (off, s1) \<Rightarrow> (case GetVarint64 C s1 of
          None \<Rightarrow> (Corruption ''BlobHandle'' '''', h\<lparr>bh_offset := off\<rparr>, s1)
        | Some (sz, s2) \<Rightarrow> (OK, h\<lparr>bh_offset := off, bh_size := sz\<rparr>, s2)))"

definition BlobHandle_eq :: "BlobHandle \<Rightarrow> BlobHandle \<Rightarrow> bool" where
  "BlobHandle_eq a b = (bh_offset a = bh_offset b \<and> bh_size a = bh_size b)"

record BlobIndex =
  bi_file_number :: u64
  bi_blob_handle :: BlobHandle

definition empty_BlobIndex :: BlobIndex where
  "empty_BlobIndex = \<lparr>bi_file_number = 0, bi_blob_handle = \<lparr>bh_offset = 0, bh_size = 0\<rparr>\<rparr>"

definition kBlobRecord :: byte where
  "kBlobRecord = 1"

definition BlobIndex_EncodeTo :: "coding \<Rightarrow> BlobIndex \<Rightarrow> bytes" where
  "BlobIndex_EncodeTo C x =
     kBlobRecord # PutVarint64 C (bi_file_number x) @ BlobHandle_EncodeTo C (bi_blob_handle x)"

definition BlobIndex_DecodeFrom :: "coding \<Rightarrow> BlobIndex \<Rightarrow> bytes \<Rightarrow> status \<times> BlobIndex \<times> bytes" where
  "BlobIndex_DecodeFrom C x src =
     (case GetChar src of
        None \<Rightarrow> (Corruption ''BlobIndex'' '''', x, src)
      | Some (ty, s1) \<Rightarrow>
          if ty \<noteq> kBlobRecord then (Corruption ''BlobIndex'' '''', x, s1)
          else case GetVarint64 C s1 of
            None \<Rightarrow> (Corruption ''BlobIndex'' '''', x, s1)
          | Some (n, s2) \<Rightarrow>
              (let (s, h, s3) = BlobHandle_DecodeFrom C (bi_blob_handle x) s2;
                   x' = x\<lparr>bi_file_number := n, bi_blob_handle := h\<rparr>
               in if \<not> IsOk s then (Corruption ''BlobIndex'' ''BlobHandle'', x', s3)
                  else (s, x', s3)))"

definition BlobIndex_eq :: "BlobIndex \<Rightarrow> BlobIndex \<Rightarrow> bool" where
  "BlobIndex_eq a b =
     (bi_file_number a = bi_file_number b \<and> BlobHandle_eq (bi_blob_handle a) (bi_blob_handle b))"

section \<open>Metadata of a blob file\<close>

datatype FileEvent =
    EvInit
  | kFlushCompleted
  | kCompactionCompleted
  | kGCCompleted
  | kGCBegin
  | kGCOutput
  | kFlushOrCompactionOutput
  | kDbRestart
  | kDelete
  | kNeedMerge
  | kReset
  | kNeedGC

datatype FileState =
    kInit
  | kNormal
  | kPendingLSM
  | kBeingGC
  | kPendingGC
  | kObsolete
  | kToMerge
  | kToGC

record BlobFileMeta =
  file_number :: u64
  file_size :: u64
  file_entries :: u64
  file_type :: u32
  file_level :: u32
  smallest_key :: bytes
  largest_key :: bytes
  file_state :: FileState
  discardable_size :: u64
  gc_mark :: bool

definition new_BlobFileMeta ::
    "u64 \<Rightarrow> u64 \<Rightarrow> u64 \<Rightarrow> u32 \<Rightarrow> bytes \<Rightarrow> bytes \<Rightarrow> u32 \<Rightarrow> BlobFileMeta" where
  "new_BlobFileMeta number sz entries level smallest largest ty =
     \<lparr>file_number = number, file_size = sz, file_entries = entries, file_type = ty,
      file_level = level, smallest_key = smallest, largest_key = largest,
      file_state = kInit, discardable_size = 0, gc_mark = False\<rparr>"

text \<open>
  The default constructor leaves \<open>file_entries_\<close> and \<open>file_level_\<close> uninitialised;
  the two values are arguments of the model.
\<close>

definition default_BlobFileMeta :: "u64 \<Rightarrow> u32 \<Rightarrow> BlobFileMeta" where
  "default_BlobFileMeta entries level = new_BlobFileMeta 0 0 entries level [] [] kUnSorted"

definition is_obsolete :: "BlobFileMeta \<Rightarrow> bool" where
  "is_obsolete m = (file_state m = kObsolete)"

definition set_gc_mark :: "bool \<Rightarrow> BlobFileMeta \<Rightarrow> BlobFileMeta" where
  "set_gc_mark b m = m\<lparr>gc_mark := b\<rparr>"

definition BlobFileMeta_EncodeTo :: "coding \<Rightarrow> BlobFileMeta \<Rightarrow> bytes" where
  "BlobFileMeta_EncodeTo C m =
     PutVarint64 C (file_number m) @ PutVarint64 C (file_size m) @
     PutVarint64 C (file_entries m) @ PutVarint32 C (file_type m) @
     PutVarint32 C (file_level m) @ PutLengthPrefixedSlice C (smallest_key m) @
     PutLengthPrefixedSlice C (largest_key m)"

definition BlobFileMeta_DecodeFromLegacy ::
    "bool \<Rightarrow> coding \<Rightarrow> BlobFileMeta \<Rightarrow> bytes \<Rightarrow> (status \<times> BlobFileMeta \<times> bytes) option" where
  "BlobFileMeta_DecodeFromLegacy nd C m src =
     (case GetVarint64 C src of
        None \<Rightarrow> Some (Corruption ''BlobFileMeta decode legacy failed'' '''', m, src)
      | Some (n, s1) \<Rightarrow> (case GetVarint64 C s1 of
          None \<Rightarrow> Some (Corruption ''BlobFileMeta decode legacy failed'' '''', m\<lparr>file_number := n\<rparr>, s1)
        | Some (sz, s2) \<Rightarrow> do {
            cpp_assert nd (smallest_key m = []);
            cpp_assert nd (largest_key m = []);
            Some (OK, m\<lparr>file_number := n, file_size := sz\<rparr>, s2)
          }))"

definition BlobFileMeta_DecodeFrom ::
    "coding \<Rightarrow> BlobFileMeta \<Rightarrow> bytes \<Rightarrow> status \<times> BlobFileMeta \<times> bytes" where
  "BlobFileMeta_DecodeFrom C m src =
     (let failed = Corruption ''BlobFileMeta decode failed'' '''' in
      case GetVarint64 C src of None \<Rightarrow> (failed, m, src) | Some (n, s1) \<Rightarrow>
      let m = m\<lparr>file_number := n\<rparr> in
      case GetVarint64 C s1 of None \<Rightarrow> (failed, m, s1) | Some (sz, s2) \<Rightarrow>
      let m = m\<lparr>file_size := sz\<rparr> in
      case GetVarint64 C s2 of None \<Rightarrow> (failed, m, s2) | Some (en, s3) \<Rightarrow>
      let m = m\<lparr>file_entries := en\<rparr> in
      case GetVarint32 C s3 of None \<Rightarrow> (failed, m, s3) | Some (ty, s4) \<Rightarrow>
      let m = m\<lparr>file_type := ty\<rparr> in
      case GetVarint32 C s4 of None \<Rightarrow> (failed, m, s4) | Some (lv, s5) \<Rightarrow>
      let m = m\<lparr>file_level := lv\<rparr> in
      case GetLengthPrefixedSlice C s5 of
        None \<Rightarrow> (Corruption ''BlobSmallestKey Decode failed'' '''', m, s5)
      | Some (sk, s6) \<Rightarrow>
      let m = m\<lparr>smallest_key := sk\<rparr> in
      case GetLengthPrefixedSlice C s6 of
        None \<Rightarrow> (Corruption ''BlobLargestKey decode failed'' '''', m, s6)
      | Some (lk, s7) \<Rightarrow> (OK, m\<lparr>largest_key := lk\<rparr>, s7))"

definition BlobFileMeta_eq :: "BlobFileMeta \<Rightarrow> BlobFileMeta \<Rightarrow> bool" where
  "BlobFileMeta_eq a b =
     (file_number a = file_number b \<and> file_size a = file_size b \<and>
      file_entries a = file_entries b \<and> file_level a = file_level b)"

text \<open>
  The switch of \<open>FileStateTransit\<close>, as a function on the state; the event
  \<open>FileEvent::kInit\<close> falls into the default branch.
\<close>

fun state_transit :: "bool \<Rightarrow> FileEvent \<Rightarrow> FileState \<Rightarrow> FileState option" where
  "state_transit nd kFlushCompleted st = do {
     cpp_assert nd (st \<in> {kPendingLSM, kPendingGC, kNormal, kBeingGC, kObsolete});
     Some (if st = kPendingLSM then kNormal else st) }"
| "state_transit nd kGCCompleted st =
     (if st = kObsolete then Some st
      else do { cpp_assert nd (st = kPendingGC \<or> st = kBeingGC); Some kNormal })"
| "state_transit nd kCompactionCompleted st = do { cpp_assert nd (st = kPendingLSM); Some kNormal }"
| "state_transit nd kGCBegin st = do { cpp_assert nd (st = kNormal); Some kBeingGC }"
| "state_transit nd kGCOutput st = do { cpp_assert nd (st = kInit); Some kPendingGC }"
| "state_transit nd kFlushOrCompactionOutput st = do { cpp_assert nd (st = kInit); Some kPendingLSM }"
| "state_transit nd kDbRestart st = do { cpp_assert nd (st = kInit); Some kNormal }"
| "state_transit nd kDelete st = do { cpp_assert nd (st \<noteq> kObsolete); Some kObsolete }"
| "state_transit nd kNeedMerge st = Some (if st = kToGC \<or> st = kObsolete then st else kToMerge)"
| "state_transit nd kReset st = Some kNormal"
| "state_transit nd kNeedGC st = Some (if st = kObsolete then st else kToGC)"
| "state_transit nd EvInit st = do { cpp_assert nd False; Some st }"

definition FileStateTransit :: "bool \<Rightarrow> FileEvent \<Rightarrow> BlobFileMeta \<Rightarrow> BlobFileMeta option" where
  "FileStateTransit nd ev m =
     do { st \<leftarrow> state_transit nd ev (file_state m); Some (m\<lparr>file_state := st\<rparr>) }"

definition AddDiscardableSize :: "bool \<Rightarrow> u64 \<Rightarrow> BlobFileMeta \<Rightarrow> BlobFileMeta option" where
  "AddDiscardableSize nd d m = do {
     cpp_assert nd (d < file_size m);
     let m' = m\<lparr>discardable_size := discardable_size m + d\<rparr>;
     cpp_assert nd (discardable_size m' < file_size m');
     Some m'
   }"

definition GetDiscardableRatio :: "BlobFileMeta \<Rightarrow> dbl" where
  "GetDiscardableRatio m = dbl_div (discardable_size m) (file_size m)"

definition NoLiveData :: "coding \<Rightarrow> BlobFileMeta \<Rightarrow> bool" where
  "NoLiveData C m =
     (discardable_size m = file_size m - kBlobHeaderSize - of_nat (kBlobFooterSize C))"

text \<open>Both branches above 0.8 of the source choose the last level.\<close>

definition GetDiscardableRatioLevel :: "BlobFileMeta \<Rightarrow> StatsType" where
  "GetDiscardableRatioLevel m =
     (let ratio = GetDiscardableRatio m in
      if ratio = Fin 0 then NUM_DISCARDABLE_RATIO_LE0
      else if dbl_le ratio (Fin (2 / 10)) then NUM_DISCARDABLE_RATIO_LE20
      else if dbl_le ratio (Fin (5 / 10)) then NUM_DISCARDABLE_RATIO_LE50
      else if dbl_le ratio (Fin (8 / 10)) then NUM_DISCARDABLE_RATIO_LE80
      else NUM_DISCARDABLE_RATIO_LE100)"

section \<open>File header and footer\<close>

record BlobFileHeader =
  bfh_version :: u32

definition kHeaderMagicNumber :: u32 where
  "kHeaderMagicNumber = 0x2be0a614"

definition kVersion1 :: u32 where
  "kVersion1 = 1"

definition new_BlobFileHeader :: BlobFileHeader where
  "new_BlobFileHeader = \<lparr>bfh_version = kVersion1\<rparr>"

definition BlobFileHeader_EncodeTo :: "coding \<Rightarrow> BlobFileHeader \<Rightarrow> bytes" where
  "BlobFileHeader_EncodeTo C h = PutFixed32 C kHeaderMagicNumber @ PutFixed32 C (bfh_version h)"

definition BlobFileHeader_DecodeFrom ::
    "coding \<Rightarrow> BlobFileHeader \<Rightarrow> bytes \<Rightarrow> status \<times> BlobFileHeader \<times> bytes" where
  "BlobFileHeader_DecodeFrom C h src =
     (let bad_magic = Corruption ''Blob file header magic number missing or mismatched.'' '''';
          bad_version = Corruption ''Blob file header version missing or invalid.'' '''' in
      case GetFixed32 C src of
        None \<Rightarrow> (bad_magic, h, src)
      | Some (magic, s1) \<Rightarrow>
          if magic \<noteq> kHeaderMagicNumber then (bad_magic, h, s1)
          else case GetFixed32 C s1 of
            None \<Rightarrow> (bad_version, h, s1)
          | Some (v, s2) \<Rightarrow>
              if v \<noteq> kVersion1 then (bad_version, h\<lparr>bfh_version := v\<rparr>, s2)
              else (OK, h\<lparr>bfh_version := v\<rparr>, s2))"

record BlobFileFooter =
  meta_index_handle :: "u64 \<times> u64"

definition kFooterMagicNumber :: u64 where
  "kFooterMagicNumber = 0x2be0a6148e39edc6"

text \<open>\<open>BlockHandle::NullBlockHandle()\<close> is the handle with offset and size zero.\<close>

definition new_BlobFileFooter :: BlobFileFooter where
  "new_BlobFileFooter = \<lparr>meta_index_handle = (0, 0)\<rparr>"

text \<open>\<open>resize_to n s\<close> is \<open>std::string::resize\<close>: cut off or filled up with zero bytes.\<close>

definition resize_to :: "nat \<Rightarrow> bytes \<Rightarrow> bytes" where
  "resize_to n s = take n s @ replicate (n - length s) 0"

definition BlobFileFooter_EncodeTo :: "coding \<Rightarrow> BlobFileFooter \<Rightarrow> bytes" where
  "BlobFileFooter_EncodeTo C f =
     (let padded = resize_to (kBlobFooterSize C - 12) (BlockHandle_EncodeTo C (meta_index_handle f));
          encoded = padded @ PutFixed64 C kFooterMagicNumber
      in encoded @ PutFixed32 C (crc32c_Value C encoded))"

text \<open>
  The padding is removed by moving the slice to \<open>data + kEncodedLength - 12\<close>; that is
  undefined when the slice is shorter, or when the handle took more than the padded
  area.
\<close>

definition BlobFileFooter_DecodeFrom ::
    "coding \<Rightarrow> BlobFileFooter \<Rightarrow> bytes \<Rightarrow> (status \<times> BlobFileFooter \<times> bytes) option" where
  "BlobFileFooter_DecodeFrom C f src =
     (let (s, h, s1) = BlockHandle_DecodeFrom C (meta_index_handle f) src;
          f = f\<lparr>meta_index_handle := h\<rparr>; pad = kBlobFooterSize C - 12 in
      if \<not> IsOk s then Some (Corruption ''BlobFileFooter'' ''bad block handle'', f, s1)
      else if length src < pad \<or> length s1 < length src - pad then None
      else let s2 = drop pad src in
        case GetFixed64 C s2 of
          None \<Rightarrow> Some (Corruption ''BlobFileFooter'' ''magic number'', f, s2)
        | Some (magic, s3) \<Rightarrow>
            if magic \<noteq> kFooterMagicNumber
            then Some (Corruption ''BlobFileFooter'' ''magic number'', f, s3)
            else let decoded = take (length src - length s3) src in
              case GetFixed32 C s3 of
                None \<Rightarrow> Some (Corruption ''BlobFileFooter'' ''checksum'', f, s3)
              | Some (c, s4) \<Rightarrow>
                  if crc32c_Value C decoded \<noteq> c
                  then Some (Corruption ''BlobFileFooter'' ''checksum'', f, s4)
                  else Some (OK, f, s4))"

definition BlobFileFooter_eq :: "BlobFileFooter \<Rightarrow> BlobFileFooter \<Rightarrow> bool" where
  "BlobFileFooter_eq a b =
     (fst (meta_index_handle a) = fst (meta_index_handle b) \<and>
      snd (meta_index_handle a) = snd (meta_index_handle b))"

section \<open>Round trips\<close>

definition record_fits :: "BlobRecord \<Rightarrow> bool" where
  "record_fits r = (length (r_key r) < 2 ^ 32 \<and> length (r_value r) < 2 ^ 32)"

definition meta_fits :: "BlobFileMeta \<Rightarrow> bool" where
  "meta_fits m = (length (smallest_key m) < 2 ^ 32 \<and> length (largest_key m) < 2 ^ 32)"

text \<open>
  The record a reader gets: a record stored without its key leaves the key of the
  target object alone.
\<close>

definition record_seen :: "BlobRecord \<Rightarrow> BlobRecord \<Rightarrow> BlobRecord" where
  "record_seen r r0 = r0\<lparr>r_key := (if only_value r0 then r_key r0 else r_key r), r_value := r_value r\<rparr>"

context coding_laws
begin

lemma record_into:
  assumes "record_fits r" and "only_value r0 = only_value r"
  shows "DecodeInto (BlobRecord_DecodeFrom C) (BlobRecord_EncodeTo C r) r0 = (OK, record_seen r r0)"
  using assms
  by (auto simp: DecodeInto_def BlobRecord_DecodeFrom_def BlobRecord_EncodeTo_def record_fits_def
                 record_seen_def)

lemma blob_handle_roundtrip [simp]:
  "BlobHandle_DecodeFrom C h0 (BlobHandle_EncodeTo C h @ r) = (OK, h, r)"
  by (simp add: BlobHandle_DecodeFrom_def BlobHandle_EncodeTo_def)

lemma blob_index_roundtrip [simp]:
  "BlobIndex_DecodeFrom C x0 (BlobIndex_EncodeTo C x @ r) = (OK, x, r)"
  by (simp add: BlobIndex_DecodeFrom_def BlobIndex_EncodeTo_def GetChar_def)

lemma blob_index_into [simp]:
  "DecodeInto (BlobIndex_DecodeFrom C) (BlobIndex_EncodeTo C x) x0 = (OK, x)"
  using blob_index_roundtrip [of x0 x "[]"] by (simp add: DecodeInto_def)

lemma meta_roundtrip:
  assumes "meta_fits m"
  shows "BlobFileMeta_DecodeFrom C m0 (BlobFileMeta_EncodeTo C m @ r)
         = (OK, m\<lparr>file_state := file_state m0, discardable_size := discardable_size m0,
                   gc_mark := gc_mark m0\<rparr>, r)"
  using assms
  by (simp add: BlobFileMeta_DecodeFrom_def BlobFileMeta_EncodeTo_def meta_fits_def Let_def)

lemma meta_progress:
  assumes "BlobFileMeta_DecodeFrom C m0 s = (OK, m, r)"
  shows "length r < length s"
  using assms
  by (auto simp: BlobFileMeta_DecodeFrom_def Let_def
           dest!: varint64_progress varint32_progress prefixed_progress
           split: option.splits prod.splits)

lemma header_roundtrip [simp]:
  "bfh_version h = kVersion1 \<Longrightarrow>
   BlobFileHeader_DecodeFrom C h0 (BlobFileHeader_EncodeTo C h @ r) = (OK, h, r)"
  by (simp add: BlobFileHeader_DecodeFrom_def BlobFileHeader_EncodeTo_def)

lemma header_length [simp]: "length (BlobFileHeader_EncodeTo C h) = 8"
  by (simp add: BlobFileHeader_EncodeTo_def)

lemma padded_handle:
  "resize_to (kBlobFooterSize C - 12) (BlockHandle_EncodeTo C h)
   = BlockHandle_EncodeTo C h @ replicate (kMaxEncodedLength C - length (BlockHandle_EncodeTo C h)) 0"
  using handle_length [of h] by (simp add: resize_to_def kBlobFooterSize_def)

lemma footer_length [simp]: "length (BlobFileFooter_EncodeTo C f) = kBlobFooterSize C"
  using handle_length [of "meta_index_handle f"]
  by (simp add: BlobFileFooter_EncodeTo_def padded_handle Let_def)
     (simp add: kBlobFooterSize_def)

end

context coding_laws
begin

lemma footer_roundtrip:
  "BlobFileFooter_DecodeFrom C f0 (BlobFileFooter_EncodeTo C f @ r) = Some (OK, f, r)"
proof -
  let ?h = "BlockHandle_EncodeTo C (meta_index_handle f)"
  let ?pad = "replicate (kMaxEncodedLength C - length ?h) 0"
  let ?body = "(?h @ ?pad) @ PutFixed64 C kFooterMagicNumber"
  let ?crc = "PutFixed32 C (crc32c_Value C ?body)"
  have le: "length ?h \<le> kMaxEncodedLength C" by (rule handle_length)
  have enc: "BlobFileFooter_EncodeTo C f @ r = ?body @ ?crc @ r"
    by (simp add: BlobFileFooter_EncodeTo_def padded_handle)
  have dec: "BlockHandle_DecodeFrom C h0 (?body @ ?crc @ r)
        = (OK, meta_index_handle f, ?pad @ PutFixed64 C kFooterMagicNumber @ ?crc @ r)" for h0
    by simp
  have drop: "drop (kBlobFooterSize C - 12) (?body @ ?crc @ r)
        = PutFixed64 C kFooterMagicNumber @ ?crc @ r"
    using le by (simp add: kBlobFooterSize_def)
  have take: "take (length (?body @ ?crc @ r) - length (?crc @ r)) (?body @ ?crc @ r) = ?body"
    by simp
  show ?thesis
    unfolding enc BlobFileFooter_DecodeFrom_def dec drop
    using le take by (simp add: Let_def kBlobFooterSize_def del: append_assoc)
qed

end

text \<open>An accepted footer carries the magic number and the checksum of what precedes it.\<close>

lemma footer_sound:
  assumes "BlobFileFooter_DecodeFrom C f0 s = Some (OK, f, r)"
  obtains s3 where
    "GetFixed64 C (drop (kBlobFooterSize C - 12) s) = Some (kFooterMagicNumber, s3)"
    "GetFixed32 C s3 = Some (crc32c_Value C (take (length s - length s3) s), r)"
  using assms
  by (auto simp: BlobFileFooter_DecodeFrom_def Let_def split: prod.splits option.splits if_splits)

section \<open>Encoding and decoding a record\<close>

text \<open>
  What a stored record needs from the coding and the compression library together.
\<close>

locale record_format = coding_laws C + codec_laws L for C L
begin

lemma encode_defined:
  assumes "record_fits r" and "length (BlobRecord_EncodeTo C r) < 2 ^ 32 - 1"
  obtains hdr pl where "BlobEncoder_EncodeRecord nd C L ty r = Some (hdr, pl)"
proof -
  have "length (fst (Compress L ty (BlobRecord_EncodeTo C r))) < 2 ^ 32 - 1"
    using Compress_length [of ty "BlobRecord_EncodeTo C r"] assms(2) by simp
  then show ?thesis
    using that by (simp add: BlobEncoder_EncodeRecord_def Let_def case_prod_beta)
qed

lemma encode_header:
  assumes "BlobEncoder_EncodeRecord nd C L ty r = Some (hdr, pl)" and "length pl < 2 ^ 32"
  shows "length hdr = kRecordHeaderSize"
    and "\<exists>d'. BlobDecoder_DecodeHeader C d (hdr @ s) = Some (OK, d', s)
              \<and> d_record_size d' = of_nat (length pl)
              \<and> d_compression d' = snd (Compress L ty (BlobRecord_EncodeTo C r))"
    and "pl = fst (Compress L ty (BlobRecord_EncodeTo C r))"
  using assms
  by (auto simp: BlobEncoder_EncodeRecord_def BlobDecoder_DecodeHeader_def GetChar_def Let_def
                 kRecordHeaderSize_def case_prod_beta exec_simps)

text \<open>The buffer that ends up owning a decoded record.\<close>

definition owned_buffer :: "BlobDecoder \<Rightarrow> BlobRecord \<Rightarrow> bytes \<Rightarrow> bytes" where
  "owned_buffer d r buffer =
     (if d_compression d = kNoCompression L then buffer else BlobRecord_EncodeTo C r)"

lemma decode_record:
  assumes "record_fits r" and "only_value r0 = only_value r"
    and pl: "pl = fst (Compress L ty (BlobRecord_EncodeTo C r))" and len: "length pl < 2 ^ 32"
    and d: "d_record_size d = of_nat (length pl)"
      "d_compression d = snd (Compress L ty (BlobRecord_EncodeTo C r))"
  shows "BlobDecoder_DecodeRecord nd C L d (pl @ s) r0 buf
         = Some (OK, record_seen r r0, s, owned_buffer d r buf)"
    and "owned_buffer d r pl = BlobRecord_EncodeTo C r"
proof -
  have n: "unat (d_record_size d) = length pl" using len d(1) by (simp add: unat_of_nat)
  show "BlobDecoder_DecodeRecord nd C L d (pl @ s) r0 buf
         = Some (OK, record_seen r r0, s, owned_buffer d r buf)"
  proof (cases rule: Compress_cases [where ty = ty and x = "BlobRecord_EncodeTo C r" and nd = nd])
    case raw
    then show ?thesis
      using n pl d(2) record_into [OF assms(1,2)]
      by (simp add: BlobDecoder_DecodeRecord_def owned_buffer_def)
  next
    case (packed y)
    then show ?thesis
      using n pl d(2) record_into [OF assms(1,2)]
      by (simp add: BlobDecoder_DecodeRecord_def owned_buffer_def)
  qed
  show "owned_buffer d r pl = BlobRecord_EncodeTo C r"
    by (cases rule: Compress_cases [where ty = ty and x = "BlobRecord_EncodeTo C r" and nd = nd])
       (simp_all add: owned_buffer_def pl d(2))
qed

lemma record_roundtrip:
  assumes "BlobEncoder_EncodeRecord nd C L ty r = Some (hdr, pl)" and "length pl < 2 ^ 32"
    and "record_fits r" and "only_value r0 = only_value r"
  obtains d' where "BlobDecoder_DecodeHeader C d (hdr @ s) = Some (OK, d', s)"
    and "\<And>nd' buf s. BlobDecoder_DecodeRecord nd' C L d' (pl @ s) r0 buf
           = Some (OK, record_seen r r0, s, owned_buffer d' r buf)"
    and "owned_buffer d' r pl = BlobRecord_EncodeTo C r"
    and "d_record_size d' = of_nat (length pl)"
proof -
  obtain d' where d': "BlobDecoder_DecodeHeader C d (hdr @ s) = Some (OK, d', s)"
      "d_record_size d' = of_nat (length pl)"
      "d_compression d' = snd (Compress L ty (BlobRecord_EncodeTo C r))"
    using encode_header(2) [OF assms(1,2), of d s] by blast
  show ?thesis
    by (rule that [OF d'(1) decode_record [OF assms(3,4) encode_header(3) [OF assms(1,2)]
          assms(2) d'(2,3)] d'(2)])
qed

end

interpretation leb_rle: record_format leb128 rle_codec
  by unfold_locales

lemma record_formatI: "coding_laws C \<Longrightarrow> codec_laws L \<Longrightarrow> record_format C L"
  by (simp add: record_format_def)

section \<open>The life cycle of a blob file\<close>

lemma state_transit_release: "\<exists>st'. state_transit True ev st = Some st'"
  by (cases ev) auto

lemma state_transit_obsolete:
  "state_transit False ev kObsolete = Some st \<Longrightarrow> ev \<noteq> kReset \<Longrightarrow> st = kObsolete"
  by (cases ev) (auto simp: exec_simps)

lemma FileStateTransit_same:
  "FileStateTransit nd ev m = Some m' \<Longrightarrow> m' = m\<lparr>file_state := file_state m'\<rparr>"
  by (auto simp: FileStateTransit_def exec_simps)

lemma AddDiscardableSize_same:
  "AddDiscardableSize nd d m = Some m' \<Longrightarrow> m' = m\<lparr>discardable_size := discardable_size m + d\<rparr>"
  by (auto simp: AddDiscardableSize_def Let_def exec_simps)

text \<open>
  \<open>life nd st st'\<close>: a sequence of events without \<open>kReset\<close> takes a file from
  \<open>st\<close> to \<open>st'\<close>.
\<close>

inductive life :: "bool \<Rightarrow> FileState \<Rightarrow> FileState \<Rightarrow> bool" for nd where
  life_refl: "life nd st st"
| life_step: "life nd st st' \<Longrightarrow> state_transit nd ev st' = Some st'' \<Longrightarrow> ev \<noteq> kReset \<Longrightarrow> life nd st st''"

inductive_simps life_from_obsolete: "life nd kObsolete st"

lemma life_obsolete: "life False st st' \<Longrightarrow> st = kObsolete \<Longrightarrow> st' = kObsolete"
  by (induction rule: life.induct) (auto dest: state_transit_obsolete)

lemma life_init: "life False st st' \<Longrightarrow> st' = kInit \<Longrightarrow> st = kInit"
proof (induction rule: life.induct)
  case (life_step st st' ev st'')
  then show ?case by (cases ev) (auto simp: exec_simps split: if_splits)
qed simp

fun transit_all :: "bool \<Rightarrow> FileEvent list \<Rightarrow> BlobFileMeta \<Rightarrow> BlobFileMeta option" where
  "transit_all nd [] m = Some m"
| "transit_all nd (ev # evs) m = do { m' \<leftarrow> FileStateTransit nd ev m; transit_all nd evs m' }"

lemma life_trans: "life nd b c \<Longrightarrow> life nd a b \<Longrightarrow> life nd a c"
  by (induction rule: life.induct) (auto intro: life.intros)

lemma transit_all_life:
  "transit_all nd evs m = Some m' \<Longrightarrow> kReset \<notin> set evs \<Longrightarrow> life nd (file_state m) (file_state m')"
proof (induction evs arbitrary: m)
  case (Cons ev evs)
  then obtain m1 where "FileStateTransit nd ev m = Some m1" "transit_all nd evs m1 = Some m'"
    by (auto simp: exec_simps)
  moreover from this have "life nd (file_state m) (file_state m1)"
    using Cons.prems by (auto simp: FileStateTransit_def exec_simps intro: life.intros)
  ultimately show ?case using Cons by (auto intro: life_trans)
qed (simp add: life.intros)

section \<open>Discardable sizes\<close>

lemma ratio_le:
  assumes "0 < b" and "file_size m \<noteq> 0"
  shows "dbl_le (GetDiscardableRatio m) (Fin (of_nat a / of_nat b))
         \<longleftrightarrow> b * unat (discardable_size m) \<le> a * unat (file_size m)"
proof -
  have pos: "0 < unat (file_size m)" using assms(2) by (simp add: unat_gt_0)
  have "dbl_le (GetDiscardableRatio m) (Fin (of_nat a / of_nat b))
        \<longleftrightarrow> (of_nat (b * unat (discardable_size m)) :: rat) \<le> of_nat (a * unat (file_size m))"
    using assms pos
    by (simp add: GetDiscardableRatio_def dbl_div_def divide_simps mult.commute del: of_nat_unat)
  then show ?thesis by (simp only: of_nat_le_iff)
qed

lemma ratio_zero:
  "file_size m \<noteq> 0 \<Longrightarrow> GetDiscardableRatio m = Fin 0 \<longleftrightarrow> discardable_size m = 0"
  by (simp add: GetDiscardableRatio_def dbl_div_def unat_eq_zero del: of_nat_unat)

section \<open>Properties\<close>

text \<open>
  C1. A record that \<open>EncodeRecord\<close> wrote, compressed or not, is read back by
  \<open>DecodeHeader\<close> and \<open>DecodeRecord\<close> whatever follows it in the file, in both kinds
  of build.
\<close>

theorem blob_record_roundtrip:
  assumes "coding_laws C" and "codec_laws L"
    and "BlobEncoder_EncodeRecord nd C L ty r = Some (hdr, pl)" and "length pl < 2 ^ 32"
    and "record_fits r" and "only_value r0 = only_value r"
  shows "\<exists>d' buf'. BlobDecoder_DecodeHeader C d (hdr @ pl @ s) = Some (OK, d', pl @ s)
            \<and> BlobDecoder_DecodeRecord nd' C L d' (pl @ s) r0 buf = Some (OK, record_seen r r0, s, buf')"
  using record_format.record_roundtrip [OF record_formatI [OF assms(1,2)] assms(3-6)] by metis

definition sample_record :: BlobRecord where
  "sample_record = \<lparr>r_key = [97], r_value = replicate 40 7, only_value = True\<rparr>"

lemma sample_encoded:
  "map_option snd (BlobEncoder_EncodeRecord False leb128 rle_codec 1 sample_record) = Some [7, 40]"
  by (simp add: BlobEncoder_EncodeRecord_def Compress_def try_compress_def rle_codec_def
        rle_replicate BlobRecord_EncodeTo_def sample_record_def GoodCompressionRatio_def
        cpp_assert_def Let_def)

lemma blob_record_roundtrip_witness:
  "\<exists>hdr d' buf'. BlobEncoder_EncodeRecord False leb128 rle_codec 1 sample_record = Some (hdr, [7, 40])
      \<and> BlobDecoder_DecodeHeader leb128 (new_BlobDecoder rle_codec) (hdr @ [7, 40] @ [1, 2])
        = Some (OK, d', [7, 40] @ [1, 2])
      \<and> BlobDecoder_DecodeRecord False leb128 rle_codec d' ([7, 40] @ [1, 2]) (empty_BlobRecord\<lparr>only_value := True\<rparr>) []
        = Some (OK, record_seen sample_record (empty_BlobRecord\<lparr>only_value := True\<rparr>), [1, 2], buf')"
proof -
  obtain hdr where e: "BlobEncoder_EncodeRecord False leb128 rle_codec 1 sample_record = Some (hdr, [7, 40])"
    using sample_encoded by auto
  show ?thesis
    using e blob_record_roundtrip [OF coding_laws_leb128 codec_laws_rle e]
    by (simp add: record_fits_def sample_record_def empty_BlobRecord_def)
qed

text \<open>
  C2. A blob index that was stored as a value in the LSM tree decodes to itself, with
  nothing left over, whatever the target object held.
\<close>

theorem blob_index_decode_encode:
  assumes "coding_laws C"
  shows "DecodeInto (BlobIndex_DecodeFrom C) (BlobIndex_EncodeTo C x) x0 = (OK, x)"
  using assms by (rule coding_laws.blob_index_into)

lemma blob_index_decode_encode_witness:
  "DecodeInto (BlobIndex_DecodeFrom leb128)
     (BlobIndex_EncodeTo leb128 \<lparr>bi_file_number = 7, bi_blob_handle = \<lparr>bh_offset = 8, bh_size = 300\<rparr>\<rparr>)
     empty_BlobIndex
   = (OK, \<lparr>bi_file_number = 7, bi_blob_handle = \<lparr>bh_offset = 8, bh_size = 300\<rparr>\<rparr>)"
  using coding_laws_leb128 by (rule blob_index_decode_encode)

text \<open>
  C3. The footer always takes \<open>kBlobFooterSize\<close> bytes and decodes to the handle it
  was made from; a footer that decodes carries the magic number and a checksum that
  fits the bytes before it.
\<close>

theorem blob_footer_roundtrip:
  assumes "coding_laws C"
  shows "length (BlobFileFooter_EncodeTo C f) = kBlobFooterSize C
    \<and> BlobFileFooter_DecodeFrom C f0 (BlobFileFooter_EncodeTo C f @ r) = Some (OK, f, r)
    \<and> (BlobFileFooter_DecodeFrom C f0 s = Some (OK, f', r') \<longrightarrow>
        (\<exists>s3. GetFixed64 C (drop (kBlobFooterSize C - 12) s) = Some (kFooterMagicNumber, s3)
            \<and> GetFixed32 C s3 = Some (crc32c_Value C (take (length s - length s3) s), r')))"
  using coding_laws.footer_length [OF assms] coding_laws.footer_roundtrip [OF assms] footer_sound
  by metis

lemma blob_footer_roundtrip_witness:
  "length (BlobFileFooter_EncodeTo leb128 \<lparr>meta_index_handle = (3, 4)\<rparr>) = kBlobFooterSize leb128
   \<and> BlobFileFooter_DecodeFrom leb128 new_BlobFileFooter
       (BlobFileFooter_EncodeTo leb128 \<lparr>meta_index_handle = (3, 4)\<rparr> @ [9])
     = Some (OK, \<lparr>meta_index_handle = (3, 4)\<rparr>, [9])"
  using blob_footer_roundtrip [OF coding_laws_leb128] by blast

text \<open>
  C4. The metadata of a blob file decodes to the persistent fields that were encoded;
  the state, the discardable size and the mark keep the values of the target, and the
  bytes that follow are left for the next reader.
\<close>

theorem blob_file_meta_roundtrip:
  assumes "coding_laws C" and "meta_fits m"
  shows "BlobFileMeta_DecodeFrom C m0 (BlobFileMeta_EncodeTo C m @ r)
         = (OK, m\<lparr>file_state := file_state m0, discardable_size := discardable_size m0,
                   gc_mark := gc_mark m0\<rparr>, r)"
  using assms by (rule coding_laws.meta_roundtrip)

definition sample_meta :: BlobFileMeta where
  "sample_meta = new_BlobFileMeta 5 1000 10 2 [97] [122] kSorted"

lemma blob_file_meta_roundtrip_witness:
  "BlobFileMeta_DecodeFrom leb128 (default_BlobFileMeta 0 0) (BlobFileMeta_EncodeTo leb128 sample_meta @ [6])
   = (OK, sample_meta, [6])"
  using blob_file_meta_roundtrip [OF coding_laws_leb128, of sample_meta "default_BlobFileMeta 0 0" "[6]"]
  by (simp add: meta_fits_def sample_meta_def new_BlobFileMeta_def default_BlobFileMeta_def)

text \<open>
  C5. In a build with assertions, a file that became obsolete stays obsolete under every
  sequence of events other than \<open>kReset\<close>, and no sequence of events brings a file
  back to its initial state.
\<close>

theorem file_obsolete_is_final:
  assumes "transit_all False evs m = Some m'" and "kReset \<notin> set evs"
  shows "(is_obsolete m \<longrightarrow> is_obsolete m') \<and> (file_state m' = kInit \<longrightarrow> file_state m = kInit)"
  using transit_all_life [OF assms] life_obsolete life_init by (auto simp: is_obsolete_def)

lemma file_obsolete_is_final_witness:
  "transit_all False [kFlushOrCompactionOutput, kFlushCompleted, kGCBegin, kDelete]
     sample_meta = Some (sample_meta\<lparr>file_state := kObsolete\<rparr>)
   \<and> transit_all False [kGCCompleted, kNeedMerge, kNeedGC, kFlushCompleted]
     (sample_meta\<lparr>file_state := kObsolete\<rparr>) = Some (sample_meta\<lparr>file_state := kObsolete\<rparr>)
   \<and> is_obsolete (sample_meta\<lparr>file_state := kObsolete\<rparr>)"
proof -
  let ?m = "sample_meta\<lparr>file_state := kObsolete\<rparr>"
  have run: "transit_all False [kGCCompleted, kNeedMerge, kNeedGC, kFlushCompleted] ?m = Some ?m"
    by (simp add: FileStateTransit_def sample_meta_def new_BlobFileMeta_def)
  have start: "transit_all False [kFlushOrCompactionOutput, kFlushCompleted, kGCBegin, kDelete]
     sample_meta = Some ?m"
    by (simp add: FileStateTransit_def sample_meta_def new_BlobFileMeta_def)
  show ?thesis using run start file_obsolete_is_final [OF run] by (simp add: is_obsolete_def)
qed





end
