(* ===== verification/File_IO.thy ===== *)
theory File_IO
  imports Coding
begin

text \<open>
  The RocksDB objects the blob files are written to and read from, as parameters: a
  writable file (\<open>WritableFileWriter\<close>), a random-access file
  (\<open>RandomAccessFileReader\<close>), a cache (\<open>Cache\<close>) and a key comparator. Each is a
  record of the operations the code calls; a locale states the documented behaviour in
  terms of the contents of the object; an interpretation shows that it can hold.
\<close>

section \<open>The operations\<close>

record 'w wfile =
  wf_Append :: "'w \<Rightarrow> bytes \<Rightarrow> status \<times> 'w"
  wf_Flush :: "'w \<Rightarrow> status \<times> 'w"
  wf_Sync :: "'w \<Rightarrow> status \<times> 'w"
  wf_Close :: "'w \<Rightarrow> status \<times> 'w"
  wf_GetFileSize :: "'w \<Rightarrow> u64"

record 'f rfile =
  rf_Read :: "'f \<Rightarrow> u64 \<Rightarrow> u64 \<Rightarrow> status \<times> bytes"
  rf_Prefetch :: "'f \<Rightarrow> u64 \<Rightarrow> u64 \<Rightarrow> 'f"
  rf_Readahead :: "'f \<Rightarrow> u64 \<Rightarrow> 'f"

record ('c, 'v) cache_ops =
  c_Lookup :: "'c \<Rightarrow> bytes \<Rightarrow> 'v option \<times> 'c"
  c_Insert :: "'c \<Rightarrow> bytes \<Rightarrow> 'v \<Rightarrow> 'c"
  c_Erase :: "'c \<Rightarrow> bytes \<Rightarrow> 'c"

type_synonym comparator = "bytes \<Rightarrow> bytes \<Rightarrow> int"

section \<open>The laws\<close>

text \<open>
  An append that reports success has added exactly the data. An append that fails may
  have written anything. The size is that of the data appended so far.
\<close>

locale wfile_laws =
  fixes W :: "'w wfile" and contents :: "'w \<Rightarrow> bytes"
  assumes append_ok: "wf_Append W w d = (OK, w') \<Longrightarrow> contents w' = contents w @ d"
    and flush_ok: "wf_Flush W w = (OK, w') \<Longrightarrow> contents w' = contents w"
    and sync_ok: "wf_Sync W w = (OK, w') \<Longrightarrow> contents w' = contents w"
    and close_ok: "wf_Close W w = (OK, w') \<Longrightarrow> contents w' = contents w"
    and file_size: "wf_GetFileSize W w = of_nat (length (contents w))"

text \<open>A read returns the bytes asked for, or fewer at the end of the file.\<close>

locale rfile_laws =
  fixes F :: "'f rfile" and data :: "'f \<Rightarrow> bytes"
  assumes read: "rf_Read F f off n = (OK, take (unat n) (drop (unat off) (data f)))"
    and prefetch [simp]: "data (rf_Prefetch F f off n) = data f"
    and readahead [simp]: "data (rf_Readahead F f n) = data f"
begin

lemma read_part:
  assumes "data f = pre @ mid @ post" and "length (data f) < 2 ^ 64"
  shows "rf_Read F f (of_nat (length pre)) (of_nat (length mid)) = (OK, mid)"
proof -
  have n: "length pre < 2 ^ 64" "length mid < 2 ^ 64" using assms by simp_all
  then have "unat (of_nat (length pre) :: u64) = length pre"
    "unat (of_nat (length mid) :: u64) = length mid"
    by (simp_all add: unat_of_nat)
  then show ?thesis by (simp add: read assms(1))
qed

end

text \<open>A cache may forget entries at any time but never invents or alters one.\<close>

locale cache_laws =
  fixes K :: "('c, 'v) cache_ops" and entries :: "'c \<Rightarrow> bytes \<rightharpoonup> 'v"
  assumes lookup_hit: "c_Lookup K c k = (Some v, c') \<Longrightarrow> entries c k = Some v"
    and lookup_sub: "c_Lookup K c k = (r, c') \<Longrightarrow> entries c' \<subseteq>\<^sub>m entries c"
    and insert_sub: "entries (c_Insert K c k v) \<subseteq>\<^sub>m (entries c)(k \<mapsto> v)"
    and erase_sub: "entries (c_Erase K c k) \<subseteq>\<^sub>m (entries c)(k := None)"
begin

lemma lookup_keeps: "c_Lookup K c k = (r, c') \<Longrightarrow> entries c' x = Some v \<Longrightarrow> entries c x = Some v"
  using lookup_sub by (metis map_le_def domI)

lemma insert_keeps:
  "entries (c_Insert K c k v) x = Some y \<Longrightarrow> (x = k \<and> y = v) \<or> entries c x = Some y"
  using insert_sub [of c k v] by (metis map_le_def domI fun_upd_apply option.inject)

lemma erase_keeps: "entries (c_Erase K c k) x = Some y \<Longrightarrow> x \<noteq> k \<and> entries c x = Some y"
  using erase_sub [of c k] by (metis map_le_def domI fun_upd_apply option.distinct(1))

end

text \<open>A comparator is a total order on keys.\<close>

locale comparator_laws =
  fixes cmp :: comparator
  assumes cmp_eq: "cmp a b = 0 \<longleftrightarrow> a = b"
    and cmp_swap: "0 < cmp a b \<longleftrightarrow> cmp b a < 0"
    and cmp_trans: "cmp a b \<le> 0 \<Longrightarrow> cmp b c \<le> 0 \<Longrightarrow> cmp a c \<le> 0"
begin

lemma cmp_refl [simp]: "cmp a a = 0"
  by (simp add: cmp_eq)

lemma cmp_total: "cmp a b \<le> 0 \<or> cmp b a \<le> 0"
  using cmp_swap [of a b] by linarith

lemma cmp_antisym: "cmp a b \<le> 0 \<Longrightarrow> cmp b a \<le> 0 \<Longrightarrow> a = b"
  using cmp_swap [of b a] cmp_eq [of a b] by auto

lemma cmp_not_less: "\<not> cmp a b < 0 \<longleftrightarrow> cmp b a \<le> 0"
  using cmp_swap [of b a] by linarith

end

section \<open>Concrete objects\<close>

text \<open>
  A file in memory on a device with limited room, a file whose bytes are all there, a
  cache that keeps only the last entry, and the bytewise order of keys.
\<close>

definition mem_append :: "nat \<times> bytes \<Rightarrow> bytes \<Rightarrow> status \<times> (nat \<times> bytes)" where
  "mem_append w d = (if length (snd w) + length d \<le> fst w then (OK, fst w, snd w @ d)
                     else (IOError ''No space left on device'', w))"

definition mem_wfile :: "(nat \<times> bytes) wfile" where
  "mem_wfile = \<lparr>wf_Append = mem_append, wf_Flush = Pair OK, wf_Sync = Pair OK, wf_Close = Pair OK,
                wf_GetFileSize = (\<lambda>w. of_nat (length (snd w)))\<rparr>"

definition mem_rfile :: "bytes rfile" where
  "mem_rfile = \<lparr>rf_Read = (\<lambda>f off n. (OK, take (unat n) (drop (unat off) f))),
                rf_Prefetch = (\<lambda>f _ _. f), rf_Readahead = (\<lambda>f _. f)\<rparr>"

definition one_cache :: "((bytes \<times> 'v) option, 'v) cache_ops" where
  "one_cache =
     \<lparr>c_Lookup = (\<lambda>c k. (case c of Some (k', v) \<Rightarrow> if k' = k then Some v else None | None \<Rightarrow> None, c)),
      c_Insert = (\<lambda>c k v. Some (k, v)),
      c_Erase = (\<lambda>c k. case c of Some (k', v) \<Rightarrow> if k' = k then None else c | None \<Rightarrow> None)\<rparr>"

definition one_entries :: "(bytes \<times> 'v) option \<Rightarrow> bytes \<rightharpoonup> 'v" where
  "one_entries c = (case c of None \<Rightarrow> Map.empty | Some (k, v) \<Rightarrow> [k \<mapsto> v])"

fun bytewise :: comparator where
  "bytewise [] [] = 0"
| "bytewise [] (b # bs) = -1"
| "bytewise (a # as) [] = 1"
| "bytewise (a # as) (b # bs) = (if a < b then -1 else if b < a then 1 else bytewise as bs)"

interpretation mem_w: wfile_laws mem_wfile snd
  by unfold_locales (auto simp: mem_wfile_def mem_append_def split: if_splits)

interpretation mem_r: rfile_laws mem_rfile "\<lambda>f. f"
  by unfold_locales (auto simp: mem_rfile_def)

lemma one_entries_simps [simp]:
  "one_entries None = Map.empty" "one_entries (Some (k, v)) = [k \<mapsto> v]"
  by (simp_all add: one_entries_def)

interpretation one: cache_laws one_cache one_entries
proof
  fix c :: "(bytes \<times> 'v) option" and c' k v r
  show "c_Lookup one_cache c k = (Some v, c') \<Longrightarrow> one_entries c k = Some v"
    by (cases c) (auto simp: one_cache_def split: if_splits)
  show "c_Lookup one_cache c k = (r, c') \<Longrightarrow> one_entries c' \<subseteq>\<^sub>m one_entries c"
    by (simp add: one_cache_def)
  show "one_entries (c_Insert one_cache c k v) \<subseteq>\<^sub>m (one_entries c)(k \<mapsto> v)"
    by (simp add: one_cache_def map_le_def)
  show "one_entries (c_Erase one_cache c k) \<subseteq>\<^sub>m (one_entries c)(k := None)"
    by (cases c) (auto simp: one_cache_def map_le_def split: if_splits)
qed

lemma bytewise_eq: "bytewise a b = 0 \<longleftrightarrow> a = b"
  by (induction a b rule: bytewise.induct) auto

lemma bytewise_swap: "0 < bytewise a b \<longleftrightarrow> bytewise b a < 0"
  by (induction a b rule: bytewise.induct) auto

lemma bytewise_trans: "bytewise a b \<le> 0 \<Longrightarrow> bytewise b c \<le> 0 \<Longrightarrow> bytewise a c \<le> 0"
proof (induction a arbitrary: b c)
  case Nil
  then show ?case by (cases c) simp_all
next
  case (Cons x a)
  from Cons.prems obtain y b' where b: "b = y # b'" by (cases b) simp_all
  with Cons.prems obtain z c' where c: "c = z # c'" by (cases c) simp_all
  have le: "x \<le> y" "y \<le> z" using Cons.prems b c by (auto split: if_splits)
  show ?case
  proof (cases "x = z")
    case True
    with le have "x = y" "y = z" by simp_all
    with Cons b c show ?thesis by simp
  next
    case False
    with le have "x < z" by simp
    with c show ?thesis by simp
  qed
qed

interpretation bytewise: comparator_laws bytewise
  by unfold_locales (rule bytewise_eq, rule bytewise_swap, rule bytewise_trans)

lemma wfile_laws_mem: "wfile_laws mem_wfile snd"
  by (rule mem_w.wfile_laws_axioms)

lemma rfile_laws_mem: "rfile_laws mem_rfile (\<lambda>f. f)"
  by (rule mem_r.rfile_laws_axioms)

lemma cache_laws_one: "cache_laws one_cache one_entries"
  by (rule one.cache_laws_axioms)

lemma comparator_laws_bytewise: "comparator_laws bytewise"
  by (rule bytewise.comparator_laws_axioms)

end
