(* ===== verification/Titan_Options.thy ===== *)
theory Titan_Options
  imports Titan_Util
begin

text \<open>
  The options of \<open>include/titan/options.h\<close> and \<open>src/options.cc\<close>: the fields that
  Titan adds to the RocksDB options, their defaults, and the split of the column-family
  options into an immutable and a mutable part with the way back. The RocksDB base
  options are not modelled; what the code takes from them (the comparator) is an
  argument where it is used. A cache is known by a number; ratios are exact decimals.
\<close>

section \<open>Database options\<close>

record TitanDBOptions =
  dirname :: string
  disable_background_gc :: bool
  max_background_gc :: int
  purge_obsolete_files_period_sec :: u32
  titan_stats_dump_period_sec :: u32
  sep_before_flush :: bool
  num_foreground_builders :: int
  block_write_size :: u64

definition default_TitanDBOptions :: TitanDBOptions where
  "default_TitanDBOptions =
     \<lparr>dirname = '''', disable_background_gc = False, max_background_gc = 1,
      purge_obsolete_files_period_sec = 10, titan_stats_dump_period_sec = 600,
      sep_before_flush = False, num_foreground_builders = 1, block_write_size = 0\<rparr>"

section \<open>Column-family options\<close>

datatype TitanBlobRunMode = kRunNormal | kReadOnly | kFallback

definition blob_run_mode_to_string :: "(TitanBlobRunMode \<times> string) list" where
  "blob_run_mode_to_string =
     [(kRunNormal, ''kNormal''), (kReadOnly, ''kReadOnly''), (kFallback, ''kFallback'')]"

definition blob_run_mode_string_map :: "(string \<times> TitanBlobRunMode) list" where
  "blob_run_mode_string_map =
     [(''kNormal'', kRunNormal), (''kReadOnly'', kReadOnly), (''kFallback'', kFallback)]"

record TitanCFOptions =
  min_blob_size :: u64
  mid_blob_size :: u64
  blob_file_compression :: byte
  blob_file_target_size :: u64
  blob_cache :: "nat option"
  max_gc_batch_size :: u64
  min_gc_batch_size :: u64
  blob_file_discardable_ratio :: dbl
  high_level_blob_discardable_ratio :: dbl
  sample_file_size_ratio :: dbl
  merge_small_file_threshold :: u64
  blob_run_mode :: TitanBlobRunMode
  lazy_merge :: bool
  level_merge :: bool
  range_merge :: bool
  max_sorted_runs :: int

text \<open>The sizes are the shifts 256 << 20, 1 << 30, 512 << 20 and 1 << 20 of the source.\<close>

definition default_TitanCFOptions :: "codec \<Rightarrow> TitanCFOptions" where
  "default_TitanCFOptions L =
     \<lparr>min_blob_size = 128, mid_blob_size = 4096, blob_file_compression = kNoCompression L,
      blob_file_target_size = 268435456, blob_cache = None,
      max_gc_batch_size = 1073741824, min_gc_batch_size = 536870912,
      blob_file_discardable_ratio = Fin (5 / 10), high_level_blob_discardable_ratio = Fin (7 / 10),
      sample_file_size_ratio = Fin (1 / 10), merge_small_file_threshold = 1048576,
      blob_run_mode = kRunNormal, lazy_merge = True, level_merge = False, range_merge = False,
      max_sorted_runs = 10\<rparr>"

record ImmutableTitanCFOptions =
  im_min_blob_size :: u64
  im_mid_blob_size :: u64
  im_blob_file_compression :: byte
  im_blob_file_target_size :: u64
  im_blob_cache :: "nat option"
  im_max_gc_batch_size :: u64
  im_min_gc_batch_size :: u64
  im_blob_file_discardable_ratio :: dbl
  im_sample_file_size_ratio :: dbl
  im_merge_small_file_threshold :: u64
  im_lazy_merge :: bool
  im_level_merge :: bool

definition new_ImmutableTitanCFOptions :: "TitanCFOptions \<Rightarrow> ImmutableTitanCFOptions" where
  "new_ImmutableTitanCFOptions opts =
     \<lparr>im_min_blob_size = min_blob_size opts, im_mid_blob_size = mid_blob_size opts,
      im_blob_file_compression = blob_file_compression opts,
      im_blob_file_target_size = blob_file_target_size opts, im_blob_cache = blob_cache opts,
      im_max_gc_batch_size = max_gc_batch_size opts, im_min_gc_batch_size = min_gc_batch_size opts,
      im_blob_file_discardable_ratio = blob_file_discardable_ratio opts,
      im_sample_file_size_ratio = sample_file_size_ratio opts,
      im_merge_small_file_threshold = merge_small_file_threshold opts,
      im_lazy_merge = lazy_merge opts, im_level_merge = level_merge opts\<rparr>"

record MutableTitanCFOptions =
  mu_blob_run_mode :: TitanBlobRunMode

definition new_MutableTitanCFOptions :: "TitanCFOptions \<Rightarrow> MutableTitanCFOptions" where
  "new_MutableTitanCFOptions opts = \<lparr>mu_blob_run_mode = blob_run_mode opts\<rparr>"

text \<open>
  The constructor from the two parts sets ten fields; the others keep the defaults of
  the class.
\<close>

definition combine_TitanCFOptions ::
    "codec \<Rightarrow> ImmutableTitanCFOptions \<Rightarrow> MutableTitanCFOptions \<Rightarrow> TitanCFOptions" where
  "combine_TitanCFOptions L im mu =
     (default_TitanCFOptions L)
       \<lparr>min_blob_size := im_min_blob_size im,
        blob_file_compression := im_blob_file_compression im,
        blob_file_target_size := im_blob_file_target_size im,
        blob_cache := im_blob_cache im,
        max_gc_batch_size := im_max_gc_batch_size im,
        min_gc_batch_size := im_min_gc_batch_size im,
        blob_file_discardable_ratio := im_blob_file_discardable_ratio im,
        sample_file_size_ratio := im_sample_file_size_ratio im,
        merge_small_file_threshold := im_merge_small_file_threshold im,
        blob_run_mode := mu_blob_run_mode mu\<rparr>"

section \<open>Read options\<close>

record TitanReadOptions =
  key_only :: bool

definition default_TitanReadOptions :: TitanReadOptions where
  "default_TitanReadOptions = \<lparr>key_only = False\<rparr>"

section \<open>Properties\<close>

lemma run_mode_names:
  "map_of blob_run_mode_to_string m = Some s \<longleftrightarrow> map_of blob_run_mode_string_map s = Some m"
  by (cases m) (auto simp: blob_run_mode_to_string_def blob_run_mode_string_map_def)

text \<open>
  C13. Splitting column-family options and combining the parts again restores exactly
  the options whose middle blob size, merge settings and high-level ratio have their
  default values; any other value of these fields is lost on the way.
\<close>

theorem cf_options_split_combine:
  "combine_TitanCFOptions L (new_ImmutableTitanCFOptions o1) (new_MutableTitanCFOptions o1) = o1
   \<longleftrightarrow> mid_blob_size o1 = 4096 \<and> lazy_merge o1 \<and> \<not> level_merge o1 \<and> \<not> range_merge o1
      \<and> max_sorted_runs o1 = 10 \<and> high_level_blob_discardable_ratio o1 = Fin (7 / 10)"
  by (cases o1)
     (auto simp: combine_TitanCFOptions_def new_ImmutableTitanCFOptions_def
        new_MutableTitanCFOptions_def default_TitanCFOptions_def)

end
