(* ===== verification/Blob_File_Builder.thy ===== *)
theory Blob_File_Builder
  imports Blob_Format File_IO Titan_Options
begin

text \<open>
  \<open>src/blob_file_builder.h\<close> and \<open>src/blob_file_builder.cc\<close>: the writer of one blob
  file. The file, the coding, the compressors and the comparator are parameters; the
  global counter \<open>bytes_written\<close> is kept in the builder. The library part describes the
  bytes a successful run leaves in the file; the readers build on it.
\<close>

section \<open>The builder\<close>

record 'w BlobFileBuilder =
  bb_file :: 'w
  bb_status :: status
  bb_num_entries :: u64
  bb_smallest_key :: bytes
  bb_largest_key :: bytes
  bytes_written :: u64

definition new_BlobFileBuilder :: "coding \<Rightarrow> 'w wfile \<Rightarrow> 'w \<Rightarrow> u64 \<Rightarrow> 'w BlobFileBuilder" where
  "new_BlobFileBuilder C W w bytes =
     (let (s, w') = wf_Append W w (BlobFileHeader_EncodeTo C new_BlobFileHeader)
      in \<lparr>bb_file = w', bb_status = s, bb_num_entries = 0, bb_smallest_key = [],
          bb_largest_key = [], bytes_written = bytes\<rparr>)"

definition note_key :: "comparator \<Rightarrow> bytes \<Rightarrow> 'w BlobFileBuilder \<Rightarrow> 'w BlobFileBuilder" where
  "note_key cmp k b =
     (let b = (if bb_smallest_key b = [] then b\<lparr>bb_smallest_key := k, bb_largest_key := k\<rparr> else b)
      in if cmp k (bb_largest_key b) > 0 then b\<lparr>bb_largest_key := k\<rparr>
         else if cmp k (bb_smallest_key b) < 0 then b\<lparr>bb_smallest_key := k\<rparr>
         else b)"

text \<open>The handle of the caller is unchanged when the builder has already failed.\<close>

definition BlobFileBuilder_Add ::
    "bool \<Rightarrow> coding \<Rightarrow> codec \<Rightarrow> 'w wfile \<Rightarrow> comparator \<Rightarrow> TitanCFOptions \<Rightarrow> BlobRecord \<Rightarrow> BlobHandle
     \<Rightarrow> 'w BlobFileBuilder \<Rightarrow> (BlobHandle \<times> 'w BlobFileBuilder) option" where
  "BlobFileBuilder_Add nd C L W cmp opts rec h b =
     (if \<not> IsOk (bb_status b) then Some (h, b)
      else do {
        enc \<leftarrow> BlobEncoder_EncodeRecord nd C L (blob_file_compression opts) rec;
        let h' = h\<lparr>bh_offset := wf_GetFileSize W (bb_file b), bh_size := GetEncodedSize enc\<rparr>;
        let (s, w') = wf_Append W (bb_file b) (fst enc @ snd enc);
        let b = b\<lparr>bb_file := w', bb_status := s\<rparr>;
        Some (h',
          if IsOk s
          then note_key cmp (r_key rec)
                 (b\<lparr>bytes_written := bytes_written b + bh_size h', bb_num_entries := bb_num_entries b + 1\<rparr>)
          else b)
      })"

definition BlobFileBuilder_Finish ::
    "coding \<Rightarrow> 'w wfile \<Rightarrow> 'w BlobFileBuilder \<Rightarrow> status \<times> 'w BlobFileBuilder" where
  "BlobFileBuilder_Finish C W b =
     (if \<not> IsOk (bb_status b) then (bb_status b, b)
      else let (s, w1) = wf_Append W (bb_file b) (BlobFileFooter_EncodeTo C new_BlobFileFooter);
               (s', w2) = (if IsOk s then wf_Flush W w1 else (s, w1))
           in (s', b\<lparr>bb_file := w2, bb_status := s'\<rparr>))"

definition BlobFileBuilder_Abandon :: "'w BlobFileBuilder \<Rightarrow> 'w BlobFileBuilder" where
  "BlobFileBuilder_Abandon b = b"

definition NumEntries :: "'w BlobFileBuilder \<Rightarrow> u64" where
  "NumEntries b = bb_num_entries b"

section \<open>A whole file\<close>

text \<open>A client adds records one after the other and finishes the file.\<close>

fun add_all ::
    "bool \<Rightarrow> coding \<Rightarrow> codec \<Rightarrow> 'w wfile \<Rightarrow> comparator \<Rightarrow> TitanCFOptions \<Rightarrow> BlobRecord list
     \<Rightarrow> 'w BlobFileBuilder \<Rightarrow> (BlobHandle list \<times> 'w BlobFileBuilder) option" where
  "add_all nd C L W cmp opts [] b = Some ([], b)"
| "add_all nd C L W cmp opts (r # rs) b = do {
     (h, b1) \<leftarrow> BlobFileBuilder_Add nd C L W cmp opts r \<lparr>bh_offset = 0, bh_size = 0\<rparr> b;
     (hs, b2) \<leftarrow> add_all nd C L W cmp opts rs b1;
     Some (h # hs, b2)
   }"

definition build_file ::
    "bool \<Rightarrow> coding \<Rightarrow> codec \<Rightarrow> 'w wfile \<Rightarrow> comparator \<Rightarrow> TitanCFOptions \<Rightarrow> BlobRecord list \<Rightarrow> 'w
     \<Rightarrow> (status \<times> BlobHandle list \<times> 'w BlobFileBuilder) option" where
  "build_file nd C L W cmp opts rs w = do {
     (hs, b) \<leftarrow> add_all nd C L W cmp opts rs (new_BlobFileBuilder C W w 0);
     let (s, b') = BlobFileBuilder_Finish C W b;
     Some (s, hs, b')
   }"

text \<open>The bytes of an encoded record, and the handles of consecutive records.\<close>

definition record_bytes :: "bool \<Rightarrow> coding \<Rightarrow> codec \<Rightarrow> byte \<Rightarrow> BlobRecord \<Rightarrow> bytes" where
  "record_bytes nd C L ty r =
     (case BlobEncoder_EncodeRecord nd C L ty r of None \<Rightarrow> [] | Some (hdr, pl) \<Rightarrow> hdr @ pl)"

fun handles_from :: "nat \<Rightarrow> bytes list \<Rightarrow> BlobHandle list" where
  "handles_from n [] = []"
| "handles_from n (x # xs) =
     \<lparr>bh_offset = of_nat n, bh_size = of_nat (length x)\<rparr> # handles_from (n + length x) xs"

definition file_image :: "bool \<Rightarrow> coding \<Rightarrow> codec \<Rightarrow> byte \<Rightarrow> BlobRecord list \<Rightarrow> bytes" where
  "file_image nd C L ty rs =
     BlobFileHeader_EncodeTo C new_BlobFileHeader @
     concat (map (record_bytes nd C L ty) rs) @
     BlobFileFooter_EncodeTo C new_BlobFileFooter"

lemma length_handles_from [simp]: "length (handles_from n xs) = length xs"
  by (induction xs arbitrary: n) auto

lemma handles_from_nth:
  "i < length xs \<Longrightarrow> handles_from n xs ! i =
     \<lparr>bh_offset = of_nat (n + length (concat (take i xs))), bh_size = of_nat (length (xs ! i))\<rparr>"
proof (induction xs arbitrary: n i)
  case (Cons x xs)
  then show ?case by (cases i) (simp_all add: add.assoc)
qed simp

section \<open>What a successful run writes\<close>

lemma note_key_fields [simp]:
  "bb_file (note_key cmp k b) = bb_file b" "bb_status (note_key cmp k b) = bb_status b"
  "bb_num_entries (note_key cmp k b) = bb_num_entries b"
  "bytes_written (note_key cmp k b) = bytes_written b"
  by (simp_all add: note_key_def Let_def)

lemma add_failed: "\<not> IsOk (bb_status b) \<Longrightarrow> BlobFileBuilder_Add nd C L W cmp opts r h b = Some (h, b)"
  by (simp add: BlobFileBuilder_Add_def)

lemma add_all_failed:
  "\<not> IsOk (bb_status b) \<Longrightarrow> add_all nd C L W cmp opts rs b = Some (hs, b') \<Longrightarrow> b' = b"
  by (induction rs arbitrary: hs) (auto simp: add_failed exec_simps)

locale blob_writing = record_format C L + wfile_laws W contents
  for C :: coding and L :: codec and W :: "'w wfile" and contents :: "'w \<Rightarrow> bytes"
begin

lemma encoded_size:
  "BlobEncoder_EncodeRecord nd C L ty r = Some enc \<Longrightarrow>
   GetEncodedSize enc = of_nat (length (record_bytes nd C L ty r))
   \<and> fst enc @ snd enc = record_bytes nd C L ty r"
  by (auto simp: record_bytes_def GetEncodedSize_def BlobEncoder_EncodeRecord_def Let_def
        kRecordHeaderSize_def case_prod_beta exec_simps)

lemma add_ok:
  assumes "BlobFileBuilder_Add nd C L W cmp opts r h b = Some (h', b')" and "bb_status b' = OK"
  shows "bb_status b = OK"
    and "contents (bb_file b') = contents (bb_file b) @ record_bytes nd C L (blob_file_compression opts) r"
    and "h' = \<lparr>bh_offset = of_nat (length (contents (bb_file b))),
               bh_size = of_nat (length (record_bytes nd C L (blob_file_compression opts) r))\<rparr>"
    and "bb_num_entries b' = bb_num_entries b + 1"
    and "\<exists>b0. b' = note_key cmp (r_key r) b0
           \<and> bb_smallest_key b0 = bb_smallest_key b \<and> bb_largest_key b0 = bb_largest_key b"
proof -
  show ok: "bb_status b = OK" using assms add_failed [of b] by fastforce
  obtain enc where e: "BlobEncoder_EncodeRecord nd C L (blob_file_compression opts) r = Some enc"
    using assms(1) ok by (auto simp: BlobFileBuilder_Add_def exec_simps)
  obtain s w' where w: "wf_Append W (bb_file b) (fst enc @ snd enc) = (s, w')"
    by fastforce
  let ?h = "h\<lparr>bh_offset := wf_GetFileSize W (bb_file b), bh_size := GetEncodedSize enc\<rparr>"
  let ?b = "b\<lparr>bb_file := w', bb_status := s\<rparr>"
  have run: "h' = ?h" "b' = (if IsOk s then note_key cmp (r_key r)
      (?b\<lparr>bytes_written := bytes_written b + bh_size ?h, bb_num_entries := bb_num_entries b + 1\<rparr>)
      else ?b)"
    using assms(1) by (auto simp: BlobFileBuilder_Add_def ok e w Let_def split: if_splits)
  have s: "s = OK" using run assms(2) by (auto split: if_splits)
  from run s show "contents (bb_file b') = contents (bb_file b) @ record_bytes nd C L (blob_file_compression opts) r"
    using append_ok [OF w [unfolded s]] encoded_size [OF e] by auto
  from run s show "h' = \<lparr>bh_offset = of_nat (length (contents (bb_file b))),
               bh_size = of_nat (length (record_bytes nd C L (blob_file_compression opts) r))\<rparr>"
    using encoded_size [OF e] file_size by (cases h) auto
  from run s show "bb_num_entries b' = bb_num_entries b + 1" by auto
  from run s show "\<exists>b0. b' = note_key cmp (r_key r) b0
      \<and> bb_smallest_key b0 = bb_smallest_key b \<and> bb_largest_key b0 = bb_largest_key b"
    by (intro exI [of _ "?b\<lparr>bytes_written := bytes_written b + bh_size ?h,
                         bb_num_entries := bb_num_entries b + 1\<rparr>"]) simp
qed

lemma add_all_ok:
  assumes "add_all nd C L W cmp opts rs b = Some (hs, b')" and "bb_status b' = OK"
  shows "bb_status b = OK"
    and "contents (bb_file b') = contents (bb_file b) @
           concat (map (record_bytes nd C L (blob_file_compression opts)) rs)"
    and "hs = handles_from (length (contents (bb_file b)))
                (map (record_bytes nd C L (blob_file_compression opts)) rs)"
    and "bb_num_entries b' = bb_num_entries b + of_nat (length rs)"
proof (atomize (full), use assms in \<open>induction rs arbitrary: b hs\<close>)
  case (Cons r rs)
  then obtain h b1 hs' where a: "BlobFileBuilder_Add nd C L W cmp opts r \<lparr>bh_offset = 0, bh_size = 0\<rparr> b = Some (h, b1)"
      and t: "add_all nd C L W cmp opts rs b1 = Some (hs', b')" and hs: "hs = h # hs'"
    by (auto simp: exec_simps)
  note IH = Cons.IH [OF t Cons.prems(2)]
  then have "bb_status b1 = OK" by blast
  from IH add_ok [OF a this] hs show ?case by simp
qed simp

lemma build_ok:
  assumes "build_file nd C L W cmp opts rs w = Some (OK, hs, b)" and "contents w = []"
  shows "contents (bb_file b) = file_image nd C L (blob_file_compression opts) rs"
    and "hs = handles_from 8 (map (record_bytes nd C L (blob_file_compression opts)) rs)"
    and "NumEntries b = of_nat (length rs)"
proof -
  obtain s0 w0 where h: "wf_Append W w (BlobFileHeader_EncodeTo C new_BlobFileHeader) = (s0, w0)"
    by fastforce
  let ?b0 = "new_BlobFileBuilder C W w 0"
  obtain b1 where a: "add_all nd C L W cmp opts rs ?b0 = Some (hs, b1)"
      and f: "BlobFileBuilder_Finish C W b1 = (OK, b)"
    using assms(1) by (fastforce simp: build_file_def exec_simps case_prod_beta prod_eq_iff)
  from f have ok: "bb_status b1 = OK" by (auto simp: BlobFileBuilder_Finish_def split: if_splits)
  note A = add_all_ok [OF a ok]
  have s0: "s0 = OK" using A(1) h by (simp add: new_BlobFileBuilder_def)
  have c0: "contents (bb_file ?b0) = BlobFileHeader_EncodeTo C new_BlobFileHeader"
    using append_ok [OF h [unfolded s0]] assms(2) h by (simp add: new_BlobFileBuilder_def)
  obtain s1 w1 where w1: "wf_Append W (bb_file b1) (BlobFileFooter_EncodeTo C new_BlobFileFooter) = (s1, w1)"
    by fastforce
  obtain w2 where s1: "s1 = OK" and w2: "wf_Flush W w1 = (OK, w2)" and b: "b = b1\<lparr>bb_file := w2, bb_status := OK\<rparr>"
    using f ok w1 by (auto simp: BlobFileBuilder_Finish_def split: if_splits prod.splits)
  show "contents (bb_file b) = file_image nd C L (blob_file_compression opts) rs"
    using A(2) c0 append_ok [OF w1 [unfolded s1]] flush_ok [OF w2] b by (simp add: file_image_def)
  show "hs = handles_from 8 (map (record_bytes nd C L (blob_file_compression opts)) rs)"
    using A(3) c0 by simp
  show "NumEntries b = of_nat (length rs)"
    using A(4) b h by (simp add: NumEntries_def new_BlobFileBuilder_def)
qed

end

section \<open>The key range of a file\<close>

definition covers :: "comparator \<Rightarrow> bytes list \<Rightarrow> 'w BlobFileBuilder \<Rightarrow> bool" where
  "covers cmp ks b =
     (if ks = [] then bb_smallest_key b = [] \<and> bb_largest_key b = []
      else bb_smallest_key b \<in> set ks \<and> bb_largest_key b \<in> set ks
         \<and> (\<forall>k\<in>set ks. cmp (bb_smallest_key b) k \<le> 0 \<and> cmp k (bb_largest_key b) \<le> 0))"

context comparator_laws
begin

lemma covers_note_key:
  assumes "covers cmp ks b" and "[] \<notin> set ks" and "k \<noteq> []"
  shows "covers cmp (ks @ [k]) (note_key cmp k b)"
proof (cases "ks = []")
  case True
  then show ?thesis using assms by (simp add: covers_def note_key_def)
next
  case False
  with assms have s: "bb_smallest_key b \<noteq> []"
      and c: "\<forall>k\<in>set ks. cmp (bb_smallest_key b) k \<le> 0 \<and> cmp k (bb_largest_key b) \<le> 0"
      and m: "bb_smallest_key b \<in> set ks" "bb_largest_key b \<in> set ks"
    by (auto simp: covers_def)
  from c m have sl: "cmp (bb_smallest_key b) (bb_largest_key b) \<le> 0" by blast
  consider (big) "cmp k (bb_largest_key b) > 0"
    | (small) "cmp k (bb_largest_key b) \<le> 0" "cmp k (bb_smallest_key b) < 0"
    | (mid) "cmp k (bb_largest_key b) \<le> 0" "cmp k (bb_smallest_key b) \<ge> 0" by linarith
  then show ?thesis
  proof cases
    case big
    then have "cmp (bb_largest_key b) k \<le> 0" using cmp_swap by force
    with c sl cmp_trans have "\<forall>k'\<in>set ks. cmp k' k \<le> 0" "cmp (bb_smallest_key b) k \<le> 0" by blast+
    with big s c m False show ?thesis by (simp add: covers_def note_key_def)
  next
    case small
    then have "\<forall>k'\<in>set ks. cmp k k' \<le> 0" using c cmp_trans by (meson less_imp_le)
    with small s c m False show ?thesis by (auto simp: covers_def note_key_def)
  next
    case mid
    then have "cmp (bb_smallest_key b) k \<le> 0" using cmp_not_less [of k "bb_smallest_key b"] by simp
    with mid s c m False show ?thesis by (simp add: covers_def note_key_def)
  qed
qed

end

lemma covers_cong:
  "bb_smallest_key a = bb_smallest_key b \<Longrightarrow> bb_largest_key a = bb_largest_key b \<Longrightarrow>
   covers cmp ks a = covers cmp ks b"
  by (simp add: covers_def)

locale blob_file_writing = blob_writing C L W contents + comparator_laws cmp
  for C :: coding and L :: codec and W :: "'w wfile" and contents and cmp
begin

lemma add_all_covers:
  assumes "add_all nd C L W cmp opts rs b = Some (hs, b')" and "bb_status b' = OK"
    and "covers cmp ks b" and "[] \<notin> set (ks @ map r_key rs)"
  shows "covers cmp (ks @ map r_key rs) b'"
  using assms
proof (induction rs arbitrary: b hs ks)
  case (Cons r rs)
  then obtain h b1 hs' where a: "BlobFileBuilder_Add nd C L W cmp opts r \<lparr>bh_offset = 0, bh_size = 0\<rparr> b = Some (h, b1)"
      and t: "add_all nd C L W cmp opts rs b1 = Some (hs', b')"
    by (auto simp: exec_simps)
  obtain b0 where b0: "b1 = note_key cmp (r_key r) b0" "covers cmp ks b0"
    using add_ok(5) [OF a add_all_ok(1) [OF t Cons.prems(2)]] Cons.prems(3) covers_cong by metis
  have "covers cmp (ks @ [r_key r]) b1"
    using covers_note_key [OF b0(2), of "r_key r"] Cons.prems(4) b0(1) by auto
  from Cons.IH [OF t Cons.prems(2) this] Cons.prems(4) show ?case by simp
qed simp

lemma build_covers:
  assumes "build_file nd C L W cmp opts rs w = Some (OK, hs, b)" and "[] \<notin> set (map r_key rs)"
  shows "covers cmp (map r_key rs) b"
proof -
  obtain b1 where a: "add_all nd C L W cmp opts rs (new_BlobFileBuilder C W w 0) = Some (hs, b1)"
      and f: "BlobFileBuilder_Finish C W b1 = (OK, b)"
    using assms(1) by (fastforce simp: build_file_def exec_simps case_prod_beta prod_eq_iff)
  from f have ok: "bb_status b1 = OK" by (auto simp: BlobFileBuilder_Finish_def split: if_splits)
  have c0: "covers cmp [] (new_BlobFileBuilder C W w 0)"
    by (simp add: covers_def new_BlobFileBuilder_def case_prod_beta)
  have "bb_smallest_key b = bb_smallest_key b1" "bb_largest_key b = bb_largest_key b1"
    using f ok by (auto simp: BlobFileBuilder_Finish_def case_prod_beta Let_def)
  with add_all_covers [OF a ok c0] assms(2) covers_cong show ?thesis by fastforce
qed

end

lemma blob_file_writingI:
  "coding_laws C \<Longrightarrow> codec_laws L \<Longrightarrow> wfile_laws W contents \<Longrightarrow> comparator_laws cmp \<Longrightarrow>
   blob_file_writing C L W contents cmp"
  by (simp add: blob_file_writing_def blob_writing_def record_format_def)

interpretation mem_build: blob_file_writing leb128 rle_codec mem_wfile snd bytewise
  by (rule blob_file_writingI [OF coding_laws_leb128 codec_laws_rle wfile_laws_mem
        comparator_laws_bytewise])

section \<open>Properties\<close>


definition sample_records :: "BlobRecord list" where
  "sample_records = [\<lparr>r_key = [98], r_value = [1, 2], only_value = False\<rparr>,
                     \<lparr>r_key = [97], r_value = [7, 7, 7], only_value = False\<rparr>]"

definition sample_file :: bytes where
  "sample_file = file_image False leb128 rle_codec 0 sample_records"

lemma sample_build:
  "map_option (\<lambda>(s, hs, b). (s, map bh_offset hs, bb_smallest_key b, bb_largest_key b))
     (build_file False leb128 rle_codec mem_wfile bytewise (default_TitanCFOptions rle_codec)
        sample_records (1000, []))
   = Some (OK, [8, 22], [97], [98])"
  by code_simp


end
