(* ===== verification/Blob_File_Reader.thy ===== *)
theory Blob_File_Reader
  imports Blob_File_Builder
begin

text \<open>
  \<open>src/blob_file_reader.h\<close>, \<open>src/blob_file_reader.cc\<close>, \<open>src/blob_file_cache.h\<close> and
  \<open>src/blob_file_cache.cc\<close>: opening a blob file, reading the record of a handle with or
  without the blob cache, sequential readahead, and the cache of open readers. The
  environment (\<open>NewRandomAccessFile\<close>) is a function from file numbers to a status or a
  file; the caches are parameters whose state is passed along.
\<close>

section \<open>Opening files\<close>

definition NewBlobFileReader ::
    "'f rfile \<Rightarrow> (u64 \<Rightarrow> status + 'f) \<Rightarrow> u64 \<Rightarrow> u64 \<Rightarrow> status + 'f" where
  "NewBlobFileReader F env file_no readahead =
     (case env file_no of
        Inl s \<Rightarrow> Inl s
      | Inr f \<Rightarrow> Inr (if readahead > 0 then rf_Readahead F f readahead else f))"

text \<open>
  \<open>unique_id\<close> is what \<open>GetUniqueId\<close> fills in, empty when the file has none; then a
  number drawn from the cache is used.
\<close>

definition GenerateCachePrefix :: "coding \<Rightarrow> bytes \<Rightarrow> u64 \<Rightarrow> bytes" where
  "GenerateCachePrefix C unique_id new_id = (if unique_id = [] then PutVarint64 C new_id else unique_id)"

definition EncodeBlobCache :: "coding \<Rightarrow> bytes \<Rightarrow> u64 \<Rightarrow> bytes" where
  "EncodeBlobCache C prefix offset = prefix @ PutVarint64 C offset"

record 'f BlobFileReader =
  br_file :: 'f
  br_cache_prefix :: "bytes option"
  br_footer :: BlobFileFooter

definition new_BlobFileReader ::
    "coding \<Rightarrow> TitanCFOptions \<Rightarrow> ('f \<Rightarrow> bytes) \<Rightarrow> u64 \<Rightarrow> 'f \<Rightarrow> 'f BlobFileReader" where
  "new_BlobFileReader C opts unique_id new_id f =
     \<lparr>br_file = f,
      br_cache_prefix = (if blob_cache opts \<noteq> None
                         then Some (GenerateCachePrefix C (unique_id f) new_id) else None),
      br_footer = new_BlobFileFooter\<rparr>"

definition BlobFileReader_Open ::
    "coding \<Rightarrow> 'f rfile \<Rightarrow> TitanCFOptions \<Rightarrow> ('f \<Rightarrow> bytes) \<Rightarrow> u64 \<Rightarrow> 'f \<Rightarrow> u64
     \<Rightarrow> (status \<times> 'f BlobFileReader option) option" where
  "BlobFileReader_Open C F opts unique_id new_id f fsize =
     (if fsize < of_nat (kBlobFooterSize C)
      then Some (Corruption ''file is too short to be a blob file'' '''', None)
      else let (s, buffer) = rf_Read F f (fsize - of_nat (kBlobFooterSize C)) (of_nat (kBlobFooterSize C)) in
        if \<not> IsOk s then Some (s, None)
        else do {
          (s, footer, tmp) \<leftarrow> BlobFileFooter_DecodeFrom C new_BlobFileFooter buffer;
          let s = (if IsOk s \<and> tmp \<noteq> [] then Corruption '''' '''' else s);
          if \<not> IsOk s then Some (s, None)
          else Some (OK, Some ((new_BlobFileReader C opts unique_id new_id f)\<lparr>br_footer := footer\<rparr>))
        })"

section \<open>Reading a record\<close>

definition BlobFileReader_ReadRecord ::
    "bool \<Rightarrow> coding \<Rightarrow> codec \<Rightarrow> 'f rfile \<Rightarrow> 'f BlobFileReader \<Rightarrow> BlobHandle \<Rightarrow> BlobRecord
     \<Rightarrow> (status \<times> BlobRecord \<times> bytes) option" where
  "BlobFileReader_ReadRecord nd C L F rd handle rec =
     (let (s, blob) = rf_Read F (br_file rd) (bh_offset handle) (bh_size handle) in
      if \<not> IsOk s then Some (s, rec, [])
      else if bh_size handle \<noteq> of_nat (length blob)
      then Some (Corruption (''ReadRecord actual size: '' @ to_string (of_nat (length blob) :: u64) @
                   '' not equal to blob size '' @ to_string (bh_size handle)) '''', rec, [])
      else do {
        (s, decoder, blob) \<leftarrow> BlobDecoder_DecodeHeader C (new_BlobDecoder L) blob;
        if \<not> IsOk s then Some (s, rec, [])
        else do {
          (s, rec', blob', buffer) \<leftarrow> BlobDecoder_DecodeRecord nd C L decoder blob rec blob;
          Some (s, rec', buffer)
        }
      })"

text \<open>
  The blob cache maps keys to the uncompressed payload. The second result is the cache
  afterwards.
\<close>

definition BlobFileReader_Get ::
    "bool \<Rightarrow> coding \<Rightarrow> codec \<Rightarrow> 'f rfile \<Rightarrow> ('c, bytes) cache_ops \<Rightarrow> 'f BlobFileReader \<Rightarrow> BlobHandle
     \<Rightarrow> BlobRecord \<Rightarrow> 'c \<Rightarrow> (status \<times> BlobRecord \<times> 'c) option" where
  "BlobFileReader_Get nd C L F K rd handle rec c =
     (case br_cache_prefix rd of
        None \<Rightarrow> do {
          (s, rec', blob) \<leftarrow> BlobFileReader_ReadRecord nd C L F rd handle rec;
          Some (s, rec', c)
        }
      | Some prefix \<Rightarrow>
          let cache_key = EncodeBlobCache C prefix (bh_offset handle) in
          (case c_Lookup K c cache_key of
             (Some blob, c1) \<Rightarrow>
               let (s, rec') = DecodeInto (BlobRecord_DecodeFrom C) blob rec in Some (s, rec', c1)
           | (None, c1) \<Rightarrow> do {
               (s, rec', blob) \<leftarrow> BlobFileReader_ReadRecord nd C L F rd handle rec;
               if \<not> IsOk s then Some (s, rec', c1)
               else Some (OK, rec', c_Insert K c1 cache_key blob)
             }))"

section \<open>Readahead\<close>

record 'f BlobFilePrefetcher =
  pf_reader :: "'f BlobFileReader"
  pf_last_offset :: u64
  pf_readahead_size :: u64
  pf_readahead_limit :: u64
  pf_only_value :: bool

definition new_BlobFilePrefetcher :: "'f BlobFileReader \<Rightarrow> bool \<Rightarrow> 'f BlobFilePrefetcher" where
  "new_BlobFilePrefetcher rd ov =
     \<lparr>pf_reader = rd, pf_last_offset = 0, pf_readahead_size = 0, pf_readahead_limit = 0,
      pf_only_value = ov\<rparr>"

definition prefetch_file :: "'f rfile \<Rightarrow> u64 \<Rightarrow> u64 \<Rightarrow> 'f BlobFilePrefetcher \<Rightarrow> 'f BlobFilePrefetcher" where
  "prefetch_file F off n p =
     p\<lparr>pf_reader := (pf_reader p)\<lparr>br_file := rf_Prefetch F (br_file (pf_reader p)) off n\<rparr>\<rparr>"

definition BlobFilePrefetcher_Prefetch ::
    "'f rfile \<Rightarrow> BlobHandle \<Rightarrow> 'f BlobFilePrefetcher \<Rightarrow> 'f BlobFilePrefetcher" where
  "BlobFilePrefetcher_Prefetch F handle p = prefetch_file F (bh_offset handle) (bh_size handle) p"

definition BlobFilePrefetcher_PointGet ::
    "bool \<Rightarrow> coding \<Rightarrow> codec \<Rightarrow> 'f rfile \<Rightarrow> ('c, bytes) cache_ops \<Rightarrow> BlobHandle \<Rightarrow> BlobRecord
     \<Rightarrow> 'f BlobFilePrefetcher \<Rightarrow> 'c \<Rightarrow> (status \<times> BlobRecord \<times> 'c) option" where
  "BlobFilePrefetcher_PointGet nd C L F K handle rec p c =
     BlobFileReader_Get nd C L F K (pf_reader p) handle (rec\<lparr>only_value := pf_only_value p\<rparr>) c"

text \<open>\<open>64 << 10\<close>.\<close>

definition pf_kMaxReadaheadSize :: u64 where
  "pf_kMaxReadaheadSize = 65536"

definition advance_readahead :: "'f rfile \<Rightarrow> BlobHandle \<Rightarrow> 'f BlobFilePrefetcher \<Rightarrow> 'f BlobFilePrefetcher" where
  "advance_readahead F handle p =
     (let end_off = bh_offset handle + bh_size handle in
      if bh_offset handle = pf_last_offset p
      then (let p = p\<lparr>pf_last_offset := end_off\<rparr> in
            if end_off > pf_readahead_limit p
            then (let n = max (bh_size handle) (pf_readahead_size p);
                      p = prefetch_file F (bh_offset handle) n p
                  in p\<lparr>pf_readahead_limit := bh_offset handle + n,
                       pf_readahead_size := min pf_kMaxReadaheadSize (n * 2)\<rparr>)
            else p)
      else p\<lparr>pf_last_offset := end_off, pf_readahead_size := 0, pf_readahead_limit := 0\<rparr>)"

definition BlobFilePrefetcher_Get ::
    "bool \<Rightarrow> coding \<Rightarrow> codec \<Rightarrow> 'f rfile \<Rightarrow> ('c, bytes) cache_ops \<Rightarrow> BlobHandle \<Rightarrow> BlobRecord
     \<Rightarrow> 'f BlobFilePrefetcher \<Rightarrow> 'c \<Rightarrow> (status \<times> BlobRecord \<times> 'f BlobFilePrefetcher \<times> 'c) option" where
  "BlobFilePrefetcher_Get nd C L F K handle rec p c = do {
     let rec = rec\<lparr>only_value := pf_only_value p\<rparr>;
     let p = advance_readahead F handle p;
     (s, rec', c') \<leftarrow> BlobFileReader_Get nd C L F K (pf_reader p) handle rec c;
     Some (s, rec', p, c')
   }"

section \<open>The cache of open readers\<close>

text \<open>
  \<open>EncodeFileNumber\<close> is the eight bytes of the number in memory, least significant
  first. A reader is handed out by value; its file does not change by being read.
\<close>

definition EncodeFileNumber :: "u64 \<Rightarrow> bytes" where
  "EncodeFileNumber n = enc_fixed 8 (unat n)"

definition BlobFileCache_FindFile ::
    "coding \<Rightarrow> 'f rfile \<Rightarrow> ('k, 'f BlobFileReader) cache_ops \<Rightarrow> TitanCFOptions \<Rightarrow> ('f \<Rightarrow> bytes) \<Rightarrow> u64
     \<Rightarrow> (u64 \<Rightarrow> status + 'f) \<Rightarrow> u64 \<Rightarrow> u64 \<Rightarrow> 'k \<Rightarrow> (status \<times> 'f BlobFileReader option \<times> 'k) option" where
  "BlobFileCache_FindFile C F R opts unique_id new_id env file_no fsize k =
     (let cache_key = EncodeFileNumber file_no in
      case c_Lookup R k cache_key of
        (Some rd, k1) \<Rightarrow> Some (OK, Some rd, k1)
      | (None, k1) \<Rightarrow>
          (case env file_no of
             Inl s \<Rightarrow> Some (s, None, k1)
           | Inr f \<Rightarrow> do {
               (s, reader) \<leftarrow> BlobFileReader_Open C F opts unique_id new_id f fsize;
               if \<not> IsOk s then Some (s, None, k1)
               else do {
                 rd \<leftarrow> reader;
                 Some (s, Some rd, c_Insert R k1 cache_key rd)
               }
             }))"

definition BlobFileCache_Get ::
    "bool \<Rightarrow> coding \<Rightarrow> codec \<Rightarrow> 'f rfile \<Rightarrow> ('c, bytes) cache_ops \<Rightarrow> ('k, 'f BlobFileReader) cache_ops
     \<Rightarrow> TitanCFOptions \<Rightarrow> ('f \<Rightarrow> bytes) \<Rightarrow> u64 \<Rightarrow> (u64 \<Rightarrow> status + 'f) \<Rightarrow> u64 \<Rightarrow> u64 \<Rightarrow> BlobHandle
     \<Rightarrow> BlobRecord \<Rightarrow> 'k \<Rightarrow> 'c \<Rightarrow> (status \<times> BlobRecord \<times> 'k \<times> 'c) option" where
  "BlobFileCache_Get nd C L F K R opts unique_id new_id env file_no fsize handle rec k c = do {
     (s, reader, k1) \<leftarrow> BlobFileCache_FindFile C F R opts unique_id new_id env file_no fsize k;
     if \<not> IsOk s then Some (s, rec, k1, c)
     else do {
       rd \<leftarrow> reader;
       (s, rec', c1) \<leftarrow> BlobFileReader_Get nd C L F K rd handle rec c;
       Some (s, rec', k1, c1)
     }
   }"

definition BlobFileCache_NewPrefetcher ::
    "coding \<Rightarrow> 'f rfile \<Rightarrow> ('k, 'f BlobFileReader) cache_ops \<Rightarrow> TitanCFOptions \<Rightarrow> ('f \<Rightarrow> bytes) \<Rightarrow> u64
     \<Rightarrow> (u64 \<Rightarrow> status + 'f) \<Rightarrow> u64 \<Rightarrow> u64 \<Rightarrow> bool \<Rightarrow> 'k \<Rightarrow> (status \<times> 'f BlobFilePrefetcher option \<times> 'k) option" where
  "BlobFileCache_NewPrefetcher C F R opts unique_id new_id env file_no fsize sorted_blob k = do {
     (s, reader, k1) \<leftarrow> BlobFileCache_FindFile C F R opts unique_id new_id env file_no fsize k;
     if \<not> IsOk s then Some (s, None, k1)
     else do {
       rd \<leftarrow> reader;
       Some (s, Some (new_BlobFilePrefetcher rd sorted_blob), k1)
     }
   }"

definition BlobFileCache_Evict :: "('k, 'f BlobFileReader) cache_ops \<Rightarrow> u64 \<Rightarrow> 'k \<Rightarrow> 'k" where
  "BlobFileCache_Evict R file_no k = c_Erase R k (EncodeFileNumber file_no)"

section \<open>Reading what was built\<close>

definition storable :: "coding \<Rightarrow> BlobRecord \<Rightarrow> bool" where
  "storable C r = (record_fits r \<and> length (BlobRecord_EncodeTo C r) < 2 ^ 32 - 1)"

text \<open>The record \<open>r\<close> is found in the file under the handle \<open>h\<close>.\<close>

definition record_at ::
    "bool \<Rightarrow> coding \<Rightarrow> codec \<Rightarrow> byte \<Rightarrow> bytes \<Rightarrow> BlobHandle \<Rightarrow> BlobRecord \<Rightarrow> bool" where
  "record_at nd C L ty file h r =
     (storable C r \<and> length file < 2 ^ 64 \<and>
      (\<exists>pre post. file = pre @ record_bytes nd C L ty r @ post
         \<and> h = \<lparr>bh_offset = of_nat (length pre), bh_size = of_nat (length (record_bytes nd C L ty r))\<rparr>))"

lemma record_at_image:
  assumes "i < length rs" and "storable C (rs ! i)" and "length (file_image nd C L ty rs) < 2 ^ 64"
    and "length (BlobFileHeader_EncodeTo C new_BlobFileHeader) = 8"
  shows "record_at nd C L ty (file_image nd C L ty rs)
           (handles_from 8 (map (record_bytes nd C L ty) rs) ! i) (rs ! i)"
proof -
  let ?xs = "map (record_bytes nd C L ty) rs"
  have split: "concat ?xs = concat (take i ?xs) @ ?xs ! i @ concat (drop (Suc i) ?xs)"
    using id_take_nth_drop [of i ?xs] assms(1) by (metis concat.simps(2) concat_append length_map)
  show ?thesis
    unfolding record_at_def
  proof (intro conjI exI)
    show "file_image nd C L ty rs =
        (BlobFileHeader_EncodeTo C new_BlobFileHeader @ concat (take i ?xs)) @
        record_bytes nd C L ty (rs ! i) @
        (concat (drop (Suc i) ?xs) @ BlobFileFooter_EncodeTo C new_BlobFileFooter)"
      using split assms(1) by (simp add: file_image_def)
    show "handles_from 8 ?xs ! i =
        \<lparr>bh_offset = of_nat (length (BlobFileHeader_EncodeTo C new_BlobFileHeader @ concat (take i ?xs))),
         bh_size = of_nat (length (record_bytes nd C L ty (rs ! i)))\<rparr>"
      using assms by (simp add: handles_from_nth)
  qed (use assms in auto)
qed

locale blob_reading = record_format C L + rfile_laws F data
  for C :: coding and L :: codec and F :: "'f rfile" and data :: "'f \<Rightarrow> bytes"
begin

lemma record_encoded:
  assumes "storable C r"
  obtains hdr pl where "BlobEncoder_EncodeRecord nd C L ty r = Some (hdr, pl)"
    "record_bytes nd C L ty r = hdr @ pl" "length pl < 2 ^ 32" "length hdr = 9"
proof -
  obtain hdr pl where e: "BlobEncoder_EncodeRecord nd C L ty r = Some (hdr, pl)"
    using assms by (metis encode_defined storable_def)
  have "pl = fst (Compress L ty (BlobRecord_EncodeTo C r))"
    using e by (auto simp: BlobEncoder_EncodeRecord_def Let_def case_prod_beta exec_simps)
  then have "length pl < 2 ^ 32"
    using Compress_length [of ty "BlobRecord_EncodeTo C r"] assms by (simp add: storable_def)
  with e that encode_header(1) [OF e this] show ?thesis
    by (auto simp: record_bytes_def kRecordHeaderSize_def)
qed

lemma read_record_at:
  assumes "record_at nd C L ty (data (br_file rd)) h r" and "only_value rec = only_value r"
  shows "BlobFileReader_ReadRecord nd' C L F rd h rec
         = Some (OK, record_seen r rec, BlobRecord_EncodeTo C r)"
proof -
  obtain pre post where st: "storable C r" and len: "length (data (br_file rd)) < 2 ^ 64"
    and d: "data (br_file rd) = pre @ record_bytes nd C L ty r @ post"
    and h: "h = \<lparr>bh_offset = of_nat (length pre), bh_size = of_nat (length (record_bytes nd C L ty r))\<rparr>"
    using assms(1) by (auto simp: record_at_def)
  obtain hdr pl where e: "BlobEncoder_EncodeRecord nd C L ty r = Some (hdr, pl)"
    "record_bytes nd C L ty r = hdr @ pl" "length pl < 2 ^ 32"
    using record_encoded [OF st] by metis
  have fits: "record_fits r" using st by (simp add: storable_def)
  obtain d' where d': "BlobDecoder_DecodeHeader C (new_BlobDecoder L) (hdr @ pl) = Some (OK, d', pl)"
      "\<And>nd' buf s. BlobDecoder_DecodeRecord nd' C L d' (pl @ s) rec buf
           = Some (OK, record_seen r rec, s, owned_buffer d' r buf)"
      "owned_buffer d' r pl = BlobRecord_EncodeTo C r"
    using record_roundtrip [OF e(1,3) fits assms(2)] by metis
  have rd: "rf_Read F (br_file rd) (bh_offset h) (bh_size h) = (OK, hdr @ pl)"
    using read_part [OF d len] e(2) h by simp
  have sz: "bh_size h = of_nat (length (hdr @ pl))" using h e(2) by simp
  show ?thesis
    using d'(2) [of nd' "[]" pl] d'(3)
    by (simp add: BlobFileReader_ReadRecord_def rd d'(1)) (simp add: sz)
qed

lemma open_image:
  assumes "data f = file_image nd C L ty rs" and "length (data f) < 2 ^ 64"
  shows "BlobFileReader_Open C F opts uid nid f (of_nat (length (data f)))
         = Some (OK, Some (new_BlobFileReader C opts uid nid f))"
proof -
  let ?foot = "BlobFileFooter_EncodeTo C new_BlobFileFooter"
  obtain pre where d: "data f = pre @ ?foot @ []" using assms(1) by (auto simp: file_image_def)
  then have n: "length (data f) = length pre + kBlobFooterSize C" by simp
  have off: "(of_nat (length (data f)) :: u64) - of_nat (kBlobFooterSize C) = of_nat (length pre)"
    by (simp add: n)
  have big: "\<not> (of_nat (length (data f)) :: u64) < of_nat (kBlobFooterSize C)"
  proof -
    have "unat (of_nat (length (data f)) :: u64) = length (data f)"
      "unat (of_nat (kBlobFooterSize C) :: u64) = kBlobFooterSize C"
      using assms(2) n by (simp_all only: unat_of_nat) simp_all
    with n show ?thesis by (simp only: word_less_nat_alt)
  qed
  have rd: "rf_Read F f (of_nat (length pre)) (of_nat (kBlobFooterSize C)) = (OK, ?foot)"
    using read_part [OF d assms(2)] by simp
  show ?thesis
    using footer_roundtrip [of new_BlobFileFooter new_BlobFileFooter "[]"] big
    by (simp add: BlobFileReader_Open_def off rd new_BlobFileReader_def)
qed

end

section \<open>Caches do not change what is read\<close>

text \<open>
  A blob cache is coherent with a file when every payload it holds for an offset of the
  file is that of the record stored there; a reader cache, when every reader it holds
  for a file number reads the file of that number.
\<close>

definition coherent ::
    "coding \<Rightarrow> ('c \<Rightarrow> bytes \<rightharpoonup> bytes) \<Rightarrow> bytes \<Rightarrow> (u64 \<rightharpoonup> BlobRecord) \<Rightarrow> 'c \<Rightarrow> bool" where
  "coherent C entries prefix stored c =
     (\<forall>off b. entries c (EncodeBlobCache C prefix off) = Some b \<longrightarrow>
        (\<exists>r. stored off = Some r \<and> b = BlobRecord_EncodeTo C r))"

definition readers_ok ::
    "('f \<Rightarrow> bytes) \<Rightarrow> ('k \<Rightarrow> bytes \<rightharpoonup> 'f BlobFileReader) \<Rightarrow> (u64 \<Rightarrow> status + 'f) \<Rightarrow> 'k \<Rightarrow> bool" where
  "readers_ok data entries env k =
     (\<forall>n rd. entries k (EncodeFileNumber n) = Some rd \<longrightarrow>
        br_cache_prefix rd = None \<and> (\<exists>f. env n = Inr f \<and> data (br_file rd) = data f))"

lemma EncodeFileNumber_inj: "EncodeFileNumber a = EncodeFileNumber b \<longleftrightarrow> a = b"
proof
  assume "EncodeFileNumber a = EncodeFileNumber b"
  then have "(of_dec (dec_fixed 8 (enc_fixed 8 (unat a) @ [])) :: (u64 \<times> bytes) option)
      = of_dec (dec_fixed 8 (enc_fixed 8 (unat b) @ []))"
    by (simp only: EncodeFileNumber_def)
  then show "a = b" by (simp only: of_dec_fixed_u64) simp
qed simp

lemma EncodeBlobCache_inj:
  assumes "coding_laws C"
  shows "EncodeBlobCache C p a = EncodeBlobCache C p b \<longleftrightarrow> a = b"
  using coding_laws.varint64_end [OF assms]
  by (auto simp: EncodeBlobCache_def) (metis option.inject prod.inject)

locale cached_reading = blob_reading C L F data + blobs: cache_laws K entries
  for C :: coding and L :: codec and F :: "'f rfile" and data :: "'f \<Rightarrow> bytes"
    and K :: "('c, bytes) cache_ops" and entries :: "'c \<Rightarrow> bytes \<rightharpoonup> bytes"
begin

lemma get_uncached:
  assumes "br_cache_prefix rd = None"
    and "record_at nd C L ty (data (br_file rd)) h r" and "only_value rec = only_value r"
  shows "BlobFileReader_Get nd' C L F K rd h rec c = Some (OK, record_seen r rec, c)"
  using assms(1) read_record_at [OF assms(2,3)] by (simp add: BlobFileReader_Get_def)

lemma get_cached:
  assumes p: "br_cache_prefix rd = Some p"
    and "record_at nd C L ty (data (br_file rd)) h r" and "only_value rec = only_value r"
    and st: "stored (bh_offset h) = Some r" and co: "coherent C entries p stored c"
  shows "\<exists>c'. BlobFileReader_Get nd' C L F K rd h rec c = Some (OK, record_seen r rec, c')
            \<and> coherent C entries p stored c'"
proof -
  let ?k = "EncodeBlobCache C p (bh_offset h)"
  have fits: "record_fits r" using assms(2) by (simp add: record_at_def storable_def)
  obtain res c1 where l: "c_Lookup K c ?k = (res, c1)" by fastforce
  have co1: "coherent C entries p stored c1"
    using co blobs.lookup_keeps [OF l] by (auto simp: coherent_def)
  show ?thesis
  proof (cases res)
    case (Some b)
    with l co st blobs.lookup_hit have "b = BlobRecord_EncodeTo C r"
      by (fastforce simp: coherent_def)
    with l Some p co1 record_into [OF fits assms(3)] show ?thesis
      by (simp add: BlobFileReader_Get_def)
  next
    case None
    have "coherent C entries p stored (c_Insert K c1 ?k (BlobRecord_EncodeTo C r))"
      unfolding coherent_def
    proof (intro allI impI)
      fix off b
      assume e: "entries (c_Insert K c1 ?k (BlobRecord_EncodeTo C r)) (EncodeBlobCache C p off) = Some b"
      from blobs.insert_keeps [OF e] co1 st show "\<exists>r. stored off = Some r \<and> b = BlobRecord_EncodeTo C r"
        by (auto simp: coherent_def EncodeBlobCache_inj [OF coding_laws_axioms])
    qed
    with l None p read_record_at [OF assms(2,3)] show ?thesis
      by (simp add: BlobFileReader_Get_def)
  qed
qed

lemma prefetcher_same_file:
  "data (br_file (pf_reader (advance_readahead F h p))) = data (br_file (pf_reader p))
   \<and> br_cache_prefix (pf_reader (advance_readahead F h p)) = br_cache_prefix (pf_reader p)
   \<and> pf_only_value (advance_readahead F h p) = pf_only_value p"
  by (simp add: advance_readahead_def prefetch_file_def Let_def)

lemma prefetched_get:
  assumes "br_cache_prefix (pf_reader p) = None"
    and "record_at nd C L ty (data (br_file (pf_reader p))) h r" and "pf_only_value p = only_value r"
  shows "\<exists>p'. BlobFilePrefetcher_Get nd' C L F K h rec p c
            = Some (OK, record_seen r (rec\<lparr>only_value := only_value r\<rparr>), p', c)
          \<and> data (br_file (pf_reader p')) = data (br_file (pf_reader p))
          \<and> br_cache_prefix (pf_reader p') = None \<and> pf_only_value p' = pf_only_value p"
  using get_uncached [of "pf_reader (advance_readahead F h p)" nd ty h r "rec\<lparr>only_value := only_value r\<rparr>"]
    prefetcher_same_file [of h p] assms
  by (simp add: BlobFilePrefetcher_Get_def)

end

locale reader_caching = cached_reading C L F data K entries + readers: cache_laws R rentries
  for C :: coding and L :: codec and F :: "'f rfile" and data :: "'f \<Rightarrow> bytes"
    and K :: "('c, bytes) cache_ops" and entries :: "'c \<Rightarrow> bytes \<rightharpoonup> bytes"
    and R :: "('k, 'f BlobFileReader) cache_ops" and rentries :: "'k \<Rightarrow> bytes \<rightharpoonup> 'f BlobFileReader"
begin

lemma find_file:
  assumes env: "env n = Inr f" and img: "data f = file_image nd C L ty rs"
    and len: "length (data f) < 2 ^ 64" and nc: "blob_cache opts = None"
    and ok: "readers_ok data rentries env k"
  shows "\<exists>rd k'. BlobFileCache_FindFile C F R opts uid nid env n (of_nat (length (data f))) k = Some (OK, Some rd, k')
            \<and> data (br_file rd) = data f \<and> br_cache_prefix rd = None \<and> readers_ok data rentries env k'"
proof -
  obtain res k1 where l: "c_Lookup R k (EncodeFileNumber n) = (res, k1)" by fastforce
  have ok1: "readers_ok data rentries env k1"
    using ok readers.lookup_keeps [OF l] by (auto simp: readers_ok_def)
  show ?thesis
  proof (cases res)
    case (Some rd)
    with l readers.lookup_hit have "rentries k (EncodeFileNumber n) = Some rd" by blast
    with ok env have "br_cache_prefix rd = None" "data (br_file rd) = data f"
      by (fastforce simp: readers_ok_def)+
    with l Some ok1 show ?thesis by (simp add: BlobFileCache_FindFile_def)
  next
    case None
    let ?rd = "new_BlobFileReader C opts uid nid f"
    have rd: "br_cache_prefix ?rd = None" "br_file ?rd = f"
      using nc by (simp_all add: new_BlobFileReader_def)
    have "readers_ok data rentries env (c_Insert R k1 (EncodeFileNumber n) ?rd)"
      unfolding readers_ok_def
    proof (intro allI impI)
      fix m rd'
      assume e: "rentries (c_Insert R k1 (EncodeFileNumber n) ?rd) (EncodeFileNumber m) = Some rd'"
      from readers.insert_keeps [OF e] ok1 env rd
      show "br_cache_prefix rd' = None \<and> (\<exists>f. env m = Inr f \<and> data (br_file rd') = data f)"
        by (auto simp: readers_ok_def EncodeFileNumber_inj)
    qed
    with l None env rd open_image [OF img len] show ?thesis
      by (simp add: BlobFileCache_FindFile_def)
  qed
qed

lemma file_cache_get:
  assumes "env n = Inr f" and img: "data f = file_image nd C L ty rs"
    and "length (data f) < 2 ^ 64" and "blob_cache opts = None"
    and "readers_ok data rentries env k"
    and at: "record_at nd C L ty (data f) h r" and ov: "only_value rec = only_value r"
  shows "\<exists>k'. BlobFileCache_Get nd' C L F K R opts uid nid env n (of_nat (length (data f))) h rec k c
            = Some (OK, record_seen r rec, k', c) \<and> readers_ok data rentries env k'"
proof -
  obtain rd k' where fd: "BlobFileCache_FindFile C F R opts uid nid env n (of_nat (length (data f))) k = Some (OK, Some rd, k')"
      "data (br_file rd) = data f" "br_cache_prefix rd = None" "readers_ok data rentries env k'"
    using find_file [OF assms(1-5)] by blast
  from at fd(2) have "record_at nd C L ty (data (br_file rd)) h r" by simp
  from get_uncached [OF fd(3) this ov] fd(1,4) show ?thesis
    by (simp add: BlobFileCache_Get_def)
qed

end

lemma reader_cachingI:
  "coding_laws C \<Longrightarrow> codec_laws L \<Longrightarrow> rfile_laws F data \<Longrightarrow> cache_laws K entries \<Longrightarrow> cache_laws R rentries \<Longrightarrow>
   reader_caching C L F data K entries R rentries"
  by (simp add: reader_caching_def cached_reading_def blob_reading_def record_format_def)

interpretation mem_read: reader_caching leb128 rle_codec mem_rfile "\<lambda>f. f"
    one_cache one_entries one_cache one_entries
  by (rule reader_cachingI [OF coding_laws_leb128 codec_laws_rle rfile_laws_mem cache_laws_one
        cache_laws_one])

section \<open>Properties\<close>

text \<open>
  C9. Every record added to a blob file whose build succeeded is read back under its
  handle by \<open>BlobFileCache::Get\<close>, whether or not the reader of the file is cached, and
  the reader cache stays consistent with the files.
\<close>

theorem built_record_is_read:
  assumes "coding_laws C" and "codec_laws L" and "wfile_laws W contents"
    and "rfile_laws F data" and "cache_laws K entries" and "cache_laws R rentries"
    and "build_file nd C L W cmp opts rs w = Some (OK, hs, b)" and "contents w = []"
    and "\<forall>r\<in>set rs. storable C r" and "length (contents (bb_file b)) < 2 ^ 64"
    and "env n = Inr f" and "data f = contents (bb_file b)"
    and "readers_ok data rentries env k" and "blob_cache opts = None"
    and "i < length rs" and "only_value rec = only_value (rs ! i)"
  shows "\<exists>k'. BlobFileCache_Get nd' C L F K R opts uid nid env n (wf_GetFileSize W (bb_file b))
              (hs ! i) rec k c = Some (OK, record_seen (rs ! i) rec, k', c)
            \<and> readers_ok data rentries env k'"
proof -
  note rc = reader_cachingI [OF assms(1,2,4-6)]
  have bw: "blob_writing C L W contents" using assms(1-3) by (simp add: blob_writing_def record_format_def)
  let ?ty = "blob_file_compression opts"
  note B = blob_writing.build_ok [OF bw assms(7,8)]
  have len: "length (data f) < 2 ^ 64" and img: "data f = file_image nd C L ?ty rs"
    using assms(10,12) B(1) by simp_all
  have "record_at nd C L ?ty (file_image nd C L ?ty rs)
          (handles_from 8 (map (record_bytes nd C L ?ty) rs) ! i) (rs ! i)"
    using assms(9,15) len img coding_laws.header_length [OF assms(1)]
    by (intro record_at_image) auto
  then have at: "record_at nd C L ?ty (data f) (hs ! i) (rs ! i)" by (simp add: img B(2))
  have sz: "wf_GetFileSize W (bb_file b) = of_nat (length (data f))"
    using wfile_laws.file_size [OF assms(3)] assms(12) by simp
  show ?thesis
    unfolding sz
    by (rule reader_caching.file_cache_get [OF rc assms(11) img len assms(14,13) at assms(16)])
qed

lemma sample_storable: "\<forall>r\<in>set sample_records. storable leb128 r"
  by (simp add: sample_records_def storable_def record_fits_def BlobRecord_EncodeTo_def leb128_def
        enc_varint.simps)

lemma sample_file_length: "length sample_file < 100"
  by code_simp

lemma sample_run:
  obtains hs b where "build_file False leb128 rle_codec mem_wfile bytewise
      (default_TitanCFOptions rle_codec) sample_records (1000, []) = Some (OK, hs, b)"
    "snd (bb_file b) = sample_file"
proof -
  obtain hs b where r: "build_file False leb128 rle_codec mem_wfile bytewise
      (default_TitanCFOptions rle_codec) sample_records (1000, []) = Some (OK, hs, b)"
    using sample_build by auto
  have "blob_file_compression (default_TitanCFOptions rle_codec) = 0"
    by (simp add: default_TitanCFOptions_def rle_codec_def)
  with r mem_build.build_ok(1) [OF r] that show ?thesis by (simp add: sample_file_def)
qed

lemma built_record_is_read_witness:
  "\<exists>hs k' b. BlobFileCache_Get False leb128 rle_codec mem_rfile one_cache one_cache
        (default_TitanCFOptions rle_codec) (\<lambda>f. []) 1 (\<lambda>n. Inr sample_file) 5
        (wf_GetFileSize mem_wfile (b :: nat \<times> bytes)) (hs ! 1) empty_BlobRecord None (None :: (bytes \<times> bytes) option)
      = Some (OK, sample_records ! 1, k', None)"
proof -
  obtain hs b where r: "build_file False leb128 rle_codec mem_wfile bytewise
      (default_TitanCFOptions rle_codec) sample_records (1000, []) = Some (OK, hs, b)"
    "snd (bb_file b) = sample_file" by (rule sample_run)
  have seen: "record_seen (sample_records ! 1) empty_BlobRecord = sample_records ! 1"
    by (simp add: record_seen_def empty_BlobRecord_def sample_records_def)
  have "\<exists>k'. BlobFileCache_Get False leb128 rle_codec mem_rfile one_cache one_cache
        (default_TitanCFOptions rle_codec) (\<lambda>f. []) 1 (\<lambda>n. Inr sample_file) 5
        (wf_GetFileSize mem_wfile (bb_file b)) (hs ! 1) empty_BlobRecord None None
      = Some (OK, record_seen (sample_records ! 1) empty_BlobRecord, k', None)
      \<and> readers_ok (\<lambda>f. f) one_entries (\<lambda>n. Inr sample_file) k'"
    by (rule built_record_is_read [OF coding_laws_leb128 codec_laws_rle wfile_laws_mem rfile_laws_mem
        cache_laws_one cache_laws_one r(1)])
       (use r(2) sample_storable sample_file_length in
         \<open>auto simp: readers_ok_def default_TitanCFOptions_def sample_records_def empty_BlobRecord_def\<close>)
  then show ?thesis unfolding seen by blast
qed

text \<open>
  C10. Reading through a blob cache that is coherent with the file returns the stored
  record, hit or miss, and leaves the cache coherent.
\<close>

theorem blob_cache_is_transparent:
  assumes "coding_laws C" and "codec_laws L" and "rfile_laws F data" and "cache_laws K entries"
    and "br_cache_prefix rd = Some p"
    and "record_at nd C L ty (data (br_file rd)) h r" and "only_value rec = only_value r"
    and "stored (bh_offset h) = Some r" and "coherent C entries p stored c"
  shows "\<exists>c'. BlobFileReader_Get nd' C L F K rd h rec c = Some (OK, record_seen r rec, c')
            \<and> coherent C entries p stored c'"
proof -
  have "cached_reading C L F data K entries"
    using assms(1-4) by (simp add: cached_reading_def blob_reading_def record_format_def)
  from cached_reading.get_cached [OF this assms(5-9)] show ?thesis .
qed

lemma sample_record_at:
  "record_at False leb128 rle_codec 0 sample_file
     (handles_from 8 (map (record_bytes False leb128 rle_codec 0) sample_records) ! 0) (sample_records ! 0)"
  unfolding sample_file_def
  using sample_storable sample_file_length
  by (intro record_at_image) (auto simp: sample_file_def sample_records_def)

lemma blob_cache_is_transparent_witness:
  "\<exists>h c'. BlobFileReader_Get True leb128 rle_codec mem_rfile one_cache
        \<lparr>br_file = sample_file, br_cache_prefix = Some [9], br_footer = new_BlobFileFooter\<rparr> h
        empty_BlobRecord None = Some (OK, sample_records ! 0, c')"
proof -
  let ?h = "handles_from 8 (map (record_bytes False leb128 rle_codec 0) sample_records) ! 0"
  let ?rd = "\<lparr>br_file = sample_file, br_cache_prefix = Some [9], br_footer = new_BlobFileFooter\<rparr>"
  have "\<exists>c'. BlobFileReader_Get True leb128 rle_codec mem_rfile one_cache ?rd ?h empty_BlobRecord None
        = Some (OK, record_seen (sample_records ! 0) empty_BlobRecord, c')
      \<and> coherent leb128 one_entries [9] [bh_offset ?h \<mapsto> sample_records ! 0] c'"
    by (rule blob_cache_is_transparent [OF coding_laws_leb128 codec_laws_rle rfile_laws_mem cache_laws_one])
       (use sample_record_at in \<open>auto simp: coherent_def sample_records_def empty_BlobRecord_def\<close>)
  moreover have "record_seen (sample_records ! 0) empty_BlobRecord = sample_records ! 0"
    by (simp add: record_seen_def empty_BlobRecord_def sample_records_def)
  ultimately show ?thesis by auto
qed

end
