(* ===== verification/Std_Algorithms.thy ===== *)
theory Std_Algorithms
  imports Titan_Prelude "HOL-Library.Multiset"
begin

text \<open>
  \<open>std::sort\<close> with a comparison object. C++ gives it a meaning only when the comparison
  is a strict weak order on the elements, so \<open>std_sort\<close> checks that first. Elements the
  comparison does not tell apart may come out in any order; the model keeps them in place.
\<close>

definition strict_weak :: "('a \<Rightarrow> 'a \<Rightarrow> bool) \<Rightarrow> 'a list \<Rightarrow> bool" where
  "strict_weak lt xs =
     (list_all (\<lambda>x. list_all (\<lambda>y. lt x y \<longrightarrow> \<not> lt y x) xs) xs \<and>
      list_all (\<lambda>x. list_all (\<lambda>y. list_all (\<lambda>z. lt x z \<longrightarrow> lt x y \<or> lt y z) xs) xs) xs)"

fun insert_by :: "('a \<Rightarrow> 'a \<Rightarrow> bool) \<Rightarrow> 'a \<Rightarrow> 'a list \<Rightarrow> 'a list" where
  "insert_by lt x [] = [x]"
| "insert_by lt x (y # ys) = (if lt y x then y # insert_by lt x ys else x # y # ys)"

fun sort_by :: "('a \<Rightarrow> 'a \<Rightarrow> bool) \<Rightarrow> 'a list \<Rightarrow> 'a list" where
  "sort_by lt [] = []"
| "sort_by lt (x # xs) = insert_by lt x (sort_by lt xs)"

definition std_sort :: "('a \<Rightarrow> 'a \<Rightarrow> bool) \<Rightarrow> 'a list \<Rightarrow> 'a list option" where
  "std_sort lt xs = (if strict_weak lt xs then Some (sort_by lt xs) else None)"

abbreviation sorted_by :: "('a \<Rightarrow> 'a \<Rightarrow> bool) \<Rightarrow> 'a list \<Rightarrow> bool" where
  "sorted_by lt xs \<equiv> sorted_wrt (\<lambda>a b. \<not> lt b a) xs"

lemma mset_insert_by [simp]: "mset (insert_by lt x ys) = add_mset x (mset ys)"
  by (induction lt x ys rule: insert_by.induct) auto

lemma mset_sort_by [simp]: "mset (sort_by lt xs) = mset xs"
  by (induction xs) auto

lemma set_insert_by [simp]: "set (insert_by lt x ys) = insert x (set ys)"
  by (metis mset_insert_by set_mset_add_mset_insert set_mset_mset)

lemma set_sort_by [simp]: "set (sort_by lt xs) = set xs"
  by (metis mset_sort_by set_mset_mset)

lemma length_sort_by [simp]: "length (sort_by lt xs) = length xs"
  by (metis mset_sort_by size_mset)

lemma sorted_insert_by:
  assumes asym: "\<And>a b. a \<in> S \<Longrightarrow> b \<in> S \<Longrightarrow> lt a b \<Longrightarrow> \<not> lt b a"
    and trans: "\<And>a b c. a \<in> S \<Longrightarrow> b \<in> S \<Longrightarrow> c \<in> S \<Longrightarrow> lt a c \<Longrightarrow> lt a b \<or> lt b c"
    and "sorted_by lt ys" and "x \<in> S" and "set ys \<subseteq> S"
  shows "sorted_by lt (insert_by lt x ys)"
  using assms(3,5)
proof (induction ys)
  case (Cons y ys)
  show ?case
  proof (cases "lt y x")
    case True
    with Cons asym [of y x] \<open>x \<in> S\<close> show ?thesis by auto
  next
    case False
    have "\<not> lt z x" if "z \<in> set ys" for z
      using that Cons.prems False trans [of z y x] \<open>x \<in> S\<close> by auto
    with Cons.prems False show ?thesis by auto
  qed
qed simp

lemma sorted_sort_by:
  assumes "strict_weak lt xs"
  shows "sorted_by lt (sort_by lt xs)"
proof -
  have asym: "\<And>a b. a \<in> set xs \<Longrightarrow> b \<in> set xs \<Longrightarrow> lt a b \<Longrightarrow> \<not> lt b a"
    and trans: "\<And>a b c. a \<in> set xs \<Longrightarrow> b \<in> set xs \<Longrightarrow> c \<in> set xs \<Longrightarrow> lt a c \<Longrightarrow> lt a b \<or> lt b c"
    using assms by (auto simp: strict_weak_def list_all_iff)
  have "set ys \<subseteq> set xs \<Longrightarrow> sorted_by lt (sort_by lt ys)" for ys
  proof (induction ys)
    case (Cons y ys)
    with sorted_insert_by [of "set xs" lt "sort_by lt ys" y, OF asym trans] show ?case by auto
  qed simp
  then show ?thesis by blast
qed

lemma std_sort_Some:
  assumes "std_sort lt xs = Some ys"
  shows "mset ys = mset xs" and "set ys = set xs" and "length ys = length xs" and "sorted_by lt ys"
  using assms sorted_sort_by by (auto simp: std_sort_def split: if_splits)

lemma strict_weak_key:
  fixes f :: "'a \<Rightarrow> 'k::linorder"
  shows "strict_weak (\<lambda>a b. f a < f b) xs"
  by (auto simp: strict_weak_def list_all_iff)

section \<open>Loops over a state\<close>

text \<open>
  \<open>foldM\<close> is a loop whose body may be undefined; \<open>for_each\<close> is a loop whose body
  returns a status and which returns at the first that is not OK.
\<close>

fun foldM :: "('a \<Rightarrow> 's \<Rightarrow> 's option) \<Rightarrow> 'a list \<Rightarrow> 's \<Rightarrow> 's option" where
  "foldM f [] s = Some s"
| "foldM f (x # xs) s = do { s' \<leftarrow> f x s; foldM f xs s' }"

fun for_each :: "('a \<Rightarrow> 's \<Rightarrow> (status \<times> 's) option) \<Rightarrow> 'a list \<Rightarrow> 's \<Rightarrow> (status \<times> 's) option" where
  "for_each f [] s = Some (OK, s)"
| "for_each f (x # xs) s = do {
     (st, s') \<leftarrow> f x s;
     if IsOk st then for_each f xs s' else Some (st, s')
   }"

lemma foldM_append: "foldM f (xs @ ys) s = Option.bind (foldM f xs s) (foldM f ys)"
  by (induction xs arbitrary: s) (auto split: Option.bind_split)

lemma foldM_inv:
  assumes "foldM f xs s = Some s'" and "P s"
    and "\<And>x s s'. x \<in> set xs \<Longrightarrow> P s \<Longrightarrow> f x s = Some s' \<Longrightarrow> P s'"
  shows "P s'"
  using assms
proof (induction xs arbitrary: s)
  case (Cons x xs)
  obtain s1 where "f x s = Some s1" and "foldM f xs s1 = Some s'"
    using Cons.prems(1) by (auto simp: bind_eq_Some_conv)
  with Cons.IH [of s1] Cons.prems(2,3) show ?case by (metis list.set_intros)
qed simp

lemma for_each_append:
  "for_each f (xs @ ys) s
   = Option.bind (for_each f xs s) (\<lambda>(st, s'). if IsOk st then for_each f ys s' else Some (st, s'))"
proof (induction xs arbitrary: s)
  case (Cons x xs)
  then show ?case by (cases "f x s") auto
qed simp

lemma for_each_inv:
  assumes "for_each f xs s = Some (st, s')" and "P s"
    and "\<And>x s st s'. x \<in> set xs \<Longrightarrow> P s \<Longrightarrow> f x s = Some (st, s') \<Longrightarrow> P s'"
  shows "P s'"
  using assms
proof (induction xs arbitrary: s)
  case (Cons x xs)
  obtain st1 s1 where f: "f x s = Some (st1, s1)"
    and rest: "(if IsOk st1 then for_each f xs s1 else Some (st1, s1)) = Some (st, s')"
    using Cons.prems(1) by (auto simp: bind_eq_Some_conv)
  have "P s1" using Cons.prems(2) Cons.prems(3) [OF _ _ f] by simp
  with rest Cons.IH [of s1] Cons.prems(3) show ?case by (auto split: if_splits)
qed simp

end
