(* ===== verification/Blob_Storage.thy ===== *)
theory Blob_Storage
  imports Blob_File_Reader Std_Algorithms
begin

text \<open>
  \<open>src/blob_storage.h\<close> and \<open>src/blob_storage.cc\<close>: the blob files of one column family.
  The storage owns the metadata objects; the range index, the score list and the list of
  obsolete files refer to a file by its number. The statistics and the cache of open
  readers are shared with other components and are passed in and returned. The timing
  counters and the log lines are left out.
\<close>

section \<open>State\<close>

record GCScore =
  gcs_file_number :: u64
  gcs_score :: dbl

record 'f BlobStorage =
  bs_db_options :: TitanDBOptions
  bs_cf_options :: TitanCFOptions
  bs_num_levels :: nat
  bs_cf_id :: u32
  bs_files :: "(u64 \<times> BlobFileMeta) list"
  bs_building_files :: "(u64 \<times> 'f) list"
  bs_blob_ranges :: "(bytes \<times> u64) list"
  bs_gc_score :: "GCScore list"
  bs_obsolete_files :: "(u64 \<times> u64) list"
  bs_destroyed :: bool
  bs_level_blob_size :: "u64 list"

definition new_BlobStorage :: "TitanDBOptions \<Rightarrow> TitanCFOptions \<Rightarrow> nat \<Rightarrow> u32 \<Rightarrow> 'f BlobStorage" where
  "new_BlobStorage db_options cf_options num_levels cf_id =
     \<lparr>bs_db_options = db_options, bs_cf_options = cf_options, bs_num_levels = num_levels,
      bs_cf_id = cf_id, bs_files = [], bs_building_files = [], bs_blob_ranges = [],
      bs_gc_score = [], bs_obsolete_files = [], bs_destroyed = False,
      bs_level_blob_size = replicate (num_levels + 1) 0\<rparr>"

text \<open>The copy constructor leaves the indexes and the level sizes of the copy empty.\<close>

definition copy_BlobStorage :: "'f BlobStorage \<Rightarrow> 'f BlobStorage" where
  "copy_BlobStorage bs =
     bs\<lparr>bs_building_files := [], bs_blob_ranges := [], bs_gc_score := [], bs_obsolete_files := [],
        bs_destroyed := False, bs_level_blob_size := []\<rparr>"

definition destroy_BlobStorage ::
    "('k, 'f BlobFileReader) cache_ops \<Rightarrow> 'f BlobStorage \<Rightarrow> 'k \<Rightarrow> 'k" where
  "destroy_BlobStorage R bs k =
     fold (\<lambda>p k. BlobFileCache_Evict R (file_number (snd p)) k) (bs_files bs) k"

definition MarkDestroyed :: "'f BlobStorage \<Rightarrow> 'f BlobStorage" where
  "MarkDestroyed bs = bs\<lparr>bs_destroyed := True\<rparr>"

definition MaybeRemove :: "'f BlobStorage \<Rightarrow> bool" where
  "MaybeRemove bs = (bs_destroyed bs \<and> bs_obsolete_files bs = [])"

definition NumBlobFiles :: "'f BlobStorage \<Rightarrow> nat" where
  "NumBlobFiles bs = length (bs_files bs)"

definition NumObsoleteBlobFiles :: "'f BlobStorage \<Rightarrow> nat" where
  "NumObsoleteBlobFiles bs = length (bs_obsolete_files bs)"

section \<open>Finding and reading files\<close>

definition FindFile :: "bool \<Rightarrow> u64 \<Rightarrow> 'f BlobStorage \<Rightarrow> BlobFileMeta option option" where
  "FindFile nd n bs =
     (case map_of (bs_files bs) n of
        Some m \<Rightarrow> do { cpp_assert nd (n = file_number m); Some (Some m) }
      | None \<Rightarrow> Some None)"

definition FindBuildingFile :: "u64 \<Rightarrow> 'f BlobStorage \<Rightarrow> 'f option" where
  "FindBuildingFile n bs = map_of (bs_building_files bs) n"

definition ExportBlobFiles ::
    "'f BlobStorage \<Rightarrow> (u64 \<times> BlobFileMeta) list \<Rightarrow> (u64 \<times> BlobFileMeta) list" where
  "ExportBlobFiles bs ret = fold (\<lambda>kv r. omap_emplace (fst kv) (snd kv) r) (bs_files bs) ret"

text \<open>
  The record read from a file still being built points into a buffer that is local to the
  function, so its slices dangle once the function returns; the flag in the result says
  whether the memory behind the record is still there.
\<close>

definition ReadBuildingFile ::
    "bool \<Rightarrow> coding \<Rightarrow> codec \<Rightarrow> 'f rfile \<Rightarrow> BlobIndex \<Rightarrow> BlobRecord \<Rightarrow> 'f BlobStorage
     \<Rightarrow> (status \<times> BlobRecord \<times> bool) option" where
  "ReadBuildingFile nd C L F index rec bs =
     (case FindBuildingFile (bi_file_number index) bs of
        None \<Rightarrow> Some (Corruption (''File '' @ to_string (bi_file_number index) @ '' not exist'') '''', rec, True)
      | Some reader \<Rightarrow>
          (let (s, blob) = rf_Read F reader (bh_offset (bi_blob_handle index)) (bh_size (bi_blob_handle index)) in
           if \<not> IsOk s then Some (s, rec, True)
           else if bh_size (bi_blob_handle index) \<noteq> of_nat (length blob)
           then Some (Corruption (''ReadRecord actual size: '' @ to_string (of_nat (length blob) :: u64) @
                        '' not equal to blob size '' @ to_string (bh_size (bi_blob_handle index))) '''', rec, True)
           else do {
             (s, decoder, blob) \<leftarrow> BlobDecoder_DecodeHeader C (new_BlobDecoder L) blob;
             if \<not> IsOk s then Some (s, rec, True)
             else do {
               (s, rec', blob', buffer) \<leftarrow> BlobDecoder_DecodeRecord nd C L decoder blob rec blob;
               Some (s, rec', False)
             }
           }))"

definition BlobStorage_Get ::
    "bool \<Rightarrow> coding \<Rightarrow> codec \<Rightarrow> 'f rfile \<Rightarrow> ('c, bytes) cache_ops \<Rightarrow> ('k, 'f BlobFileReader) cache_ops
     \<Rightarrow> ('f \<Rightarrow> bytes) \<Rightarrow> u64 \<Rightarrow> (u64 \<Rightarrow> status + 'f) \<Rightarrow> BlobIndex \<Rightarrow> BlobRecord \<Rightarrow> 'f BlobStorage
     \<Rightarrow> 'k \<Rightarrow> 'c \<Rightarrow> (status \<times> BlobRecord \<times> bool \<times> 'k \<times> 'c) option" where
  "BlobStorage_Get nd C L F K R unique_id new_id env index rec bs k c = do {
     sfile \<leftarrow> FindFile nd (bi_file_number index) bs;
     case sfile of
       None \<Rightarrow>
         if sep_before_flush (bs_db_options bs)
         then do {
           (s, rec', alive) \<leftarrow> ReadBuildingFile nd C L F index rec bs;
           Some (s, rec', alive, k, c)
         }
         else Some (Corruption (''Missing blob file: '' @ to_string (bi_file_number index)) '''', rec, True, k, c)
     | Some m \<Rightarrow> do {
         let rec1 = rec\<lparr>only_value := (level_merge (bs_cf_options bs) \<and> file_type m = kSorted)\<rparr>;
         (s, rec', k', c') \<leftarrow> BlobFileCache_Get nd C L F K R (bs_cf_options bs) unique_id new_id env
             (file_number m) (file_size m) (bi_blob_handle index) rec1 k c;
         Some (s, rec', True, k', c')
       }
   }"

definition BlobStorage_NewPrefetcher ::
    "bool \<Rightarrow> coding \<Rightarrow> 'f rfile \<Rightarrow> ('k, 'f BlobFileReader) cache_ops \<Rightarrow> ('f \<Rightarrow> bytes) \<Rightarrow> u64
     \<Rightarrow> (u64 \<Rightarrow> status + 'f) \<Rightarrow> u64 \<Rightarrow> 'f BlobStorage \<Rightarrow> 'k
     \<Rightarrow> (status \<times> 'f BlobFilePrefetcher option \<times> 'k) option" where
  "BlobStorage_NewPrefetcher nd C F R unique_id new_id env n bs k = do {
     sfile \<leftarrow> FindFile nd n bs;
     case sfile of
       None \<Rightarrow> Some (Corruption (''Missing blob wfile: '' @ to_string n) '''', None, k)
     | Some m \<Rightarrow>
         BlobFileCache_NewPrefetcher C F R (bs_cf_options bs) unique_id new_id env
           (file_number m) (file_size m)
           (file_type m = kSorted \<and> level_merge (bs_cf_options bs)) k
   }"

section \<open>Level sizes\<close>

definition level_fetch_add :: "nat \<Rightarrow> u64 \<Rightarrow> u64 list \<Rightarrow> u64 list option" where
  "level_fetch_add i v xs = (if i < length xs then Some (xs[i := xs ! i + v]) else None)"

fun sum_levels :: "nat list \<Rightarrow> u64 list \<Rightarrow> u64 option" where
  "sum_levels [] xs = Some 0"
| "sum_levels (i # is) xs =
     (if i < length xs then map_option (\<lambda>s. xs ! i + s) (sum_levels is xs) else None)"

text \<open>The threshold is the shift 100 << 30 of the source.\<close>

definition ShouldGCLowLevel :: "'f BlobStorage \<Rightarrow> bool option" where
  "ShouldGCLowLevel bs = do {
     low_size \<leftarrow> sum_levels [0..<bs_num_levels bs - 2] (bs_level_blob_size bs);
     high_size \<leftarrow> sum_levels [bs_num_levels bs - 2..<bs_num_levels bs + 1] (bs_level_blob_size bs);
     Some (high_size > low_size \<and> low_size > 0 \<and> low_size + high_size > 107374182400 \<and>
           (low_size + high_size) div low_size \<le> 10)
   }"

definition file_bucket :: "'f BlobStorage \<Rightarrow> BlobFileMeta \<Rightarrow> nat" where
  "file_bucket bs m = (if file_type m = kSorted then unat (file_level m) else bs_num_levels bs)"

section \<open>The range index\<close>

text \<open>
  The multimap from smallest key to file is a list in the order of the comparator;
  \<open>emplace\<close> inserts behind the entries with an equal key.
\<close>

definition range_emplace :: "comparator \<Rightarrow> bytes \<Rightarrow> u64 \<Rightarrow> (bytes \<times> u64) list \<Rightarrow> (bytes \<times> u64) list" where
  "range_emplace cmp key n rs =
     takeWhile (\<lambda>p. \<not> cmp key (fst p) < 0) rs @ [(key, n)] @ dropWhile (\<lambda>p. \<not> cmp key (fst p) < 0) rs"

fun range_erase :: "comparator \<Rightarrow> bytes \<Rightarrow> u64 \<Rightarrow> (bytes \<times> u64) list \<Rightarrow> (bytes \<times> u64) list" where
  "range_erase cmp key n [] = []"
| "range_erase cmp key n (p # rs) =
     (if \<not> cmp (fst p) key < 0 \<and> \<not> cmp key (fst p) < 0 \<and> snd p = n then rs
      else p # range_erase cmp key n rs)"

definition lower_bound :: "comparator \<Rightarrow> bytes option \<Rightarrow> (bytes \<times> u64) list \<Rightarrow> nat" where
  "lower_bound cmp b rs =
     (case b of None \<Rightarrow> 0 | Some key \<Rightarrow> length (takeWhile (\<lambda>p. cmp (fst p) key < 0) rs))"

definition upper_bound :: "comparator \<Rightarrow> bytes option \<Rightarrow> (bytes \<times> u64) list \<Rightarrow> nat" where
  "upper_bound cmp e rs =
     (case e of None \<Rightarrow> length rs | Some key \<Rightarrow> length (takeWhile (\<lambda>p. \<not> cmp key (fst p) < 0) rs))"

text \<open>
  The body of the loop over the index, for one entry: the numbers it pushes back. Its
  assertion is not reached by the entries it skips.
\<close>

definition in_range_step ::
    "bool \<Rightarrow> comparator \<Rightarrow> bytes option \<Rightarrow> bytes option \<Rightarrow> bool \<Rightarrow> BlobFileMeta \<Rightarrow> u64 list option" where
  "in_range_step nd cmp b e include_end m =
     (if is_obsolete m then Some []
      else if largest_key m = [] \<and> e \<noteq> None then Some []
      else do {
        let hit = (case e of None \<Rightarrow> True
                   | Some limit \<Rightarrow> (include_end \<and> cmp (largest_key m) limit \<le> 0) \<or>
                                  (\<not> include_end \<and> cmp (largest_key m) limit < 0));
        cpp_assert nd (smallest_key m = [] \<or>
          (case b of None \<Rightarrow> True | Some start \<Rightarrow> cmp (smallest_key m) start \<ge> 0));
        Some (if hit then [file_number m] else [])
      })"

fun collect_entries :: "(BlobFileMeta \<Rightarrow> u64 list option) \<Rightarrow> (u64 \<times> BlobFileMeta) list \<Rightarrow> (bytes \<times> u64) list
    \<Rightarrow> u64 list option" where
  "collect_entries f fs [] = Some []"
| "collect_entries f fs (p # ps) = do {
     m \<leftarrow> map_of fs (snd p);
     xs \<leftarrow> f m;
     ys \<leftarrow> collect_entries f fs ps;
     Some (xs @ ys)
   }"

text \<open>
  The loop runs from the lower bound of the start to the upper bound of the limit; from a
  start that lies behind the limit it would run past the end of the index.
\<close>

definition files_in_range ::
    "bool \<Rightarrow> comparator \<Rightarrow> bool \<Rightarrow> 'f BlobStorage \<Rightarrow> bytes option \<times> bytes option \<Rightarrow> u64 list option" where
  "files_in_range nd cmp include_end bs rng =
     (let rs = bs_blob_ranges bs;
          lo = lower_bound cmp (fst rng) rs;
          up = upper_bound cmp (snd rng) rs
      in if up < lo then None
         else collect_entries (in_range_step nd cmp (fst rng) (snd rng) include_end) (bs_files bs)
                (take (up - lo) (drop lo rs)))"

fun GetBlobFilesInRanges ::
    "bool \<Rightarrow> comparator \<Rightarrow> (bytes option \<times> bytes option) list \<Rightarrow> bool \<Rightarrow> 'f BlobStorage \<Rightarrow> u64 list
     \<Rightarrow> (status \<times> u64 list) option" where
  "GetBlobFilesInRanges nd cmp [] include_end bs files = Some (OK, files)"
| "GetBlobFilesInRanges nd cmp (rng # ranges) include_end bs files = do {
     xs \<leftarrow> files_in_range nd cmp include_end bs rng;
     GetBlobFilesInRanges nd cmp ranges include_end bs (files @ xs)
   }"

section \<open>Adding, retiring and removing files\<close>

text \<open>
  The metadata of a file that is added lives in \<open>files_\<close> and is shared with the range
  index. A number that is known already is not added a second time by the one caller, and
  the model has no result for it.
\<close>

definition BlobStorage_AddBlobFile ::
    "comparator \<Rightarrow> BlobFileMeta \<Rightarrow> 'f BlobStorage \<Rightarrow> stats_ptr \<Rightarrow> ('f BlobStorage \<times> stats_ptr) option" where
  "BlobStorage_AddBlobFile cmp m bs st =
     (if map_of (bs_files bs) (file_number m) \<noteq> None then None
      else do {
        sizes \<leftarrow> level_fetch_add (file_bucket bs m) (file_size m) (bs_level_blob_size bs);
        let st1 = AddStats (bs_cf_id bs) LIVE_BLOB_FILE_SIZE (file_size m) st;
        let st2 = AddStats (bs_cf_id bs) NUM_LIVE_BLOB_FILE 1 st1;
        Some (bs\<lparr>bs_files := amap_emplace (file_number m) m (bs_files bs),
                 bs_blob_ranges := range_emplace cmp (smallest_key m) (file_number m) (bs_blob_ranges bs),
                 bs_level_blob_size := sizes,
                 bs_building_files :=
                   (if sep_before_flush (bs_db_options bs)
                    then amap_erase (file_number m) (bs_building_files bs) else bs_building_files bs)\<rparr>, st2)
      })"

definition AddBuildingFile :: "(u64 \<Rightarrow> status + 'f) \<Rightarrow> u64 \<Rightarrow> 'f BlobStorage \<Rightarrow> status \<times> 'f BlobStorage" where
  "AddBuildingFile env n bs =
     (case env n of
        Inl s \<Rightarrow> (s, bs)
      | Inr reader \<Rightarrow> (OK, bs\<lparr>bs_building_files := amap_emplace n reader (bs_building_files bs)\<rparr>))"

definition MarkFileObsoleteLocked ::
    "bool \<Rightarrow> BlobFileMeta \<Rightarrow> u64 \<Rightarrow> 'f BlobStorage \<Rightarrow> stats_ptr \<Rightarrow> ('f BlobStorage \<times> stats_ptr) option" where
  "MarkFileObsoleteLocked nd m obsolete_sequence bs st = do {
     m' \<leftarrow> FileStateTransit nd kDelete m;
     let cf = bs_cf_id bs;
     let st1 = SubStats cf LIVE_BLOB_SIZE (file_size m - discardable_size m) st;
     let st2 = SubStats cf LIVE_BLOB_FILE_SIZE (file_size m) st1;
     let st3 = SubStats cf NUM_LIVE_BLOB_FILE 1 st2;
     let st4 = AddStats cf OBSOLETE_BLOB_FILE_SIZE (file_size m) st3;
     let st5 = AddStats cf NUM_OBSOLETE_BLOB_FILE 1 st4;
     sizes \<leftarrow> level_fetch_add (file_bucket bs m) (- file_size m) (bs_level_blob_size bs);
     Some (bs\<lparr>bs_obsolete_files := bs_obsolete_files bs @ [(file_number m, obsolete_sequence)],
              bs_files := amap_update (file_number m) (\<lambda>_. m') (bs_files bs),
              bs_level_blob_size := sizes\<rparr>, st5)
   }"

definition MarkFileObsolete ::
    "bool \<Rightarrow> u64 \<Rightarrow> u64 \<Rightarrow> 'f BlobStorage \<Rightarrow> stats_ptr \<Rightarrow> (bool \<times> 'f BlobStorage \<times> stats_ptr) option" where
  "MarkFileObsolete nd n obsolete_sequence bs st =
     (case map_of (bs_files bs) n of
        None \<Rightarrow> Some (False, bs, st)
      | Some m \<Rightarrow> do {
          (bs', st') \<leftarrow> MarkFileObsoleteLocked nd m obsolete_sequence bs st;
          Some (True, bs', st')
        })"

definition RemoveFile ::
    "comparator \<Rightarrow> ('k, 'f BlobFileReader) cache_ops \<Rightarrow> u64 \<Rightarrow> 'f BlobStorage \<Rightarrow> stats_ptr \<Rightarrow> 'k
     \<Rightarrow> bool \<times> 'f BlobStorage \<times> stats_ptr \<times> 'k" where
  "RemoveFile cmp R n bs st k =
     (case map_of (bs_files bs) n of
        None \<Rightarrow> (False, bs, st, k)
      | Some m \<Rightarrow>
          (let st1 = SubStats (bs_cf_id bs) OBSOLETE_BLOB_FILE_SIZE (file_size m) st;
               st2 = SubStats (bs_cf_id bs) NUM_OBSOLETE_BLOB_FILE 1 st1
           in (True,
               bs\<lparr>bs_blob_ranges := range_erase cmp (smallest_key m) (file_number m) (bs_blob_ranges bs),
                  bs_files := amap_erase n (bs_files bs)\<rparr>,
               st2, BlobFileCache_Evict R n k)))"

text \<open>
  The loop of \<open>GetObsoleteFiles\<close> over the list of obsolete files: the entries that stay
  and the numbers of the removed files, whose names the source collects.
\<close>

fun purge_obsolete ::
    "bool \<Rightarrow> comparator \<Rightarrow> ('k, 'f BlobFileReader) cache_ops \<Rightarrow> u64 \<Rightarrow> (u64 \<times> u64) list \<Rightarrow> 'f BlobStorage
     \<Rightarrow> stats_ptr \<Rightarrow> 'k \<Rightarrow> ((u64 \<times> u64) list \<times> u64 list \<times> 'f BlobStorage \<times> stats_ptr \<times> 'k) option" where
  "purge_obsolete nd cmp R oldest [] bs st k = Some ([], [], bs, st, k)"
| "purge_obsolete nd cmp R oldest ((n, sq) # ps) bs st k =
     (if oldest > sq
      then do {
        let (removed, bs1, st1, k1) = RemoveFile cmp R n bs st k;
        cpp_assert nd removed;
        (kept, names, bs2, st2, k2) \<leftarrow> purge_obsolete nd cmp R oldest ps bs1 st1 k1;
        Some (kept, n # names, bs2, st2, k2)
      }
      else do {
        (kept, names, bs2, st2, k2) \<leftarrow> purge_obsolete nd cmp R oldest ps bs st k;
        Some ((n, sq) # kept, names, bs2, st2, k2)
      })"

definition GetObsoleteFiles ::
    "bool \<Rightarrow> comparator \<Rightarrow> ('k, 'f BlobFileReader) cache_ops \<Rightarrow> u64 list option \<Rightarrow> u64 \<Rightarrow> 'f BlobStorage
     \<Rightarrow> stats_ptr \<Rightarrow> 'k \<Rightarrow> (u64 list option \<times> 'f BlobStorage \<times> stats_ptr \<times> 'k) option" where
  "GetObsoleteFiles nd cmp R out oldest_sequence bs st k = do {
     (kept, names, bs', st', k') \<leftarrow> purge_obsolete nd cmp R oldest_sequence (bs_obsolete_files bs) bs st k;
     Some (map_option (\<lambda>xs. xs @ names) out, bs'\<lparr>bs_obsolete_files := kept\<rparr>, st', k')
   }"

fun restart_files ::
    "bool \<Rightarrow> u32 \<Rightarrow> (u64 \<times> BlobFileMeta) list \<Rightarrow> stats_ptr \<Rightarrow> ((u64 \<times> BlobFileMeta) list \<times> stats_ptr) option" where
  "restart_files nd cf [] st = Some ([], st)"
| "restart_files nd cf ((n, m) # fs) st = do {
     m' \<leftarrow> FileStateTransit nd kDbRestart (set_gc_mark True m);
     (fs', st') \<leftarrow> restart_files nd cf fs (AddStats cf (GetDiscardableRatioLevel m') 1 st);
     Some ((n, m') # fs', st')
   }"

definition MarkAllFilesForGC ::
    "bool \<Rightarrow> 'f BlobStorage \<Rightarrow> stats_ptr \<Rightarrow> ('f BlobStorage \<times> stats_ptr) option" where
  "MarkAllFilesForGC nd bs st = do {
     (fs, st') \<leftarrow> restart_files nd (bs_cf_id bs) (bs_files bs) st;
     Some (bs\<lparr>bs_files := fs\<rparr>, st')
   }"

section \<open>Sorted runs and file states\<close>

text \<open>The first run whose last file ends before the file, or a new run.\<close>

fun place_in_run :: "BlobFileMeta \<Rightarrow> BlobFileMeta list list \<Rightarrow> BlobFileMeta list list" where
  "place_in_run f [] = [[f]]"
| "place_in_run f (s # ss) =
     (if bytewise (largest_key (last s)) (smallest_key f) < 0 then (s @ [f]) # ss
      else s # place_in_run f ss)"

definition runs_of :: "BlobFileMeta list \<Rightarrow> BlobFileMeta list list" where
  "runs_of files = fold place_in_run files []"

definition CountSortedRun :: "BlobFileMeta list \<Rightarrow> nat list option" where
  "CountSortedRun files = do {
     sorted_files \<leftarrow> std_sort (\<lambda>f1 f2. bytewise (smallest_key f1) (smallest_key f2) < 0) files;
     Some (map length (runs_of sorted_files))
   }"

record level_states =
  ls_files :: "BlobFileMeta list"
  ls_numFile :: nat
  ls_numObsolete :: nat
  ls_numNeedMerge :: nat
  ls_numNeedGC :: nat
  ls_gc_discardable :: u64
  ls_nomark_discardable :: u64
  ls_merge_discardable :: u64
  ls_reach_without_mark :: u64

record unsorted_states =
  us_num :: u64
  us_discardable :: u64
  us_discardable_reach :: u64

definition empty_level_states :: level_states where
  "empty_level_states =
     \<lparr>ls_files = [], ls_numFile = 0, ls_numObsolete = 0, ls_numNeedMerge = 0, ls_numNeedGC = 0,
      ls_gc_discardable = 0, ls_nomark_discardable = 0, ls_merge_discardable = 0,
      ls_reach_without_mark = 0\<rparr>"

definition count_sorted_file :: "dbl \<Rightarrow> BlobFileMeta \<Rightarrow> level_states \<Rightarrow> level_states" where
  "count_sorted_file ratio m l0 =
     (let l = l0\<lparr>ls_files := ls_files l0 @ [m], ls_numFile := ls_numFile l0 + 1\<rparr> in
      case file_state m of
        kObsolete \<Rightarrow> l\<lparr>ls_numObsolete := ls_numObsolete l + 1\<rparr>
      | kToMerge \<Rightarrow> l\<lparr>ls_numNeedMerge := ls_numNeedMerge l + 1,
                     ls_merge_discardable := ls_merge_discardable l + discardable_size m\<rparr>
      | kToGC \<Rightarrow> l\<lparr>ls_numNeedGC := ls_numNeedGC l + 1,
                  ls_gc_discardable := ls_gc_discardable l + discardable_size m\<rparr>
      | _ \<Rightarrow> l\<lparr>ls_nomark_discardable := ls_nomark_discardable l + discardable_size m,
               ls_reach_without_mark := ls_reach_without_mark l +
                 (if dbl_less ratio (GetDiscardableRatio m) then 1 else 0)\<rparr>)"

definition count_unsorted_file :: "dbl \<Rightarrow> BlobFileMeta \<Rightarrow> unsorted_states \<Rightarrow> unsorted_states" where
  "count_unsorted_file ratio m u =
     u\<lparr>us_num := us_num u + 1, us_discardable := us_discardable u + discardable_size m,
       us_discardable_reach := us_discardable_reach u +
         (if dbl_less ratio (GetDiscardableRatio m) then discardable_size m else 0)\<rparr>"

fun count_files ::
    "dbl \<Rightarrow> BlobFileMeta list \<Rightarrow> level_states list \<Rightarrow> unsorted_states
     \<Rightarrow> (level_states list \<times> unsorted_states) option" where
  "count_files ratio [] ls u = Some (ls, u)"
| "count_files ratio (m # ms) ls u =
     (if file_type m = kUnSorted then count_files ratio ms ls (count_unsorted_file ratio m u)
      else (let i = unat (file_level m) in
            if i < length ls then count_files ratio ms (ls[i := count_sorted_file ratio m (ls ! i)]) u
            else None))"

text \<open>What \<open>PrintFileStates\<close> prints: the counts, and the lengths of the sorted runs of each level.\<close>

definition PrintFileStates :: "'f BlobStorage \<Rightarrow> (nat \<times> nat \<times> (level_states \<times> nat list) list \<times> unsorted_states) option" where
  "PrintFileStates bs = do {
     (ls, u) \<leftarrow> count_files (blob_file_discardable_ratio (bs_cf_options bs)) (map snd (bs_files bs))
         (replicate (bs_num_levels bs) empty_level_states)
         \<lparr>us_num = 0, us_discardable = 0, us_discardable_reach = 0\<rparr>;
     runs \<leftarrow> those (map (CountSortedRun \<circ> ls_files) ls);
     Some (NumBlobFiles bs, NumObsoleteBlobFiles bs, zip ls runs, u)
   }"

section \<open>Scores\<close>

definition gc_candidate :: "TitanCFOptions \<Rightarrow> BlobFileMeta \<Rightarrow> bool" where
  "gc_candidate opts m =
     (\<not> (is_obsolete m \<or>
         (level_merge opts \<and>
          (file_type m = kSorted \<or>
           dbl_less (GetDiscardableRatio m) (blob_file_discardable_ratio opts)))))"

definition file_score :: "TitanCFOptions \<Rightarrow> BlobFileMeta \<Rightarrow> dbl" where
  "file_score opts m =
     (if file_size m < merge_small_file_threshold opts then blob_file_discardable_ratio opts
      else GetDiscardableRatio m)"

definition ComputeGCScore :: "'f BlobStorage \<Rightarrow> (nat \<times> 'f BlobStorage) option" where
  "ComputeGCScore bs = do {
     let opts = bs_cf_options bs;
     let scores = map (\<lambda>p. \<lparr>gcs_file_number = fst p, gcs_score = file_score opts (snd p)\<rparr>)
                    (filter (\<lambda>p. gc_candidate opts (snd p)) (bs_files bs));
     sorted_scores \<leftarrow>
       (if \<not> level_merge opts
        then std_sort (\<lambda>first second. gcs_file_number first < gcs_file_number second) scores
        else std_sort (\<lambda>first second. dbl_less (gcs_score second) (gcs_score first)) scores);
     Some (length sorted_scores, bs\<lparr>bs_gc_score := sorted_scores\<rparr>)
   }"

section \<open>The invariant\<close>

declare map_of_eq_Some_iff [simp del]

definition live_size :: "(BlobFileMeta \<Rightarrow> bool) \<Rightarrow> (u64 \<times> BlobFileMeta) list \<Rightarrow> u64" where
  "live_size P fs = sum_list (map (\<lambda>p. file_size (snd p)) (filter (\<lambda>p. P (snd p) \<and> \<not> is_obsolete (snd p)) fs))"

definition index_ok :: "comparator \<Rightarrow> (u64 \<times> BlobFileMeta) list \<Rightarrow> (bytes \<times> u64) list \<Rightarrow> bool" where
  "index_ok cmp fs rs =
     (sorted_wrt (\<lambda>p q. cmp (fst p) (fst q) \<le> 0) rs \<and> distinct (map snd rs) \<and>
      set rs = (\<lambda>p. (smallest_key (snd p), fst p)) ` set fs)"

definition obsolete_ok :: "(u64 \<times> BlobFileMeta) list \<Rightarrow> (u64 \<times> u64) list \<Rightarrow> bool" where
  "obsolete_ok fs os =
     (amap_ok os \<and> set (map fst os) = set (map fst (filter (\<lambda>p. is_obsolete (snd p)) fs)))"

definition levels_ok :: "nat \<Rightarrow> (BlobFileMeta \<Rightarrow> nat) \<Rightarrow> (u64 \<times> BlobFileMeta) list \<Rightarrow> u64 list \<Rightarrow> bool" where
  "levels_ok nl bucket fs ls =
     (length ls = nl + 1 \<and> (\<forall>p\<in>set fs. bucket (snd p) \<le> nl) \<and>
      (\<forall>i\<le>nl. ls ! i = live_size (\<lambda>m. bucket m = i) fs))"

definition storage_ok :: "comparator \<Rightarrow> 'f BlobStorage \<Rightarrow> bool" where
  "storage_ok cmp bs =
     (amap_ok (bs_files bs) \<and> (\<forall>p\<in>set (bs_files bs). file_number (snd p) = fst p) \<and>
      index_ok cmp (bs_files bs) (bs_blob_ranges bs) \<and>
      obsolete_ok (bs_files bs) (bs_obsolete_files bs) \<and>
      levels_ok (bs_num_levels bs) (file_bucket bs) (bs_files bs) (bs_level_blob_size bs))"

subsection \<open>The parts under the updates\<close>

lemma live_size_snoc [simp]:
  "live_size P (fs @ [(n, m)]) = live_size P fs + (if P m \<and> \<not> is_obsolete m then file_size m else 0)"
  by (simp add: live_size_def)

lemma live_size_Cons:
  "live_size P ((n, m) # fs) = (if P m \<and> \<not> is_obsolete m then file_size m else 0) + live_size P fs"
  by (simp add: live_size_def)

lemma live_size_erase_obsolete:
  "amap_ok fs \<Longrightarrow> map_of fs n = Some m \<Longrightarrow> is_obsolete m \<Longrightarrow> live_size P (amap_erase n fs) = live_size P fs"
proof (induction fs)
  case (Cons p fs)
  show ?case
  proof (cases "fst p = n")
    case True
    with Cons.prems have "n \<notin> fst ` set fs" and "is_obsolete (snd p)" by (cases p, auto)+
    then have "amap_erase n fs = fs" by (auto simp: amap_erase_def filter_id_conv)
    with True \<open>is_obsolete (snd p)\<close> show ?thesis by (simp add: amap_erase_def live_size_def)
  next
    case False
    with Cons show ?thesis by (cases p) (simp add: amap_erase_def live_size_def)
  qed
qed simp

lemma amap_update_other [simp]: "n \<notin> fst ` set fs \<Longrightarrow> amap_update n f fs = fs"
  by (induction fs) (auto simp: amap_update_def)

lemma live_size_retire:
  assumes "amap_ok fs" and "map_of fs n = Some m" and "\<not> is_obsolete m" and "is_obsolete m'"
  shows "live_size P (amap_update n (\<lambda>_. m') fs) + (if P m then file_size m else 0) = live_size P fs"
  using assms(1,2)
proof (induction fs)
  case (Cons p fs)
  obtain n' m0 where p: "p = (n', m0)" by (cases p)
  show ?case
  proof (cases "n' = n")
    case True
    with Cons.prems p have "n \<notin> fst ` set fs" and m: "m0 = m" by auto
    then have "amap_update n (\<lambda>_. m') (p # fs) = (n, m') # fs"
      using p True amap_update_other [of n fs] by (simp add: amap_update_def)
    then show ?thesis
      using assms(3,4) by (simp only: p True m live_size_Cons) simp
  next
    case False
    then have "amap_update n (\<lambda>_. m') (p # fs) = (n', m0) # amap_update n (\<lambda>_. m') fs"
      using p by (simp add: amap_update_def)
    moreover have "live_size P (amap_update n (\<lambda>_. m') fs) + (if P m then file_size m else 0) = live_size P fs"
      using Cons p False by simp
    ultimately show ?thesis by (simp only: p live_size_Cons add.assoc)
  qed
qed simp

lemma set_amap_update_const:
  "amap_ok fs \<Longrightarrow> n \<in> fst ` set fs \<Longrightarrow> set (amap_update n (\<lambda>_. v) fs) = insert (n, v) {p \<in> set fs. fst p \<noteq> n}"
  by (force simp: amap_update_def)

lemma set_amap_erase: "set (amap_erase n fs) = {p \<in> set fs. fst p \<noteq> n}"
  by (simp add: amap_erase_def)

context comparator_laws
begin

lemma range_emplace_props:
  assumes "sorted_wrt (\<lambda>p q. cmp (fst p) (fst q) \<le> 0) rs" and "distinct (map snd rs)" and "n \<notin> snd ` set rs"
  shows "sorted_wrt (\<lambda>p q. cmp (fst p) (fst q) \<le> 0) (range_emplace cmp key n rs)
    \<and> distinct (map snd (range_emplace cmp key n rs))
    \<and> set (range_emplace cmp key n rs) = insert (key, n) (set rs)"
  using assms
proof (induction rs)
  case (Cons p rs)
  show ?case
  proof (cases "cmp key (fst p) < 0")
    case True
    have "cmp key (fst q) \<le> 0" if "q \<in> set rs" for q
      using that True Cons.prems(1) cmp_trans [of key "fst p" "fst q"] by auto
    with True Cons.prems show ?thesis by (auto simp: range_emplace_def)
  next
    case False
    then have eq: "range_emplace cmp key n (p # rs) = p # range_emplace cmp key n rs"
      by (simp add: range_emplace_def)
    from False have "cmp (fst p) key \<le> 0" by (simp add: cmp_not_less)
    moreover have "snd p \<notin> snd ` set rs" "snd p \<noteq> n" using Cons.prems by auto
    moreover have IH: "sorted_wrt (\<lambda>p q. cmp (fst p) (fst q) \<le> 0) (range_emplace cmp key n rs)"
      "distinct (map snd (range_emplace cmp key n rs))"
      "set (range_emplace cmp key n rs) = insert (key, n) (set rs)"
      using Cons by auto
    ultimately show ?thesis using Cons.prems(1) by (auto simp: eq)
  qed
qed (simp add: range_emplace_def)

lemma range_erase_props:
  assumes "sorted_wrt (\<lambda>p q. cmp (fst p) (fst q) \<le> 0) rs" and "distinct (map snd rs)" and "(key, n) \<in> set rs"
  shows "sorted_wrt (\<lambda>p q. cmp (fst p) (fst q) \<le> 0) (range_erase cmp key n rs)
    \<and> distinct (map snd (range_erase cmp key n rs))
    \<and> set (range_erase cmp key n rs) = set rs - {(key, n)}"
  using assms
proof (induction rs)
  case (Cons p rs)
  show ?case
  proof (cases "p = (key, n)")
    case True
    with Cons.prems(2) have "(key, n) \<notin> set rs" by force
    moreover from True have "range_erase cmp key n (p # rs) = rs" by simp
    ultimately show ?thesis using True Cons.prems(1,2) by simp
  next
    case False
    have "\<not> (\<not> cmp (fst p) key < 0 \<and> \<not> cmp key (fst p) < 0 \<and> snd p = n)"
      using False cmp_antisym [of "fst p" key] cmp_not_less by (metis prod.collapse)
    then have eq: "range_erase cmp key n (p # rs) = p # range_erase cmp key n rs"
      by (simp only: range_erase.simps if_False)
    have "(key, n) \<in> set rs" using False Cons.prems(3) by simp
    with Cons.IH Cons.prems(1,2) have IH: "sorted_wrt (\<lambda>p q. cmp (fst p) (fst q) \<le> 0) (range_erase cmp key n rs)"
      "distinct (map snd (range_erase cmp key n rs))"
      "set (range_erase cmp key n rs) = set rs - {(key, n)}"
      by simp_all
    have "snd p \<notin> snd ` (set rs - {(key, n)})" using Cons.prems(2) by auto
    moreover have "insert p (set rs - {(key, n)}) = set (p # rs) - {(key, n)}" using False by auto
    ultimately show ?thesis unfolding eq using Cons.prems(1) IH by simp
  qed
qed simp

end

subsection \<open>The operations keep the invariant\<close>

lemma file_bucket_update [simp]:
  "file_bucket (bs\<lparr>bs_files := fs\<rparr>) = file_bucket bs"
  "file_bucket (bs\<lparr>bs_building_files := bf\<rparr>) = file_bucket bs"
  "file_bucket (bs\<lparr>bs_blob_ranges := rs\<rparr>) = file_bucket bs"
  "file_bucket (bs\<lparr>bs_gc_score := gs\<rparr>) = file_bucket bs"
  "file_bucket (bs\<lparr>bs_obsolete_files := os\<rparr>) = file_bucket bs"
  "file_bucket (bs\<lparr>bs_destroyed := d\<rparr>) = file_bucket bs"
  "file_bucket (bs\<lparr>bs_level_blob_size := ls\<rparr>) = file_bucket bs"
  by (simp_all add: file_bucket_def fun_eq_iff)

lemma storage_okD:
  assumes "storage_ok cmp bs"
  shows "amap_ok (bs_files bs)" and "map_of (bs_files bs) n = Some m \<Longrightarrow> file_number m = n"
    and "index_ok cmp (bs_files bs) (bs_blob_ranges bs)"
    and "obsolete_ok (bs_files bs) (bs_obsolete_files bs)"
    and "levels_ok (bs_num_levels bs) (file_bucket bs) (bs_files bs) (bs_level_blob_size bs)"
  using assms map_of_SomeD by (fastforce simp: storage_ok_def)+

lemma new_storage_ok [simp]: "storage_ok cmp (new_BlobStorage db_options cf_options nl cf_id)"
  by (simp add: storage_ok_def new_BlobStorage_def index_ok_def obsolete_ok_def levels_ok_def live_size_def
      del: replicate_Suc)

lemma levels_add:
  assumes "levels_ok nl bucket fs ls" and "bucket m \<le> nl" and "\<not> is_obsolete m"
  shows "level_fetch_add (bucket m) (file_size m) ls = Some (ls[bucket m := ls ! bucket m + file_size m])"
    and "levels_ok nl bucket (fs @ [(n, m)]) (ls[bucket m := ls ! bucket m + file_size m])"
  using assms by (auto simp: level_fetch_add_def levels_ok_def nth_list_update)

lemma levels_retire:
  assumes "levels_ok nl bucket fs ls" and "amap_ok fs" and "map_of fs n = Some m"
    and "\<not> is_obsolete m" and "is_obsolete m'" and "bucket m' = bucket m"
  shows "level_fetch_add (bucket m) (- file_size m) ls = Some (ls[bucket m := ls ! bucket m - file_size m])"
    and "levels_ok nl bucket (amap_update n (\<lambda>_. m') fs) (ls[bucket m := ls ! bucket m - file_size m])"
proof -
  have "bucket m \<le> nl" using assms(1,3) by (auto simp: levels_ok_def dest!: map_of_SomeD)
  then show "level_fetch_add (bucket m) (- file_size m) ls = Some (ls[bucket m := ls ! bucket m - file_size m])"
    using assms(1) by (auto simp: level_fetch_add_def levels_ok_def)
  have "\<forall>p\<in>set (amap_update n (\<lambda>_. m') fs). bucket (snd p) \<le> nl"
    using assms(1,6) \<open>bucket m \<le> nl\<close> by (auto simp: levels_ok_def amap_update_def)
  moreover have "(ls[bucket m := ls ! bucket m - file_size m]) ! i
      = live_size (\<lambda>m. bucket m = i) (amap_update n (\<lambda>_. m') fs)" if "i \<le> nl" for i
    using that assms(1) live_size_retire [OF assms(2-5), of "\<lambda>m. bucket m = i"]
    by (auto simp: levels_ok_def nth_list_update algebra_simps split: if_splits)
  ultimately show "levels_ok nl bucket (amap_update n (\<lambda>_. m') fs) (ls[bucket m := ls ! bucket m - file_size m])"
    using assms(1) by (auto simp: levels_ok_def)
qed

lemma levels_erase:
  assumes "levels_ok nl bucket fs ls" and "amap_ok fs" and "map_of fs n = Some m" and "is_obsolete m"
  shows "levels_ok nl bucket (amap_erase n fs) ls"
  using assms by (auto simp: levels_ok_def live_size_erase_obsolete set_amap_erase)

lemma obsolete_ok_iff:
  "amap_ok fs \<Longrightarrow> obsolete_ok fs os \<longleftrightarrow>
   amap_ok os \<and> (\<forall>n. n \<in> fst ` set os \<longleftrightarrow> (\<exists>m. map_of fs n = Some m \<and> is_obsolete m))"
  by (auto simp: obsolete_ok_def set_eq_iff image_iff map_of_eq_Some_iff)

lemma index_ok_iff:
  "amap_ok fs \<Longrightarrow> index_ok cmp fs rs \<longleftrightarrow>
   sorted_wrt (\<lambda>p q. cmp (fst p) (fst q) \<le> 0) rs \<and> distinct (map snd rs) \<and>
   (\<forall>key n. (key, n) \<in> set rs \<longleftrightarrow> (\<exists>m. map_of fs n = Some m \<and> smallest_key m = key))"
  by (force simp: index_ok_def set_eq_iff image_iff map_of_eq_Some_iff)

lemma obsolete_retire:
  assumes "obsolete_ok fs os" and "amap_ok fs" and "map_of fs n = Some m"
    and "\<not> is_obsolete m" and "is_obsolete m'"
  shows "obsolete_ok (amap_update n (\<lambda>_. m') fs) (os @ [(n, q)])"
proof -
  have os: "amap_ok os" "x \<in> fst ` set os \<longleftrightarrow> (\<exists>m. map_of fs x = Some m \<and> is_obsolete m)" for x
    using assms(1,2) by (simp_all add: obsolete_ok_iff)
  then have "n \<notin> fst ` set os" using assms(3,4) by simp
  moreover have "x \<in> fst ` set (os @ [(n, q)])
      \<longleftrightarrow> (\<exists>m. map_of (amap_update n (\<lambda>_. m') fs) x = Some m \<and> is_obsolete m)" for x
    using os(2) [of x] assms(3,5) by (cases "x = n") (simp_all add: amap_simps)
  ultimately show ?thesis using os(1) assms(2) by (simp add: obsolete_ok_iff)
qed

context comparator_laws
begin

lemma storage_add:
  assumes ok: "storage_ok cmp bs" and new: "map_of (bs_files bs) (file_number m) = None"
    and live: "\<not> is_obsolete m" and bucket: "file_bucket bs m \<le> bs_num_levels bs"
  obtains bs' st' where "BlobStorage_AddBlobFile cmp m bs st = Some (bs', st')"
    and "storage_ok cmp bs'" and "bs_files bs' = bs_files bs @ [(file_number m, m)]"
    and "bs_num_levels bs' = bs_num_levels bs" and "bs_obsolete_files bs' = bs_obsolete_files bs"
proof -
  let ?n = "file_number m" and ?ls = "bs_level_blob_size bs"
  note D = storage_okD [OF ok]
  have fresh: "?n \<notin> fst ` set (bs_files bs)" using new by (simp add: map_of_eq_None_iff)
  have "?n \<notin> snd ` set (bs_blob_ranges bs)" using D(3) fresh by (force simp: index_ok_def)
  then have "index_ok cmp (bs_files bs @ [(?n, m)]) (range_emplace cmp (smallest_key m) ?n (bs_blob_ranges bs))"
    using D(3) range_emplace_props [of "bs_blob_ranges bs" ?n "smallest_key m"]
    by (auto simp: index_ok_def)
  moreover have "obsolete_ok (bs_files bs @ [(?n, m)]) (bs_obsolete_files bs)"
    using D(4) live by (simp add: obsolete_ok_def)
  ultimately have ok': "storage_ok cmp (bs\<lparr>bs_files := bs_files bs @ [(?n, m)],
      bs_blob_ranges := range_emplace cmp (smallest_key m) ?n (bs_blob_ranges bs),
      bs_level_blob_size := ?ls[file_bucket bs m := ?ls ! file_bucket bs m + file_size m],
      bs_building_files := bf\<rparr>)" for bf
    using levels_add(2) [OF D(5) bucket live, of ?n] fresh ok by (simp add: storage_ok_def)
  have run: "BlobStorage_AddBlobFile cmp m bs st = Some (bs\<lparr>bs_files := bs_files bs @ [(?n, m)],
      bs_blob_ranges := range_emplace cmp (smallest_key m) ?n (bs_blob_ranges bs),
      bs_level_blob_size := ?ls[file_bucket bs m := ?ls ! file_bucket bs m + file_size m],
      bs_building_files := (if sep_before_flush (bs_db_options bs)
        then amap_erase ?n (bs_building_files bs) else bs_building_files bs)\<rparr>,
      AddStats (bs_cf_id bs) NUM_LIVE_BLOB_FILE 1
        (AddStats (bs_cf_id bs) LIVE_BLOB_FILE_SIZE (file_size m) st))"
    using levels_add(1) [OF D(5) bucket live] new by (simp add: BlobStorage_AddBlobFile_def amap_emplace_def)
  show ?thesis by (rule that [OF run ok']) simp_all
qed

lemma storage_retire:
  assumes ok: "storage_ok cmp bs" and found: "map_of (bs_files bs) n = Some m" and live: "\<not> is_obsolete m"
  obtains bs' st' where "MarkFileObsolete nd n q bs st = Some (True, bs', st')"
    and "storage_ok cmp bs'"
    and "bs_files bs' = amap_update n (\<lambda>_. m\<lparr>file_state := kObsolete\<rparr>) (bs_files bs)"
    and "bs_num_levels bs' = bs_num_levels bs"
    and "bs_obsolete_files bs' = bs_obsolete_files bs @ [(n, q)]"
proof -
  let ?m = "m\<lparr>file_state := kObsolete\<rparr>" and ?ls = "bs_level_blob_size bs"
  note D = storage_okD [OF ok]
  have n: "file_number m = n" using D(2) found .
  have transit: "FileStateTransit nd kDelete m = Some ?m"
    using live by (simp add: FileStateTransit_def is_obsolete_def)
  have obs: "is_obsolete ?m" by (simp add: is_obsolete_def)
  have bucket: "file_bucket bs ?m = file_bucket bs m" by (simp add: file_bucket_def)
  have "index_ok cmp (amap_update n (\<lambda>_. ?m) (bs_files bs)) (bs_blob_ranges bs)"
    using D(1,3) found by (auto simp: index_ok_iff amap_simps)
  moreover have "\<forall>p\<in>set (amap_update n (\<lambda>_. ?m) (bs_files bs)). file_number (snd p) = fst p"
    using ok n by (auto simp: storage_ok_def amap_update_def)
  ultimately have ok': "storage_ok cmp (bs\<lparr>bs_obsolete_files := bs_obsolete_files bs @ [(n, q)],
      bs_files := amap_update n (\<lambda>_. ?m) (bs_files bs),
      bs_level_blob_size := ?ls[file_bucket bs m := ?ls ! file_bucket bs m - file_size m]\<rparr>)"
    using levels_retire(2) [OF D(5,1) found live obs bucket] obsolete_retire [OF D(4,1) found live obs, of q] D(1)
    by (simp add: storage_ok_def)
  obtain st' where run: "MarkFileObsolete nd n q bs st = Some (True, bs\<lparr>bs_obsolete_files := bs_obsolete_files bs @ [(n, q)],
      bs_files := amap_update n (\<lambda>_. ?m) (bs_files bs),
      bs_level_blob_size := ?ls[file_bucket bs m := ?ls ! file_bucket bs m - file_size m]\<rparr>, st')"
    using found transit n levels_retire(1) [OF D(5,1) found live obs bucket]
    by (simp add: MarkFileObsolete_def MarkFileObsoleteLocked_def Let_def)
  show ?thesis by (rule that [OF run]) (use ok' in simp_all)
qed

lemma storage_remove:
  assumes ok: "storage_ok cmp (bs\<lparr>bs_obsolete_files := pre @ (n, q) # ps\<rparr>)"
  obtains bs' st' where "RemoveFile cmp R n bs st k = (True, bs', st', BlobFileCache_Evict R n k)"
    and "storage_ok cmp (bs'\<lparr>bs_obsolete_files := pre @ ps\<rparr>)"
    and "bs_files bs' = amap_erase n (bs_files bs)" and "bs_num_levels bs' = bs_num_levels bs"
proof -
  note D = storage_okD [OF ok, simplified]
  obtain m where found: "map_of (bs_files bs) n = Some m" and obs: "is_obsolete m"
    using D(4) that unfolding obsolete_ok_iff [OF D(1)] by (metis fst_conv in_set_conv_decomp image_eqI)
  have n: "file_number m = n" using D(2) found .
  have "(smallest_key m, n) \<in> set (bs_blob_ranges bs)"
    using D(3) found by (auto simp: index_ok_iff [OF D(1)])
  then have "index_ok cmp (amap_erase n (bs_files bs)) (range_erase cmp (smallest_key m) n (bs_blob_ranges bs))"
    using D(1,3) range_erase_props [of "bs_blob_ranges bs" "smallest_key m" n] found
    by (auto simp: index_ok_iff amap_simps)
  moreover have "obsolete_ok (amap_erase n (bs_files bs)) (pre @ ps)"
    using D(4) by (auto simp: obsolete_ok_iff D(1) amap_simps)
  moreover have "levels_ok (bs_num_levels bs) (file_bucket bs) (amap_erase n (bs_files bs)) (bs_level_blob_size bs)"
    using levels_erase [OF D(5,1) found obs] by simp
  moreover have "\<forall>p\<in>set (amap_erase n (bs_files bs)). file_number (snd p) = fst p"
    using ok by (simp add: storage_ok_def set_amap_erase)
  ultimately have ok': "storage_ok cmp (bs\<lparr>bs_blob_ranges := range_erase cmp (smallest_key m) n (bs_blob_ranges bs),
      bs_files := amap_erase n (bs_files bs), bs_obsolete_files := pre @ ps\<rparr>)"
    using D(1) by (simp add: storage_ok_def)
  obtain st' where run: "RemoveFile cmp R n bs st k
      = (True, bs\<lparr>bs_blob_ranges := range_erase cmp (smallest_key m) n (bs_blob_ranges bs),
          bs_files := amap_erase n (bs_files bs)\<rparr>, st', BlobFileCache_Evict R n k)"
    using found n by (simp add: RemoveFile_def)
  show ?thesis by (rule that [OF run]) (use ok' in simp_all)
qed

end

end
