(* ===== verification/Storage_Props.thy ===== *)
theory Storage_Props
  imports Blob_Storage
begin

text \<open>
  What the blob storage promises: its invariant over every history of operations, a
  refinement to a machine that only knows which files are live and which are obsolete
  since when, the result of the range query, of the scores and of the count of sorted
  runs, and reading a record through the storage.
\<close>

section \<open>Purging obsolete files\<close>

context comparator_laws
begin

lemma storage_purge:
  assumes "storage_ok cmp (bs\<lparr>bs_obsolete_files := pre @ ps\<rparr>)"
  shows "\<exists>bs' st'. purge_obsolete nd cmp R oldest ps bs st k
      = Some (filter (\<lambda>p. \<not> snd p < oldest) ps, map fst (filter (\<lambda>p. snd p < oldest) ps), bs', st',
              fold (BlobFileCache_Evict R) (map fst (filter (\<lambda>p. snd p < oldest) ps)) k)
    \<and> storage_ok cmp (bs'\<lparr>bs_obsolete_files := pre @ filter (\<lambda>p. \<not> snd p < oldest) ps\<rparr>)
    \<and> bs_files bs' = filter (\<lambda>p. fst p \<notin> fst ` set (filter (\<lambda>p. snd p < oldest) ps)) (bs_files bs)
    \<and> bs_num_levels bs' = bs_num_levels bs"
  using assms
proof (induction ps arbitrary: pre bs st k)
  case (Cons p ps)
  obtain n q where p: "p = (n, q)" by (cases p)
  show ?case
  proof (cases "q < oldest")
    case True
    obtain bs1 st1 where r: "RemoveFile cmp R n bs st k = (True, bs1, st1, BlobFileCache_Evict R n k)"
      and ok: "storage_ok cmp (bs1\<lparr>bs_obsolete_files := pre @ ps\<rparr>)"
      and fs: "bs_files bs1 = amap_erase n (bs_files bs)" "bs_num_levels bs1 = bs_num_levels bs"
      using storage_remove Cons.prems p by metis
    have "filter (\<lambda>p. fst p \<notin> A) (amap_erase n xs) = filter (\<lambda>p. fst p \<notin> insert n A) xs"
      for A and xs :: "(u64 \<times> BlobFileMeta) list"
      by (simp add: amap_erase_def conj_commute)
    with Cons.IH [OF ok, of st1 "BlobFileCache_Evict R n k"] True p fs show ?thesis
      by (force simp: r)
  next
    case False
    with Cons.IH [of "pre @ [p]" bs st k] Cons.prems p show ?thesis by force
  qed
qed simp

lemma storage_obsolete_files:
  assumes "storage_ok cmp bs"
  shows "\<exists>bs' st'. GetObsoleteFiles nd cmp R out oldest bs st k
      = Some (map_option (\<lambda>xs. xs @ map fst (filter (\<lambda>p. snd p < oldest) (bs_obsolete_files bs))) out, bs', st',
              fold (BlobFileCache_Evict R) (map fst (filter (\<lambda>p. snd p < oldest) (bs_obsolete_files bs))) k)
    \<and> storage_ok cmp bs'
    \<and> bs_files bs' = filter (\<lambda>p. fst p \<notin> fst ` set (filter (\<lambda>p. snd p < oldest) (bs_obsolete_files bs))) (bs_files bs)
    \<and> bs_obsolete_files bs' = filter (\<lambda>p. \<not> snd p < oldest) (bs_obsolete_files bs)
    \<and> bs_num_levels bs' = bs_num_levels bs"
proof -
  have "storage_ok cmp (bs\<lparr>bs_obsolete_files := [] @ bs_obsolete_files bs\<rparr>)" using assms by simp
  from storage_purge [OF this, of nd R oldest st k] show ?thesis
    by (auto simp: GetObsoleteFiles_def)
qed

end

context cache_laws
begin

lemma evicted:
  "key \<in> f ` set ns \<or> entries k key = None \<Longrightarrow> entries (fold (\<lambda>n k. c_Erase K k (f n)) ns k) key = None"
proof (induction ns arbitrary: k)
  case (Cons n ns)
  have "key = f n \<or> entries k key = None \<Longrightarrow> entries (c_Erase K k (f n)) key = None"
    using erase_keeps [of k "f n" key] by (cases "entries (c_Erase K k (f n)) key") auto
  with Cons show ?case by auto
qed simp

end

section \<open>Histories\<close>

text \<open>A call on the metadata object of a file, which the caller reached through a shared pointer.\<close>

definition with_file ::
    "u64 \<Rightarrow> (BlobFileMeta \<Rightarrow> BlobFileMeta option) \<Rightarrow> 'f BlobStorage \<Rightarrow> 'f BlobStorage option" where
  "with_file n f bs = do {
     m \<leftarrow> map_of (bs_files bs) n;
     m' \<leftarrow> f m;
     Some (bs\<lparr>bs_files := amap_update n (\<lambda>_. m') (bs_files bs)\<rparr>)
   }"

definition same_place :: "BlobFileMeta \<Rightarrow> BlobFileMeta \<Rightarrow> bool" where
  "same_place m m' =
     (file_number m' = file_number m \<and> smallest_key m' = smallest_key m \<and> file_size m' = file_size m \<and>
      file_type m' = file_type m \<and> file_level m' = file_level m \<and> is_obsolete m' = is_obsolete m)"

lemma live_size_same_place:
  "map_of fs n = Some m \<Longrightarrow> amap_ok fs \<Longrightarrow> same_place m m' \<Longrightarrow> P m' = P m \<Longrightarrow>
   live_size P (amap_update n (\<lambda>_. m') fs) = live_size P fs"
proof (induction fs)
  case (Cons p fs)
  obtain n' m0 where p: "p = (n', m0)" by (cases p)
  show ?case
  proof (cases "n' = n")
    case True
    with Cons.prems p have "n \<notin> fst ` set fs" and m: "m0 = m" by auto
    then have "amap_update n (\<lambda>_. m') (p # fs) = (n, m') # fs"
      using p True amap_update_other [of n fs] by (simp add: amap_update_def)
    then show ?thesis using Cons.prems(3,4) by (simp add: p True m live_size_Cons same_place_def)
  next
    case False
    then have "amap_update n (\<lambda>_. m') (p # fs) = (n', m0) # amap_update n (\<lambda>_. m') fs"
      using p by (simp add: amap_update_def)
    moreover have "live_size P (amap_update n (\<lambda>_. m') fs) = live_size P fs" using Cons p False by simp
    ultimately show ?thesis by (simp only: p live_size_Cons)
  qed
qed simp

lemma with_file_ok:
  assumes ok: "storage_ok cmp bs" and run: "with_file n f bs = Some bs'"
    and same: "\<And>m m'. f m = Some m' \<Longrightarrow> same_place m m'"
  shows "storage_ok cmp bs'"
proof -
  note D = storage_okD [OF ok]
  obtain m m' where m: "map_of (bs_files bs) n = Some m" and f: "f m = Some m'"
    and bs': "bs' = bs\<lparr>bs_files := amap_update n (\<lambda>_. m') (bs_files bs)\<rparr>"
    using run by (auto simp: with_file_def exec_simps)
  let ?fs = "amap_update n (\<lambda>_. m') (bs_files bs)"
  have sp: "same_place m m'" using same f .
  have "\<forall>p\<in>set ?fs. file_number (snd p) = fst p"
    using ok D(2) [OF m] sp by (auto simp: storage_ok_def amap_update_def same_place_def)
  moreover have "index_ok cmp ?fs (bs_blob_ranges bs)"
    using D(1,3) m sp by (auto simp: index_ok_iff amap_simps same_place_def)
  moreover have "(\<exists>m. map_of ?fs x = Some m \<and> is_obsolete m) \<longleftrightarrow> (\<exists>m. map_of (bs_files bs) x = Some m \<and> is_obsolete m)" for x
    using m sp by (cases "x = n") (auto simp: amap_simps same_place_def)
  then have "obsolete_ok ?fs (bs_obsolete_files bs)" using D(1,4) by (simp add: obsolete_ok_iff)
  moreover have b: "file_bucket bs m' = file_bucket bs m" using sp by (simp add: file_bucket_def same_place_def)
  have "file_bucket bs m \<le> bs_num_levels bs" using D(5) map_of_SomeD [OF m] by (force simp: levels_ok_def)
  then have "\<forall>p\<in>set ?fs. file_bucket bs (snd p) \<le> bs_num_levels bs"
    using D(5) b by (auto simp: levels_ok_def amap_update_def)
  then have "levels_ok (bs_num_levels bs) (file_bucket bs) ?fs (bs_level_blob_size bs)"
    using D(5) b live_size_same_place [OF m D(1) sp] by (simp add: levels_ok_def)
  ultimately show ?thesis using D(1) by (simp add: bs' storage_ok_def)
qed

inductive storage_step ::
    "comparator \<Rightarrow> ('k, 'f BlobFileReader) cache_ops \<Rightarrow> 'f BlobStorage \<Rightarrow> 'f BlobStorage \<Rightarrow> bool"
  for cmp R where
  step_add: "BlobStorage_AddBlobFile cmp m bs st = Some (bs', st') \<Longrightarrow> \<not> is_obsolete m \<Longrightarrow>
    file_bucket bs m \<le> bs_num_levels bs \<Longrightarrow> storage_step cmp R bs bs'"
| step_retire: "MarkFileObsolete False n q bs st = Some (found, bs', st') \<Longrightarrow> storage_step cmp R bs bs'"
| step_purge: "GetObsoleteFiles False cmp R out oldest bs st k = Some (out', bs', st', k') \<Longrightarrow> storage_step cmp R bs bs'"
| step_transit: "with_file n (FileStateTransit False ev) bs = Some bs' \<Longrightarrow> ev \<notin> {kDelete, kReset} \<Longrightarrow>
    storage_step cmp R bs bs'"
| step_discard: "with_file n (AddDiscardableSize False d) bs = Some bs' \<Longrightarrow> storage_step cmp R bs bs'"
| step_score: "ComputeGCScore bs = Some (c, bs') \<Longrightarrow> storage_step cmp R bs bs'"
| step_building: "AddBuildingFile env n bs = (s, bs') \<Longrightarrow> storage_step cmp R bs bs'"
| step_destroyed: "MarkDestroyed bs = bs' \<Longrightarrow> storage_step cmp R bs bs'"

abbreviation storage_history ::
    "comparator \<Rightarrow> ('k, 'f BlobFileReader) cache_ops \<Rightarrow> 'f BlobStorage \<Rightarrow> 'f BlobStorage \<Rightarrow> bool" where
  "storage_history cmp R \<equiv> (storage_step cmp R)\<^sup>*\<^sup>*"

lemma retire_not_twice:
  assumes "MarkFileObsolete False n q bs st = Some (True, bs', st')"
  obtains m where "map_of (bs_files bs) n = Some m" and "\<not> is_obsolete m"
  using assms that
  by (auto simp: MarkFileObsolete_def MarkFileObsoleteLocked_def FileStateTransit_def is_obsolete_def exec_simps
      split: option.splits)

lemma retire_missing:
  "MarkFileObsolete nd n q bs st = Some (False, bs', st') \<Longrightarrow> map_of (bs_files bs) n = None \<and> bs' = bs"
  by (auto simp: MarkFileObsolete_def exec_simps split: option.splits)

lemma add_new: "BlobStorage_AddBlobFile cmp m bs st = Some r \<Longrightarrow> map_of (bs_files bs) (file_number m) = None"
  by (auto simp: BlobStorage_AddBlobFile_def split: if_splits)

lemma transit_same_place:
  assumes "FileStateTransit False ev m = Some m'" and "ev \<notin> {kDelete, kReset}"
  shows "same_place m m'"
proof -
  obtain s where s: "state_transit False ev (file_state m) = Some s" and m': "m' = m\<lparr>file_state := s\<rparr>"
    using assms(1) by (auto simp: FileStateTransit_def exec_simps)
  have "s = kObsolete \<longleftrightarrow> file_state m = kObsolete"
    using s assms(2) by (cases ev) (auto simp: exec_simps split: if_splits)
  then show ?thesis by (simp add: m' same_place_def is_obsolete_def)
qed

lemma discard_same_place: "AddDiscardableSize nd d m = Some m' \<Longrightarrow> same_place m m'"
  by (auto simp: AddDiscardableSize_def same_place_def is_obsolete_def exec_simps Let_def)

section \<open>The abstract machine\<close>

text \<open>
  The files of a column family as a set of live numbers and a map from the numbers of the
  obsolete files to the sequence number at which they became obsolete.
\<close>

record file_set =
  fs_live :: "u64 set"
  fs_dead :: "u64 \<rightharpoonup> u64"

inductive file_set_step :: "file_set \<Rightarrow> file_set \<Rightarrow> bool" where
  fs_stutter: "file_set_step a a"
| fs_add: "n \<notin> fs_live a \<Longrightarrow> fs_dead a n = None \<Longrightarrow> file_set_step a (a\<lparr>fs_live := insert n (fs_live a)\<rparr>)"
| fs_retire: "n \<in> fs_live a \<Longrightarrow>
    file_set_step a (a\<lparr>fs_live := fs_live a - {n}, fs_dead := (fs_dead a)(n \<mapsto> q)\<rparr>)"
| fs_purge: "file_set_step a (a\<lparr>fs_dead := (\<lambda>n. case fs_dead a n of None \<Rightarrow> None
      | Some q \<Rightarrow> if q < oldest then None else Some q)\<rparr>)"

inductive_simps file_set_step_iff: "file_set_step a b"

definition abs_storage :: "'f BlobStorage \<Rightarrow> file_set" where
  "abs_storage bs =
     \<lparr>fs_live = {n. \<exists>m. map_of (bs_files bs) n = Some m \<and> \<not> is_obsolete m},
      fs_dead = map_of (bs_obsolete_files bs)\<rparr>"

lemma abs_storage_cong:
  assumes "\<And>n. (\<exists>m. map_of (bs_files bs') n = Some m \<and> \<not> is_obsolete m)
      \<longleftrightarrow> (\<exists>m. map_of (bs_files bs) n = Some m \<and> \<not> is_obsolete m)"
    and "bs_obsolete_files bs' = bs_obsolete_files bs"
  shows "abs_storage bs' = abs_storage bs"
  using assms by (simp add: abs_storage_def)

lemma with_file_abs:
  assumes run: "with_file n f bs = Some bs'" and same: "\<And>m m'. f m = Some m' \<Longrightarrow> same_place m m'"
  shows "abs_storage bs' = abs_storage bs"
proof -
  obtain m m' where m: "map_of (bs_files bs) n = Some m" and f: "f m = Some m'"
    and bs': "bs' = bs\<lparr>bs_files := amap_update n (\<lambda>_. m') (bs_files bs)\<rparr>"
    using run by (auto simp: with_file_def exec_simps)
  from same [OF f] have "is_obsolete m' = is_obsolete m" by (simp add: same_place_def)
  with m show ?thesis by (intro abs_storage_cong) (auto simp: bs' amap_simps)
qed

lemma obsolete_None:
  "storage_ok cmp bs \<Longrightarrow> map_of (bs_obsolete_files bs) n = None
   \<longleftrightarrow> (\<forall>m. map_of (bs_files bs) n = Some m \<longrightarrow> \<not> is_obsolete m)"
  using storage_okD(1,4) [of cmp bs]
  by (auto simp: obsolete_ok_iff map_of_eq_None_iff [of "bs_obsolete_files bs"])

lemma untouched:
  assumes "storage_ok cmp bs" and "bs_files bs' = bs_files bs" and "bs_blob_ranges bs' = bs_blob_ranges bs"
    and "bs_obsolete_files bs' = bs_obsolete_files bs" and "bs_level_blob_size bs' = bs_level_blob_size bs"
    and "bs_num_levels bs' = bs_num_levels bs"
  shows "storage_ok cmp bs' \<and> abs_storage bs' = abs_storage bs"
proof -
  have "file_bucket bs' = file_bucket bs" using assms(6) by (simp add: file_bucket_def fun_eq_iff)
  with assms show ?thesis by (simp add: storage_ok_def abs_storage_def)
qed

lemma map_of_filter_keep:
  "amap_ok ps \<Longrightarrow> map_of (filter (\<lambda>p. P (snd p)) ps) n
   = (case map_of ps n of None \<Rightarrow> None | Some q \<Rightarrow> if P q then Some q else None)"
  by (induction ps) (auto simp: map_of_eq_None_iff split: option.split)

lemma map_of_filter_key: "map_of (filter (\<lambda>p. P (fst p)) ps) n = (if P n then map_of ps n else None)"
  by (induction ps) auto

context comparator_laws
begin

lemma storage_step_props:
  assumes "storage_step cmp R bs bs'" and ok: "storage_ok cmp bs"
  shows "storage_ok cmp bs' \<and> file_set_step (abs_storage bs) (abs_storage bs')"
  using assms(1)
proof cases
  case (step_add m st st')
  have new: "map_of (bs_files bs) (file_number m) = None" using add_new [OF step_add(1)] .
  obtain b s where "BlobStorage_AddBlobFile cmp m bs st = Some (b, s)" and "storage_ok cmp b"
    and "bs_files b = bs_files bs @ [(file_number m, m)]" and "bs_obsolete_files b = bs_obsolete_files bs"
    by (rule storage_add [OF ok new step_add(2,3)])
  with step_add(1) have bs': "storage_ok cmp bs'" "bs_files bs' = bs_files bs @ [(file_number m, m)]"
    "bs_obsolete_files bs' = bs_obsolete_files bs" by simp_all
  from new have "abs_storage bs' = (abs_storage bs)\<lparr>fs_live := insert (file_number m) (fs_live (abs_storage bs))\<rparr>"
    using step_add(2) by (auto simp: abs_storage_def bs'(2,3) map_of_append_single simp del: map_of_append split: if_splits)
  moreover have "file_number m \<notin> fs_live (abs_storage bs)" "fs_dead (abs_storage bs) (file_number m) = None"
    using new obsolete_None [OF ok] by (simp_all add: abs_storage_def)
  ultimately show ?thesis
    using bs'(1) fs_add by metis
next
  case (step_retire n q st found st')
  show ?thesis
  proof (cases found)
    case True
    then obtain m where m: "map_of (bs_files bs) n = Some m" "\<not> is_obsolete m"
      using step_retire retire_not_twice by metis
    obtain b s where "MarkFileObsolete False n q bs st = Some (True, b, s)" and "storage_ok cmp b"
      and "bs_files b = amap_update n (\<lambda>_. m\<lparr>file_state := kObsolete\<rparr>) (bs_files bs)"
      and "bs_obsolete_files b = bs_obsolete_files bs @ [(n, q)]"
      by (rule storage_retire [OF ok m])
    with step_retire have bs': "storage_ok cmp bs'"
      "bs_files bs' = amap_update n (\<lambda>_. m\<lparr>file_state := kObsolete\<rparr>) (bs_files bs)"
      "bs_obsolete_files bs' = bs_obsolete_files bs @ [(n, q)]" by simp_all
    have "map_of (bs_obsolete_files bs) n = None"
      using m by (simp add: obsolete_None [OF ok])
    then have "abs_storage bs' = (abs_storage bs)\<lparr>fs_live := fs_live (abs_storage bs) - {n},
        fs_dead := (fs_dead (abs_storage bs))(n \<mapsto> q)\<rparr>"
      using m(1) by (auto simp: abs_storage_def bs'(2,3) amap_simps map_of_append_single is_obsolete_def
          simp del: map_of_append split: if_splits)
    moreover have "n \<in> fs_live (abs_storage bs)" using m by (simp add: abs_storage_def)
    ultimately show ?thesis using bs'(1) fs_retire by metis
  next
    case False
    with step_retire retire_missing ok show ?thesis by (metis fs_stutter)
  qed
next
  case (step_purge out oldest st k out' st' k')
  from storage_obsolete_files [OF ok, of False R out oldest st k] step_purge
  have bs': "storage_ok cmp bs'"
    "bs_files bs' = filter (\<lambda>p. fst p \<notin> fst ` set (filter (\<lambda>p. snd p < oldest) (bs_obsolete_files bs))) (bs_files bs)"
    "bs_obsolete_files bs' = filter (\<lambda>p. \<not> snd p < oldest) (bs_obsolete_files bs)" by auto
  have os: "amap_ok (bs_obsolete_files bs)"
    "x \<in> fst ` set (bs_obsolete_files bs) \<longleftrightarrow> (\<exists>m. map_of (bs_files bs) x = Some m \<and> is_obsolete m)" for x
    using storage_okD(1,4) [OF ok] by (simp_all add: obsolete_ok_iff)
  have "x \<notin> fst ` set (filter (\<lambda>p. snd p < oldest) (bs_obsolete_files bs))"
    if "map_of (bs_files bs) x = Some m" "\<not> is_obsolete m" for x m
    using os(2) [of x] that by auto
  then have live: "(\<exists>m. map_of (bs_files bs') x = Some m \<and> \<not> is_obsolete m)
      \<longleftrightarrow> (\<exists>m. map_of (bs_files bs) x = Some m \<and> \<not> is_obsolete m)" for x
    by (simp add: bs'(2) map_of_filter_key [of "\<lambda>n. n \<notin> fst ` _"]) blast
  have "abs_storage bs' = (abs_storage bs)\<lparr>fs_dead := (\<lambda>n. case fs_dead (abs_storage bs) n of None \<Rightarrow> None
      | Some q \<Rightarrow> if q < oldest then None else Some q)\<rparr>"
    using live by (simp add: abs_storage_def bs'(3) map_of_filter_keep [OF os(1), of "\<lambda>q. \<not> q < oldest"]
        fun_eq_iff split: option.split)
  then have "file_set_step (abs_storage bs) (abs_storage bs')"
    by (simp only: fs_purge)
  with bs'(1) show ?thesis ..
next
  case (step_transit n ev)
  have "same_place m m'" if "FileStateTransit False ev m = Some m'" for m m'
    using transit_same_place [OF that step_transit(2)] .
  with with_file_ok [OF ok step_transit(1)] with_file_abs [OF step_transit(1)] fs_stutter
  show ?thesis by simp
next
  case (step_discard n d)
  with with_file_ok [OF ok step_discard discard_same_place] with_file_abs [OF step_discard discard_same_place] fs_stutter
  show ?thesis by simp
next
  case (step_score c)
  then have "bs_files bs' = bs_files bs \<and> bs_blob_ranges bs' = bs_blob_ranges bs \<and>
      bs_obsolete_files bs' = bs_obsolete_files bs \<and> bs_level_blob_size bs' = bs_level_blob_size bs \<and>
      bs_num_levels bs' = bs_num_levels bs"
    by (auto simp: ComputeGCScore_def exec_simps Let_def)
  with untouched [OF ok, of bs'] show ?thesis by (simp add: fs_stutter)
next
  case (step_building env n s)
  then have "bs_files bs' = bs_files bs \<and> bs_blob_ranges bs' = bs_blob_ranges bs \<and>
      bs_obsolete_files bs' = bs_obsolete_files bs \<and> bs_level_blob_size bs' = bs_level_blob_size bs \<and>
      bs_num_levels bs' = bs_num_levels bs"
    by (auto simp: AddBuildingFile_def split: sum.splits)
  with untouched [OF ok, of bs'] show ?thesis by (simp add: fs_stutter)
next
  case step_destroyed
  with untouched [OF ok, of bs'] show ?thesis by (auto simp: MarkDestroyed_def fs_stutter)
qed

end

context comparator_laws
begin

lemma storage_history_props:
  assumes "storage_history cmp R bs bs'" and "storage_ok cmp bs"
  shows "storage_ok cmp bs' \<and> file_set_step\<^sup>*\<^sup>* (abs_storage bs) (abs_storage bs')"
  using assms
proof (induction rule: rtranclp_induct)
  case (step b c)
  then show ?case using storage_step_props [of R b c] by (meson rtranclp.rtrancl_into_rtrancl)
qed simp

end

text \<open>A file that is live is not forgotten: it stays live, or it is retired.\<close>

lemma file_set_keeps:
  "file_set_step a b \<Longrightarrow> n \<in> fs_live a \<Longrightarrow> n \<in> fs_live b \<or> n \<in> dom (fs_dead b)"
  by (induction rule: file_set_step.induct) auto

section \<open>The range query\<close>

definition file_in_range :: "comparator \<Rightarrow> bool \<Rightarrow> bytes option \<times> bytes option \<Rightarrow> BlobFileMeta \<Rightarrow> bool" where
  "file_in_range cmp include_end rng m =
     (\<not> is_obsolete m \<and>
      (case fst rng of None \<Rightarrow> True | Some start \<Rightarrow> cmp start (smallest_key m) \<le> 0) \<and>
      (case snd rng of
         None \<Rightarrow> True
       | Some limit \<Rightarrow> largest_key m \<noteq> [] \<and> cmp (smallest_key m) limit \<le> 0 \<and>
           (if include_end then cmp (largest_key m) limit \<le> 0 else cmp (largest_key m) limit < 0)))"

lemma takeWhile_take: "takeWhile P (take n xs) = take n (takeWhile P xs)"
  by (induction xs arbitrary: n) (auto simp: take_Cons split: nat.splits)

lemma takeWhile_weaker: "(\<And>x. P x \<Longrightarrow> Q x) \<Longrightarrow> length (takeWhile P xs) \<le> length (takeWhile Q xs)"
  by (induction xs) auto

context comparator_laws
begin

lemma takeWhile_filter_sorted:
  assumes "sorted_wrt (\<lambda>p q. cmp (fst p) (fst q) \<le> 0) rs"
    and "\<And>p q. cmp (fst p) (fst q) \<le> 0 \<Longrightarrow> P q \<Longrightarrow> P p"
  shows "takeWhile P rs = filter P rs \<and> dropWhile P rs = filter (\<lambda>p. \<not> P p) rs"
  using assms(1)
proof (induction rs)
  case (Cons p rs)
  show ?case
  proof (cases "P p")
    case False
    with Cons.prems assms(2) [of p] have "\<forall>q\<in>set rs. \<not> P q" by (meson sorted_wrt.simps(2))
    with False show ?thesis by (simp add: filter_empty_conv filter_id_conv)
  qed (use Cons in simp)
qed simp

lemma lower_filter:
  assumes "sorted_wrt (\<lambda>p q. cmp (fst p) (fst q) \<le> 0) rs"
  shows "drop (lower_bound cmp b rs) rs
    = filter (\<lambda>p. case b of None \<Rightarrow> True | Some key \<Rightarrow> cmp key (fst p) \<le> 0) rs"
proof (cases b)
  case (Some key)
  have "takeWhile (\<lambda>p. cmp (fst p) key < 0) rs = filter (\<lambda>p. cmp (fst p) key < 0) rs \<and>
      dropWhile (\<lambda>p. cmp (fst p) key < 0) rs = filter (\<lambda>p. \<not> cmp (fst p) key < 0) rs"
  proof (rule takeWhile_filter_sorted [OF assms])
    fix p q :: "bytes \<times> u64" assume "cmp (fst p) (fst q) \<le> 0" and "cmp (fst q) key < 0"
    then show "cmp (fst p) key < 0"
      using cmp_trans [of key "fst p" "fst q"] cmp_not_less [of "fst p" key] cmp_not_less [of "fst q" key] by force
  qed
  then have "dropWhile (\<lambda>p. cmp (fst p) key < 0) rs = filter (\<lambda>p. cmp key (fst p) \<le> 0) rs"
    by (simp add: cmp_not_less)
  then show ?thesis
    unfolding dropWhile_eq_drop by (simp add: Some lower_bound_def)
qed (simp add: lower_bound_def)

lemma upper_filter:
  assumes "sorted_wrt (\<lambda>p q. cmp (fst p) (fst q) \<le> 0) rs"
  shows "take (upper_bound cmp e rs) rs
    = filter (\<lambda>p. case e of None \<Rightarrow> True | Some key \<Rightarrow> cmp (fst p) key \<le> 0) rs"
proof (cases e)
  case (Some key)
  have "takeWhile (\<lambda>p. \<not> cmp key (fst p) < 0) rs = filter (\<lambda>p. \<not> cmp key (fst p) < 0) rs \<and>
      dropWhile (\<lambda>p. \<not> cmp key (fst p) < 0) rs = filter (\<lambda>p. \<not> \<not> cmp key (fst p) < 0) rs"
  proof (rule takeWhile_filter_sorted [OF assms])
    fix p q :: "bytes \<times> u64" assume "cmp (fst p) (fst q) \<le> 0" and "\<not> cmp key (fst q) < 0"
    then show "\<not> cmp key (fst p) < 0" unfolding cmp_not_less by (rule cmp_trans)
  qed
  then show ?thesis
    using Some takeWhile_eq_take [of "\<lambda>p. \<not> cmp key (fst p) < 0" rs] by (simp add: upper_bound_def cmp_not_less)
qed (simp add: upper_bound_def)

end

lemma collect_entries_filter:
  assumes "\<And>p. p \<in> set ps \<Longrightarrow> \<exists>m. map_of fs (snd p) = Some m \<and> f m = Some (if P m then [snd p] else [])"
  shows "collect_entries f fs ps = Some (map snd (filter (\<lambda>p. \<exists>m. map_of fs (snd p) = Some m \<and> P m) ps))"
  using assms
proof (induction ps)
  case (Cons p ps)
  obtain m where "map_of fs (snd p) = Some m" and "f m = Some (if P m then [snd p] else [])"
    using Cons.prems [of p] by force
  moreover have "collect_entries f fs ps = Some (map snd (filter (\<lambda>p. \<exists>m. map_of fs (snd p) = Some m \<and> P m) ps))"
    using Cons by simp
  ultimately show ?case by simp
qed simp

context comparator_laws
begin

lemma files_in_range_spec:
  assumes ok: "storage_ok cmp bs"
    and order: "\<And>start limit. rng = (Some start, Some limit) \<Longrightarrow> cmp start limit \<le> 0"
  shows "files_in_range nd cmp include_end bs rng
    = Some (map snd (filter (\<lambda>p. \<exists>m. map_of (bs_files bs) (snd p) = Some m \<and> file_in_range cmp include_end rng m)
        (bs_blob_ranges bs)))"
proof -
  let ?rs = "bs_blob_ranges bs" and ?fs = "bs_files bs"
  let ?lo = "lower_bound cmp (fst rng) ?rs" and ?up = "upper_bound cmp (snd rng) ?rs"
  let ?above = "\<lambda>p :: bytes \<times> u64. case fst rng of None \<Rightarrow> True | Some key \<Rightarrow> cmp key (fst p) \<le> 0"
  let ?below = "\<lambda>p :: bytes \<times> u64. case snd rng of None \<Rightarrow> True | Some key \<Rightarrow> cmp (fst p) key \<le> 0"
  note D = storage_okD [OF ok]
  have srt: "sorted_wrt (\<lambda>p q. cmp (fst p) (fst q) \<le> 0) ?rs"
    and idx: "\<And>key n. (key, n) \<in> set ?rs \<longleftrightarrow> (\<exists>m. map_of ?fs n = Some m \<and> smallest_key m = key)"
    using D(3) by (simp_all add: index_ok_iff [OF D(1)])
  have "?lo \<le> ?up"
  proof (cases "fst rng"; cases "snd rng")
    fix start limit assume r: "fst rng = Some start" "snd rng = Some limit"
    have "cmp start limit \<le> 0" using order [of start limit] r by (cases rng) simp
    then have "length (takeWhile (\<lambda>p. cmp (fst p) start < 0) ?rs) \<le> length (takeWhile (\<lambda>p. \<not> cmp limit (fst p) < 0) ?rs)"
      by (intro takeWhile_weaker) (auto simp: cmp_not_less intro: cmp_trans [of _ start])
    with r show ?thesis by (simp add: lower_bound_def upper_bound_def)
  qed (auto simp: lower_bound_def upper_bound_def length_takeWhile_le)
  then have "take (?up - ?lo) (drop ?lo ?rs) = drop (lower_bound cmp (fst rng) (take ?up ?rs)) (take ?up ?rs)"
    by (simp add: drop_take lower_bound_def takeWhile_take min_def split: option.split)
  also have "\<dots> = filter (\<lambda>p. ?below p \<and> ?above p) ?rs"
    unfolding lower_filter [OF sorted_wrt_take [OF srt]] by (simp add: upper_filter [OF srt])
  finally have mid: "take (?up - ?lo) (drop ?lo ?rs) = filter (\<lambda>p. ?below p \<and> ?above p) ?rs" .
  let ?in = "file_in_range cmp include_end rng"
  have step: "\<exists>m. map_of ?fs (snd p) = Some m \<and>
      in_range_step nd cmp (fst rng) (snd rng) include_end m = Some (if ?in m then [snd p] else [])"
    if "p \<in> set (filter (\<lambda>p. ?below p \<and> ?above p) ?rs)" for p
  proof -
    have p: "p \<in> set ?rs" "?below p" "?above p" using that by simp_all
    obtain m where m: "map_of ?fs (snd p) = Some m" and k: "smallest_key m = fst p"
      using p(1) idx [of "fst p" "snd p"] by auto
    note p(2,3)
    then have "in_range_step nd cmp (fst rng) (snd rng) include_end m = Some (if ?in m then [snd p] else [])"
      using D(2) [OF m] k cmp_swap [of "fst p"]
      by (auto simp: in_range_step_def file_in_range_def Let_def cmp_not_less [symmetric] not_less
          split: option.splits)
    with m show ?thesis by blast
  qed
  have eq: "filter (\<lambda>p. \<exists>m. map_of ?fs (snd p) = Some m \<and> ?in m) (filter (\<lambda>p. ?below p \<and> ?above p) ?rs)
      = filter (\<lambda>p. \<exists>m. map_of ?fs (snd p) = Some m \<and> ?in m) ?rs"
  proof -
    have "?below p \<and> ?above p" if "p \<in> set ?rs" "\<exists>m. map_of ?fs (snd p) = Some m \<and> ?in m" for p
      using that idx [of "fst p" "snd p"] by (auto simp: file_in_range_def split: option.splits)
    then show ?thesis by (auto intro: filter_cong)
  qed
  show ?thesis
    using \<open>?lo \<le> ?up\<close> collect_entries_filter [where ps = "filter (\<lambda>p. ?below p \<and> ?above p) ?rs", OF step]
    by (simp add: files_in_range_def Let_def mid eq del: filter_filter)
qed

end

section \<open>Sorted runs\<close>

definition run_ok :: "BlobFileMeta list \<Rightarrow> bool" where
  "run_ok s = (s \<noteq> [] \<and> successively (\<lambda>f g. bytewise (largest_key f) (smallest_key g) < 0) s)"

lemma place_in_run_ok: "list_all run_ok ss \<Longrightarrow> list_all run_ok (place_in_run f ss)"
  by (induction f ss rule: place_in_run.induct)
    (auto simp: run_ok_def successively_append_iff)

lemma place_in_run_mset: "mset (concat (place_in_run f ss)) = add_mset f (mset (concat ss))"
  by (induction f ss rule: place_in_run.induct) auto

lemma fold_place_in_run:
  "list_all run_ok ss \<Longrightarrow> list_all run_ok (fold place_in_run fs ss) \<and>
   mset (concat (fold place_in_run fs ss)) = mset fs + mset (concat ss)"
  by (induction fs arbitrary: ss) (auto simp: place_in_run_ok place_in_run_mset)

lemma runs_of_ok: "list_all run_ok (runs_of fs) \<and> mset (concat (runs_of fs)) = mset fs"
  using fold_place_in_run [of "[]" fs] by (simp add: runs_of_def)

context comparator_laws
begin

lemma cmp_less_trans: "cmp a b < 0 \<Longrightarrow> cmp b c \<le> 0 \<Longrightarrow> cmp a c < 0"
  using cmp_trans [of a b c] cmp_trans [of b c a] cmp_eq [of a c] cmp_not_less [of a b] by force

lemma strict_weak_cmp: "strict_weak (\<lambda>f g. cmp (key f) (key g) < 0) fs"
proof -
  have "\<not> cmp (key y) (key x) < 0" if "cmp (key x) (key y) < 0" for x y
    using that by (simp add: cmp_not_less)
  moreover have "cmp (key x) (key y) < 0 \<or> cmp (key y) (key z) < 0" if "cmp (key x) (key z) < 0" for x y z
    using that cmp_less_trans [of "key x" "key z" "key y"] cmp_not_less [of "key y" "key z"] by blast
  ultimately show ?thesis by (simp add: strict_weak_def list_all_iff)
qed

end

text \<open>The files whose key range contains the smallest key of \<open>f\<close>.\<close>

definition overlapping :: "BlobFileMeta \<Rightarrow> BlobFileMeta \<Rightarrow> bool" where
  "overlapping f g =
     (bytewise (smallest_key g) (smallest_key f) \<le> 0 \<and> bytewise (smallest_key f) (largest_key g) \<le> 0)"

lemma place_in_run_length:
  "length (place_in_run f ss) = length ss \<or>
   length (place_in_run f ss) = Suc (length ss) \<and>
   (\<forall>s\<in>set ss. bytewise (smallest_key f) (largest_key (last s)) \<le> 0)"
  by (induction f ss rule: place_in_run.induct) (auto simp: bytewise.cmp_not_less)

lemma lasts_subset: "list_all run_ok ss \<Longrightarrow> mset (map last ss) \<subseteq># mset (concat ss)"
proof (induction ss)
  case (Cons s ss)
  then have "last s \<in> set s" and "mset (map last ss) \<subseteq># mset (concat ss)" by (simp_all add: run_ok_def)
  then have "{#last s#} + mset (map last ss) \<subseteq># mset s + mset (concat ss)"
    by (intro subset_mset.add_mono) simp_all
  then show ?case by simp
qed simp

lemma fold_place_depth:
  assumes "sorted_by (\<lambda>f g. bytewise (smallest_key f) (smallest_key g) < 0) (ds @ fs)"
    and "list_all run_ok ss" and "mset (concat ss) = mset ds"
    and "\<forall>f\<in>set fs. bytewise (smallest_key f) (largest_key f) \<le> 0"
    and "ss = [] \<or> (\<exists>f\<in>set ds. length ss \<le> length (filter (overlapping f) ds))"
  shows "fold place_in_run fs ss = [] \<or>
    (\<exists>f\<in>set (ds @ fs). length (fold place_in_run fs ss) \<le> length (filter (overlapping f) (ds @ fs)))"
  using assms
proof (induction fs arbitrary: ds ss)
  case (Cons f fs)
  let ?ss = "place_in_run f ss"
  have depth: "\<exists>g\<in>set (ds @ [f]). length ?ss \<le> length (filter (overlapping g) (ds @ [f]))"
  proof (cases "length ?ss = length ss")
    case True
    show ?thesis
    proof (cases "ss = []")
      case False
      with Cons.prems(5) obtain g where "g \<in> set ds" "length ss \<le> length (filter (overlapping g) ds)" by blast
      with True show ?thesis by (auto intro!: bexI [of _ g])
    qed (use True in simp)
  next
    case False
    then have len: "length ?ss = Suc (length ss)"
      and all: "\<forall>s\<in>set ss. bytewise (smallest_key f) (largest_key (last s)) \<le> 0"
      using place_in_run_length [of f ss] by auto
    have sub: "mset (map last ss) \<subseteq># mset ds" using lasts_subset [OF Cons.prems(2)] Cons.prems(3) by simp
    have "last s \<in> set ds" if "s \<in> set ss" for s
      using mset_subset_eqD [OF sub, of "last s"] that by simp
    then have ov: "overlapping f (last s)" if "s \<in> set ss" for s
      using that all Cons.prems(1) by (auto simp: overlapping_def sorted_wrt_append bytewise.cmp_not_less)
    have "filter (overlapping f) (map last ss) = map last ss" using ov by (simp add: filter_id_conv)
    moreover have "mset (filter (overlapping f) (map last ss)) \<subseteq># mset (filter (overlapping f) ds)"
      unfolding mset_filter by (rule multiset_filter_mono [OF sub])
    ultimately have "length ss \<le> length (filter (overlapping f) ds)"
      using size_mset_mono [of "mset (map last ss)" "mset (filter (overlapping f) ds)"]
      by (simp only: size_mset length_map)
    moreover have "overlapping f f" using Cons.prems(4) by (simp add: overlapping_def)
    ultimately show ?thesis using len by (auto intro!: bexI [of _ f])
  qed
  from Cons.IH [of "ds @ [f]" ?ss] Cons.prems depth show ?case
    by (simp add: place_in_run_ok place_in_run_mset)
qed simp

section \<open>Properties\<close>

text \<open>A storage with two files, one of them retired at sequence number 40.\<close>

definition sample_meta2 :: BlobFileMeta where
  "sample_meta2 = new_BlobFileMeta 6 500 4 0 [104] [107] kUnSorted"

definition sample_store :: "bytes BlobStorage" where
  "sample_store = new_BlobStorage default_TitanDBOptions (default_TitanCFOptions rle_codec) 7 0"

definition sample_storage :: "bytes BlobStorage" where
  "sample_storage =
     sample_store\<lparr>bs_files := [(5, sample_meta\<lparr>file_state := kObsolete\<rparr>), (6, sample_meta2)],
       bs_blob_ranges := [([97], 5), ([104], 6)], bs_obsolete_files := [(5, 40)],
       bs_level_blob_size := [0, 0, 0, 0, 0, 0, 0, 500]\<rparr>"

definition sample_storage1 :: "bytes BlobStorage" where
  "sample_storage1 =
     sample_store\<lparr>bs_files := [(5, sample_meta)], bs_blob_ranges := [([97], 5)],
       bs_level_blob_size := [0, 0, 1000, 0, 0, 0, 0, 0]\<rparr>"

definition sample_storage2 :: "bytes BlobStorage" where
  "sample_storage2 =
     sample_store\<lparr>bs_files := [(5, sample_meta), (6, sample_meta2)],
       bs_blob_ranges := [([97], 5), ([104], 6)],
       bs_level_blob_size := [0, 0, 1000, 0, 0, 0, 0, 500]\<rparr>"

lemma sample_add1: "map_option fst (BlobStorage_AddBlobFile bytewise sample_meta sample_store None) = Some sample_storage1"
  by code_simp

lemma sample_add2:
  "map_option fst (BlobStorage_AddBlobFile bytewise sample_meta2 sample_storage1 None) = Some sample_storage2"
  by code_simp

lemma sample_retire:
  "map_option (\<lambda>(found, bs, st). (found, bs)) (MarkFileObsolete False 5 40 sample_storage2 None) = Some (True, sample_storage)"
  by code_simp

lemma sample_history:
  "storage_step bytewise R sample_store sample_storage1"
  "storage_step bytewise R sample_storage1 sample_storage2"
  "storage_step bytewise R sample_storage2 sample_storage"
proof -
  obtain st where "BlobStorage_AddBlobFile bytewise sample_meta sample_store None = Some (sample_storage1, st)"
    using sample_add1 by auto
  then show "storage_step bytewise R sample_store sample_storage1"
    by (rule step_add) code_simp+
  obtain st where "BlobStorage_AddBlobFile bytewise sample_meta2 sample_storage1 None = Some (sample_storage2, st)"
    using sample_add2 by auto
  then show "storage_step bytewise R sample_storage1 sample_storage2"
    by (rule step_add) code_simp+
  obtain st where "MarkFileObsolete False 5 40 sample_storage2 None = Some (True, sample_storage, st)"
    using sample_retire by auto
  then show "storage_step bytewise R sample_storage2 sample_storage" by (rule step_retire)
qed



lemma sample_storage_ok: "storage_ok bytewise sample_storage"
  by code_simp



text \<open>The files that became obsolete before the sequence number \<open>oldest\<close>.\<close>

definition expired :: "u64 \<Rightarrow> 'f BlobStorage \<Rightarrow> u64 list" where
  "expired oldest bs = map fst (filter (\<lambda>p. snd p < oldest) (bs_obsolete_files bs))"



text \<open>
  C20. The range query returns, in the order of their smallest keys, exactly the files that
  are not obsolete and whose keys lie in the range, and its assertion does not fail; a
  missing bound is open. A file without key bounds is left out when the range has a limit.
\<close>

theorem range_query_exact:
  assumes "comparator_laws cmp" and "storage_ok cmp bs"
    and "\<And>start limit. rng = (Some start, Some limit) \<Longrightarrow> cmp start limit \<le> 0"
  shows "GetBlobFilesInRanges nd cmp [rng] include_end bs files
    = Some (OK, files @ map snd (filter (\<lambda>p. \<exists>m. map_of (bs_files bs) (snd p) = Some m \<and>
        file_in_range cmp include_end rng m) (bs_blob_ranges bs)))"
  using comparator_laws.files_in_range_spec [OF assms, where nd = nd and include_end = include_end] by simp

lemma range_query_exact_witness:
  "GetBlobFilesInRanges False bytewise [(Some [100], Some [107])] True sample_storage2 [] = Some (OK, [6])"
proof -
  have "storage_ok bytewise sample_storage2" by code_simp
  moreover have "bytewise [100] [107] \<le> 0" by simp
  ultimately have "GetBlobFilesInRanges False bytewise [(Some [100], Some [107])] True sample_storage2 []
    = Some (OK, [] @ map snd (filter (\<lambda>p. \<exists>m. map_of (bs_files sample_storage2) (snd p) = Some m \<and>
        file_in_range bytewise True (Some [100], Some [107]) m) (bs_blob_ranges sample_storage2)))"
    by (intro range_query_exact [OF comparator_laws_bytewise]) auto
  then show ?thesis
    by (simp add: sample_storage2_def file_in_range_def sample_meta_def sample_meta2_def new_BlobFileMeta_def is_obsolete_def)
qed


definition sample_storage3 :: "bytes BlobStorage" where
  "sample_storage3 = sample_storage2\<lparr>bs_files := [(6, sample_meta2), (5, sample_meta)]\<rparr>"


text \<open>
  C22. \<open>CountSortedRun\<close> never fails and splits the files into runs in which every file
  ends before the next begins; the reported lengths are those of the runs and add up to the
  number of files. The number of runs is the least possible: some file has as many files
  over its smallest key as there are runs.
\<close>

theorem sorted_runs_minimal:
  assumes "\<And>f. f \<in> set files \<Longrightarrow> bytewise (smallest_key f) (largest_key f) \<le> 0"
  shows "\<exists>runs. CountSortedRun files = Some (map length runs)
    \<and> list_all run_ok runs \<and> mset (concat runs) = mset files
    \<and> (runs = [] \<or> (\<exists>f\<in>set files. length runs \<le> length (filter (overlapping f) files)))"
proof -
  let ?lt = "\<lambda>f1 f2. bytewise (smallest_key f1) (smallest_key f2) < 0"
  obtain ys where ys: "std_sort ?lt files = Some ys"
    using bytewise.strict_weak_cmp [of smallest_key files] by (auto simp: std_sort_def)
  note S = std_sort_Some [OF ys]
  have "runs_of ys = [] \<or> (\<exists>f\<in>set ys. length (runs_of ys) \<le> length (filter (overlapping f) ys))"
    using fold_place_depth [of "[]" ys "[]"] S(2,4) assms by (auto simp: runs_of_def)
  moreover have "length (filter P ys) = length (filter P files)" for P
    using S(1) by (metis mset_filter size_mset)
  ultimately show ?thesis
    using runs_of_ok [of ys] S(1,2) ys by (intro exI [of _ "runs_of ys"]) (simp add: CountSortedRun_def)
qed

lemma sorted_runs_minimal_witness:
  "\<exists>runs. CountSortedRun [sample_meta2, sample_meta] = Some (map length runs) \<and> list_all run_ok runs"
proof -
  have "\<And>f. f \<in> set [sample_meta2, sample_meta] \<Longrightarrow> bytewise (smallest_key f) (largest_key f) \<le> 0"
    by (auto simp: sample_meta_def sample_meta2_def new_BlobFileMeta_def)
  from sorted_runs_minimal [of "[sample_meta2, sample_meta]", OF this] show ?thesis by blast
qed


definition building_store :: "bytes BlobStorage" where
  "building_store = snd (AddBuildingFile (\<lambda>n. Inr (record_bytes False leb128 rle_codec 1 sample_record)) 9
     (sample_store\<lparr>bs_db_options := default_TitanDBOptions\<lparr>sep_before_flush := True\<rparr>\<rparr>))"

definition building_index :: BlobIndex where
  "building_index = \<lparr>bi_file_number = 9, bi_blob_handle = \<lparr>bh_offset = 0,
     bh_size = of_nat (length (record_bytes False leb128 rle_codec 1 sample_record))\<rparr>\<rparr>"


end
