(* ===== verification/Blob_Manager.thy ===== *)
theory Blob_Manager
  imports Storage_Props
begin

text \<open>
  \<open>src/blob_file_manager.h\<close> and what the builders see of the database. A builder works in
  a world \<open>'m\<close>, the state of the database it belongs to, through the record \<open>world\<close>: the
  virtual functions of \<open>BlobFileManager\<close>, the blob storage behind its weak pointer, the
  statistics, the two caches and the thread's I/O counters. The record \<open>rocks\<close> holds the
  code outside the repository. Theory \<open>Titan_DB\<close> provides the world of the real database.
\<close>

section \<open>Handles and the world\<close>

record 'w BlobFileHandle =
  fh_number :: u64
  fh_name :: string
  fh_file :: 'w

record ('w, 'f, 'k, 'c) rocks =
  rk_nd :: bool
  rk_C :: coding
  rk_L :: codec
  rk_W :: "'w wfile"
  rk_F :: "'f rfile"
  rk_K :: "('c, bytes) cache_ops"
  rk_R :: "('k, 'f BlobFileReader) cache_ops"
  rk_unique_id :: "'f \<Rightarrow> bytes"
  rk_new_id :: u64
  rk_cmps :: "u32 \<Rightarrow> comparator"

type_synonym 'w finished_files = "(BlobFileMeta \<times> 'w BlobFileHandle) list"

record ('m, 'w, 'f, 'k, 'c) world =
  w_NewFile :: "'m \<Rightarrow> status \<times> 'w BlobFileHandle option \<times> 'm"
  w_BatchFinishFiles :: "u32 \<Rightarrow> 'w finished_files \<Rightarrow> 'm \<Rightarrow> (status \<times> 'm) option"
  w_BatchDeleteFiles :: "'w BlobFileHandle list \<Rightarrow> 'm \<Rightarrow> (status \<times> 'm) option"
  w_storage :: "u32 \<Rightarrow> 'm \<Rightarrow> 'f BlobStorage option"
  w_put_storage :: "u32 \<Rightarrow> 'f BlobStorage \<Rightarrow> 'm \<Rightarrow> 'm"
  w_stats :: "'m \<Rightarrow> stats_ptr"
  w_put_stats :: "stats_ptr \<Rightarrow> 'm \<Rightarrow> 'm"
  w_readers :: "'m \<Rightarrow> 'k"
  w_put_readers :: "'k \<Rightarrow> 'm \<Rightarrow> 'm"
  w_blobs :: "'m \<Rightarrow> 'c"
  w_put_blobs :: "'c \<Rightarrow> 'm \<Rightarrow> 'm"
  w_open :: "'m \<Rightarrow> u64 \<Rightarrow> status + 'f"
  w_iostats :: "'m \<Rightarrow> (u64 \<times> u64) option"

section \<open>The manager\<close>

definition FinishFile ::
    "('m, 'w, 'f, 'k, 'c) world \<Rightarrow> u32 \<Rightarrow> BlobFileMeta \<Rightarrow> 'w BlobFileHandle \<Rightarrow> 'm \<Rightarrow> (status \<times> 'm) option" where
  "FinishFile M cf file handle w = w_BatchFinishFiles M cf [(file, handle)] w"

definition DeleteFile ::
    "('m, 'w, 'f, 'k, 'c) world \<Rightarrow> 'w BlobFileHandle \<Rightarrow> 'm \<Rightarrow> (status \<times> 'm) option" where
  "DeleteFile M handle w = w_BatchDeleteFiles M [handle] w"

text \<open>The implementations of the base class, which do nothing.\<close>

definition base_BatchFinishFiles :: "u32 \<Rightarrow> 'w finished_files \<Rightarrow> 'm \<Rightarrow> (status \<times> 'm) option" where
  "base_BatchFinishFiles cf files w = Some (OK, w)"

definition base_BatchDeleteFiles :: "'w BlobFileHandle list \<Rightarrow> 'm \<Rightarrow> (status \<times> 'm) option" where
  "base_BatchDeleteFiles handles w = Some (OK, w)"

section \<open>Counters\<close>

definition SavePrevIOBytes :: "('m, 'w, 'f, 'k, 'c) world \<Rightarrow> 'm \<Rightarrow> u64 \<times> u64 \<Rightarrow> u64 \<times> u64" where
  "SavePrevIOBytes M w prev = (case w_iostats M w of Some io \<Rightarrow> io | None \<Rightarrow> prev)"

definition UpdateIOBytes :: "('m, 'w, 'f, 'k, 'c) world \<Rightarrow> 'm \<Rightarrow> u64 \<times> u64 \<Rightarrow> u64 \<times> u64 \<Rightarrow> u64 \<times> u64" where
  "UpdateIOBytes M w prev counted =
     (case w_iostats M w of
        Some io \<Rightarrow> (fst counted + (fst io - fst prev), snd counted + (snd io - snd prev))
      | None \<Rightarrow> counted)"

definition world_AddStats ::
    "('m, 'w, 'f, 'k, 'c) world \<Rightarrow> u32 \<Rightarrow> StatsType \<Rightarrow> u64 \<Rightarrow> 'm \<Rightarrow> 'm" where
  "world_AddStats M cf ty v w = w_put_stats M (AddStats cf ty v (w_stats M w)) w"

text \<open>A sequence of calls that add to the counters of one kind of operation.\<close>

definition add_op_stats ::
    "u32 \<Rightarrow> InternalOpType \<Rightarrow> (InternalOpStatsType \<times> u64) list \<Rightarrow> stats_ptr \<Rightarrow> stats_ptr" where
  "add_op_stats cf op vs st =
     map_option (amap_update cf (\<lambda>t. t\<lparr>internal_op_stats :=
       (internal_op_stats t)(op := fold (\<lambda>(ty, v). Op_AddStats ty v) vs (internal_op_stats t op))\<rparr>)) st"

section \<open>Reading in the world\<close>

text \<open>\<open>BlobStorage::Get\<close> and \<open>NewPrefetcher\<close> with the caches of the database.\<close>

definition world_Get ::
    "('w, 'f, 'k, 'c) rocks \<Rightarrow> ('m, 'w, 'f, 'k, 'c) world \<Rightarrow> BlobIndex \<Rightarrow> BlobRecord \<Rightarrow> 'f BlobStorage \<Rightarrow> 'm
     \<Rightarrow> (status \<times> BlobRecord \<times> bool \<times> 'm) option" where
  "world_Get P M index rec bs w = do {
     (s, rec', alive, k, c) \<leftarrow> BlobStorage_Get (rk_nd P) (rk_C P) (rk_L P) (rk_F P) (rk_K P) (rk_R P) (rk_unique_id P)
        (rk_new_id P) (w_open M w) index rec bs (w_readers M w) (w_blobs M w);
     Some (s, rec', alive, w_put_blobs M c (w_put_readers M k w))
   }"

definition world_NewPrefetcher ::
    "('w, 'f, 'k, 'c) rocks \<Rightarrow> ('m, 'w, 'f, 'k, 'c) world \<Rightarrow> u64 \<Rightarrow> 'f BlobStorage \<Rightarrow> 'm
     \<Rightarrow> (status \<times> 'f BlobFilePrefetcher option \<times> 'm) option" where
  "world_NewPrefetcher P M n bs w = do {
     (s, p, k) \<leftarrow> BlobStorage_NewPrefetcher (rk_nd P) (rk_C P) (rk_F P) (rk_R P) (rk_unique_id P) (rk_new_id P)
        (w_open M w) n bs (w_readers M w);
     Some (s, p, w_put_readers M k w)
   }"

definition world_PrefetcherGet ::
    "('w, 'f, 'k, 'c) rocks \<Rightarrow> ('m, 'w, 'f, 'k, 'c) world \<Rightarrow> BlobHandle \<Rightarrow> BlobRecord \<Rightarrow> 'f BlobFilePrefetcher \<Rightarrow> 'm
     \<Rightarrow> (status \<times> BlobRecord \<times> 'f BlobFilePrefetcher \<times> 'm) option" where
  "world_PrefetcherGet P M handle rec p w = do {
     (s, rec', p', c) \<leftarrow> BlobFilePrefetcher_Get (rk_nd P) (rk_C P) (rk_L P) (rk_F P) (rk_K P) handle rec p (w_blobs M w);
     Some (s, rec', p', w_put_blobs M c w)
   }"

end
