(* ===== verification/Table_Builder.thy ===== *)
theory Table_Builder
  imports Blob_Manager Blob_File_Builder
begin

text \<open>
  \<open>src/table_builder.h\<close> and \<open>src/table_builder.cc\<close>: the table builder that separates large
  values during flush and compaction and moves values out of old blob files, and the
  foreground builder that separates them before they reach the memtable. The table builder
  underneath, the format of internal keys and the write batch are RocksDB's and are
  parameters. The timing counters are left out.
\<close>

section \<open>RocksDB's parts\<close>

record ParsedInternalKey =
  ik_user_key :: bytes
  ik_sequence :: u64
  ik_type :: byte

record internal_keys =
  ParseInternalKey :: "bytes \<Rightarrow> ParsedInternalKey option"
  AppendInternalKey :: "ParsedInternalKey \<Rightarrow> bytes"
  kTypeValue :: byte
  kTypeBlobIndex :: byte

record 'b table_builder =
  base_Add :: "bytes \<Rightarrow> bytes \<Rightarrow> 'b \<Rightarrow> 'b"
  base_status :: "'b \<Rightarrow> status"
  base_Finish :: "'b \<Rightarrow> status \<times> 'b"
  base_Abandon :: "'b \<Rightarrow> 'b"
  base_NumEntries :: "'b \<Rightarrow> u64"
  base_FileSize :: "'b \<Rightarrow> u64"
  base_NeedCompact :: "'b \<Rightarrow> bool"
  base_GetTableProperties :: "'b \<Rightarrow> (string \<times> bytes) list"

section \<open>State\<close>

text \<open>
  The file of \<open>blob_handle_\<close> is the file \<open>blob_builder_\<close> writes to; while there is a builder
  the model keeps it there. The files met so far are kept with the metadata seen at that
  time; a later use sees the current metadata.
\<close>

record ('w, 'f, 'b) TitanTableBuilder =
  tt_status :: status
  tt_cf_id :: u32
  tt_db_options :: TitanDBOptions
  tt_cf_options :: TitanCFOptions
  tt_base_builder :: 'b
  tt_blob_handle :: "'w BlobFileHandle option"
  tt_blob_builder :: "'w BlobFileBuilder option"
  tt_finished_blobs :: "'w finished_files"
  tt_merging_files :: "(u64 \<times> 'f BlobFilePrefetcher) list"
  tt_encountered_files :: "(u64 \<times> BlobFileMeta option) list"
  tt_merge_low_level :: bool
  tt_target_level :: int
  tt_merge_level :: int
  tt_start_level :: int
  tt_bytes_read :: u64
  tt_bytes_written :: u64
  tt_io_bytes :: "u64 \<times> u64"

definition new_TitanTableBuilder ::
    "('m, 'w, 'f, 'k, 'c) world \<Rightarrow> u32 \<Rightarrow> TitanDBOptions \<Rightarrow> TitanCFOptions \<Rightarrow> 'b \<Rightarrow> int \<Rightarrow> int \<Rightarrow> int \<Rightarrow> 'm
     \<Rightarrow> ('w, 'f, 'b) TitanTableBuilder option" where
  "new_TitanTableBuilder M cf db_options cf_options base merge_level target_level start_level w = do {
     bs \<leftarrow> w_storage M cf w;
     low \<leftarrow> ShouldGCLowLevel bs;
     Some \<lparr>tt_status = OK, tt_cf_id = cf, tt_db_options = db_options, tt_cf_options = cf_options,
           tt_base_builder = base, tt_blob_handle = None, tt_blob_builder = None, tt_finished_blobs = [],
           tt_merging_files = [], tt_encountered_files = [], tt_merge_low_level = low,
           tt_target_level = target_level, tt_merge_level = merge_level, tt_start_level = start_level,
           tt_bytes_read = 0, tt_bytes_written = 0, tt_io_bytes = (0, 0)\<rparr>
   }"

definition TT_status :: "'b table_builder \<Rightarrow> ('w, 'f, 'b) TitanTableBuilder \<Rightarrow> status" where
  "TT_status B t =
     (let s = tt_status t;
          s = (if IsOk s then base_status B (tt_base_builder t) else s)
      in case tt_blob_builder t of
           Some b \<Rightarrow> (if IsOk s then bb_status b else s)
         | None \<Rightarrow> s)"

definition TT_ok :: "'b table_builder \<Rightarrow> ('w, 'f, 'b) TitanTableBuilder \<Rightarrow> bool" where
  "TT_ok B t = IsOk (TT_status B t)"

section \<open>Writing to blob files\<close>

text \<open>
  When finishing fails, the handle goes to \<open>DeleteFile\<close> but the builder stays. The level is
  converted to an unsigned 32-bit number.
\<close>

definition FinishBlobFile ::
    "('w, 'f, 'k, 'c) rocks \<Rightarrow> ('m, 'w, 'f, 'k, 'c) world \<Rightarrow> 'b table_builder \<Rightarrow> ('w, 'f, 'b) TitanTableBuilder \<Rightarrow> 'm
     \<Rightarrow> (('w, 'f, 'b) TitanTableBuilder \<times> 'm) option" where
  "FinishBlobFile P M B t w =
     (case tt_blob_builder t of
        None \<Rightarrow> Some (t, w)
      | Some b0 \<Rightarrow> do {
          let (s, b) = BlobFileBuilder_Finish (rk_C P) (rk_W P) b0;
          let t = t\<lparr>tt_blob_builder := Some b\<rparr>;
          handle \<leftarrow> tt_blob_handle t;
          let handle = handle\<lparr>fh_file := bb_file b\<rparr>;
          if TT_ok B t
          then do {
            file \<leftarrow> FileStateTransit (rk_nd P) kFlushOrCompactionOutput
              (new_BlobFileMeta (fh_number handle) (wf_GetFileSize (rk_W P) (bb_file b)) (NumEntries b)
                (word_of_int (tt_target_level t)) (bb_smallest_key b) (bb_largest_key b) kSorted);
            Some (t\<lparr>tt_finished_blobs := tt_finished_blobs t @ [(file, handle)],
                    tt_blob_handle := None, tt_blob_builder := None\<rparr>, w)
          }
          else do {
            (s, w) \<leftarrow> DeleteFile M handle w;
            Some (t\<lparr>tt_status := s, tt_blob_handle := None\<rparr>, w)
          }
        })"

definition open_blob_file ::
    "('w, 'f, 'k, 'c) rocks \<Rightarrow> ('m, 'w, 'f, 'k, 'c) world \<Rightarrow> 'b table_builder \<Rightarrow> ('w, 'f, 'b) TitanTableBuilder \<Rightarrow> 'm
     \<Rightarrow> (('w, 'f, 'b) TitanTableBuilder \<times> 'm) option" where
  "open_blob_file P M B t w =
     (if tt_blob_builder t \<noteq> None then Some (t, w)
      else do {
        let (s, handle, w) = w_NewFile M w;
        let t = t\<lparr>tt_status := s, tt_blob_handle := (if IsOk s then handle else tt_blob_handle t)\<rparr>;
        if \<not> TT_ok B t then Some (t, w)
        else do {
          h \<leftarrow> tt_blob_handle t;
          Some (t\<lparr>tt_blob_builder := Some (new_BlobFileBuilder (rk_C P) (rk_W P) (fh_file h) 0)\<rparr>, w)
        }
      })"

definition AddBlob ::
    "('w, 'f, 'k, 'c) rocks \<Rightarrow> ('m, 'w, 'f, 'k, 'c) world \<Rightarrow> 'b table_builder \<Rightarrow> bytes \<Rightarrow> bytes \<Rightarrow> bytes
     \<Rightarrow> ('w, 'f, 'b) TitanTableBuilder \<Rightarrow> 'm \<Rightarrow> (bytes \<times> ('w, 'f, 'b) TitanTableBuilder \<times> 'm) option" where
  "AddBlob P M B key val index_value t w =
     (if \<not> TT_ok B t then Some (index_value, t, w)
      else do {
        let fresh = (tt_blob_builder t = None);
        (t, w) \<leftarrow> open_blob_file P M B t w;
        if fresh \<and> tt_blob_builder t = None then Some (index_value, t, w)
        else do {
          let w = world_AddStats M (tt_cf_id t) LIVE_BLOB_SIZE (of_nat (length val)) w;
          handle \<leftarrow> tt_blob_handle t;
          b \<leftarrow> tt_blob_builder t;
          let rec = \<lparr>r_key = key, r_value = val, only_value = level_merge (tt_cf_options t)\<rparr>;
          (bh, b) \<leftarrow> BlobFileBuilder_Add (rk_nd P) (rk_C P) (rk_L P) (rk_W P) (rk_cmps P (tt_cf_id t)) (tt_cf_options t)
             rec \<lparr>bh_offset = 0, bh_size = 0\<rparr> b;
          let t = t\<lparr>tt_blob_builder := Some b,
                    tt_bytes_written := tt_bytes_written t + of_nat (length key + length val) + of_nat (BlobRecord_size rec)\<rparr>;
          if TT_ok B t
          then do {
            let index_value = index_value @ BlobIndex_EncodeTo (rk_C P) \<lparr>bi_file_number = fh_number handle, bi_blob_handle = bh\<rparr>;
            (t, w) \<leftarrow> (if wf_GetFileSize (rk_W P) (bb_file b) \<ge> blob_file_target_size (tt_cf_options t)
                       then FinishBlobFile P M B t w else Some (t, w));
            Some (index_value, t, w)
          }
          else Some (index_value, t, w)
        }
      })"

section \<open>Adding an entry\<close>

definition base_add ::
    "'b table_builder \<Rightarrow> bytes \<Rightarrow> bytes \<Rightarrow> ('w, 'f, 'b) TitanTableBuilder \<Rightarrow> ('w, 'f, 'b) TitanTableBuilder" where
  "base_add B key val t = t\<lparr>tt_base_builder := base_Add B key val (tt_base_builder t)\<rparr>"

text \<open>The metadata object behind a shared pointer; an object the storage dropped is obsolete.\<close>

definition current_meta :: "'f BlobStorage option \<Rightarrow> u64 \<Rightarrow> BlobFileMeta \<Rightarrow> BlobFileMeta" where
  "current_meta bs n seen =
     (case Option.bind bs (\<lambda>bs. map_of (bs_files bs) n) of
        Some m \<Rightarrow> m
      | None \<Rightarrow> seen\<lparr>file_state := kObsolete\<rparr>)"

definition ShouldMerge :: "bool \<Rightarrow> BlobFileMeta option \<Rightarrow> ('w, 'f, 'b) TitanTableBuilder \<Rightarrow> bool option" where
  "ShouldMerge nd file t = do {
     cpp_assert nd (level_merge (tt_cf_options t));
     Some (case file of
        None \<Rightarrow> False
      | Some m \<Rightarrow> file_type m = kSorted \<and>
          ((tt_target_level t \<ge> tt_merge_level t \<and> sint (file_level m) < tt_target_level t) \<or>
           file_state m = kToMerge \<or> file_state m = kToGC))
   }"

text \<open>Fallback mode: the value comes back from the blob file into the table.\<close>

definition add_fallback ::
    "('w, 'f, 'k, 'c) rocks \<Rightarrow> ('m, 'w, 'f, 'k, 'c) world \<Rightarrow> 'b table_builder \<Rightarrow> internal_keys \<Rightarrow> ParsedInternalKey
     \<Rightarrow> bytes \<Rightarrow> bytes \<Rightarrow> u64 \<times> u64 \<Rightarrow> ('w, 'f, 'b) TitanTableBuilder \<Rightarrow> 'm \<Rightarrow> (('w, 'f, 'b) TitanTableBuilder \<times> 'm) option" where
  "add_fallback P M B I ikey key val prev t w = do {
     let (s, index, _) = BlobIndex_DecodeFrom (rk_C P) empty_BlobIndex val;
     let t = t\<lparr>tt_status := s\<rparr>;
     if \<not> TT_ok B t then Some (t, w)
     else do {
       bs \<leftarrow> w_storage M (tt_cf_id t) w;
       (gs, rec, alive, w) \<leftarrow> world_Get P M index empty_BlobRecord bs w;
       let t = t\<lparr>tt_io_bytes := UpdateIOBytes M w prev (tt_io_bytes t)\<rparr>;
       if IsOk gs
       then (if \<not> alive then None
             else Some (base_add B (AppendInternalKey I (ikey\<lparr>ik_type := kTypeValue I\<rparr>)) (r_value rec)
                          (t\<lparr>tt_bytes_read := tt_bytes_read t + of_nat (BlobRecord_size rec)\<rparr>), w))
       else Some (base_add B key val t, w)
     }
   }"

text \<open>A large value goes to the blob file and its index to the table.\<close>

definition add_separated ::
    "('w, 'f, 'k, 'c) rocks \<Rightarrow> ('m, 'w, 'f, 'k, 'c) world \<Rightarrow> 'b table_builder \<Rightarrow> internal_keys \<Rightarrow> ParsedInternalKey
     \<Rightarrow> bytes \<Rightarrow> u64 \<times> u64 \<Rightarrow> ('w, 'f, 'b) TitanTableBuilder \<Rightarrow> 'm \<Rightarrow> (('w, 'f, 'b) TitanTableBuilder \<times> 'm) option" where
  "add_separated P M B I ikey val prev t w = do {
     (index_value, t, w) \<leftarrow> AddBlob P M B (ik_user_key ikey) val [] t w;
     let t = t\<lparr>tt_io_bytes := UpdateIOBytes M w prev (tt_io_bytes t)\<rparr>;
     Some (if TT_ok B t
           then base_add B (AppendInternalKey I (ikey\<lparr>ik_type := kTypeBlobIndex I\<rparr>)) index_value t
           else t, w)
   }"

definition find_encountered ::
    "('w, 'f, 'k, 'c) rocks \<Rightarrow> ('m, 'w, 'f, 'k, 'c) world \<Rightarrow> u64 \<Rightarrow> ('w, 'f, 'b) TitanTableBuilder \<Rightarrow> 'm
     \<Rightarrow> (BlobFileMeta option \<times> ('w, 'f, 'b) TitanTableBuilder) option" where
  "find_encountered P M n t w =
     (case map_of (tt_encountered_files t) n of
        Some file \<Rightarrow> Some (file, t)
      | None \<Rightarrow> do {
          bs \<leftarrow> w_storage M (tt_cf_id t) w;
          file \<leftarrow> FindFile (rk_nd P) n bs;
          Some (file, t\<lparr>tt_encountered_files := amap_emplace n file (tt_encountered_files t)\<rparr>)
        })"

text \<open>The prefetcher of the file, made on first use; None in the result when that failed.\<close>

definition find_merging ::
    "('w, 'f, 'k, 'c) rocks \<Rightarrow> ('m, 'w, 'f, 'k, 'c) world \<Rightarrow> u64 \<Rightarrow> ('w, 'f, 'b) TitanTableBuilder \<Rightarrow> 'm
     \<Rightarrow> ('f BlobFilePrefetcher option \<times> ('w, 'f, 'b) TitanTableBuilder \<times> 'm) option" where
  "find_merging P M n t w =
     (case map_of (tt_merging_files t) n of
        Some p \<Rightarrow> Some (Some p, t, w)
      | None \<Rightarrow> do {
          bs \<leftarrow> w_storage M (tt_cf_id t) w;
          (s, p, w) \<leftarrow> world_NewPrefetcher P M n bs w;
          let t = t\<lparr>tt_status := s\<rparr>;
          if \<not> IsOk s then Some (None, t, w)
          else do {
            p \<leftarrow> p;
            Some (Some p, t\<lparr>tt_merging_files := amap_emplace n p (tt_merging_files t)\<rparr>, w)
          }
        })"

text \<open>An index into an old file: the value moves to the file being built.\<close>

definition move_value ::
    "('w, 'f, 'k, 'c) rocks \<Rightarrow> ('m, 'w, 'f, 'k, 'c) world \<Rightarrow> 'b table_builder \<Rightarrow> internal_keys \<Rightarrow> ParsedInternalKey
     \<Rightarrow> bytes \<Rightarrow> bytes \<Rightarrow> BlobIndex \<Rightarrow> ('w, 'f, 'b) TitanTableBuilder \<Rightarrow> 'm
     \<Rightarrow> (('w, 'f, 'b) TitanTableBuilder \<times> 'm) option" where
  "move_value P M B I ikey key val index t w = do {
     (p, t, w) \<leftarrow> find_merging P M (bi_file_number index) t w;
     case p of
       None \<Rightarrow> Some (base_add B key val t, w)
     | Some p \<Rightarrow> do {
         (s, rec, p, w) \<leftarrow> world_PrefetcherGet P M (bi_blob_handle index) empty_BlobRecord p w;
         let t = t\<lparr>tt_merging_files := amap_set (bi_file_number index) p (tt_merging_files t)\<rparr>;
         if \<not> IsOk s then Some (base_add B key val t, w)
         else do {
           (index_value, t, w) \<leftarrow> AddBlob P M B (ik_user_key ikey) (r_value rec) [] t w;
           Some (if TT_ok B t
                 then base_add B (AppendInternalKey I (ikey\<lparr>ik_type := kTypeBlobIndex I\<rparr>)) index_value t
                 else base_add B key val t, w)
         }
       }
   }"

definition add_merged ::
    "('w, 'f, 'k, 'c) rocks \<Rightarrow> ('m, 'w, 'f, 'k, 'c) world \<Rightarrow> 'b table_builder \<Rightarrow> internal_keys \<Rightarrow> ParsedInternalKey
     \<Rightarrow> bytes \<Rightarrow> bytes \<Rightarrow> ('w, 'f, 'b) TitanTableBuilder \<Rightarrow> 'm \<Rightarrow> (('w, 'f, 'b) TitanTableBuilder \<times> 'm) option" where
  "add_merged P M B I ikey key val t w = do {
     let (s, index, _) = BlobIndex_DecodeFrom (rk_C P) empty_BlobIndex val;
     let t = t\<lparr>tt_status := s\<rparr>;
     if \<not> TT_ok B t then Some (t, w)
     else do {
       (seen, t) \<leftarrow> find_encountered P M (bi_file_number index) t w;
       merge \<leftarrow> ShouldMerge (rk_nd P)
         (map_option (current_meta (w_storage M (tt_cf_id t) w) (bi_file_number index)) seen) t;
       if merge then move_value P M B I ikey key val index t w
       else Some (base_add B key val t, w)
     }
   }"

definition TT_Add ::
    "('w, 'f, 'k, 'c) rocks \<Rightarrow> ('m, 'w, 'f, 'k, 'c) world \<Rightarrow> 'b table_builder \<Rightarrow> internal_keys \<Rightarrow> bytes \<Rightarrow> bytes
     \<Rightarrow> ('w, 'f, 'b) TitanTableBuilder \<Rightarrow> 'm \<Rightarrow> (('w, 'f, 'b) TitanTableBuilder \<times> 'm) option" where
  "TT_Add P M B I key val t w =
     (if \<not> TT_ok B t then Some (t, w)
      else case ParseInternalKey I key of
        None \<Rightarrow> Some (t\<lparr>tt_status := Corruption '''' ''''\<rparr>, w)
      | Some ikey \<Rightarrow>
          (let prev = SavePrevIOBytes M w (0, 0); opts = tt_cf_options t in
           if ik_type ikey = kTypeBlobIndex I \<and> blob_run_mode opts = kFallback
           then add_fallback P M B I ikey key val prev t w
           else if ik_type ikey = kTypeValue I \<and> of_nat (length val) \<ge> min_blob_size opts \<and>
                   blob_run_mode opts = kRunNormal
           then add_separated P M B I ikey val prev t w
           else if ik_type ikey = kTypeBlobIndex I \<and> level_merge opts \<and>
                   (tt_target_level t \<ge> tt_merge_level t \<or> tt_merge_low_level t) \<and> blob_run_mode opts = kRunNormal
           then add_merged P M B I ikey key val t w
           else Some (base_add B key val t, w)))"

section \<open>Ending a table\<close>

definition TT_UpdateInternalOpStats ::
    "('m, 'w, 'f, 'k, 'c) world \<Rightarrow> ('w, 'f, 'b) TitanTableBuilder \<Rightarrow> 'm \<Rightarrow> 'm" where
  "TT_UpdateInternalOpStats M t w =
     w_put_stats M (add_op_stats (tt_cf_id t) (if tt_target_level t = 0 then FLUSH else COMPACTION)
       ([(COUNT, 1), (BYTES_READ, tt_bytes_read t), (BYTES_WRITTEN, tt_bytes_written t),
         (IO_BYTES_READ, fst (tt_io_bytes t)), (IO_BYTES_WRITTEN, snd (tt_io_bytes t))] @
        (if tt_blob_builder t \<noteq> None then [(OUTPUT_FILE_NUM, 1)] else [])) (w_stats M w)) w"

definition TT_Finish ::
    "('w, 'f, 'k, 'c) rocks \<Rightarrow> ('m, 'w, 'f, 'k, 'c) world \<Rightarrow> 'b table_builder \<Rightarrow> ('w, 'f, 'b) TitanTableBuilder \<Rightarrow> 'm
     \<Rightarrow> (status \<times> ('w, 'f, 'b) TitanTableBuilder \<times> 'm) option" where
  "TT_Finish P M B t w = do {
     let t = t\<lparr>tt_base_builder := snd (base_Finish B (tt_base_builder t))\<rparr>;
     (t, w) \<leftarrow> FinishBlobFile P M B t w;
     (s, w) \<leftarrow> w_BatchFinishFiles M (tt_cf_id t) (tt_finished_blobs t) w;
     let t = t\<lparr>tt_status := s\<rparr>;
     let w = TT_UpdateInternalOpStats M t w;
     Some (TT_status B t, t, w)
   }"

definition TT_Abandon ::
    "('m, 'w, 'f, 'k, 'c) world \<Rightarrow> 'b table_builder \<Rightarrow> ('w, 'f, 'b) TitanTableBuilder \<Rightarrow> 'm
     \<Rightarrow> (('w, 'f, 'b) TitanTableBuilder \<times> 'm) option" where
  "TT_Abandon M B t w =
     (let t = t\<lparr>tt_base_builder := base_Abandon B (tt_base_builder t)\<rparr> in
      case tt_blob_builder t of
        None \<Rightarrow> Some (t, w)
      | Some b \<Rightarrow> do {
          handle \<leftarrow> tt_blob_handle t;
          let b = BlobFileBuilder_Abandon b;
          (s, w) \<leftarrow> DeleteFile M (handle\<lparr>fh_file := bb_file b\<rparr>) w;
          Some (t\<lparr>tt_blob_builder := Some b, tt_status := s, tt_blob_handle := None\<rparr>, w)
        })"

definition TT_NumEntries :: "'b table_builder \<Rightarrow> ('w, 'f, 'b) TitanTableBuilder \<Rightarrow> u64" where
  "TT_NumEntries B t = base_NumEntries B (tt_base_builder t)"

definition TT_FileSize :: "'b table_builder \<Rightarrow> ('w, 'f, 'b) TitanTableBuilder \<Rightarrow> u64" where
  "TT_FileSize B t = base_FileSize B (tt_base_builder t)"

definition TT_NeedCompact :: "'b table_builder \<Rightarrow> ('w, 'f, 'b) TitanTableBuilder \<Rightarrow> bool" where
  "TT_NeedCompact B t = base_NeedCompact B (tt_base_builder t)"

definition TT_GetTableProperties :: "'b table_builder \<Rightarrow> ('w, 'f, 'b) TitanTableBuilder \<Rightarrow> (string \<times> bytes) list" where
  "TT_GetTableProperties B t = base_GetTableProperties B (tt_base_builder t)"

section \<open>The factory\<close>

text \<open>The merge level and the builder of \<open>src/table_factory.cc\<close>.\<close>

definition factory_merge_level :: "TitanCFOptions \<Rightarrow> int \<Rightarrow> int" where
  "factory_merge_level cf_options num_levels =
     (let merge_level = max 1 (num_levels - 2)
      in if \<not> lazy_merge cf_options \<and> merge_level \<noteq> 1 then 0 else merge_level)"

record TitanTableFactory =
  tf_db_options :: TitanDBOptions
  tf_cf_options :: TitanCFOptions
  tf_num_levels :: int
  tf_blob_run_mode :: TitanBlobRunMode

definition new_TitanTableFactory :: "TitanDBOptions \<Rightarrow> TitanCFOptions \<Rightarrow> int \<Rightarrow> TitanTableFactory" where
  "new_TitanTableFactory db_options cf_options num_levels =
     \<lparr>tf_db_options = db_options, tf_cf_options = cf_options, tf_num_levels = num_levels,
      tf_blob_run_mode = blob_run_mode cf_options\<rparr>"

definition SetBlobRunMode :: "TitanBlobRunMode \<Rightarrow> TitanTableFactory \<Rightarrow> TitanTableFactory" where
  "SetBlobRunMode mode f = f\<lparr>tf_blob_run_mode := mode\<rparr>"

definition NewTableBuilder ::
    "('m, 'w, 'f, 'k, 'c) world \<Rightarrow> u32 \<Rightarrow> 'b \<Rightarrow> int \<Rightarrow> int \<Rightarrow> TitanTableFactory \<Rightarrow> 'm
     \<Rightarrow> ('w, 'f, 'b) TitanTableBuilder option" where
  "NewTableBuilder M cf base level start_level f w =
     (let cf_options = (tf_cf_options f)\<lparr>blob_run_mode := tf_blob_run_mode f\<rparr>
      in new_TitanTableBuilder M cf (tf_db_options f) cf_options base
           (factory_merge_level cf_options (tf_num_levels f)) level start_level w)"

definition GetPrintableTableOptions :: "string \<Rightarrow> bool \<Rightarrow> TitanTableFactory \<Rightarrow> string option" where
  "GetPrintableTableOptions base_printed nd f = do {
     cpp_assert nd (map_of blob_run_mode_to_string (tf_blob_run_mode f) \<noteq> None);
     mode \<leftarrow> map_of blob_run_mode_to_string (tf_blob_run_mode f);
     Some (base_printed @ ''  blob_run_mode: '' @ mode)
   }"

end
