(* ===== verification/Foreground_Builder.thy ===== *)
theory Foreground_Builder
  imports Table_Builder Titan_Util
begin

text \<open>
  \<open>ForegroundBuilder\<close> of \<open>src/table_builder.h\<close> and \<open>src/table_builder.cc\<close>: values are
  separated before they reach the memtable. A client puts a request into the queue of one
  of the workers and waits for its result; a worker serves its queue in order. The model
  serves a request when it is put, which is what the client sees; a bulk of requests is
  served by \<open>handleRequest\<close>. RocksDB's write batch and the hash of keys are parameters.
\<close>

section \<open>State\<close>

record 'v batch_ops =
  wb_PutBlobIndex :: "u32 \<Rightarrow> bytes \<Rightarrow> bytes \<Rightarrow> 'v \<Rightarrow> status \<times> 'v"
  wb_GetDataSize :: "'v \<Rightarrow> u64"
  wb_empty :: 'v

record 'v Request =
  rq_key :: bytes
  rq_val :: bytes
  rq_wb :: "'v option"

record 'w fb_slot =
  sl_handle :: "'w BlobFileHandle option"
  sl_builder :: "'w BlobFileBuilder option"
  sl_finished_files :: "'w finished_files"

record 'w ForegroundBuilder =
  fb_num_builders :: int
  fb_cf_id :: u32
  fb_db_options :: TitanDBOptions
  fb_cf_options :: TitanCFOptions
  fb_slots :: "'w fb_slot list"

definition new_ForegroundBuilder :: "u32 \<Rightarrow> TitanDBOptions \<Rightarrow> TitanCFOptions \<Rightarrow> 'w ForegroundBuilder" where
  "new_ForegroundBuilder cf db_options cf_options =
     \<lparr>fb_num_builders = num_foreground_builders db_options, fb_cf_id = cf, fb_db_options = db_options,
      fb_cf_options = cf_options,
      fb_slots = replicate (nat (num_foreground_builders db_options))
        \<lparr>sl_handle = None, sl_builder = None, sl_finished_files = []\<rparr>\<rparr>"

text \<open>The default constructor, after value-initialisation: no workers and default options.\<close>

definition default_ForegroundBuilder :: "codec \<Rightarrow> 'w ForegroundBuilder" where
  "default_ForegroundBuilder L =
     \<lparr>fb_num_builders = 0, fb_cf_id = 0, fb_db_options = default_TitanDBOptions,
      fb_cf_options = default_TitanCFOptions L, fb_slots = []\<rparr>"

definition FB_Init :: "'w ForegroundBuilder \<Rightarrow> 'w ForegroundBuilder" where
  "FB_Init fb = fb\<lparr>fb_slots := map (\<lambda>_. \<lparr>sl_handle = None, sl_builder = None, sl_finished_files = []\<rparr>) (fb_slots fb)\<rparr>"

section \<open>The worker\<close>

text \<open>A file that cannot be finished aborts the process.\<close>

definition FB_FinishBlob :: "('w, 'f, 'k, 'c) rocks \<Rightarrow> 'w fb_slot \<Rightarrow> (status \<times> 'w fb_slot) option" where
  "FB_FinishBlob P sl =
     (if sl_builder sl = None \<and> sl_handle sl = None then Some (OK, sl)
      else do {
        b \<leftarrow> sl_builder sl;
        let (s, b) = BlobFileBuilder_Finish (rk_C P) (rk_W P) b;
        if \<not> IsOk s then None
        else do {
          handle \<leftarrow> sl_handle sl;
          file \<leftarrow> FileStateTransit (rk_nd P) kReset
            (new_BlobFileMeta (fh_number handle) (wf_GetFileSize (rk_W P) (bb_file b)) (NumEntries b) 0
              (bb_smallest_key b) (bb_largest_key b) kUnSorted);
          Some (s, sl\<lparr>sl_finished_files := sl_finished_files sl @ [(file, handle\<lparr>fh_file := bb_file b\<rparr>)],
                      sl_handle := None, sl_builder := None\<rparr>)
        }
      })"

text \<open>A request without a key asks for everything built so far to be installed.\<close>

definition serve_flush ::
    "('w, 'f, 'k, 'c) rocks \<Rightarrow> ('m, 'w, 'f, 'k, 'c) world \<Rightarrow> u32 \<Rightarrow> 'w fb_slot \<Rightarrow> 'm
     \<Rightarrow> (status \<times> 'w fb_slot \<times> 'm) option" where
  "serve_flush P M cf sl w = do {
     (_, sl) \<leftarrow> FB_FinishBlob P sl;
     if sl_finished_files sl = [] then Some (OK, sl, w)
     else do {
       (_, w) \<leftarrow> w_BatchFinishFiles M cf (sl_finished_files sl) w;
       Some (OK, sl\<lparr>sl_finished_files := []\<rparr>, w)
     }
   }"

definition open_building_file ::
    "('w, 'f, 'k, 'c) rocks \<Rightarrow> ('m, 'w, 'f, 'k, 'c) world \<Rightarrow> u32 \<Rightarrow> 'w fb_slot \<Rightarrow> 'm
     \<Rightarrow> (status \<times> 'w fb_slot \<times> 'm) option" where
  "open_building_file P M cf sl w =
     (if sl_handle sl \<noteq> None \<or> sl_builder sl \<noteq> None then Some (OK, sl, w)
      else let (s, handle, w) = w_NewFile M w in
        if \<not> IsOk s then Some (s, sl, w)
        else do {
          h \<leftarrow> handle;
          bs \<leftarrow> w_storage M cf w;
          let (_, bs) = AddBuildingFile (w_open M w) (fh_number h) bs;
          Some (OK, sl\<lparr>sl_handle := Some h, sl_builder := Some (new_BlobFileBuilder (rk_C P) (rk_W P) (fh_file h) 0)\<rparr>,
                w_put_storage M cf bs w)
        })"

text \<open>
  The result of writing the record to the blob file is not looked at; the status of the
  request is that of the write batch.
\<close>

definition serve_add ::
    "('w, 'f, 'k, 'c) rocks \<Rightarrow> ('m, 'w, 'f, 'k, 'c) world \<Rightarrow> 'v batch_ops \<Rightarrow> u32 \<Rightarrow> TitanCFOptions \<Rightarrow> 'v Request
     \<Rightarrow> 'w fb_slot \<Rightarrow> 'm \<Rightarrow> (status \<times> 'v option \<times> 'w fb_slot \<times> 'm) option" where
  "serve_add P M V cf opts req sl w = do {
     (s, sl, w) \<leftarrow> open_building_file P M cf sl w;
     if \<not> IsOk s then Some (s, rq_wb req, sl, w)
     else do {
       let rec = \<lparr>r_key = rq_key req, r_value = rq_val req, only_value = False\<rparr>;
       handle \<leftarrow> sl_handle sl;
       b \<leftarrow> sl_builder sl;
       (bh, b) \<leftarrow> BlobFileBuilder_Add (rk_nd P) (rk_C P) (rk_L P) (rk_W P) (rk_cmps P cf) opts rec
          \<lparr>bh_offset = 0, bh_size = 0\<rparr> b;
       let sl = sl\<lparr>sl_builder := Some b\<rparr>;
       let w = world_AddStats M cf LIVE_BLOB_SIZE (of_nat (length (rq_val req))) w;
       (_, sl) \<leftarrow> (if wf_GetFileSize (rk_W P) (bb_file b) \<ge> blob_file_target_size opts
                   then FB_FinishBlob P sl else Some (OK, sl));
       wb \<leftarrow> rq_wb req;
       let (s, wb) = wb_PutBlobIndex V cf (r_key rec)
          (BlobIndex_EncodeTo (rk_C P) \<lparr>bi_file_number = fh_number handle, bi_blob_handle = bh\<rparr>) wb;
       Some (s, Some wb, sl, w)
     }
   }"

definition serve ::
    "('w, 'f, 'k, 'c) rocks \<Rightarrow> ('m, 'w, 'f, 'k, 'c) world \<Rightarrow> 'v batch_ops \<Rightarrow> u32 \<Rightarrow> TitanCFOptions \<Rightarrow> 'v Request
     \<Rightarrow> 'w fb_slot \<Rightarrow> 'm \<Rightarrow> (status \<times> 'v option \<times> 'w fb_slot \<times> 'm) option" where
  "serve P M V cf opts req sl w =
     (if rq_key req = [] then do { (s, sl, w) \<leftarrow> serve_flush P M cf sl w; Some (s, rq_wb req, sl, w) }
      else serve_add P M V cf opts req sl w)"

text \<open>One bulk of the queue; a null request ends the worker. The list has the results.\<close>

fun handleRequest ::
    "('w, 'f, 'k, 'c) rocks \<Rightarrow> ('m, 'w, 'f, 'k, 'c) world \<Rightarrow> 'v batch_ops \<Rightarrow> u32 \<Rightarrow> TitanCFOptions
     \<Rightarrow> 'v Request option list \<Rightarrow> 'w fb_slot \<Rightarrow> 'm
     \<Rightarrow> (bool \<times> (status \<times> 'v option) list \<times> 'w fb_slot \<times> 'm) option" where
  "handleRequest P M V cf opts [] sl w = Some (False, [], sl, w)"
| "handleRequest P M V cf opts (None # reqs) sl w = Some (True, [], sl, w)"
| "handleRequest P M V cf opts (Some req # reqs) sl w = do {
     (s, wb, sl, w) \<leftarrow> serve P M V cf opts req sl w;
     (stop, rs, sl, w) \<leftarrow> handleRequest P M V cf opts reqs sl w;
     Some (stop, (s, wb) # rs, sl, w)
   }"

section \<open>The client\<close>

definition fb_slot_of :: "(bytes \<Rightarrow> u64) \<Rightarrow> bytes \<Rightarrow> 'w ForegroundBuilder \<Rightarrow> nat" where
  "fb_slot_of hash key fb =
     (if fb_num_builders fb > 1 then unat (hash key mod of_int (fb_num_builders fb)) else 0)"

definition FB_Add ::
    "('w, 'f, 'k, 'c) rocks \<Rightarrow> ('m, 'w, 'f, 'k, 'c) world \<Rightarrow> 'v batch_ops \<Rightarrow> (bytes \<Rightarrow> u64) \<Rightarrow> bytes \<Rightarrow> bytes \<Rightarrow> 'v
     \<Rightarrow> 'w ForegroundBuilder \<Rightarrow> 'm \<Rightarrow> (status \<times> 'v \<times> 'w ForegroundBuilder \<times> 'm) option" where
  "FB_Add P M V hash key val wb fb w =
     (if of_nat (length val) < min_blob_size (fb_cf_options fb) \<or>
         (level_merge (fb_cf_options fb) \<and> of_nat (length val) < mid_blob_size (fb_cf_options fb))
      then Some (InvalidArgument '''', wb, fb, w)
      else let b = fb_slot_of hash key fb in
        if b \<ge> length (fb_slots fb) then None
        else do {
          (stop, rs, sl, w) \<leftarrow> handleRequest P M V (fb_cf_id fb) (fb_cf_options fb)
             [Some \<lparr>rq_key = key, rq_val = val, rq_wb = Some wb\<rparr>] (fb_slots fb ! b) w;
          case rs of
            [(s, Some wb)] \<Rightarrow> Some (s, wb, fb\<lparr>fb_slots := (fb_slots fb)[b := sl]\<rparr>, w)
          | _ \<Rightarrow> None
        })"

definition flush_slot ::
    "('w, 'f, 'k, 'c) rocks \<Rightarrow> ('m, 'w, 'f, 'k, 'c) world \<Rightarrow> 'v batch_ops \<Rightarrow> nat \<Rightarrow> 'w ForegroundBuilder \<times> 'm
     \<Rightarrow> ('w ForegroundBuilder \<times> 'm) option" where
  "flush_slot P M V i = (\<lambda>(fb, w).
     if i \<ge> length (fb_slots fb) then None
     else do {
       (stop, rs, sl, w) \<leftarrow> handleRequest P M V (fb_cf_id fb) (fb_cf_options fb)
          [Some \<lparr>rq_key = [], rq_val = [], rq_wb = None\<rparr>] (fb_slots fb ! i) w;
       Some (fb\<lparr>fb_slots := (fb_slots fb)[i := sl]\<rparr>, w)
     })"

definition FB_Flush ::
    "('w, 'f, 'k, 'c) rocks \<Rightarrow> ('m, 'w, 'f, 'k, 'c) world \<Rightarrow> 'v batch_ops \<Rightarrow> 'w ForegroundBuilder \<Rightarrow> 'm
     \<Rightarrow> ('w ForegroundBuilder \<times> 'm) option" where
  "FB_Flush P M V fb w = foldM (flush_slot P M V) [0..<nat (fb_num_builders fb)] (fb, w)"

text \<open>Ending the workers: each receives a null request, which leaves its files as they are.\<close>

definition finish_slot ::
    "('w, 'f, 'k, 'c) rocks \<Rightarrow> ('m, 'w, 'f, 'k, 'c) world \<Rightarrow> 'v batch_ops \<Rightarrow> nat \<Rightarrow> 'w ForegroundBuilder \<times> 'm
     \<Rightarrow> ('w ForegroundBuilder \<times> 'm) option" where
  "finish_slot P M V i = (\<lambda>(fb, w).
     if i \<ge> length (fb_slots fb) then None
     else do {
       (stop, rs, sl, w) \<leftarrow> handleRequest P M V (fb_cf_id fb) (fb_cf_options fb) [None] (fb_slots fb ! i) w;
       Some (fb\<lparr>fb_slots := (fb_slots fb)[i := sl]\<rparr>, w)
     })"

definition FB_Finish ::
    "('w, 'f, 'k, 'c) rocks \<Rightarrow> ('m, 'w, 'f, 'k, 'c) world \<Rightarrow> 'v batch_ops \<Rightarrow> 'w ForegroundBuilder \<Rightarrow> 'm
     \<Rightarrow> ('w ForegroundBuilder \<times> 'm) option" where
  "FB_Finish P M V fb w = foldM (finish_slot P M V) [0..<nat (fb_num_builders fb)] (fb, w)"

end
