(* ===== verification/Version_Edit.thy ===== *)
theory Version_Edit
  imports Blob_Format
begin

text \<open>
  \<open>src/version_edit.h\<close> and \<open>src/version_edit.cc\<close>: the edits logged in Titan's manifest.
  The decoder reads tagged entries until the slice is empty; the loop has fuel, and the
  length of the slice is enough because every entry takes at least one byte.
\<close>

section \<open>Tags and edits\<close>

definition kNextFileNumber :: u32 where
  "kNextFileNumber = 1"

definition kColumnFamilyID :: u32 where
  "kColumnFamilyID = 10"

definition kAddedBlobFile :: u32 where
  "kAddedBlobFile = 11"

definition kDeletedBlobFile :: u32 where
  "kDeletedBlobFile = 12"

definition kAddedBlobFileV2 :: u32 where
  "kAddedBlobFileV2 = 13"

definition kUpdateDiscardableSize :: u32 where
  "kUpdateDiscardableSize = 14"

lemmas tag_defs = kNextFileNumber_def kColumnFamilyID_def kAddedBlobFile_def kDeletedBlobFile_def
  kAddedBlobFileV2_def kUpdateDiscardableSize_def

record VersionEdit =
  ve_has_next_file_number :: bool
  ve_next_file_number :: u64
  ve_column_family_id :: u32
  ve_added_files :: "BlobFileMeta list"
  ve_deleted_files :: "(u64 \<times> u64) list"
  ve_updated_discardable_size :: "(u64 \<times> u64) list"

definition new_VersionEdit :: VersionEdit where
  "new_VersionEdit =
     \<lparr>ve_has_next_file_number = False, ve_next_file_number = 0, ve_column_family_id = 0,
      ve_added_files = [], ve_deleted_files = [], ve_updated_discardable_size = []\<rparr>"

definition SetNextFileNumber :: "u64 \<Rightarrow> VersionEdit \<Rightarrow> VersionEdit" where
  "SetNextFileNumber v e = e\<lparr>ve_has_next_file_number := True, ve_next_file_number := v\<rparr>"

definition SetColumnFamilyID :: "u32 \<Rightarrow> VersionEdit \<Rightarrow> VersionEdit" where
  "SetColumnFamilyID v e = e\<lparr>ve_column_family_id := v\<rparr>"

definition VersionEdit_AddBlobFile :: "BlobFileMeta \<Rightarrow> VersionEdit \<Rightarrow> VersionEdit" where
  "VersionEdit_AddBlobFile m e = e\<lparr>ve_added_files := ve_added_files e @ [m]\<rparr>"

definition UpdateBlobFile :: "u64 \<Rightarrow> u64 \<Rightarrow> VersionEdit \<Rightarrow> VersionEdit" where
  "UpdateBlobFile n d e =
     e\<lparr>ve_updated_discardable_size := amap_emplace n d (ve_updated_discardable_size e)\<rparr>"

definition DeleteBlobFile :: "u64 \<Rightarrow> u64 \<Rightarrow> VersionEdit \<Rightarrow> VersionEdit" where
  "DeleteBlobFile n sq e = e\<lparr>ve_deleted_files := ve_deleted_files e @ [(n, sq)]\<rparr>"

section \<open>Encoding\<close>

definition encode_added :: "coding \<Rightarrow> BlobFileMeta \<Rightarrow> bytes" where
  "encode_added C m = PutVarint32 C kAddedBlobFileV2 @ BlobFileMeta_EncodeTo C m"

definition encode_deleted :: "coding \<Rightarrow> u64 \<times> u64 \<Rightarrow> bytes" where
  "encode_deleted C p = PutVarint32 C kDeletedBlobFile @ PutVarint64 C (fst p)"

definition encode_updated :: "coding \<Rightarrow> u64 \<times> u64 \<Rightarrow> bytes" where
  "encode_updated C p =
     PutVarint32 C kUpdateDiscardableSize @ PutVarint64 C (fst p) @ PutVarint64 C (snd p)"

definition VersionEdit_EncodeTo :: "coding \<Rightarrow> VersionEdit \<Rightarrow> bytes" where
  "VersionEdit_EncodeTo C e =
     (if ve_has_next_file_number e
      then PutVarint32 C kNextFileNumber @ PutVarint64 C (ve_next_file_number e) else []) @
     (PutVarint32 C kColumnFamilyID @ PutVarint32 C (ve_column_family_id e)) @
     concat (map (encode_added C) (ve_added_files e)) @
     concat (map (encode_deleted C) (ve_deleted_files e)) @
     concat (map (encode_updated C) (ve_updated_discardable_size e))"

section \<open>Decoding\<close>

text \<open>
  One round of the loop: an error message, or the edit and the slice after the entry.
  \<open>j\<close> holds what the two fields are that the constructor of \<open>BlobFileMeta\<close> leaves
  uninitialised. When the metadata of an added file does not decode, the source keeps a
  pointer into the destroyed string \<open>s.ToString()\<close> as its error message and reads it
  after the loop; that has no defined result.
\<close>

definition decode_switch ::
    "bool \<Rightarrow> coding \<Rightarrow> u64 \<times> u32 \<Rightarrow> VersionEdit \<Rightarrow> u32 \<Rightarrow> bytes
     \<Rightarrow> (string + VersionEdit \<times> bytes) option" where
  "decode_switch nd C j e tag s1 =
     (if tag = kNextFileNumber then
        Some (case GetVarint64 C s1 of
                Some (v, s2) \<Rightarrow> Inr (SetNextFileNumber v e, s2)
              | None \<Rightarrow> Inl ''next file number'')
      else if tag = kColumnFamilyID then
        Some (case GetVarint32 C s1 of
                Some (v, s2) \<Rightarrow> Inr (SetColumnFamilyID v e, s2)
              | None \<Rightarrow> Inl ''column family id'')
      else if tag = kAddedBlobFile then do {
        (s, m, s2) \<leftarrow> BlobFileMeta_DecodeFromLegacy nd C (default_BlobFileMeta (fst j) (snd j)) s1;
        if IsOk s then Some (Inr (VersionEdit_AddBlobFile m e, s2)) else None
      }
      else if tag = kAddedBlobFileV2 then
        (let (s, m, s2) = BlobFileMeta_DecodeFrom C (default_BlobFileMeta (fst j) (snd j)) s1
         in if IsOk s then Some (Inr (VersionEdit_AddBlobFile m e, s2)) else None)
      else if tag = kDeletedBlobFile then
        Some (case GetVarint64 C s1 of
                Some (n, s2) \<Rightarrow> Inr (DeleteBlobFile n 0 e, s2)
              | None \<Rightarrow> Inl ''deleted blob file'')
      else if tag = kUpdateDiscardableSize then
        Some (case GetVarint64 C s1 of
                Some (n, s2) \<Rightarrow> (case GetVarint64 C s2 of
                    Some (d, s3) \<Rightarrow> Inr (UpdateBlobFile n d e, s3)
                  | None \<Rightarrow> Inl ''update discardable size'')
              | None \<Rightarrow> Inl ''update discardable size'')
      else Some (Inl ''unknown tag''))"

definition decode_entry ::
    "bool \<Rightarrow> coding \<Rightarrow> u64 \<times> u32 \<Rightarrow> VersionEdit \<Rightarrow> bytes \<Rightarrow> (string + VersionEdit \<times> bytes) option" where
  "decode_entry nd C j e src =
     (case GetVarint32 C src of
        None \<Rightarrow> Some (Inl ''invalid tag'')
      | Some (tag, s1) \<Rightarrow> decode_switch nd C j e tag s1)"

fun decode_entries ::
    "nat \<Rightarrow> bool \<Rightarrow> coding \<Rightarrow> u64 \<times> u32 \<Rightarrow> VersionEdit \<Rightarrow> bytes \<Rightarrow> (string option \<times> VersionEdit) option" where
  "decode_entries 0 nd C j e src = (if src = [] then Some (None, e) else None)"
| "decode_entries (Suc fuel) nd C j e src =
     (if src = [] then Some (None, e)
      else do {
        r \<leftarrow> decode_entry nd C j e src;
        case r of
          Inl msg \<Rightarrow> Some (Some msg, e)
        | Inr (e', src') \<Rightarrow> decode_entries fuel nd C j e' src'
      })"

definition VersionEdit_DecodeFrom ::
    "bool \<Rightarrow> coding \<Rightarrow> u64 \<times> u32 \<Rightarrow> VersionEdit \<Rightarrow> bytes \<Rightarrow> (status \<times> VersionEdit) option" where
  "VersionEdit_DecodeFrom nd C j e src = do {
     (error, e') \<leftarrow> decode_entries (length src) nd C j e src;
     Some (case error of Some msg \<Rightarrow> Corruption ''VersionEdit'' msg | None \<Rightarrow> OK, e')
   }"

section \<open>Comparison\<close>

definition VersionEdit_eq :: "VersionEdit \<Rightarrow> VersionEdit \<Rightarrow> bool" where
  "VersionEdit_eq lhs rhs =
     (length (ve_added_files lhs) = length (ve_added_files rhs) \<and>
      (let blob_files = fold (\<lambda>m fs. omap_emplace (file_number m) m fs) (ve_added_files lhs) []
       in list_all (\<lambda>m. case map_of blob_files (file_number m) of
                          None \<Rightarrow> False | Some m' \<Rightarrow> BlobFileMeta_eq m' m) (ve_added_files rhs)) \<and>
      ve_has_next_file_number lhs = ve_has_next_file_number rhs \<and>
      ve_next_file_number lhs = ve_next_file_number rhs \<and>
      ve_column_family_id lhs = ve_column_family_id rhs \<and>
      ve_deleted_files lhs = ve_deleted_files rhs)"

text \<open>
  What of an edit goes through the manifest: the obsolete sequence numbers and the
  volatile fields of the added files do not.
\<close>

definition persistent_meta :: "BlobFileMeta \<Rightarrow> BlobFileMeta" where
  "persistent_meta m = m\<lparr>file_state := kInit, discardable_size := 0, gc_mark := False\<rparr>"

definition persistent_edit :: "VersionEdit \<Rightarrow> VersionEdit" where
  "persistent_edit e =
     e\<lparr>ve_next_file_number := if ve_has_next_file_number e then ve_next_file_number e else 0,
       ve_added_files := map persistent_meta (ve_added_files e),
       ve_deleted_files := map (\<lambda>p. (fst p, 0)) (ve_deleted_files e)\<rparr>"

section \<open>The loop ends, and reads back what was written\<close>

context coding_laws
begin

lemma legacy_progress:
  "BlobFileMeta_DecodeFromLegacy nd C m s = Some (OK, m', r) \<Longrightarrow> length r < length s"
  by (auto simp: BlobFileMeta_DecodeFromLegacy_def exec_simps dest!: varint64_progress
      split: option.splits)

lemma decode_switch_progress:
  assumes "decode_switch nd C j e tag s = Some (Inr (e', r))"
  shows "length r < length s"
proof -
  consider "tag = 1" | "tag = 10" | "tag = 11" | "tag = 13" | "tag = 12" | "tag = 14"
    | "tag \<noteq> 1" "tag \<noteq> 10" "tag \<noteq> 11" "tag \<noteq> 13" "tag \<noteq> 12" "tag \<noteq> 14" by blast
  then show ?thesis
  proof cases
    case 3
    with assms show ?thesis
      by (auto simp: decode_switch_def tag_defs exec_simps split: if_splits dest: legacy_progress)
  next
    case 4
    with assms show ?thesis
      by (auto simp: decode_switch_def tag_defs Let_def split: if_splits prod.splits dest: meta_progress)
  next
    case 6
    with assms show ?thesis
      by (auto simp: decode_switch_def tag_defs split: option.splits dest!: varint64_progress)
  qed (use assms in \<open>auto simp: decode_switch_def tag_defs split: option.splits
      dest: varint64_progress varint32_progress\<close>)
qed

lemma decode_entry_progress:
  "decode_entry nd C j e src = Some (Inr (e', r)) \<Longrightarrow> length r < length src"
  by (auto simp: decode_entry_def split: option.splits dest!: varint32_progress decode_switch_progress)

lemma decode_entries_fuel:
  "length src \<le> n \<Longrightarrow> decode_entries n nd C j e src = decode_entries (length src) nd C j e src"
proof (induction "length src" arbitrary: n src e rule: less_induct)
  case less
  show ?case
  proof (cases src)
    case Nil
    then show ?thesis by (cases n) simp_all
  next
    case (Cons b bs)
    with less.prems obtain n' where n: "n = Suc n'" "length bs \<le> n'" by (cases n) auto
    have rec: "decode_entries n' nd C j e' src' = decode_entries (length bs) nd C j e' src'"
      if "decode_entry nd C j e src = Some (Inr (e', src'))" for e' src'
      using less.hyps [of src' n' e'] less.hyps [of src' "length bs" e']
        decode_entry_progress [OF that] Cons n(2) by simp
    show ?thesis
      using rec n Cons by (cases "decode_entry nd C j e src") (auto split: sum.splits)
  qed
qed

lemma decode_added:
  assumes "meta_fits m"
  shows "decode_entries (Suc n) nd C j e (encode_added C m @ r)
    = decode_entries n nd C j (VersionEdit_AddBlobFile (persistent_meta m) e) r"
  using assms
  by (simp add: encode_added_def decode_entry_def decode_switch_def tag_defs meta_roundtrip
      persistent_meta_def default_BlobFileMeta_def new_BlobFileMeta_def)

lemma decode_deleted:
  "decode_entries (Suc n) nd C j e (encode_deleted C p @ r)
   = decode_entries n nd C j (DeleteBlobFile (fst p) 0 e) r"
  by (simp add: encode_deleted_def decode_entry_def decode_switch_def tag_defs)

lemma decode_updated:
  "decode_entries (Suc n) nd C j e (encode_updated C p @ r)
   = decode_entries n nd C j (UpdateBlobFile (fst p) (snd p) e) r"
  by (simp add: encode_updated_def decode_entry_def decode_switch_def tag_defs)

lemma decode_all_added:
  "list_all meta_fits ms \<Longrightarrow>
   decode_entries (length ms + n) nd C j e (concat (map (encode_added C) ms) @ r)
   = decode_entries n nd C j (e\<lparr>ve_added_files := ve_added_files e @ map persistent_meta ms\<rparr>) r"
  by (induction ms arbitrary: e) (simp_all add: decode_added VersionEdit_AddBlobFile_def del: decode_entries.simps)

lemma decode_all_deleted:
  "decode_entries (length ps + n) nd C j e (concat (map (encode_deleted C) ps) @ r)
   = decode_entries n nd C j (e\<lparr>ve_deleted_files := ve_deleted_files e @ map (\<lambda>p. (fst p, 0)) ps\<rparr>) r"
  by (induction ps arbitrary: e) (simp_all add: decode_deleted DeleteBlobFile_def del: decode_entries.simps)

lemma decode_all_updated:
  "distinct (map fst (ve_updated_discardable_size e @ ps)) \<Longrightarrow>
   decode_entries (length ps + n) nd C j e (concat (map (encode_updated C) ps) @ r)
   = decode_entries n nd C j (e\<lparr>ve_updated_discardable_size := ve_updated_discardable_size e @ ps\<rparr>) r"
proof (induction ps arbitrary: e)
  case (Cons p ps)
  have "map_of (ve_updated_discardable_size e) (fst p) = None"
    using Cons.prems by (auto simp: map_of_eq_None_iff)
  then have upd: "UpdateBlobFile (fst p) (snd p) e
      = e\<lparr>ve_updated_discardable_size := ve_updated_discardable_size e @ [p]\<rparr>"
    by (simp add: UpdateBlobFile_def amap_emplace_def)
  show ?case
    using Cons.IH [of "UpdateBlobFile (fst p) (snd p) e"] Cons.prems
    by (simp add: decode_updated upd del: decode_entries.simps)
qed simp

lemma count_le_bytes:
  "(\<And>x. f x \<noteq> []) \<Longrightarrow> length xs \<le> length (concat (map f xs))"
proof (induction xs)
  case (Cons x xs)
  then show ?case by (cases "f x") (auto simp: le_add2 intro: le_trans)
qed simp

lemma decode_entries_Nil [simp]: "decode_entries n nd C j e [] = Some (None, e)"
  by (cases n) simp_all

lemma decode_head:
  "decode_entries (Suc (Suc n)) nd C j new_VersionEdit
     ((if ve_has_next_file_number e
       then PutVarint32 C kNextFileNumber @ PutVarint64 C (ve_next_file_number e) else []) @
      (PutVarint32 C kColumnFamilyID @ PutVarint32 C (ve_column_family_id e)) @ r)
   = decode_entries (if ve_has_next_file_number e then n else Suc n) nd C j
       (e\<lparr>ve_next_file_number := if ve_has_next_file_number e then ve_next_file_number e else 0,
          ve_added_files := [], ve_deleted_files := [], ve_updated_discardable_size := []\<rparr>) r"
proof -
  have cf: "decode_entries (Suc n) nd C j x (PutVarint32 C kColumnFamilyID @ PutVarint32 C v @ r)
      = decode_entries n nd C j (SetColumnFamilyID v x) r" for x v n
    by (simp add: decode_entry_def decode_switch_def tag_defs)
  have nx: "decode_entries (Suc n) nd C j x (PutVarint32 C kNextFileNumber @ PutVarint64 C v @ r)
      = decode_entries n nd C j (SetNextFileNumber v x) r" for x v n r
    by (simp add: decode_entry_def decode_switch_def tag_defs)
  show ?thesis
    by (cases e) (simp add: cf nx SetColumnFamilyID_def SetNextFileNumber_def new_VersionEdit_def
        del: decode_entries.simps)
qed

lemma encoded_edit_length:
  "2 + length (ve_added_files e) + length (ve_deleted_files e) + length (ve_updated_discardable_size e)
   \<le> length (VersionEdit_EncodeTo C e)"
proof -
  have "2 \<le> length (PutVarint32 C kColumnFamilyID @ PutVarint32 C (ve_column_family_id e))"
    using varint32_nonempty [of kColumnFamilyID] varint32_nonempty [of "ve_column_family_id e"]
    by (cases "PutVarint32 C kColumnFamilyID"; cases "PutVarint32 C (ve_column_family_id e)") simp_all
  moreover have "encode_added C m \<noteq> []" "encode_deleted C p \<noteq> []" "encode_updated C p \<noteq> []" for m p
    by (simp_all add: encode_added_def encode_deleted_def encode_updated_def varint32_nonempty)
  ultimately show ?thesis
    using count_le_bytes [of "encode_added C" "ve_added_files e"]
      count_le_bytes [of "encode_deleted C" "ve_deleted_files e"]
      count_le_bytes [of "encode_updated C" "ve_updated_discardable_size e"]
    by (simp add: VersionEdit_EncodeTo_def)
qed

lemma decode_files:
  assumes "list_all meta_fits ms" and "amap_ok us"
    and "ve_added_files x = []" "ve_deleted_files x = []" "ve_updated_discardable_size x = []"
    and "length ms + (length ds + length us) \<le> n"
  shows "decode_entries n nd C j x
      (concat (map (encode_added C) ms) @ concat (map (encode_deleted C) ds) @ concat (map (encode_updated C) us))
    = Some (None, x\<lparr>ve_added_files := map persistent_meta ms,
        ve_deleted_files := map (\<lambda>p. (fst p, 0)) ds, ve_updated_discardable_size := us\<rparr>)"
proof -
  from assms(6) obtain k where "n = length ms + (length ds + (length us + k))"
    by (auto simp: le_iff_add add.assoc)
  with assms decode_all_updated [of _ us k nd j "[]"] show ?thesis
    by (simp add: decode_all_added decode_all_deleted del: decode_entries.simps)
qed

lemma version_edit_roundtrip:
  assumes "list_all meta_fits (ve_added_files e)" and "amap_ok (ve_updated_discardable_size e)"
  shows "VersionEdit_DecodeFrom nd C j new_VersionEdit (VersionEdit_EncodeTo C e)
    = Some (OK, persistent_edit e)"
proof -
  obtain n where len: "length (VersionEdit_EncodeTo C e) = Suc (Suc n)"
    and n: "length (ve_added_files e) + (length (ve_deleted_files e) + length (ve_updated_discardable_size e)) \<le> n"
    using encoded_edit_length [of e] by (auto simp: le_iff_add)
  have "decode_entries (Suc (Suc n)) nd C j new_VersionEdit (VersionEdit_EncodeTo C e)
      = Some (None, persistent_edit e)"
    unfolding VersionEdit_EncodeTo_def decode_head
    by (subst decode_files) (use assms n in \<open>simp_all add: persistent_edit_def\<close>)
  with len show ?thesis by (simp add: VersionEdit_DecodeFrom_def)
qed

lemma decode_entries_None:
  "length src \<le> n \<Longrightarrow> decode_entries n nd C j e src = None \<Longrightarrow>
   \<exists>e' s. length s \<le> length src \<and> decode_entry nd C j e' s = None"
proof (induction n arbitrary: e src)
  case (Suc n)
  show ?case
  proof (cases "decode_entry nd C j e src")
    case (Some r)
    with Suc.prems obtain e' s where r: "r = Inr (e', s)"
      and none: "decode_entries n nd C j e' s = None"
      by (cases r) (auto split: if_splits)
    from Some r have less: "length s < length src" by (simp add: decode_entry_progress)
    with Suc.IH [OF _ none] Suc.prems(1) show ?thesis by (meson le_trans less_imp_le less_le_trans less_Suc_eq_le)
  qed blast
qed (simp split: if_splits)

end

lemma decode_entry_None:
  "decode_entry nd C j e src = None \<longleftrightarrow>
   (\<exists>tag s. GetVarint32 C src = Some (tag, s) \<and>
     (tag = kAddedBlobFile \<and>
        (\<nexists>m r. BlobFileMeta_DecodeFromLegacy nd C (default_BlobFileMeta (fst j) (snd j)) s = Some (OK, m, r)) \<or>
      tag = kAddedBlobFileV2 \<and>
        fst (BlobFileMeta_DecodeFrom C (default_BlobFileMeta (fst j) (snd j)) s) \<noteq> OK))"
proof (cases "GetVarint32 C src")
  case (Some p)
  obtain tag s where p: "p = (tag, s)" by (cases p)
  obtain st m r where d: "BlobFileMeta_DecodeFrom C (default_BlobFileMeta (fst j) (snd j)) s = (st, m, r)"
    by (cases "BlobFileMeta_DecodeFrom C (default_BlobFileMeta (fst j) (snd j)) s") auto
  show ?thesis
    using Some p d
    by (cases "BlobFileMeta_DecodeFromLegacy nd C (default_BlobFileMeta (fst j) (snd j)) s")
      (auto simp: decode_entry_def decode_switch_def tag_defs)
qed (simp add: decode_entry_def)

section \<open>Properties\<close>

text \<open>
  C14. An edit that is written to the manifest and read back into a fresh edit is the edit
  that was written, without its volatile parts: the next file number when there is one,
  the column family, every added, deleted and updated file in order. The sequence numbers
  of the deleted files come back as 0.
\<close>

theorem manifest_edit_roundtrip:
  assumes "coding_laws C"
    and "list_all meta_fits (ve_added_files e)" and "amap_ok (ve_updated_discardable_size e)"
  shows "VersionEdit_DecodeFrom nd C j new_VersionEdit (VersionEdit_EncodeTo C e)
    = Some (OK, persistent_edit e)"
  using assms by (rule coding_laws.version_edit_roundtrip)

definition sample_edit :: VersionEdit where
  "sample_edit =
     UpdateBlobFile 7 70 (DeleteBlobFile 3 99 (VersionEdit_AddBlobFile sample_meta
       (SetColumnFamilyID 2 (SetNextFileNumber 9 new_VersionEdit))))"

lemma manifest_edit_roundtrip_witness:
  "VersionEdit_DecodeFrom False leb128 (0, 0) new_VersionEdit (VersionEdit_EncodeTo leb128 sample_edit)
   = Some (OK, sample_edit\<lparr>ve_deleted_files := [(3, 0)]\<rparr>)"
  using manifest_edit_roundtrip [OF coding_laws_leb128, of sample_edit False "(0, 0)"]
  by (simp add: sample_edit_def UpdateBlobFile_def DeleteBlobFile_def VersionEdit_AddBlobFile_def
      SetColumnFamilyID_def SetNextFileNumber_def new_VersionEdit_def persistent_edit_def
      persistent_meta_def sample_meta_def new_BlobFileMeta_def meta_fits_def amap_emplace_def)





end
