(* ===== verification/Edit_Collector.thy ===== *)
theory Edit_Collector
  imports Version_Edit Storage_Props
begin

text \<open>
  \<open>src/edit_collector.h\<close>: a batch of manifest edits, collected per column family, checked
  against the storages and then applied to them. The storages of the blob file set are an
  association list from the identifier of a column family; the comparator of a column
  family is a function of that identifier.
\<close>

section \<open>The collector of one column family\<close>

record CFEditCollector =
  ce_added_files :: "(u64 \<times> BlobFileMeta) list"
  ce_deleted_files :: "(u64 \<times> u64) list"
  ce_updated_discardable_size :: "(u64 \<times> u64) list"

definition new_CFEditCollector :: CFEditCollector where
  "new_CFEditCollector = \<lparr>ce_added_files = [], ce_deleted_files = [], ce_updated_discardable_size = []\<rparr>"

definition CF_AddFile :: "BlobFileMeta \<Rightarrow> CFEditCollector \<Rightarrow> status \<times> CFEditCollector" where
  "CF_AddFile m c =
     (if map_of (ce_added_files c) (file_number m) \<noteq> None
      then (Corruption (''Blob file '' @ to_string (file_number m) @ '' has been added twice'') '''', c)
      else (OK, c\<lparr>ce_added_files := amap_emplace (file_number m) m (ce_added_files c)\<rparr>))"

definition CF_DeleteFile :: "u64 \<Rightarrow> u64 \<Rightarrow> CFEditCollector \<Rightarrow> status \<times> CFEditCollector" where
  "CF_DeleteFile n sq c =
     (if map_of (ce_deleted_files c) n \<noteq> None
      then (Corruption (''Blob file '' @ to_string n @ '' has been deleted twice'') '''', c)
      else (OK, c\<lparr>ce_deleted_files := amap_emplace n sq (ce_deleted_files c)\<rparr>))"

definition CF_UpdateFile :: "u64 \<Rightarrow> u64 \<Rightarrow> CFEditCollector \<Rightarrow> status \<times> CFEditCollector" where
  "CF_UpdateFile n d c =
     (OK, c\<lparr>ce_updated_discardable_size := amap_emplace n d (ce_updated_discardable_size c)\<rparr>)"

definition seal_added :: "bool \<Rightarrow> 'f BlobStorage \<Rightarrow> u64 \<times> BlobFileMeta \<Rightarrow> unit \<Rightarrow> (status \<times> unit) option" where
  "seal_added nd bs p u = do {
     blob \<leftarrow> FindFile nd (fst p) bs;
     Some (case blob of
        None \<Rightarrow> OK
      | Some b \<Rightarrow>
          if is_obsolete b
          then Corruption (''Blob file '' @ to_string (fst p) @ '' has been deleted before'') ''''
          else Corruption (''Blob file '' @ to_string (fst p) @ '' has been added before'') '''', u)
   }"

definition seal_deleted ::
    "bool \<Rightarrow> 'f BlobStorage \<Rightarrow> (u64 \<times> BlobFileMeta) list \<Rightarrow> u64 \<times> u64 \<Rightarrow> unit \<Rightarrow> (status \<times> unit) option" where
  "seal_deleted nd bs added p u =
     (if map_of added (fst p) \<noteq> None then Some (OK, u)
      else do {
        blob \<leftarrow> FindFile nd (fst p) bs;
        Some (case blob of
           None \<Rightarrow> Corruption (''Blob file '' @ to_string (fst p) @ '' doesn't exist before'') ''''
         | Some b \<Rightarrow>
             if is_obsolete b
             then Corruption (''Blob file '' @ to_string (fst p) @ '' has been deleted already'') ''''
             else OK, u)
      })"

definition CF_Seal :: "bool \<Rightarrow> 'f BlobStorage \<Rightarrow> CFEditCollector \<Rightarrow> status option" where
  "CF_Seal nd bs c = do {
     (s, u) \<leftarrow> for_each (seal_added nd bs) (ce_added_files c) ();
     if \<not> IsOk s then Some s
     else do {
       (s, u) \<leftarrow> for_each (seal_deleted nd bs (ce_added_files c)) (ce_deleted_files c) ();
       Some s
     }
   }"

text \<open>The three loops of \<open>Apply\<close>; the state is the storage with the statistics.\<close>

definition apply_added ::
    "comparator \<Rightarrow> CFEditCollector \<Rightarrow> u64 \<times> BlobFileMeta \<Rightarrow> 'f BlobStorage \<times> stats_ptr
     \<Rightarrow> ('f BlobStorage \<times> stats_ptr) option" where
  "apply_added cmp c p bt =
     (if map_of (ce_deleted_files c) (fst p) \<noteq> None then Some bt
      else BlobStorage_AddBlobFile cmp (snd p) (fst bt) (snd bt))"

definition apply_deleted ::
    "bool \<Rightarrow> CFEditCollector \<Rightarrow> u64 \<times> u64 \<Rightarrow> 'f BlobStorage \<times> stats_ptr
     \<Rightarrow> (status \<times> 'f BlobStorage \<times> stats_ptr) option" where
  "apply_deleted nd c p bt =
     (if map_of (ce_added_files c) (fst p) \<noteq> None then Some (OK, bt)
      else do {
        (found, bs', st') \<leftarrow> MarkFileObsolete nd (fst p) (snd p) (fst bt) (snd bt);
        Some (if found then OK else NotFound (''Invalid file number '' @ to_string (fst p)), bs', st')
      })"

definition apply_updated ::
    "bool \<Rightarrow> u64 \<times> u64 \<Rightarrow> 'f BlobStorage \<times> stats_ptr \<Rightarrow> ('f BlobStorage \<times> stats_ptr) option" where
  "apply_updated nd p bt = do {
     file \<leftarrow> FindFile nd (fst p) (fst bt);
     case file of
       None \<Rightarrow> Some bt
     | Some m \<Rightarrow> do {
         bs' \<leftarrow> with_file (fst p) (AddDiscardableSize nd (snd p)) (fst bt);
         Some (bs', snd bt)
       }
   }"

definition CF_Apply ::
    "bool \<Rightarrow> comparator \<Rightarrow> CFEditCollector \<Rightarrow> 'f BlobStorage \<times> stats_ptr
     \<Rightarrow> (status \<times> 'f BlobStorage \<times> stats_ptr) option" where
  "CF_Apply nd cmp c bt = do {
     bt1 \<leftarrow> foldM (apply_added cmp c) (ce_added_files c) bt;
     (s, bt2) \<leftarrow> for_each (apply_deleted nd c) (ce_deleted_files c) bt1;
     if \<not> IsOk s then Some (s, bt2)
     else do {
       bt3 \<leftarrow> foldM (apply_updated nd) (ce_updated_discardable_size c) bt2;
       (n, bs4) \<leftarrow> ComputeGCScore (fst bt3);
       Some (OK, bs4, snd bt3)
     }
   }"

section \<open>The collector\<close>

record EditCollector =
  ec_status :: status
  ec_sealed :: bool
  ec_has_next_file_number :: bool
  ec_next_file_number :: u64
  ec_column_families :: "(u32 \<times> CFEditCollector) list"

definition new_EditCollector :: EditCollector where
  "new_EditCollector =
     \<lparr>ec_status = OK, ec_sealed = False, ec_has_next_file_number = False, ec_next_file_number = 0,
      ec_column_families = []\<rparr>"

definition set_collector :: "u32 \<Rightarrow> CFEditCollector \<Rightarrow> EditCollector \<Rightarrow> EditCollector" where
  "set_collector cf c ec = ec\<lparr>ec_column_families := amap_set cf c (ec_column_families ec)\<rparr>"

fun collect_all :: "('a \<Rightarrow> CFEditCollector \<Rightarrow> status \<times> CFEditCollector) \<Rightarrow> 'a list \<Rightarrow> CFEditCollector
    \<Rightarrow> status \<times> CFEditCollector" where
  "collect_all f [] c = (OK, c)"
| "collect_all f (x # xs) c = (let (s, c') = f x c in if IsOk s then collect_all f xs c' else (s, c'))"

definition AddEdit :: "VersionEdit \<Rightarrow> EditCollector \<Rightarrow> status \<times> EditCollector" where
  "AddEdit edit ec =
     (if ec_sealed ec then (Incomplete ''Should be not called after Sealed() is called'', ec)
      else
        let cf = ve_column_family_id edit;
            c0 = (case map_of (ec_column_families ec) cf of None \<Rightarrow> new_CFEditCollector | Some c \<Rightarrow> c);
            (s1, c1) = collect_all CF_AddFile (ve_added_files edit) c0
        in
        if \<not> IsOk s1 then (s1, (set_collector cf c1 ec)\<lparr>ec_status := s1\<rparr>)
        else
        let (s2, c2) = collect_all (\<lambda>p. CF_DeleteFile (fst p) (snd p)) (ve_deleted_files edit) c1 in
        if \<not> IsOk s2 then (s2, (set_collector cf c2 ec)\<lparr>ec_status := s2\<rparr>)
        else
        let c3 = snd (collect_all (\<lambda>p. CF_UpdateFile (fst p) (snd p)) (ve_updated_discardable_size edit) c2);
            ec3 = set_collector cf c3
                    (if ve_added_files edit = [] \<and> ve_deleted_files edit = [] then ec else ec\<lparr>ec_status := OK\<rparr>)
        in
        if ve_has_next_file_number edit
        then if ve_next_file_number edit < ec_next_file_number ec3
             then let s = Corruption (''Edit has a smaller next file number '' @
                            to_string (ve_next_file_number edit) @ '' than current '' @
                            to_string (ec_next_file_number ec3)) ''''
                  in (s, ec3\<lparr>ec_status := s\<rparr>)
             else (OK, ec3\<lparr>ec_next_file_number := ve_next_file_number edit, ec_has_next_file_number := True\<rparr>)
        else (OK, ec3))"

definition seal_cf ::
    "bool \<Rightarrow> (u32 \<times> 'f BlobStorage) list \<Rightarrow> u32 \<times> CFEditCollector \<Rightarrow> unit \<Rightarrow> (status \<times> unit) option" where
  "seal_cf nd storages p u =
     (case map_of storages (fst p) of
        None \<Rightarrow> Some (OK, u)
      | Some bs \<Rightarrow> map_option (\<lambda>s. (s, u)) (CF_Seal nd bs (snd p)))"

definition EditCollector_Seal ::
    "bool \<Rightarrow> (u32 \<times> 'f BlobStorage) list \<Rightarrow> EditCollector \<Rightarrow> (status \<times> EditCollector) option" where
  "EditCollector_Seal nd storages ec =
     (if \<not> IsOk (ec_status ec) then Some (ec_status ec, ec)
      else do {
        (s, u) \<leftarrow> for_each (seal_cf nd storages) (ec_column_families ec) ();
        if \<not> IsOk s then Some (s, ec\<lparr>ec_status := s\<rparr>)
        else Some (OK, ec\<lparr>ec_sealed := True\<rparr>)
      })"

definition apply_cf ::
    "bool \<Rightarrow> (u32 \<Rightarrow> comparator) \<Rightarrow> u32 \<times> CFEditCollector \<Rightarrow> (u32 \<times> 'f BlobStorage) list \<times> stats_ptr
     \<Rightarrow> (status \<times> (u32 \<times> 'f BlobStorage) list \<times> stats_ptr) option" where
  "apply_cf nd cmps p ss =
     (case map_of (fst ss) (fst p) of
        None \<Rightarrow> Some (OK, ss)
      | Some bs \<Rightarrow> do {
          (s, bs', st') \<leftarrow> CF_Apply nd (cmps (fst p)) (snd p) (bs, snd ss);
          Some (s, amap_update (fst p) (\<lambda>_. bs') (fst ss), st')
        })"

definition EditCollector_Apply ::
    "bool \<Rightarrow> (u32 \<Rightarrow> comparator) \<Rightarrow> EditCollector \<Rightarrow> (u32 \<times> 'f BlobStorage) list \<Rightarrow> stats_ptr
     \<Rightarrow> (status \<times> EditCollector \<times> (u32 \<times> 'f BlobStorage) list \<times> stats_ptr) option" where
  "EditCollector_Apply nd cmps ec storages st =
     (if \<not> IsOk (ec_status ec) then Some (ec_status ec, ec, storages, st)
      else if \<not> ec_sealed ec
      then Some (Incomplete ''Should be not called until Sealed() is called'', ec, storages, st)
      else do {
        (s, storages', st') \<leftarrow> for_each (apply_cf nd cmps) (ec_column_families ec) (storages, st);
        Some (s, ec\<lparr>ec_status := s\<rparr>, storages', st')
      })"

definition GetNextFileNumber :: "EditCollector \<Rightarrow> u64 \<Rightarrow> status \<times> u64" where
  "GetNextFileNumber ec out =
     (if \<not> IsOk (ec_status ec) then (ec_status ec, out)
      else if ec_has_next_file_number ec then (OK, ec_next_file_number ec)
      else (Corruption ''No next file number in manifest file'' '''', out))"

section \<open>The contract of the storage\<close>

text \<open>
  What the collector needs from a registry of files: a view of the files by number, an
  operation that adds a new file and one that retires a live file.
\<close>

definition retire_step ::
    "(u64 \<Rightarrow> u64 \<Rightarrow> 's \<Rightarrow> (bool \<times> 's) option) \<Rightarrow> u64 \<times> u64 \<Rightarrow> 's \<Rightarrow> (status \<times> 's) option" where
  "retire_step retire p s = do {
     (found, s') \<leftarrow> retire (fst p) (snd p) s;
     Some (if found then OK else NotFound (''Invalid file number '' @ to_string (fst p)), s')
   }"

locale file_registry =
  fixes inv :: "'s \<Rightarrow> bool" and view :: "'s \<Rightarrow> u64 \<rightharpoonup> BlobFileMeta" and fits :: "'s \<Rightarrow> BlobFileMeta \<Rightarrow> bool"
    and add :: "BlobFileMeta \<Rightarrow> 's \<Rightarrow> 's option" and retire :: "u64 \<Rightarrow> u64 \<Rightarrow> 's \<Rightarrow> (bool \<times> 's) option"
  assumes add_law: "inv s \<Longrightarrow> view s (file_number m) = None \<Longrightarrow> \<not> is_obsolete m \<Longrightarrow> fits s m \<Longrightarrow>
      \<exists>s'. add m s = Some s' \<and> inv s' \<and> view s' = (view s)(file_number m \<mapsto> m) \<and> fits s' = fits s"
    and retire_law: "inv s \<Longrightarrow> view s n = Some m \<Longrightarrow> \<not> is_obsolete m \<Longrightarrow>
      \<exists>s'. retire n q s = Some (True, s') \<and> inv s' \<and> view s' = (view s)(n \<mapsto> m\<lparr>file_state := kObsolete\<rparr>) \<and> fits s' = fits s"
begin

lemma add_many:
  assumes "inv s" and "distinct (map file_number ms)"
    and "\<And>m. m \<in> set ms \<Longrightarrow> view s (file_number m) = None \<and> \<not> is_obsolete m \<and> fits s m"
  shows "\<exists>s'. foldM add ms s = Some s' \<and> inv s' \<and> fits s' = fits s \<and>
    view s' = (\<lambda>n. case find (\<lambda>m. file_number m = n) ms of None \<Rightarrow> view s n | Some m \<Rightarrow> Some m)"
  using assms
proof (induction ms arbitrary: s)
  case (Cons m ms)
  obtain s1 where s1: "add m s = Some s1" "inv s1" "view s1 = (view s)(file_number m \<mapsto> m)" "fits s1 = fits s"
    using add_law [of s m] Cons.prems by auto
  have "view s1 (file_number x) = None \<and> \<not> is_obsolete x \<and> fits s1 x" if "x \<in> set ms" for x
  proof -
    have "file_number x \<noteq> file_number m"
      using Cons.prems(2) imageI [OF that, of file_number] by auto
    with Cons.prems(3) [of x] that s1(3,4) show ?thesis by simp
  qed
  with Cons.IH [of s1] s1(2) Cons.prems(2) obtain s' where
    s': "foldM add ms s1 = Some s'" "inv s'" "fits s' = fits s1"
      "view s' = (\<lambda>n. case find (\<lambda>m. file_number m = n) ms of None \<Rightarrow> view s1 n | Some m \<Rightarrow> Some m)"
    by auto
  have "find (\<lambda>x. file_number x = file_number m) ms = None"
    using Cons.prems(2) by (auto simp: find_None_iff) (metis imageI)
  then have "view s' = (\<lambda>n. case find (\<lambda>m. file_number m = n) (m # ms) of None \<Rightarrow> view s n | Some m \<Rightarrow> Some m)"
    by (auto simp: s'(4) s1(3) fun_eq_iff split: option.split)
  with s1 s' show ?case by simp
qed simp

lemma retire_many:
  assumes "inv s" and "amap_ok ps"
    and "\<And>p. p \<in> set ps \<Longrightarrow> \<exists>m. view s (fst p) = Some m \<and> \<not> is_obsolete m"
  shows "\<exists>s'. for_each (retire_step retire) ps s = Some (OK, s') \<and> inv s' \<and> fits s' = fits s \<and>
    view s' = (\<lambda>n. if n \<in> fst ` set ps then map_option (\<lambda>m. m\<lparr>file_state := kObsolete\<rparr>) (view s n) else view s n)"
  using assms
proof (induction ps arbitrary: s)
  case (Cons p ps)
  obtain m where m: "view s (fst p) = Some m" "\<not> is_obsolete m" using Cons.prems(3) [of p] by auto
  then obtain s1 where s1: "retire (fst p) (snd p) s = Some (True, s1)" "inv s1"
    "view s1 = (view s)(fst p \<mapsto> m\<lparr>file_state := kObsolete\<rparr>)" "fits s1 = fits s"
    using retire_law [of s "fst p" m "snd p"] Cons.prems(1) by auto
  have "\<exists>m. view s1 (fst x) = Some m \<and> \<not> is_obsolete m" if "x \<in> set ps" for x
  proof -
    have "fst x \<noteq> fst p" using Cons.prems(2) imageI [OF that, of fst] by (simp, metis)
    with Cons.prems(3) [of x] that s1(3) show ?thesis by simp
  qed
  with Cons.IH [of s1] s1(2) Cons.prems(2) obtain s' where
    s': "for_each (retire_step retire) ps s1 = Some (OK, s')" "inv s'" "fits s' = fits s1"
      "view s' = (\<lambda>n. if n \<in> fst ` set ps then map_option (\<lambda>m. m\<lparr>file_state := kObsolete\<rparr>) (view s1 n) else view s1 n)"
    by auto
  have "view s' = (\<lambda>n. if n \<in> fst ` set (p # ps) then map_option (\<lambda>m. m\<lparr>file_state := kObsolete\<rparr>) (view s n) else view s n)"
    using Cons.prems(2) m(1) by (auto simp: s'(4) s1(3) fun_eq_iff)
  moreover have "retire_step retire p s = Some (OK, s1)" by (simp add: retire_step_def s1(1))
  ultimately show ?case using s1(4) s'(1,2,3) by simp
qed simp

end

text \<open>Scores can be compared: levels are not merged, or no score is a quotient of zeros.\<close>

definition scorable :: "'f BlobStorage \<Rightarrow> bool" where
  "scorable bs = (level_merge (bs_cf_options bs) \<longrightarrow>
     blob_file_discardable_ratio (bs_cf_options bs) \<noteq> NaN \<and>
     list_all (\<lambda>p. file_size (snd p) \<noteq> 0) (bs_files bs))"

abbreviation storage_view :: "'f BlobStorage \<times> stats_ptr \<Rightarrow> u64 \<rightharpoonup> BlobFileMeta" where
  "storage_view bt \<equiv> map_of (bs_files (fst bt))"

abbreviation storage_fits :: "'f BlobStorage \<times> stats_ptr \<Rightarrow> BlobFileMeta \<Rightarrow> bool" where
  "storage_fits bt m \<equiv> file_bucket (fst bt) m \<le> bs_num_levels (fst bt) \<and> file_size m \<noteq> 0"

abbreviation storage_inv :: "comparator \<Rightarrow> 'f BlobStorage \<times> stats_ptr \<Rightarrow> bool" where
  "storage_inv cmp bt \<equiv> storage_ok cmp (fst bt) \<and> scorable (fst bt)"

abbreviation storage_mark ::
    "bool \<Rightarrow> u64 \<Rightarrow> u64 \<Rightarrow> 'f BlobStorage \<times> stats_ptr \<Rightarrow> (bool \<times> 'f BlobStorage \<times> stats_ptr) option" where
  "storage_mark nd n q bt \<equiv> MarkFileObsolete nd n q (fst bt) (snd bt)"

lemma scorable_update:
  assumes "scorable bs" and "map_of (bs_files bs) n = Some m" and "file_size m' = file_size m"
    and "bs_files bs' = amap_update n (\<lambda>_. m') (bs_files bs)" and "bs_cf_options bs' = bs_cf_options bs"
  shows "scorable bs'"
proof -
  have "file_size (snd p) \<noteq> 0"
    if p: "p \<in> set (bs_files bs')" and all: "\<forall>p\<in>set (bs_files bs). file_size (snd p) \<noteq> 0" for p
  proof -
    obtain q where "q \<in> set (bs_files bs)" and "snd p = (if fst q = n then m' else snd q)"
      using p by (auto simp: assms(4) amap_update_def)
    with all bspec [OF all map_of_SomeD [OF assms(2)]] assms(3) show ?thesis by auto
  qed
  with assms(1,5) show ?thesis by (simp add: scorable_def list_all_iff)
qed

lemma add_options: "BlobStorage_AddBlobFile cmp m bs st = Some (bs', st') \<Longrightarrow> bs_cf_options bs' = bs_cf_options bs"
  by (auto simp: BlobStorage_AddBlobFile_def exec_simps Let_def split: if_splits)

lemma mark_options: "MarkFileObsolete nd n q bs st = Some (b, bs', st') \<Longrightarrow> bs_cf_options bs' = bs_cf_options bs"
  by (auto simp: MarkFileObsolete_def MarkFileObsoleteLocked_def exec_simps Let_def split: option.splits)

lemma file_registryI:
  assumes "comparator_laws cmp"
  shows "file_registry (storage_inv cmp) storage_view storage_fits
    (\<lambda>m bt. BlobStorage_AddBlobFile cmp m (fst bt) (snd bt)) (storage_mark nd)"
proof
  fix s :: "'f BlobStorage \<times> stats_ptr" and m
  assume a: "storage_inv cmp s" "storage_view s (file_number m) = None" "\<not> is_obsolete m" "storage_fits s m"
  obtain bs' st' where b: "BlobStorage_AddBlobFile cmp m (fst s) (snd s) = Some (bs', st')" "storage_ok cmp bs'"
    "bs_files bs' = bs_files (fst s) @ [(file_number m, m)]" "bs_num_levels bs' = bs_num_levels (fst s)"
    using comparator_laws.storage_add [OF assms, of "fst s" m] a by metis
  have "map_of (bs_files bs') = (storage_view s)(file_number m \<mapsto> m)"
    using a(2) by (simp add: b(3) map_of_append_single del: map_of_append)
  moreover have "scorable bs'" using a(1,4) b(3) add_options [OF b(1)] by (simp add: scorable_def)
  ultimately show "\<exists>s'. BlobStorage_AddBlobFile cmp m (fst s) (snd s) = Some s' \<and> storage_inv cmp s' \<and>
      storage_view s' = (storage_view s)(file_number m \<mapsto> m) \<and> storage_fits s' = storage_fits s"
    using b by (auto simp: file_bucket_def fun_eq_iff)
next
  fix s :: "'f BlobStorage \<times> stats_ptr" and n m q
  assume a: "storage_inv cmp s" "storage_view s n = Some m" "\<not> is_obsolete m"
  obtain bs' st' where b: "storage_mark nd n q s = Some (True, bs', st')" "storage_ok cmp bs'"
    "bs_files bs' = amap_update n (\<lambda>_. m\<lparr>file_state := kObsolete\<rparr>) (bs_files (fst s))"
    "bs_num_levels bs' = bs_num_levels (fst s)"
    using comparator_laws.storage_retire [OF assms, of "fst s" n m] a by metis
  have "map_of (bs_files bs') = (storage_view s)(n \<mapsto> m\<lparr>file_state := kObsolete\<rparr>)"
    using a(2) by (simp add: b(3) amap_simps)
  moreover have "scorable bs'"
    using a(1) by (intro scorable_update [OF _ a(2) _ b(3)] mark_options [OF b(1)]) simp_all
  ultimately show "\<exists>s'. storage_mark nd n q s = Some (True, s') \<and> storage_inv cmp s' \<and>
      storage_view s' = (storage_view s)(n \<mapsto> m\<lparr>file_state := kObsolete\<rparr>) \<and> storage_fits s' = storage_fits s"
    using b by (auto simp: file_bucket_def fun_eq_iff)
qed

interpretation bytewise_registry: file_registry "storage_inv bytewise" storage_view storage_fits
    "\<lambda>m bt. BlobStorage_AddBlobFile bytewise m (fst bt) (snd bt)" "storage_mark nd" for nd
  by (rule file_registryI [OF comparator_laws_bytewise])

section \<open>A sealed batch applies\<close>

lemma foldM_skip: "foldM (\<lambda>x s. if P x then Some s else f x s) xs s = foldM f (filter (\<lambda>x. \<not> P x) xs) s"
proof (induction xs arbitrary: s)
  case (Cons x xs)
  then show ?case by (cases "f x s") auto
qed simp

lemma foldM_map: "foldM (\<lambda>x. f (g x)) xs s = foldM f (map g xs) s"
proof (induction xs arbitrary: s)
  case (Cons x xs)
  then show ?case by (cases "f (g x) s") auto
qed simp

lemma for_each_skip:
  "for_each (\<lambda>x s. if P x then Some (OK, s) else f x s) xs s = for_each f (filter (\<lambda>x. \<not> P x) xs) s"
proof (induction xs arbitrary: s)
  case (Cons x xs)
  then show ?case by (cases "f x s") (auto split: prod.splits)
qed simp

lemma for_each_OK_unit:
  "for_each f xs () = Some (OK, u) \<Longrightarrow> x \<in> set xs \<Longrightarrow> f x () = Some (OK, ())"
  by (induction xs) (auto simp: exec_simps split: if_splits)

definition cf_ok :: "CFEditCollector \<Rightarrow> bool" where
  "cf_ok c = (amap_ok (ce_added_files c) \<and> amap_ok (ce_deleted_files c) \<and>
     (\<forall>p\<in>set (ce_added_files c). file_number (snd p) = fst p))"

lemma CF_Seal_OK:
  assumes "CF_Seal nd bs c = Some OK"
  shows "p \<in> set (ce_added_files c) \<Longrightarrow> map_of (bs_files bs) (fst p) = None"
    and "q \<in> set (ce_deleted_files c) \<Longrightarrow> map_of (ce_added_files c) (fst q) = None \<Longrightarrow>
      \<exists>m. map_of (bs_files bs) (fst q) = Some m \<and> \<not> is_obsolete m"
proof -
  have a: "for_each (seal_added nd bs) (ce_added_files c) () = Some (OK, ())"
    and d: "for_each (seal_deleted nd bs (ce_added_files c)) (ce_deleted_files c) () = Some (OK, ())"
    using assms by (auto simp: CF_Seal_def exec_simps split: if_splits)
  show "p \<in> set (ce_added_files c) \<Longrightarrow> map_of (bs_files bs) (fst p) = None"
    using for_each_OK_unit [OF a, of p]
    by (auto simp: seal_added_def FindFile_def exec_simps split: option.splits if_splits)
  show "q \<in> set (ce_deleted_files c) \<Longrightarrow> map_of (ce_added_files c) (fst q) = None \<Longrightarrow>
      \<exists>m. map_of (bs_files bs) (fst q) = Some m \<and> \<not> is_obsolete m"
    using for_each_OK_unit [OF d, of q]
    by (auto simp: seal_deleted_def FindFile_def exec_simps split: option.splits if_splits)
qed

lemma dbl_less_weak: "dbl_less a c \<Longrightarrow> b \<noteq> NaN \<Longrightarrow> dbl_less a b \<or> dbl_less b c"
  by (cases a; cases b; cases c) auto

lemma ComputeGCScore_total:
  assumes "scorable bs"
  shows "\<exists>n gs. ComputeGCScore bs = Some (n, bs\<lparr>bs_gc_score := gs\<rparr>)"
proof -
  let ?opts = "bs_cf_options bs"
  let ?xs = "map (\<lambda>p. \<lparr>gcs_file_number = fst p, gcs_score = file_score ?opts (snd p)\<rparr>)
      (filter (\<lambda>p. gc_candidate ?opts (snd p)) (bs_files bs))"
  have "strict_weak (\<lambda>a b. dbl_less (gcs_score b) (gcs_score a)) ?xs" if "level_merge ?opts"
  proof -
    have "gcs_score x \<noteq> NaN" if in_xs: "x \<in> set ?xs" for x
    proof -
      obtain p where p: "p \<in> set (bs_files bs)" and x: "gcs_score x = file_score ?opts (snd p)"
        using in_xs by auto
      have "file_size (snd p) \<noteq> 0" and "blob_file_discardable_ratio ?opts \<noteq> NaN"
        using assms \<open>level_merge ?opts\<close> p by (auto simp: scorable_def list_all_iff)
      then show ?thesis by (simp add: x file_score_def GetDiscardableRatio_def dbl_div_def)
    qed
    then show ?thesis
      using dbl_less_weak dbl_less_asym unfolding strict_weak_def list_all_iff by meson
  qed
  then show ?thesis
    using strict_weak_key [of gcs_file_number ?xs]
    by (cases "level_merge ?opts") (auto simp: ComputeGCScore_def std_sort_def Let_def)
qed

lemma with_file_scorable:
  assumes "with_file n f bs = Some bs'" and "scorable bs" and "\<And>m m'. f m = Some m' \<Longrightarrow> same_place m m'"
  shows "scorable bs'"
proof -
  obtain m m' where m: "map_of (bs_files bs) n = Some m" and f: "f m = Some m'"
    and bs': "bs' = bs\<lparr>bs_files := amap_update n (\<lambda>_. m') (bs_files bs)\<rparr>"
    using assms(1) by (auto simp: with_file_def exec_simps)
  have "file_size m' = file_size m" using assms(3) [OF f] by (simp add: same_place_def)
  then show ?thesis by (rule scorable_update [OF assms(2) m]) (simp_all add: bs')
qed

lemma apply_updated_release:
  assumes "storage_ok cmp (fst bt)" and "foldM (apply_updated nd) us bt = Some bt'"
  shows "storage_ok cmp (fst bt') \<and> abs_storage (fst bt') = abs_storage (fst bt) \<and>
    (scorable (fst bt) \<longrightarrow> scorable (fst bt'))"
proof (rule foldM_inv [OF assms(2)])
  fix x s s'
  assume P: "storage_ok cmp (fst s) \<and> abs_storage (fst s) = abs_storage (fst bt) \<and>
      (scorable (fst bt) \<longrightarrow> scorable (fst s))"
    and step: "apply_updated nd x s = Some s'"
  show "storage_ok cmp (fst s') \<and> abs_storage (fst s') = abs_storage (fst bt) \<and>
      (scorable (fst bt) \<longrightarrow> scorable (fst s'))"
  proof (cases "s' = s")
    case False
    with step obtain bs' where w: "with_file (fst x) (AddDiscardableSize nd (snd x)) (fst s) = Some bs'" and s': "fst s' = bs'"
      by (auto simp: apply_updated_def exec_simps split: option.splits)
    have "storage_ok cmp bs'" by (rule with_file_ok [OF _ w]) (use P discard_same_place in auto)
    moreover have "abs_storage bs' = abs_storage (fst s)" by (rule with_file_abs [OF w]) (rule discard_same_place)
    moreover have "scorable (fst s) \<Longrightarrow> scorable bs'"
      by (rule with_file_scorable [OF w]) (auto dest: discard_same_place)
    ultimately show ?thesis using P s' by auto
  qed (use P in simp)
qed (use assms in simp)

lemma apply_updated_total:
  assumes "nd \<or> us = []" and "storage_ok cmp (fst bt)"
  shows "\<exists>bt'. foldM (apply_updated nd) us bt = Some bt'"
  using assms
proof (induction us arbitrary: bt)
  case (Cons u us)
  then have nd: "nd" by simp
  obtain bt1 where s: "apply_updated nd u bt = Some bt1"
    using nd by (cases "map_of (bs_files (fst bt)) (fst u)")
      (auto simp: apply_updated_def FindFile_def with_file_def AddDiscardableSize_def Let_def)
  with apply_updated_release [OF Cons.prems(2), of nd "[u]" bt1] have "storage_ok cmp (fst bt1)" by simp
  with Cons.IH [of bt1] nd s show ?case by simp
qed simp

text \<open>The numbers that a batch adds to and takes from the live files.\<close>

definition batch_added :: "CFEditCollector \<Rightarrow> u64 set" where
  "batch_added c = fst ` set (ce_added_files c) - fst ` set (ce_deleted_files c)"

definition batch_deleted :: "CFEditCollector \<Rightarrow> u64 set" where
  "batch_deleted c = fst ` set (ce_deleted_files c) - fst ` set (ce_added_files c)"

lemma live_iff: "n \<in> fs_live (abs_storage bs) \<longleftrightarrow> (\<exists>m. map_of (bs_files bs) n = Some m \<and> \<not> is_obsolete m)"
  by (simp add: abs_storage_def)

lemma find_map_of:
  assumes "amap_ok xs" and "\<forall>p\<in>set xs. file_number (snd p) = fst p"
  shows "find (\<lambda>m. file_number m = n) (map snd xs) = map_of xs n"
  using assms by (induction xs) auto

lemma CF_Apply_sealed:
  fixes bs :: "'f BlobStorage"
  assumes cl: "comparator_laws cmp" and ok: "storage_ok cmp bs" and c: "cf_ok c"
    and seal: "CF_Seal nd bs c = Some OK"
    and new: "\<And>p. p \<in> set (ce_added_files c) \<Longrightarrow>
      \<not> is_obsolete (snd p) \<and> file_bucket bs (snd p) \<le> bs_num_levels bs \<and> file_size (snd p) \<noteq> 0"
    and upd: "nd \<or> ce_updated_discardable_size c = []" and sc: "scorable bs"
  shows "\<exists>bs' st'. CF_Apply nd cmp c (bs, st) = Some (OK, bs', st') \<and> storage_ok cmp bs' \<and>
    fs_live (abs_storage bs') = (fs_live (abs_storage bs) \<union> batch_added c) - batch_deleted c"
proof -
  note reg = file_registryI [OF cl, of nd, where 'a = 'f]
  let ?keep = "filter (\<lambda>p. map_of (ce_deleted_files c) (fst p) = None) (ce_added_files c)"
  let ?drop = "filter (\<lambda>p. map_of (ce_added_files c) (fst p) = None) (ce_deleted_files c)"
  have keep: "amap_ok ?keep" "\<forall>p\<in>set ?keep. file_number (snd p) = fst p" and drop: "amap_ok ?drop"
    using c by (auto simp: cf_ok_def distinct_map_filter)
  have "map file_number (map snd ?keep) = map fst ?keep" using keep(2) by simp
  then have dist: "distinct (map file_number (map snd ?keep))" using keep(1) by (simp only:)
  have fit: "storage_view (bs, st) (file_number m) = None \<and> \<not> is_obsolete m \<and> storage_fits (bs, st) m"
    if "m \<in> set (map snd ?keep)" for m
    using that keep(2) new CF_Seal_OK(1) [OF seal] by fastforce
  have inv0: "storage_inv cmp (bs, st)" using ok sc by simp
  obtain s1 where
    s1: "foldM (\<lambda>m bt. BlobStorage_AddBlobFile cmp m (fst bt) (snd bt)) (map snd ?keep) (bs, st) = Some s1"
      "storage_inv cmp s1"
    and v1: "storage_view s1 = (\<lambda>n. case map_of ?keep n of None \<Rightarrow> map_of (bs_files bs) n | Some m \<Rightarrow> Some m)"
    using file_registry.add_many [OF reg inv0 dist fit, unfolded find_map_of [OF keep] fst_conv] by blast
  have a: "foldM (apply_added cmp c) (ce_added_files c) (bs, st) = Some s1"
    using s1(1) by (simp add: apply_added_def [abs_def] foldM_skip foldM_map [symmetric])
  have "\<exists>m. storage_view s1 (fst p) = Some m \<and> \<not> is_obsolete m" if "p \<in> set ?drop" for p
  proof -
    have p: "p \<in> set (ce_deleted_files c)" "map_of (ce_added_files c) (fst p) = None" using that by simp_all
    then have "map_of ?keep (fst p) = None" by (auto simp: map_of_eq_None_iff)
    with CF_Seal_OK(2) [OF seal p] show ?thesis by (simp add: v1)
  qed
  with file_registry.retire_many [OF reg, of s1 ?drop] s1(2) drop obtain s2 where
    s2: "for_each (retire_step (storage_mark nd)) ?drop s1 = Some (OK, s2)" "storage_inv cmp s2"
    and v2: "storage_view s2 = (\<lambda>n. if n \<in> fst ` set ?drop
        then map_option (\<lambda>m. m\<lparr>file_state := kObsolete\<rparr>) (storage_view s1 n) else storage_view s1 n)"
    by auto
  have d: "for_each (apply_deleted nd c) (ce_deleted_files c) s1 = Some (OK, s2)"
  proof -
    have eq: "apply_deleted nd c = (\<lambda>p (s :: 'f BlobStorage \<times> stats_ptr). if map_of (ce_added_files c) (fst p) \<noteq> None then Some (OK, s)
        else retire_step (storage_mark nd) p s)"
      by (auto simp: fun_eq_iff apply_deleted_def retire_step_def split: Option.bind_split)
    show ?thesis unfolding eq for_each_skip using s2(1) by simp
  qed
  obtain s3 where u: "foldM (apply_updated nd) (ce_updated_discardable_size c) s2 = Some s3"
    using apply_updated_total [OF upd] s2(2) by blast
  have s3: "storage_ok cmp (fst s3)" "abs_storage (fst s3) = abs_storage (fst s2)" "scorable (fst s3)"
    using apply_updated_release [OF _ u] s2(2) by auto
  obtain n gs where g: "ComputeGCScore (fst s3) = Some (n, (fst s3)\<lparr>bs_gc_score := gs\<rparr>)"
    using ComputeGCScore_total [OF s3(3)] by blast
  have "CF_Apply nd cmp c (bs, st) = Some (OK, (fst s3)\<lparr>bs_gc_score := gs\<rparr>, snd s3)"
    by (simp add: CF_Apply_def a d u g)
  moreover have "storage_ok cmp ((fst s3)\<lparr>bs_gc_score := gs\<rparr>)"
    and "abs_storage ((fst s3)\<lparr>bs_gc_score := gs\<rparr>) = abs_storage (fst s2)"
    using untouched [OF s3(1), of "(fst s3)\<lparr>bs_gc_score := gs\<rparr>"] s3(2) by simp_all
  moreover have "fs_live (abs_storage (fst s2)) = (fs_live (abs_storage bs) \<union> batch_added c) - batch_deleted c"
  proof (rule set_eqI)
    fix x
    have k: "map_of ?keep x = (if map_of (ce_deleted_files c) x = None then map_of (ce_added_files c) x else None)"
      by (rule map_of_filter_key)
    have dr: "x \<in> fst ` set ?drop \<longleftrightarrow> x \<in> batch_deleted c"
      by (auto simp: batch_deleted_def map_of_eq_None_iff)
    have kp: "map_of ?keep x \<noteq> None \<longleftrightarrow> x \<in> batch_added c"
      by (auto simp: k batch_added_def map_of_eq_None_iff)
    have "\<not> is_obsolete m" if "map_of ?keep x = Some m" for m
      using that new map_of_SomeD [OF that] by force
    then show "x \<in> fs_live (abs_storage (fst s2)) \<longleftrightarrow> x \<in> (fs_live (abs_storage bs) \<union> batch_added c) - batch_deleted c"
      using kp unfolding live_iff v2 v1 dr Diff_iff Un_iff
      by (cases "x \<in> batch_deleted c"; cases "map_of ?keep x") (auto simp: is_obsolete_def)
  qed
  ultimately show ?thesis by auto
qed

lemma for_each_all_OK:
  "(\<And>x. x \<in> set xs \<Longrightarrow> f x () = Some (OK, ())) \<Longrightarrow> for_each f xs () = Some (OK, ())"
  by (induction xs) auto

lemma for_each_total:
  "(\<And>x s. x \<in> set xs \<Longrightarrow> \<exists>r. f x s = Some r) \<Longrightarrow> \<exists>r. for_each f xs s = Some r"
proof (induction xs arbitrary: s)
  case (Cons x xs)
  obtain st s' where "f x s = Some (st, s')" using Cons.prems [of x s] by auto
  with Cons.IH [of s'] Cons.prems show ?case by simp
qed simp

lemma FindFile_ok: "storage_ok cmp bs \<Longrightarrow> FindFile nd n bs = Some (map_of (bs_files bs) n)"
  by (auto simp: FindFile_def split: option.split dest: storage_okD(2))

lemma CF_Seal_iff:
  assumes "storage_ok cmp bs"
  shows "(\<exists>s. CF_Seal nd bs c = Some s) \<and>
    (CF_Seal nd bs c = Some OK \<longleftrightarrow>
      (\<forall>p\<in>set (ce_added_files c). map_of (bs_files bs) (fst p) = None) \<and>
      (\<forall>p\<in>set (ce_deleted_files c). map_of (ce_added_files c) (fst p) \<noteq> None \<or>
         (\<exists>m. map_of (bs_files bs) (fst p) = Some m \<and> \<not> is_obsolete m)))"
proof -
  have "\<exists>r. for_each (seal_added nd bs) (ce_added_files c) () = Some r"
    and "\<exists>r. for_each (seal_deleted nd bs (ce_added_files c)) (ce_deleted_files c) () = Some r"
    by (rule for_each_total; simp add: seal_added_def seal_deleted_def FindFile_ok [OF assms])+
  then have "\<exists>s. CF_Seal nd bs c = Some s" by (auto simp: CF_Seal_def)
  moreover have "CF_Seal nd bs c = Some OK"
    if "\<forall>p\<in>set (ce_added_files c). map_of (bs_files bs) (fst p) = None"
      "\<forall>p\<in>set (ce_deleted_files c). map_of (ce_added_files c) (fst p) \<noteq> None \<or>
         (\<exists>m. map_of (bs_files bs) (fst p) = Some m \<and> \<not> is_obsolete m)"
  proof -
    have "for_each (seal_added nd bs) (ce_added_files c) () = Some (OK, ())"
      using that(1) by (intro for_each_all_OK) (simp add: seal_added_def FindFile_ok [OF assms])
    moreover have "for_each (seal_deleted nd bs (ce_added_files c)) (ce_deleted_files c) () = Some (OK, ())"
      using that(2) by (intro for_each_all_OK) (auto simp: seal_deleted_def FindFile_ok [OF assms])
    ultimately show ?thesis by (simp add: CF_Seal_def)
  qed
  ultimately show ?thesis using CF_Seal_OK [of nd bs c] by blast
qed

section \<open>Properties\<close>


definition sample_batch :: CFEditCollector where
  "sample_batch = \<lparr>ce_added_files = [(7, new_BlobFileMeta 7 300 2 1 [65] [66] kSorted),
     (8, new_BlobFileMeta 8 300 2 1 [67] [68] kSorted)],
     ce_deleted_files = [(5, 30), (8, 31)], ce_updated_discardable_size = []\<rparr>"


text \<open>
  C25. Checking a batch against a consistent storage always has a result, in every build, and
  accepts it exactly when every added number is unknown to the storage and every deleted
  number is added by the same batch or is a live file; every other batch is a corruption.
\<close>

theorem seal_accepts_exactly:
  assumes "storage_ok cmp bs"
  shows "(\<exists>s. CF_Seal nd bs c = Some s) \<and>
    (CF_Seal nd bs c = Some OK \<longleftrightarrow>
      list_all (\<lambda>p. map_of (bs_files bs) (fst p) = None) (ce_added_files c) \<and>
      list_all (\<lambda>p. map_of (ce_added_files c) (fst p) \<noteq> None \<or> fst p \<in> fs_live (abs_storage bs)) (ce_deleted_files c))"
  using CF_Seal_iff [OF assms, of nd c] by (simp add: list_all_iff live_iff)

lemma seal_accepts_exactly_witness:
  "CF_Seal True sample_storage2 sample_batch = Some OK
   \<and> (\<exists>s. CF_Seal True sample_storage sample_batch = Some s \<and> \<not> IsOk s)"
proof -
  have s: "storage_ok bytewise sample_storage2" "storage_ok bytewise sample_storage" by code_simp+
  have "CF_Seal True sample_storage2 sample_batch = Some OK"
    using seal_accepts_exactly [OF s(1), of True sample_batch]
    by (simp add: sample_batch_def sample_storage2_def live_iff sample_meta_def new_BlobFileMeta_def is_obsolete_def)
  moreover have "\<exists>s. CF_Seal True sample_storage sample_batch = Some s \<and> \<not> IsOk s"
    using seal_accepts_exactly [OF s(2), of True sample_batch]
    by (auto simp: sample_batch_def sample_storage_def live_iff is_obsolete_def)
  ultimately show ?thesis ..
qed

end
