(* ===== verification/Blob_File_Set.thy ===== *)
theory Blob_File_Set
  imports Edit_Collector
begin

text \<open>
  \<open>src/blob_file_set.h\<close> and \<open>src/blob_file_set.cc\<close>: the blob storages of all column
  families and the manifest that logs their changes. The file system with RocksDB's log
  reader and writer, the manifest sync and the \<open>CURRENT\<close> file is the parameter
  \<open>manifest_fs\<close>; a manifest is known by its file number. A log reader delivers records
  and, through its reporter, the corruptions it meets on the way.
\<close>

section \<open>The file system\<close>

datatype FileType = kBlobFile | kDescriptorFile | kOtherFile

datatype log_item = LogCorruption status | LogRecord bytes

record 'e manifest_fs =
  fs_FileExists_CURRENT :: "'e \<Rightarrow> status"
  fs_ReadFileToString_CURRENT :: "'e \<Rightarrow> status \<times> string"
  fs_NewSequentialFile :: "'e \<Rightarrow> string \<Rightarrow> status + log_item list"
  fs_NewWritableFile :: "'e \<Rightarrow> u64 \<Rightarrow> status \<times> 'e"
  fs_AddRecord :: "'e \<Rightarrow> u64 \<Rightarrow> bytes \<Rightarrow> status \<times> 'e"
  fs_SyncTitanManifest :: "'e \<Rightarrow> u64 \<Rightarrow> status \<times> 'e"
  fs_SetCurrentFile :: "'e \<Rightarrow> u64 \<Rightarrow> status \<times> 'e"
  fs_GetChildren :: "'e \<Rightarrow> string list"
  fs_ParseFileName :: "string \<Rightarrow> (u64 \<times> FileType) option"
  fs_DeleteFile :: "'e \<Rightarrow> string \<Rightarrow> 'e"

section \<open>State\<close>

record ('e, 'k, 'f) BlobFileSet =
  bfs_env :: 'e
  bfs_db_options :: TitanDBOptions
  bfs_file_cache :: 'k
  bfs_stats :: stats_ptr
  bfs_obsolete_manifests :: "u64 list"
  bfs_obsolete_columns :: "u32 list"
  bfs_column_families :: "(u32 \<times> 'f BlobStorage) list"
  bfs_manifest :: "u64 option"
  bfs_next_file_number :: u64

definition kMaxFileCacheSize :: int where
  "kMaxFileCacheSize = 1024 * 1024"

definition new_BlobFileSet ::
    "TitanDBOptions \<Rightarrow> int \<Rightarrow> (int \<Rightarrow> 'k) \<Rightarrow> 'e \<Rightarrow> stats_ptr \<Rightarrow> ('e, 'k, 'f) BlobFileSet" where
  "new_BlobFileSet options max_open_files NewLRUCache env st =
     \<lparr>bfs_env = env, bfs_db_options = options,
      bfs_file_cache = NewLRUCache (if max_open_files < 0 then kMaxFileCacheSize else max_open_files),
      bfs_stats = st, bfs_obsolete_manifests = [], bfs_obsolete_columns = [],
      bfs_column_families = [], bfs_manifest = None, bfs_next_file_number = 1\<rparr>"

definition NewFileNumber :: "('e, 'k, 'f) BlobFileSet \<Rightarrow> u64 \<times> ('e, 'k, 'f) BlobFileSet" where
  "NewFileNumber bfs =
     (bfs_next_file_number bfs, bfs\<lparr>bfs_next_file_number := bfs_next_file_number bfs + 1\<rparr>)"

definition GetBlobStorage :: "u32 \<Rightarrow> ('e, 'k, 'f) BlobFileSet \<Rightarrow> 'f BlobStorage option" where
  "GetBlobStorage cf bfs = map_of (bfs_column_families bfs) cf"

definition IsColumnFamilyObsolete :: "u32 \<Rightarrow> ('e, 'k, 'f) BlobFileSet \<Rightarrow> bool" where
  "IsColumnFamilyObsolete cf bfs = (cf \<in> set (bfs_obsolete_columns bfs))"

definition AddColumnFamilies ::
    "(u32 \<times> TitanCFOptions \<times> nat) list \<Rightarrow> ('e, 'k, 'f) BlobFileSet \<Rightarrow> ('e, 'k, 'f) BlobFileSet" where
  "AddColumnFamilies cfs bfs =
     bfs\<lparr>bfs_column_families :=
       fold (\<lambda>(cf, opts, num_levels) m.
               amap_emplace cf (new_BlobStorage (bfs_db_options bfs) opts num_levels cf) m)
         cfs (bfs_column_families bfs)\<rparr>"

definition set_storage :: "u32 \<Rightarrow> 'f BlobStorage \<Rightarrow> ('e, 'k, 'f) BlobFileSet \<Rightarrow> ('e, 'k, 'f) BlobFileSet" where
  "set_storage cf bs bfs =
     bfs\<lparr>bfs_column_families := amap_update cf (\<lambda>_. bs) (bfs_column_families bfs)\<rparr>"

definition FileSet_MarkAllFilesForGC ::
    "bool \<Rightarrow> ('e, 'k, 'f) BlobFileSet \<Rightarrow> ('e, 'k, 'f) BlobFileSet option" where
  "FileSet_MarkAllFilesForGC nd bfs =
     foldM (\<lambda>p bfs. do {
         (bs', st') \<leftarrow> MarkAllFilesForGC nd (snd p) (bfs_stats bfs);
         Some ((set_storage (fst p) bs' bfs)\<lparr>bfs_stats := st'\<rparr>)
       }) (bfs_column_families bfs) bfs"

definition FileSet_PrintFileStates ::
    "('e, 'k, 'f) BlobFileSet \<Rightarrow> (nat \<times> nat \<times> (level_states \<times> nat list) list \<times> unsorted_states) list option" where
  "FileSet_PrintFileStates bfs = those (map (PrintFileStates \<circ> snd) (bfs_column_families bfs))"

section \<open>The manifest\<close>

definition AddRecord ::
    "'e manifest_fs \<Rightarrow> u64 \<Rightarrow> bytes \<Rightarrow> ('e, 'k, 'f) BlobFileSet \<Rightarrow> status \<times> ('e, 'k, 'f) BlobFileSet" where
  "AddRecord G lg record bfs =
     (let (s, env) = fs_AddRecord G (bfs_env bfs) lg record in (s, bfs\<lparr>bfs_env := env\<rparr>))"

text \<open>The edit that \<open>WriteSnapshot\<close> writes for one column family.\<close>

definition snapshot_edit :: "u32 \<times> 'f BlobStorage \<Rightarrow> VersionEdit" where
  "snapshot_edit p =
     fold (\<lambda>file e. if is_obsolete (snd file) then e else VersionEdit_AddBlobFile (snd file) e)
       (bs_files (snd p)) (SetColumnFamilyID (fst p) new_VersionEdit)"

definition WriteSnapshot ::
    "coding \<Rightarrow> 'e manifest_fs \<Rightarrow> u64 \<Rightarrow> ('e, 'k, 'f) BlobFileSet \<Rightarrow> (status \<times> ('e, 'k, 'f) BlobFileSet) option" where
  "WriteSnapshot C G lg bfs =
     (let (s, bfs1) = AddRecord G lg
            (VersionEdit_EncodeTo C (SetNextFileNumber (bfs_next_file_number bfs) new_VersionEdit)) bfs
      in if \<not> IsOk s then Some (s, bfs1)
         else for_each (\<lambda>p bfs. Some (AddRecord G lg (VersionEdit_EncodeTo C (snapshot_edit p)) bfs))
                (bfs_column_families bfs) bfs1)"

definition sync_manifest ::
    "'e manifest_fs \<Rightarrow> u64 \<Rightarrow> ('e, 'k, 'f) BlobFileSet \<Rightarrow> status \<times> ('e, 'k, 'f) BlobFileSet" where
  "sync_manifest G lg bfs =
     (let (s, env) = fs_SyncTitanManifest G (bfs_env bfs) lg in (s, bfs\<lparr>bfs_env := env\<rparr>))"

definition OpenManifest ::
    "coding \<Rightarrow> 'e manifest_fs \<Rightarrow> u64 \<Rightarrow> ('e, 'k, 'f) BlobFileSet \<Rightarrow> (status \<times> ('e, 'k, 'f) BlobFileSet) option" where
  "OpenManifest C G n bfs =
     (let (s, env) = fs_NewWritableFile G (bfs_env bfs) n; bfs1 = bfs\<lparr>bfs_env := env\<rparr> in
      if \<not> IsOk s then Some (s, bfs1)
      else do {
        (s, bfs2) \<leftarrow> WriteSnapshot C G n (bfs1\<lparr>bfs_manifest := Some n\<rparr>);
        let (s, bfs3) = (if IsOk s then sync_manifest G n bfs2 else (s, bfs2));
        let (s, bfs4) = (if IsOk s
                         then (let (s, env) = fs_SetCurrentFile G (bfs_env bfs3) n in (s, bfs3\<lparr>bfs_env := env\<rparr>))
                         else (s, bfs3));
        Some (s, if IsOk s then bfs4
                 else bfs4\<lparr>bfs_manifest := None, bfs_obsolete_manifests := bfs_obsolete_manifests bfs4 @ [n]\<rparr>)
      })"

definition LogAndApply ::
    "bool \<Rightarrow> coding \<Rightarrow> (u32 \<Rightarrow> comparator) \<Rightarrow> 'e manifest_fs \<Rightarrow> VersionEdit \<Rightarrow> ('e, 'k, 'f) BlobFileSet
     \<Rightarrow> (status \<times> ('e, 'k, 'f) BlobFileSet) option" where
  "LogAndApply nd C cmps G edit0 bfs =
     (let edit = SetNextFileNumber (bfs_next_file_number bfs) edit0;
          record = VersionEdit_EncodeTo C edit;
          (s, collector) = AddEdit edit new_EditCollector
      in if \<not> IsOk s then Some (s, bfs)
         else do {
           (s, collector) \<leftarrow> EditCollector_Seal nd (bfs_column_families bfs) collector;
           if \<not> IsOk s then Some (s, bfs)
           else do {
             lg \<leftarrow> bfs_manifest bfs;
             let (s, bfs1) = AddRecord G lg record bfs;
             if \<not> IsOk s then Some (s, bfs1)
             else do {
               let (s, bfs2) = sync_manifest G lg bfs1;
               if \<not> IsOk s then Some (s, bfs2)
               else do {
                 (s, collector, storages, st) \<leftarrow>
                   EditCollector_Apply nd cmps collector (bfs_column_families bfs2) (bfs_stats bfs2);
                 Some (s, bfs2\<lparr>bfs_column_families := storages, bfs_stats := st\<rparr>)
               }
             }
           }
         })"

section \<open>Recovery\<close>

text \<open>
  The loop over the log: the status is the one the reporter writes to. \<open>Inl\<close> is an early
  return, \<open>Inr\<close> the collector at the end of the loop, where the status is dropped.
\<close>

fun replay ::
    "bool \<Rightarrow> coding \<Rightarrow> u64 \<times> u32 \<Rightarrow> log_item list \<Rightarrow> status \<Rightarrow> EditCollector \<Rightarrow> (status + EditCollector) option" where
  "replay nd C j [] s ec = Some (Inr ec)"
| "replay nd C j (item # items) s ec =
     (case item of
        LogCorruption r \<Rightarrow> replay nd C j items (if IsOk s then r else s) ec
      | LogRecord record \<Rightarrow>
          if \<not> IsOk s then Some (Inr ec)
          else do {
            (s1, edit) \<leftarrow> VersionEdit_DecodeFrom nd C j new_VersionEdit record;
            if \<not> IsOk s1 then Some (Inl s1)
            else let (s2, ec') = AddEdit edit ec in
                 if \<not> IsOk s2 then Some (Inl s2) else replay nd C j items s2 ec'
          })"

definition kMaxSequenceNumber :: u64 where
  "kMaxSequenceNumber = 72057594037927935"

definition score_all :: "('e, 'k, 'f) BlobFileSet \<Rightarrow> ('e, 'k, 'f) BlobFileSet option" where
  "score_all bfs =
     foldM (\<lambda>p bfs. do { (n, bs') \<leftarrow> ComputeGCScore (snd p); Some (set_storage (fst p) bs' bfs) })
       (bfs_column_families bfs) bfs"

definition purge_at_start ::
    "bool \<Rightarrow> (u32 \<Rightarrow> comparator) \<Rightarrow> ('k, 'f BlobFileReader) cache_ops \<Rightarrow> u32 \<times> 'f BlobStorage
     \<Rightarrow> ('e, 'k, 'f) BlobFileSet \<Rightarrow> ('e, 'k, 'f) BlobFileSet option" where
  "purge_at_start nd cmps R p bfs = do {
     (out, bs', st', k') \<leftarrow>
       GetObsoleteFiles nd (cmps (fst p)) R None kMaxSequenceNumber (snd p) (bfs_stats bfs) (bfs_file_cache bfs);
     Some ((set_storage (fst p) bs' bfs)\<lparr>bfs_stats := st', bfs_file_cache := k'\<rparr>)
   }"

definition alive_files :: "u64 \<Rightarrow> ('e, 'k, 'f) BlobFileSet \<Rightarrow> u64 list" where
  "alive_files manifest_number bfs =
     manifest_number # concat (map (\<lambda>p. map (file_number \<circ> snd) (bs_files (snd p))) (bfs_column_families bfs))"

definition delete_dead_file :: "'e manifest_fs \<Rightarrow> u64 list \<Rightarrow> string \<Rightarrow> 'e \<Rightarrow> 'e" where
  "delete_dead_file G alive f env =
     (case fs_ParseFileName G f of
        None \<Rightarrow> env
      | Some (n, ty) \<Rightarrow>
          if n \<in> set alive then env
          else if ty \<noteq> kBlobFile \<and> ty \<noteq> kDescriptorFile then env
          else fs_DeleteFile G env f)"

definition recover_edits ::
    "bool \<Rightarrow> coding \<Rightarrow> (u32 \<Rightarrow> comparator) \<Rightarrow> u64 \<times> u32 \<Rightarrow> log_item list \<Rightarrow> ('e, 'k, 'f) BlobFileSet
     \<Rightarrow> (status \<times> ('e, 'k, 'f) BlobFileSet) option" where
  "recover_edits nd C cmps j items bfs = do {
     r \<leftarrow> replay nd C j items OK new_EditCollector;
     case r of
       Inl s \<Rightarrow> Some (s, bfs)
     | Inr collector \<Rightarrow> do {
         (s, collector) \<leftarrow> EditCollector_Seal nd (bfs_column_families bfs) collector;
         if \<not> IsOk s then Some (s, bfs)
         else do {
           (s, collector, storages, st) \<leftarrow>
             EditCollector_Apply nd cmps collector (bfs_column_families bfs) (bfs_stats bfs);
           let bfs1 = bfs\<lparr>bfs_column_families := storages, bfs_stats := st\<rparr>;
           if \<not> IsOk s then Some (s, bfs1)
           else (let (s, next_number) = GetNextFileNumber collector 0 in
                 Some (s, if IsOk s then bfs1\<lparr>bfs_next_file_number := next_number\<rparr> else bfs1))
         }
       }
   }"

definition Recover ::
    "bool \<Rightarrow> coding \<Rightarrow> (u32 \<Rightarrow> comparator) \<Rightarrow> 'e manifest_fs \<Rightarrow> ('k, 'f BlobFileReader) cache_ops \<Rightarrow> u64 \<times> u32
     \<Rightarrow> ('e, 'k, 'f) BlobFileSet \<Rightarrow> (status \<times> ('e, 'k, 'f) BlobFileSet) option" where
  "Recover nd C cmps G R j bfs =
     (let (s, manifest) = fs_ReadFileToString_CURRENT G (bfs_env bfs) in
      if \<not> IsOk s then Some (s, bfs)
      else if manifest = [] \<or> last manifest \<noteq> CHR 0x0A
      then Some (Corruption ''CURRENT file does not end with newline'' '''', bfs)
      else case fs_NewSequentialFile G (bfs_env bfs) (butlast manifest) of
        Inl s \<Rightarrow> Some (s, bfs)
      | Inr items \<Rightarrow> do {
          (s, bfs1) \<leftarrow> recover_edits nd C cmps j items bfs;
          if \<not> IsOk s then Some (s, bfs1)
          else do {
            bfs2 \<leftarrow> FileSet_MarkAllFilesForGC nd bfs1;
            bfs3 \<leftarrow> score_all bfs2;
            let (manifest_number, bfs4) = NewFileNumber bfs3;
            (s, bfs5) \<leftarrow> OpenManifest C G manifest_number bfs4;
            if \<not> IsOk s then Some (s, bfs5)
            else do {
              bfs6 \<leftarrow> foldM (purge_at_start nd cmps R) (bfs_column_families bfs5) bfs5;
              let alive = alive_files manifest_number bfs6;
              Some (OK, bfs6\<lparr>bfs_env := fold (delete_dead_file G alive) (fs_GetChildren G (bfs_env bfs6)) (bfs_env bfs6)\<rparr>)
            }
          }
        })"

definition FileSet_Open ::
    "bool \<Rightarrow> coding \<Rightarrow> (u32 \<Rightarrow> comparator) \<Rightarrow> 'e manifest_fs \<Rightarrow> ('k, 'f BlobFileReader) cache_ops \<Rightarrow> u64 \<times> u32
     \<Rightarrow> (u32 \<times> TitanCFOptions \<times> nat) list \<Rightarrow> ('e, 'k, 'f) BlobFileSet
     \<Rightarrow> (status \<times> ('e, 'k, 'f) BlobFileSet) option" where
  "FileSet_Open nd C cmps G R j cfs bfs =
     (let bfs1 = AddColumnFamilies cfs bfs; s = fs_FileExists_CURRENT G (bfs_env bfs1) in
      if IsOk s then Recover nd C cmps G R j bfs1
      else if \<not> IsNotFound s then Some (s, bfs1)
      else (let (n, bfs2) = NewFileNumber bfs1 in OpenManifest C G n bfs2))"

section \<open>Dropping and deleting\<close>

definition drop_edit :: "u32 \<Rightarrow> u64 \<Rightarrow> 'f BlobStorage \<Rightarrow> VersionEdit" where
  "drop_edit cf sq bs =
     fold (\<lambda>file e. if is_obsolete (snd file) then e else DeleteBlobFile (fst file) sq e)
       (bs_files bs) (SetColumnFamilyID cf new_VersionEdit)"

definition drop_column_family ::
    "bool \<Rightarrow> coding \<Rightarrow> (u32 \<Rightarrow> comparator) \<Rightarrow> 'e manifest_fs \<Rightarrow> u64 \<Rightarrow> u32 \<Rightarrow> ('e, 'k, 'f) BlobFileSet
     \<Rightarrow> (status \<times> ('e, 'k, 'f) BlobFileSet) option" where
  "drop_column_family nd C cmps G sq cf bfs =
     (case map_of (bfs_column_families bfs) cf of
        None \<Rightarrow> Some (NotFound ''invalid column family'', bfs)
      | Some bs \<Rightarrow> do {
          (s, bfs1) \<leftarrow> LogAndApply nd C cmps G (drop_edit cf sq bs) bfs;
          Some (s, if IsOk s then bfs1\<lparr>bfs_obsolete_columns := List.insert cf (bfs_obsolete_columns bfs1)\<rparr> else bfs1)
        })"

definition DropColumnFamilies ::
    "bool \<Rightarrow> coding \<Rightarrow> (u32 \<Rightarrow> comparator) \<Rightarrow> 'e manifest_fs \<Rightarrow> u32 list \<Rightarrow> u64 \<Rightarrow> ('e, 'k, 'f) BlobFileSet
     \<Rightarrow> (status \<times> ('e, 'k, 'f) BlobFileSet) option" where
  "DropColumnFamilies nd C cmps G cfs sq bfs = for_each (drop_column_family nd C cmps G sq) cfs bfs"

definition MaybeDestroyColumnFamily ::
    "('k, 'f BlobFileReader) cache_ops \<Rightarrow> u32 \<Rightarrow> ('e, 'k, 'f) BlobFileSet \<Rightarrow> status \<times> ('e, 'k, 'f) BlobFileSet" where
  "MaybeDestroyColumnFamily R cf bfs =
     (let bfs1 = bfs\<lparr>bfs_obsolete_columns := removeAll cf (bfs_obsolete_columns bfs)\<rparr> in
      case map_of (bfs_column_families bfs1) cf of
        None \<Rightarrow> (NotFound ''invalid column family'', bfs1)
      | Some bs \<Rightarrow>
          (let bs' = MarkDestroyed bs in
           (OK, if MaybeRemove bs'
                then bfs1\<lparr>bfs_column_families := amap_erase cf (bfs_column_families bfs1),
                          bfs_file_cache := destroy_BlobStorage R bs' (bfs_file_cache bfs1)\<rparr>
                else set_storage cf bs' bfs1)))"

definition DeleteBlobFilesInRanges ::
    "bool \<Rightarrow> coding \<Rightarrow> (u32 \<Rightarrow> comparator) \<Rightarrow> 'e manifest_fs \<Rightarrow> u32 \<Rightarrow> (bytes option \<times> bytes option) list \<Rightarrow> bool \<Rightarrow> u64
     \<Rightarrow> ('e, 'k, 'f) BlobFileSet \<Rightarrow> (status \<times> ('e, 'k, 'f) BlobFileSet) option" where
  "DeleteBlobFilesInRanges nd C cmps G cf ranges include_end obsolete_sequence bfs =
     (case map_of (bfs_column_families bfs) cf of
        None \<Rightarrow> Some (NotFound ''invalid column family'', bfs)
      | Some bs \<Rightarrow> do {
          (s, files) \<leftarrow> GetBlobFilesInRanges nd (cmps cf) ranges include_end bs [];
          if \<not> IsOk s then Some (s, bfs)
          else LogAndApply nd C cmps G
                 (fold (\<lambda>n. DeleteBlobFile n 0) files (SetColumnFamilyID cf new_VersionEdit)) bfs
        })"

definition purge_column ::
    "bool \<Rightarrow> (u32 \<Rightarrow> comparator) \<Rightarrow> ('k, 'f BlobFileReader) cache_ops \<Rightarrow> u64 \<Rightarrow> u32 \<times> 'f BlobStorage
     \<Rightarrow> u64 list \<times> ('e, 'k, 'f) BlobFileSet \<Rightarrow> (u64 list \<times> ('e, 'k, 'f) BlobFileSet) option" where
  "purge_column nd cmps R oldest p ob =
     (if fst p \<in> set (bfs_obsolete_columns (snd ob)) then Some ob
      else do {
        (out, bs', st', k') \<leftarrow> GetObsoleteFiles nd (cmps (fst p)) R (Some (fst ob)) oldest (snd p)
            (bfs_stats (snd ob)) (bfs_file_cache (snd ob));
        names \<leftarrow> out;
        let bfs1 = (snd ob)\<lparr>bfs_stats := st', bfs_file_cache := k'\<rparr>;
        Some (names,
          if MaybeRemove bs'
          then bfs1\<lparr>bfs_column_families := amap_erase (fst p) (bfs_column_families bfs1),
                    bfs_file_cache := destroy_BlobStorage R bs' (bfs_file_cache bfs1)\<rparr>
          else set_storage (fst p) bs' bfs1)
      })"

definition FileSet_GetObsoleteFiles ::
    "bool \<Rightarrow> (u32 \<Rightarrow> comparator) \<Rightarrow> ('k, 'f BlobFileReader) cache_ops \<Rightarrow> u64 \<Rightarrow> ('e, 'k, 'f) BlobFileSet
     \<Rightarrow> ((FileType \<times> u64) list \<times> ('e, 'k, 'f) BlobFileSet) option" where
  "FileSet_GetObsoleteFiles nd cmps R oldest bfs = do {
     (names, bfs1) \<leftarrow> foldM (purge_column nd cmps R oldest) (bfs_column_families bfs) ([], bfs);
     Some (map (Pair kBlobFile) names @ map (Pair kDescriptorFile) (bfs_obsolete_manifests bfs1),
           bfs1\<lparr>bfs_obsolete_manifests := []\<rparr>)
   }"

end
