(* ===== verification/Table_Props.thy ===== *)
theory Table_Props
  imports Table_Builder
begin

text \<open>
  What the table builder leaves behind. The laws of RocksDB's table builder and of internal
  keys are locales with a concrete instance; the locale \<open>table_building\<close> collects what the
  builder relies on and carries the invariant that ties the entries of the table to the
  records in the blob files.
\<close>

section \<open>The laws\<close>

locale table_builder_laws =
  fixes B :: "'b table_builder" and entries :: "'b \<Rightarrow> (bytes \<times> bytes) list"
  assumes base_add_ok: "base_status B (base_Add B k v b) = OK \<Longrightarrow>
      base_status B b = OK \<and> entries (base_Add B k v b) = entries b @ [(k, v)]"
    and base_finish: "entries (snd (base_Finish B b)) = entries b"

locale internal_key_laws =
  fixes I :: internal_keys
  assumes types_differ: "kTypeValue I \<noteq> kTypeBlobIndex I"
    and append_parse: "ParseInternalKey I k = Some p \<Longrightarrow> AppendInternalKey I p = k"
    and parse_retyped: "ParseInternalKey I k = Some p \<Longrightarrow> t \<in> {kTypeValue I, kTypeBlobIndex I} \<Longrightarrow>
      ParseInternalKey I (AppendInternalKey I (p\<lparr>ik_type := t\<rparr>)) = Some (p\<lparr>ik_type := t\<rparr>)"

locale table_building =
  fixes P :: "('w, 'f, 'k, 'c) rocks" and M :: "('m, 'w, 'f, 'k, 'c) world" and B :: "'b table_builder"
    and I :: internal_keys and contents :: "'w \<Rightarrow> bytes" and entries :: "'b \<Rightarrow> (bytes \<times> bytes) list"
  assumes coding: "coding_laws (rk_C P)" and codec: "codec_laws (rk_L P)"
    and files: "wfile_laws (rk_W P) contents"
    and base: "table_builder_laws B entries" and keys: "internal_key_laws I"
    and new_file: "w_NewFile M w = (OK, h, w') \<Longrightarrow> \<exists>f. h = Some f \<and> contents (fh_file f) = []"
begin

lemma writing: "blob_writing (rk_C P) (rk_L P) (rk_W P) contents"
  using coding codec files by (simp add: blob_writing_def record_format_def)

end

sublocale table_building \<subseteq> blob_writing "rk_C P" "rk_L P" "rk_W P" contents
  by (rule writing)

section \<open>Records in blob files\<close>

text \<open>The blob files a builder has written: their numbers and the records in them.\<close>

type_synonym blob_files = "(u64 \<times> BlobRecord list) list"

definition rec_bytes :: "('w, 'f, 'k, 'c) rocks \<Rightarrow> TitanCFOptions \<Rightarrow> BlobRecord \<Rightarrow> bytes" where
  "rec_bytes P opts = record_bytes (rk_nd P) (rk_C P) (rk_L P) (blob_file_compression opts)"

definition located :: "('w, 'f, 'k, 'c) rocks \<Rightarrow> TitanCFOptions \<Rightarrow> blob_files \<Rightarrow> BlobIndex \<Rightarrow> BlobRecord \<Rightarrow> bool" where
  "located P opts fs index r =
     (\<exists>rs i. (bi_file_number index, rs) \<in> set fs \<and> i < length rs \<and> rs ! i = r \<and>
        bi_blob_handle index = handles_from 8 (map (rec_bytes P opts) rs) ! i)"

definition extends :: "blob_files \<Rightarrow> blob_files \<Rightarrow> bool" where
  "extends fs fs' = (\<forall>n rs. (n, rs) \<in> set fs \<longrightarrow> (\<exists>xs. (n, rs @ xs) \<in> set fs'))"

definition finished_ok ::
    "('w \<Rightarrow> bytes) \<Rightarrow> ('w, 'f, 'k, 'c) rocks \<Rightarrow> TitanCFOptions \<Rightarrow> BlobFileMeta \<times> 'w BlobFileHandle \<Rightarrow> u64 \<times> BlobRecord list \<Rightarrow> bool" where
  "finished_ok contents P opts mh f =
     (fh_number (snd mh) = fst f \<and> file_number (fst mh) = fst f \<and> file_type (fst mh) = kSorted \<and>
      file_size (fst mh) = of_nat (length (contents (fh_file (snd mh)))) \<and>
      contents (fh_file (snd mh)) = file_image (rk_nd P) (rk_C P) (rk_L P) (blob_file_compression opts) (snd f))"

definition building ::
    "('w \<Rightarrow> bytes) \<Rightarrow> ('w, 'f, 'k, 'c) rocks \<Rightarrow> ('w, 'f, 'b) TitanTableBuilder \<Rightarrow> blob_files \<Rightarrow> bool" where
  "building contents P t fs =
     (\<exists>fin cur. fs = fin @ cur \<and> list_all2 (finished_ok contents P (tt_cf_options t)) (tt_finished_blobs t) fin \<and>
       (case tt_blob_builder t of
          None \<Rightarrow> cur = []
        | Some b \<Rightarrow> \<exists>h rs. tt_blob_handle t = Some h \<and> cur = [(fh_number h, rs)] \<and>
            contents (bb_file b) =
              BlobFileHeader_EncodeTo (rk_C P) new_BlobFileHeader @ concat (map (rec_bytes P (tt_cf_options t)) rs)))"

lemma extends_refl [simp]: "extends fs fs"
  by (auto simp: extends_def intro: exI [of _ "[]"])

lemma extends_trans: "extends a b \<Longrightarrow> extends b c \<Longrightarrow> extends a c"
  unfolding extends_def by (metis append.assoc)

lemma located_extends:
  assumes "located P opts fs index r" and "extends fs fs'"
  shows "located P opts fs' index r"
proof -
  obtain rs i where r: "(bi_file_number index, rs) \<in> set fs" "i < length rs" "rs ! i = r"
    "bi_blob_handle index = handles_from 8 (map (rec_bytes P opts) rs) ! i"
    using assms(1) by (auto simp: located_def)
  obtain xs where "(bi_file_number index, rs @ xs) \<in> set fs'"
    using assms(2) r(1) by (auto simp: extends_def)
  moreover have "handles_from 8 (map (rec_bytes P opts) (rs @ xs)) ! i = handles_from 8 (map (rec_bytes P opts) rs) ! i"
    using r(2) by (simp add: handles_from_nth nth_append take_map)
  ultimately show ?thesis using r unfolding located_def
    by (intro exI [of _ "rs @ xs"] exI [of _ i]) (auto simp: nth_append)
qed

lemma TT_ok_parts:
  "TT_ok B t \<longleftrightarrow> tt_status t = OK \<and> base_status B (tt_base_builder t) = OK \<and>
     (case tt_blob_builder t of None \<Rightarrow> True | Some b \<Rightarrow> bb_status b = OK)"
  by (auto simp: TT_ok_def TT_status_def Let_def split: option.splits if_splits)

context table_building
begin

lemma open_ok:
  assumes "TT_ok B t" and "building contents P t fs" and "open_blob_file P M B t w = Some (t', w')" and "TT_ok B t'"
  shows "\<exists>fs'. building contents P t' fs' \<and> extends fs fs' \<and> tt_blob_builder t' \<noteq> None"
    and "tt_base_builder t' = tt_base_builder t \<and> tt_cf_options t' = tt_cf_options t \<and> tt_cf_id t' = tt_cf_id t"
proof -
  have "(\<exists>fs'. building contents P t' fs' \<and> extends fs fs' \<and> tt_blob_builder t' \<noteq> None) \<and>
    tt_base_builder t' = tt_base_builder t \<and> tt_cf_options t' = tt_cf_options t \<and> tt_cf_id t' = tt_cf_id t"
  proof (cases "tt_blob_builder t")
    case (Some b)
    with assms(2,3) show ?thesis by (auto simp: open_blob_file_def intro!: exI [of _ fs])
  next
    case None
    obtain s h w1 where n: "w_NewFile M w = (s, h, w1)" by (cases "w_NewFile M w") auto
    let ?t = "t\<lparr>tt_status := s, tt_blob_handle := (if IsOk s then h else tt_blob_handle t)\<rparr>"
    have s: "s = OK" using assms(3,4) None n by (auto simp: open_blob_file_def TT_ok_parts split: if_splits)
    obtain f where f: "h = Some f" "contents (fh_file f) = []" using new_file n s by blast
    let ?b = "new_BlobFileBuilder (rk_C P) (rk_W P) (fh_file f) 0"
    have t': "t' = ?t\<lparr>tt_blob_builder := Some ?b\<rparr>"
      using assms(1,3) None n s f by (auto simp: open_blob_file_def TT_ok_parts)
    have "bb_status ?b = OK" using assms(4) t' by (auto simp: TT_ok_parts)
    then have c: "contents (bb_file ?b) = BlobFileHeader_EncodeTo (rk_C P) new_BlobFileHeader"
      using append_ok [of "fh_file f" "BlobFileHeader_EncodeTo (rk_C P) new_BlobFileHeader"] f(2)
      by (auto simp: new_BlobFileBuilder_def Let_def split: prod.splits)
    obtain fin where fin: "fs = fin" "list_all2 (finished_ok contents P (tt_cf_options t)) (tt_finished_blobs t) fin"
      using assms(2) None by (auto simp: building_def)
    have "building contents P t' (fs @ [(fh_number f, [])])"
      unfolding building_def using fin c f s
      by (intro exI [of _ fs] exI [of _ "[(fh_number f, [])]"]) (auto simp: t')
    moreover have "extends fs (fs @ [(fh_number f, [])])"
      by (auto simp: extends_def intro: exI [of _ "[]"])
    ultimately show ?thesis using t' by auto
  qed
  then show "\<exists>fs'. building contents P t' fs' \<and> extends fs fs' \<and> tt_blob_builder t' \<noteq> None"
    and "tt_base_builder t' = tt_base_builder t \<and> tt_cf_options t' = tt_cf_options t \<and> tt_cf_id t' = tt_cf_id t"
    by auto
qed

lemma finish_image:
  assumes "BlobFileBuilder_Finish (rk_C P) (rk_W P) b = (s, b')" and "bb_status b' = OK"
    and "contents (bb_file b) =
      BlobFileHeader_EncodeTo (rk_C P) new_BlobFileHeader @ concat (map (rec_bytes P opts) rs)"
  shows "contents (bb_file b') = file_image (rk_nd P) (rk_C P) (rk_L P) (blob_file_compression opts) rs"
proof -
  have ok: "bb_status b = OK" using assms(1,2) by (auto simp: BlobFileBuilder_Finish_def split: if_splits prod.splits)
  obtain s1 w1 where w1: "wf_Append (rk_W P) (bb_file b) (BlobFileFooter_EncodeTo (rk_C P) new_BlobFileFooter) = (s1, w1)"
    by fastforce
  obtain s2 w2 where w2: "wf_Flush (rk_W P) w1 = (s2, w2)" by fastforce
  have "s1 = OK" "s2 = OK" "b' = b\<lparr>bb_file := w2, bb_status := OK\<rparr>"
    using assms(1,2) ok w1 w2 by (auto simp: BlobFileBuilder_Finish_def split: if_splits)
  with append_ok flush_ok w1 w2 assms(3) show ?thesis by (simp add: file_image_def rec_bytes_def)
qed

lemma FinishBlobFile_ok:
  assumes "TT_ok B t" and "building contents P t fs" and "FinishBlobFile P M B t w = Some (t', w')" and "TT_ok B t'"
  shows "building contents P t' fs" and "tt_blob_builder t' = None"
    and "tt_base_builder t' = tt_base_builder t \<and> tt_cf_options t' = tt_cf_options t \<and> tt_cf_id t' = tt_cf_id t"
proof -
  have "building contents P t' fs \<and> tt_blob_builder t' = None \<and>
    tt_base_builder t' = tt_base_builder t \<and> tt_cf_options t' = tt_cf_options t \<and> tt_cf_id t' = tt_cf_id t"
  proof (cases "tt_blob_builder t")
    case None
    with assms(2,3) show ?thesis by (auto simp: FinishBlobFile_def)
  next
    case (Some b0)
    obtain s b where b: "BlobFileBuilder_Finish (rk_C P) (rk_W P) b0 = (s, b)" by fastforce
    obtain fin h rs where B: "fs = fin @ [(fh_number h, rs)]" "tt_blob_handle t = Some h"
      "list_all2 (finished_ok contents P (tt_cf_options t)) (tt_finished_blobs t) fin"
      "contents (bb_file b0) =
        BlobFileHeader_EncodeTo (rk_C P) new_BlobFileHeader @ concat (map (rec_bytes P (tt_cf_options t)) rs)"
      using assms(2) Some by (auto simp: building_def)
    have st: "bb_status b = OK"
      using assms(1,3,4) Some b B(2)
      by (auto simp: FinishBlobFile_def TT_ok_parts Let_def bind_eq_Some_conv split: if_splits)
    note img = finish_image [OF b st B(4)]
    obtain fm where f: "FileStateTransit (rk_nd P) kFlushOrCompactionOutput
        (new_BlobFileMeta (fh_number h) (wf_GetFileSize (rk_W P) (bb_file b)) (NumEntries b)
          (word_of_int (tt_target_level t)) (bb_smallest_key b) (bb_largest_key b) kSorted) = Some fm"
      and t': "t' = t\<lparr>tt_finished_blobs := tt_finished_blobs t @ [(fm, h\<lparr>fh_file := bb_file b\<rparr>)],
                    tt_blob_handle := None, tt_blob_builder := None\<rparr>"
      using assms(1,3) Some b B(2) st
      by (auto simp: FinishBlobFile_def TT_ok_parts Let_def bind_eq_Some_conv split: if_splits)
    have "file_number fm = fh_number h" "file_type fm = kSorted" "file_size fm = of_nat (length (contents (bb_file b)))"
      using f file_size by (auto simp: FileStateTransit_def new_BlobFileMeta_def bind_eq_Some_conv)
    then have "finished_ok contents P (tt_cf_options t) (fm, h\<lparr>fh_file := bb_file b\<rparr>) (fh_number h, rs)"
      using img by (simp add: finished_ok_def)
    with B(1,3) have "building contents P t' fs"
      unfolding building_def by (intro exI [of _ fs] exI [of _ "[]"]) (auto simp: t' list_all2_appendI)
    then show ?thesis by (simp add: t')
  qed
  then show "building contents P t' fs" and "tt_blob_builder t' = None"
    and "tt_base_builder t' = tt_base_builder t \<and> tt_cf_options t' = tt_cf_options t \<and> tt_cf_id t' = tt_cf_id t"
    by auto
qed

lemma AddBlob_ok:
  assumes ok: "TT_ok B t" and bld: "building contents P t fs"
    and run: "AddBlob P M B key val iv t w = Some (iv', t', w')" and ok': "TT_ok B t'"
  shows "\<exists>fs' index. building contents P t' fs' \<and> extends fs fs' \<and> iv' = iv @ BlobIndex_EncodeTo (rk_C P) index \<and>
      located P (tt_cf_options t) fs' index \<lparr>r_key = key, r_value = val, only_value = level_merge (tt_cf_options t)\<rparr> \<and>
      tt_base_builder t' = tt_base_builder t \<and> tt_cf_options t' = tt_cf_options t"
proof -
  let ?r = "\<lparr>r_key = key, r_value = val, only_value = level_merge (tt_cf_options t)\<rparr>"
  obtain t1 w1 where o: "open_blob_file P M B t w = Some (t1, w1)"
    using run ok by (auto simp: AddBlob_def Let_def bind_eq_Some_conv)
  have same: "tt_cf_options t1 = tt_cf_options t" "tt_cf_id t1 = tt_cf_id t"
    using o by (auto simp: open_blob_file_def Let_def bind_eq_Some_conv split: if_splits prod.splits)
  have b1: "tt_blob_builder t1 \<noteq> None"
  proof
    assume n: "tt_blob_builder t1 = None"
    with o have "tt_blob_builder t = None \<and> \<not> TT_ok B t1"
      by (auto simp: open_blob_file_def Let_def bind_eq_Some_conv split: if_splits prod.splits)
    with n run ok o ok' show False by (auto simp: AddBlob_def)
  qed
  then obtain b where b: "tt_blob_builder t1 = Some b" by auto
  let ?w = "world_AddStats M (tt_cf_id t1) LIVE_BLOB_SIZE (of_nat (length val)) w1"
  obtain h bh b2 where h: "tt_blob_handle t1 = Some h"
    and a: "BlobFileBuilder_Add (rk_nd P) (rk_C P) (rk_L P) (rk_W P) (rk_cmps P (tt_cf_id t1)) (tt_cf_options t1)
             ?r \<lparr>bh_offset = 0, bh_size = 0\<rparr> b = Some (bh, b2)"
    using run ok o b same by (auto simp: AddBlob_def Let_def bind_eq_Some_conv)
  define t2 where "t2 = t1\<lparr>tt_blob_builder := Some b2,
     tt_bytes_written := tt_bytes_written t1 + of_nat (length key + length val) + of_nat (BlobRecord_size ?r)\<rparr>"
  let ?index = "\<lparr>bi_file_number = fh_number h, bi_blob_handle = bh\<rparr>"
  have fin: "TT_ok B t2 \<and> iv' = iv @ BlobIndex_EncodeTo (rk_C P) ?index \<and>
      (if wf_GetFileSize (rk_W P) (bb_file b2) \<ge> blob_file_target_size (tt_cf_options t)
       then FinishBlobFile P M B t2 ?w else Some (t2, ?w)) = Some (t', w')"
    using run ok o b h a ok' same
    by (auto simp: AddBlob_def Let_def t2_def bind_eq_Some_conv split: if_splits)
  have ok2: "bb_status b2 = OK" "TT_ok B t1"
    using fin add_ok(1) [OF a] b by (auto simp: TT_ok_parts t2_def)
  obtain fs1 where fs1: "building contents P t1 fs1" "extends fs fs1"
    using open_ok(1) [OF ok bld o ok2(2)] by auto
  note A = add_ok [OF a ok2(1)]
  obtain fin1 rs where B: "fs1 = fin1 @ [(fh_number h, rs)]"
    "list_all2 (finished_ok contents P (tt_cf_options t)) (tt_finished_blobs t1) fin1"
    "contents (bb_file b) = BlobFileHeader_EncodeTo (rk_C P) new_BlobFileHeader @ concat (map (rec_bytes P (tt_cf_options t)) rs)"
    using fs1(1) b h same by (auto simp: building_def)
  let ?fs = "fin1 @ [(fh_number h, rs @ [?r])]"
  have bld2: "building contents P t2 ?fs"
    unfolding building_def using B h same A(2)
    by (intro exI [of _ fin1] exI [of _ "[(fh_number h, rs @ [?r])]"]) (auto simp: t2_def rec_bytes_def)
  have ext: "extends fs1 ?fs" using B(1) by (auto simp: extends_def intro: exI [of _ "[]"] exI [of _ "[?r]"])
  have "bh = handles_from 8 (map (rec_bytes P (tt_cf_options t)) (rs @ [?r])) ! length rs"
    using A(3) B(3) same by (simp add: handles_from_nth nth_append rec_bytes_def)
  then have loc: "located P (tt_cf_options t) ?fs ?index ?r"
    unfolding located_def by (intro exI [of _ "rs @ [?r]"] exI [of _ "length rs"]) auto
  have base: "tt_base_builder t2 = tt_base_builder t" "tt_cf_options t2 = tt_cf_options t"
    using open_ok(2) [OF ok bld o ok2(2)] by (simp_all add: t2_def)
  have "building contents P t' ?fs \<and> tt_base_builder t' = tt_base_builder t \<and> tt_cf_options t' = tt_cf_options t"
  proof (cases "wf_GetFileSize (rk_W P) (bb_file b2) \<ge> blob_file_target_size (tt_cf_options t)")
    case True
    then have r: "FinishBlobFile P M B t2 ?w = Some (t', w')" using fin by simp
    show ?thesis using FinishBlobFile_ok [OF _ bld2 r ok'] fin base by simp
  next
    case False
    then show ?thesis using fin bld2 base by auto
  qed
  with fin extends_trans [OF fs1(2) ext] loc show ?thesis by blast
qed

end

section \<open>Flushing a memtable\<close>

text \<open>Whether an entry is separated, and what stands for it in the table.\<close>

definition separated :: "internal_keys \<Rightarrow> TitanCFOptions \<Rightarrow> bytes \<times> bytes \<Rightarrow> bool" where
  "separated I opts e =
     (case ParseInternalKey I (fst e) of
        Some p \<Rightarrow> ik_type p = kTypeValue I \<and> of_nat (length (snd e)) \<ge> min_blob_size opts \<and>
                  blob_run_mode opts = kRunNormal
      | None \<Rightarrow> False)"

definition plain_entry :: "internal_keys \<Rightarrow> bytes \<times> bytes \<Rightarrow> bool" where
  "plain_entry I e =
     (case ParseInternalKey I (fst e) of Some p \<Rightarrow> ik_type p \<noteq> kTypeBlobIndex I | None \<Rightarrow> True)"

definition represents ::
    "('w, 'f, 'k, 'c) rocks \<Rightarrow> internal_keys \<Rightarrow> TitanCFOptions \<Rightarrow> blob_files \<Rightarrow> bytes \<times> bytes \<Rightarrow> bytes \<times> bytes \<Rightarrow> bool" where
  "represents P I opts fs e e' =
     (if separated I opts e
      then \<exists>p index. ParseInternalKey I (fst e) = Some p \<and>
             ParseInternalKey I (fst e') = Some (p\<lparr>ik_type := kTypeBlobIndex I\<rparr>) \<and>
             snd e' = BlobIndex_EncodeTo (rk_C P) index \<and>
             located P opts fs index \<lparr>r_key = ik_user_key p, r_value = snd e, only_value = level_merge opts\<rparr>
      else e' = e)"

definition TT_add_all ::
    "('w, 'f, 'k, 'c) rocks \<Rightarrow> ('m, 'w, 'f, 'k, 'c) world \<Rightarrow> 'b table_builder \<Rightarrow> internal_keys \<Rightarrow> (bytes \<times> bytes) list
     \<Rightarrow> ('w, 'f, 'b) TitanTableBuilder \<times> 'm \<Rightarrow> (('w, 'f, 'b) TitanTableBuilder \<times> 'm) option" where
  "TT_add_all P M B I es = foldM (\<lambda>e (t, w). TT_Add P M B I (fst e) (snd e) t w) es"

lemma represents_extends: "represents P I opts fs e e' \<Longrightarrow> extends fs fs' \<Longrightarrow> represents P I opts fs' e e'"
  unfolding represents_def using located_extends by (metis (no_types, lifting))

context table_building
begin

lemma base_add_entries:
  assumes "TT_ok B (base_add B k v t)"
  shows "entries (tt_base_builder (base_add B k v t)) = entries (tt_base_builder t) @ [(k, v)]"
  using assms table_builder_laws.base_add_ok [OF base] by (simp add: base_add_def TT_ok_parts)

lemma TT_ok_base_add: "TT_ok B (base_add B k v t) \<Longrightarrow> TT_ok B t"
  using table_builder_laws.base_add_ok [OF base, of k v "tt_base_builder t"] by (auto simp: base_add_def TT_ok_parts)

lemma building_base_add [simp]: "building contents P (base_add B k v t) fs = building contents P t fs"
  by (simp add: building_def base_add_def cong: option.case_cong)

lemma building_io [simp]: "building contents P (t\<lparr>tt_io_bytes := x\<rparr>) fs = building contents P t fs"
  by (simp add: building_def cong: option.case_cong)

lemma TT_ok_io [simp]: "TT_ok B (t\<lparr>tt_io_bytes := x\<rparr>) = TT_ok B t"
  by (simp add: TT_ok_parts)

lemma TT_Add_ok:
  assumes bld: "building contents P t fs" and plain: "plain_entry I e"
    and run: "TT_Add P M B I (fst e) (snd e) t w = Some (t', w')" and ok': "TT_ok B t'"
  shows "\<exists>fs' e'. building contents P t' fs' \<and> extends fs fs' \<and>
    entries (tt_base_builder t') = entries (tt_base_builder t) @ [e'] \<and>
    represents P I (tt_cf_options t) fs' e e' \<and> tt_cf_options t' = tt_cf_options t \<and> TT_ok B t"
proof -
  have ok: "TT_ok B t" using run ok' by (auto simp: TT_Add_def split: if_splits)
  obtain p where p: "ParseInternalKey I (fst e) = Some p"
    using run ok ok' by (cases "ParseInternalKey I (fst e)") (auto simp: TT_Add_def TT_ok_parts)
  have ty: "ik_type p \<noteq> kTypeBlobIndex I" using plain p by (simp add: plain_entry_def)
  show ?thesis
  proof (cases "separated I (tt_cf_options t) e")
    case False
    then have t': "t' = base_add B (fst e) (snd e) t"
      using run ok p ty by (auto simp: TT_Add_def separated_def Let_def split: if_splits)
    have "building contents P t' fs" and "tt_cf_options t' = tt_cf_options t"
      using bld by (simp_all add: t') (simp add: base_add_def)
    moreover have "entries (tt_base_builder t') = entries (tt_base_builder t) @ [e]"
      using base_add_entries [of "fst e" "snd e" t] ok' t' by simp
    ultimately show ?thesis using False ok by (auto simp: represents_def)
  next
    case True
    define prev where "prev = SavePrevIOBytes M w (0, 0)"
    have "add_separated P M B I p (snd e) prev t w = Some (t', w')"
      using run ok p ty True by (auto simp: TT_Add_def separated_def Let_def prev_def)
    then obtain iv t1 where a: "AddBlob P M B (ik_user_key p) (snd e) [] t w = Some (iv, t1, w')"
      and t': "t' = (let t = t1\<lparr>tt_io_bytes := UpdateIOBytes M w' prev (tt_io_bytes t1)\<rparr> in
        if TT_ok B t then base_add B (AppendInternalKey I (p\<lparr>ik_type := kTypeBlobIndex I\<rparr>)) iv t else t)"
      by (auto simp: add_separated_def bind_eq_Some_conv Let_def)
    let ?t = "t1\<lparr>tt_io_bytes := UpdateIOBytes M w' prev (tt_io_bytes t1)\<rparr>"
    have ok1: "TT_ok B t1" using ok' t' by (auto simp: Let_def split: if_splits dest: TT_ok_base_add)
    have t': "t' = base_add B (AppendInternalKey I (p\<lparr>ik_type := kTypeBlobIndex I\<rparr>)) iv ?t"
      using t' ok1 by (simp add: Let_def)
    obtain fs' index where A: "building contents P t1 fs'" "extends fs fs'" "iv = BlobIndex_EncodeTo (rk_C P) index"
      "located P (tt_cf_options t) fs' index \<lparr>r_key = ik_user_key p, r_value = snd e, only_value = level_merge (tt_cf_options t)\<rparr>"
      "tt_base_builder t1 = tt_base_builder t" "tt_cf_options t1 = tt_cf_options t"
      using AddBlob_ok [OF ok bld a ok1] by auto
    let ?e = "(AppendInternalKey I (p\<lparr>ik_type := kTypeBlobIndex I\<rparr>), iv)"
    have "building contents P t' fs'" "tt_cf_options t' = tt_cf_options t"
      using A by (simp_all add: t') (simp add: base_add_def)
    moreover have "entries (tt_base_builder t') = entries (tt_base_builder t) @ [?e]"
      using base_add_entries [of "fst ?e" "snd ?e" ?t] ok' A(5) t' by simp
    moreover have "represents P I (tt_cf_options t) fs' e ?e"
      using True p A internal_key_laws.parse_retyped [OF keys p] by (auto simp: represents_def)
    ultimately show ?thesis using A(2) ok by blast
  qed
qed

lemma TT_add_all_failed: "\<not> TT_ok B t \<Longrightarrow> TT_add_all P M B I es (t, w) = Some (t, w)"
  by (induction es) (auto simp: TT_add_all_def TT_Add_def)

lemma TT_add_all_ok:
  assumes "building contents P t fs" and "list_all (plain_entry I) es"
    and "TT_add_all P M B I es (t, w) = Some (t', w')" and "TT_ok B t'"
  shows "\<exists>fs' es'. building contents P t' fs' \<and> extends fs fs' \<and>
    entries (tt_base_builder t') = entries (tt_base_builder t) @ es' \<and>
    list_all2 (represents P I (tt_cf_options t) fs') es es' \<and> tt_cf_options t' = tt_cf_options t"
  using assms
proof (induction es arbitrary: t w fs)
  case Nil
  then show ?case by (auto simp: TT_add_all_def intro!: exI [of _ fs])
next
  case (Cons e es)
  obtain t1 w1 where a: "TT_Add P M B I (fst e) (snd e) t w = Some (t1, w1)"
    and r: "TT_add_all P M B I es (t1, w1) = Some (t', w')"
    using Cons.prems(3) by (auto simp: TT_add_all_def bind_eq_Some_conv)
  have pl: "plain_entry I e" "list_all (plain_entry I) es" using Cons.prems(2) by auto
  have ok1: "TT_ok B t1"
    using r Cons.prems(4) TT_add_all_failed [of t1 es w1] by auto
  obtain fs1 e' where s: "building contents P t1 fs1" "extends fs fs1"
    "entries (tt_base_builder t1) = entries (tt_base_builder t) @ [e']"
    "represents P I (tt_cf_options t) fs1 e e'" "tt_cf_options t1 = tt_cf_options t"
    using TT_Add_ok [OF Cons.prems(1) pl(1) a ok1] by auto
  obtain fs2 es' where i: "building contents P t' fs2" "extends fs1 fs2"
    "entries (tt_base_builder t') = entries (tt_base_builder t1) @ es'"
    "list_all2 (represents P I (tt_cf_options t1) fs2) es es'" "tt_cf_options t' = tt_cf_options t1"
    using Cons.IH [OF s(1) pl(2) r Cons.prems(4)] by auto
  show ?case
    using i s represents_extends [OF s(4) i(2)] extends_trans [OF s(2) i(2)]
    by (intro exI [of _ fs2] exI [of _ "e' # es'"]) auto
qed

end

context table_building
begin

lemma TT_Finish_ok:
  assumes ok: "TT_ok B t" and bld: "building contents P t fs"
    and run: "TT_Finish P M B t w = Some (OK, t', w')"
  shows "entries (tt_base_builder t') = entries (tt_base_builder t)"
    and "list_all2 (finished_ok contents P (tt_cf_options t)) (tt_finished_blobs t') fs"
proof -
  let ?t = "t\<lparr>tt_base_builder := snd (base_Finish B (tt_base_builder t))\<rparr>"
  obtain t1 w1 s w2 where f: "FinishBlobFile P M B ?t w = Some (t1, w1)" and t': "t' = t1\<lparr>tt_status := s\<rparr>"
    and st: "TT_ok B (t1\<lparr>tt_status := s\<rparr>)"
    using run by (auto simp: TT_Finish_def Let_def bind_eq_Some_conv TT_ok_def)
  have same: "tt_base_builder t1 = tt_base_builder ?t \<and> tt_cf_options t1 = tt_cf_options t"
    using f by (auto simp: FinishBlobFile_def Let_def bind_eq_Some_conv split: option.splits if_splits prod.splits)
  have ok0: "TT_ok B ?t" using ok st same by (auto simp: TT_ok_parts)
  have bld0: "building contents P ?t fs" using bld by (simp add: building_def cong: option.case_cong)
  have ok1: "TT_ok B t1"
  proof (cases "tt_blob_builder ?t")
    case (Some b0)
    obtain s0 b where "BlobFileBuilder_Finish (rk_C P) (rk_W P) b0 = (s0, b)" by fastforce
    with f ok0 st Some show ?thesis
      by (cases "bb_status b = OK") (auto simp: FinishBlobFile_def TT_ok_parts bind_eq_Some_conv)
  qed (use f ok0 in \<open>simp add: FinishBlobFile_def\<close>)
  note F = FinishBlobFile_ok [OF ok0 bld0 f ok1]
  show "entries (tt_base_builder t') = entries (tt_base_builder t)"
    using same t' table_builder_laws.base_finish [OF base] by simp
  show "list_all2 (finished_ok contents P (tt_cf_options t)) (tt_finished_blobs t') fs"
    using F(1,2) same t' by (auto simp: building_def)
qed

end

text \<open>
  C33. A flush keeps every value: when a table is built from entries that are no blob
  indexes and finishing it succeeds, the table has one entry for each, in the same order.
  An entry that is not separated is unchanged; an entry with a large value has the same
  user key and sequence number and a blob index that names one of the blob files handed
  over, whose size is recorded and whose bytes are a complete blob file with the record of
  that key and value at exactly that handle.
\<close>

theorem flush_keeps_every_value:
  assumes "table_building P M B I contents entries"
    and "new_TitanTableBuilder M cf db_options opts base merge_level target start w0 = Some t0" and "entries base = []"
    and "list_all (plain_entry I) es" and "TT_add_all P M B I es (t0, w0) = Some (t1, w1)" and "TT_ok B t1"
    and "TT_Finish P M B t1 w1 = Some (OK, t2, w2)"
  shows "\<exists>fs. list_all2 (finished_ok contents P opts) (tt_finished_blobs t2) fs \<and>
    list_all2 (represents P I opts fs) es (entries (tt_base_builder t2))"
proof -
  have t0: "building contents P t0 []" "tt_cf_options t0 = opts" "tt_base_builder t0 = base"
    using assms(2) by (auto simp: new_TitanTableBuilder_def building_def bind_eq_Some_conv)
  obtain fs es' where a: "building contents P t1 fs" "entries (tt_base_builder t1) = es'"
    "list_all2 (represents P I opts fs) es es'" "tt_cf_options t1 = opts"
    using table_building.TT_add_all_ok [OF assms(1) t0(1) assms(4-6)] t0 assms(3) by auto
  from table_building.TT_Finish_ok [OF assms(1,6) a(1) assms(7)] a show ?thesis by auto
qed

section \<open>A builder in memory\<close>

text \<open>
  A table builder that collects entries in a list, internal keys whose last byte is the
  type, and a world with the manager of the base class.
\<close>

definition list_table :: "(bytes \<times> bytes) list table_builder" where
  "list_table = \<lparr>base_Add = (\<lambda>k v b. b @ [(k, v)]), base_status = (\<lambda>_. OK), base_Finish = Pair OK, base_Abandon = (\<lambda>_. []),
     base_NumEntries = (\<lambda>b. of_nat (length b)), base_FileSize = (\<lambda>b. of_nat (length b)), base_NeedCompact = (\<lambda>_. False),
     base_GetTableProperties = (\<lambda>_. [])\<rparr>"

definition typed_keys :: internal_keys where
  "typed_keys = \<lparr>ParseInternalKey = (\<lambda>k. if k = [] then None
       else Some \<lparr>ik_user_key = butlast k, ik_sequence = 0, ik_type = last k\<rparr>),
     AppendInternalKey = (\<lambda>p. ik_user_key p @ [ik_type p]), kTypeValue = 1, kTypeBlobIndex = 17\<rparr>"

definition mem_rocks :: "(nat \<times> bytes, bytes, (bytes \<times> bytes BlobFileReader) option, (bytes \<times> bytes) option) rocks" where
  "mem_rocks = \<lparr>rk_nd = False, rk_C = leb128, rk_L = rle_codec, rk_W = mem_wfile, rk_F = mem_rfile, rk_K = one_cache,
     rk_R = one_cache, rk_unique_id = (\<lambda>_. []), rk_new_id = 0, rk_cmps = (\<lambda>_. bytewise)\<rparr>"

definition mem_world ::
    "nat \<Rightarrow> (u64, nat \<times> bytes, bytes, (bytes \<times> bytes BlobFileReader) option, (bytes \<times> bytes) option) world" where
  "mem_world room = \<lparr>w_NewFile = (\<lambda>n. (OK, Some \<lparr>fh_number = n, fh_name = to_string n, fh_file = (room, [])\<rparr>, n + 1)),
     w_BatchFinishFiles = base_BatchFinishFiles, w_BatchDeleteFiles = base_BatchDeleteFiles,
     w_storage = (\<lambda>_ _. Some sample_store), w_put_storage = (\<lambda>_ _ n. n), w_stats = (\<lambda>_. None), w_put_stats = (\<lambda>_ n. n),
     w_readers = (\<lambda>_. None), w_put_readers = (\<lambda>_ n. n), w_blobs = (\<lambda>_. None), w_put_blobs = (\<lambda>_ n. n),
     w_open = (\<lambda>_ _. Inl (NotFound '''')), w_iostats = (\<lambda>_. None)\<rparr>"

lemma table_builder_laws_list: "table_builder_laws list_table id"
  by unfold_locales (simp_all add: list_table_def)

lemma internal_key_laws_typed: "internal_key_laws typed_keys"
  by unfold_locales (auto simp: typed_keys_def split: if_splits)

lemma table_building_mem: "table_building mem_rocks (mem_world room) list_table typed_keys snd id"
  using coding_laws_leb128 codec_laws_rle wfile_laws_mem table_builder_laws_list internal_key_laws_typed
  by (intro table_building.intro) (auto simp: mem_rocks_def mem_world_def)

interpretation mem_table: table_building mem_rocks "mem_world room" list_table typed_keys snd id for room
  by (rule table_building_mem)

definition sample_opts :: TitanCFOptions where
  "sample_opts = (default_TitanCFOptions rle_codec)\<lparr>min_blob_size := 4, blob_file_target_size := 60\<rparr>"

definition sample_flush :: "(bytes \<times> bytes) list" where
  "sample_flush = [([97, 1], [1, 2, 3, 4, 5, 6, 7, 8]), ([98, 1], [9]), ([99, 0], []), ([100, 1], replicate 30 5)]"

lemma flush_keeps_every_value_witness:
  "\<exists>t1 w1 t2 w2 fs. TT_add_all mem_rocks (mem_world 1000) list_table typed_keys sample_flush
      (the (new_TitanTableBuilder (mem_world 1000) 0 default_TitanDBOptions sample_opts [] 5 0 (- 1) 7), 7) = Some (t1, w1)
    \<and> TT_Finish mem_rocks (mem_world 1000) list_table t1 w1 = Some (OK, t2, w2)
    \<and> length (tt_finished_blobs t2) = 1
    \<and> list_all2 (represents mem_rocks typed_keys sample_opts fs) sample_flush (tt_base_builder t2)"
proof -
  let ?M = "mem_world 1000" let ?new = "new_TitanTableBuilder ?M 0 default_TitanDBOptions sample_opts [] 5 0 (- 1) 7"
  have "\<not> Option.is_none ?new" by code_simp
  then obtain t0 :: "(nat \<times> bytes, bytes, (bytes \<times> bytes) list) TitanTableBuilder" where t0: "?new = Some t0" by (auto simp: Option.is_none_def)
  have "map_option (\<lambda>(t1, w1). (TT_ok list_table t1, map_option (\<lambda>(s, t2, w2). (s, length (tt_finished_blobs t2)))
        (TT_Finish mem_rocks ?M list_table t1 w1)))
      (TT_add_all mem_rocks ?M list_table typed_keys sample_flush (the ?new, 7)) = Some (True, Some (OK, 1))"
    and p: "list_all (plain_entry typed_keys) sample_flush"
    by code_simp+
  then obtain t1 w1 t2 w2 where r: "TT_add_all mem_rocks ?M list_table typed_keys sample_flush (t0, 7) = Some (t1, w1)"
    "TT_ok list_table t1" "TT_Finish mem_rocks ?M list_table t1 w1 = Some (OK, t2, w2)" "length (tt_finished_blobs t2) = 1"
    by (auto simp: t0)
  with flush_keeps_every_value [OF table_building_mem t0 _ p r(1-3)] t0 show ?thesis by auto
qed

end
