(* ===== verification/Blob_GC.thy ===== *)
theory Blob_GC
  imports Storage_Props "HOL-Library.Sublist"
begin

text \<open>
  \<open>src/blob_gc.h\<close>, \<open>src/blob_gc.cc\<close> and \<open>src/blob_gc_picker.cc\<close>: the description of one
  garbage collection and the choice of its input files. The source refers to the metadata
  of a file by pointer; the model refers to it by number in the storage that owns it, and
  an access to a file that the storage no longer has is undefined.
\<close>

section \<open>One garbage collection\<close>

record BlobGC =
  gc_inputs :: "u64 list"
  gc_sampled_inputs :: "u64 list"
  gc_outputs :: "u64 list"
  gc_titan_cf_options :: TitanCFOptions
  gc_cfh :: "u32 option"
  gc_trigger_next :: bool

fun on_files ::
    "(BlobFileMeta \<Rightarrow> BlobFileMeta option) \<Rightarrow> u64 list \<Rightarrow> 'f BlobStorage \<Rightarrow> 'f BlobStorage option" where
  "on_files f [] bs = Some bs"
| "on_files f (n # ns) bs = do { bs' \<leftarrow> with_file n f bs; on_files f ns bs' }"

definition MarkFilesBeingGC :: "bool \<Rightarrow> BlobGC \<Rightarrow> 'f BlobStorage \<Rightarrow> 'f BlobStorage option" where
  "MarkFilesBeingGC nd gc bs = on_files (FileStateTransit nd kGCBegin) (gc_inputs gc) bs"

definition new_BlobGC ::
    "bool \<Rightarrow> u64 list \<Rightarrow> TitanCFOptions \<Rightarrow> bool \<Rightarrow> 'f BlobStorage \<Rightarrow> (BlobGC \<times> 'f BlobStorage) option" where
  "new_BlobGC nd files opts trigger bs = do {
     let gc = \<lparr>gc_inputs = files, gc_sampled_inputs = [], gc_outputs = [], gc_titan_cf_options = opts,
               gc_cfh = None, gc_trigger_next = trigger\<rparr>;
     bs' \<leftarrow> MarkFilesBeingGC nd gc bs;
     Some (gc, bs')
   }"

definition SetColumnFamily :: "u32 \<Rightarrow> BlobGC \<Rightarrow> BlobGC" where
  "SetColumnFamily cf gc = gc\<lparr>gc_cfh := Some cf\<rparr>"

definition set_sampled_inputs :: "u64 list \<Rightarrow> BlobGC \<Rightarrow> BlobGC" where
  "set_sampled_inputs files gc = gc\<lparr>gc_sampled_inputs := files\<rparr>"

definition AddOutputFile :: "u64 \<Rightarrow> BlobGC \<Rightarrow> BlobGC" where
  "AddOutputFile n gc = gc\<lparr>gc_outputs := gc_outputs gc @ [n]\<rparr>"

definition ReleaseGcFiles :: "bool \<Rightarrow> BlobGC \<Rightarrow> 'f BlobStorage \<Rightarrow> 'f BlobStorage option" where
  "ReleaseGcFiles nd gc bs = do {
     bs1 \<leftarrow> on_files (\<lambda>m. FileStateTransit nd kGCCompleted (set_gc_mark False m)) (gc_inputs gc) bs;
     on_files (FileStateTransit nd kGCCompleted) (gc_outputs gc) bs1
   }"

section \<open>The picker\<close>

definition CheckBlobFile :: "bool \<Rightarrow> BlobFileMeta option \<Rightarrow> bool option" where
  "CheckBlobFile nd f = do {
     cpp_assert nd (case f of None \<Rightarrow> True | Some m \<Rightarrow> file_state m \<noteq> kInit);
     Some (case f of None \<Rightarrow> False | Some m \<Rightarrow> file_state m = kNormal)
   }"

record pick_state =
  pk_files :: "u64 list"
  pk_batch_size :: u64
  pk_estimate_output_size :: u64
  pk_stop :: bool
  pk_continue_next_time :: bool

text \<open>
  One round of the loop over the scores; the flag in the result is the \<open>break\<close>. A file
  that is not collected is logged by its number, which reads the object even when the
  lookup found none. The bound for a further round divides 1 << 30 by the target size.
\<close>

definition pick_step ::
    "bool \<Rightarrow> TitanCFOptions \<Rightarrow> 'f BlobStorage \<Rightarrow> nat \<Rightarrow> GCScore \<Rightarrow> pick_state \<Rightarrow> (bool \<times> pick_state) option" where
  "pick_step nd opts bs cnt sc p = do {
     file \<leftarrow> FindFile nd (gcs_file_number sc) bs;
     ok \<leftarrow> CheckBlobFile nd file;
     m \<leftarrow> file;
     if \<not> ok \<or> (level_merge opts \<and> file_type m = kSorted) then Some (False, p)
     else if \<not> pk_stop p
     then do {
       let batch = pk_batch_size p + file_size m;
       Some (False, p\<lparr>pk_files := pk_files p @ [file_number m], pk_batch_size := batch,
         pk_estimate_output_size := pk_estimate_output_size p + (file_size m - discardable_size m),
         pk_stop := (batch \<ge> max_gc_batch_size opts)\<rparr>)
     }
     else if blob_file_target_size (bs_cf_options bs) = 0 then None
     else if (of_nat (length (bs_gc_score bs)) - of_nat cnt :: u64)
             > 1073741824 div blob_file_target_size (bs_cf_options bs)
     then Some (True, p\<lparr>pk_continue_next_time := True\<rparr>)
     else Some (False, p)
   }"

fun pick_loop ::
    "bool \<Rightarrow> TitanCFOptions \<Rightarrow> 'f BlobStorage \<Rightarrow> nat \<Rightarrow> GCScore list \<Rightarrow> pick_state \<Rightarrow> pick_state option" where
  "pick_loop nd opts bs cnt [] p = Some p"
| "pick_loop nd opts bs cnt (sc # scs) p = do {
     (stop, p') \<leftarrow> pick_step nd opts bs (Suc cnt) sc p;
     if stop then Some p' else pick_loop nd opts bs (Suc cnt) scs p'
   }"

definition PickBlobGC ::
    "bool \<Rightarrow> TitanCFOptions \<Rightarrow> 'f BlobStorage \<Rightarrow> (BlobGC option \<times> 'f BlobStorage) option" where
  "PickBlobGC nd opts bs = do {
     p \<leftarrow> pick_loop nd opts bs 0 (bs_gc_score bs)
       \<lparr>pk_files = [], pk_batch_size = 0, pk_estimate_output_size = 0, pk_stop = False,
        pk_continue_next_time = False\<rparr>;
     if pk_files p = [] \<or> pk_batch_size p < min_gc_batch_size opts then Some (None, bs)
     else do {
       m \<leftarrow> map_of (bs_files bs) (hd (pk_files p));
       if length (pk_files p) = 1 \<and> file_size m \<le> merge_small_file_threshold opts \<and> \<not> gc_mark m
       then Some (None, bs)
       else do {
         (gc, bs') \<leftarrow> new_BlobGC nd (pk_files p) opts (pk_continue_next_time p) bs;
         Some (Some gc, bs')
       }
     }
   }"

section \<open>Acting on several files\<close>

lemma with_file_at:
  assumes ok: "storage_ok cmp bs" and m: "map_of (bs_files bs) n = Some m"
    and f: "f m = Some m'" and same: "same_place m m'"
  shows "with_file n f bs = Some (bs\<lparr>bs_files := amap_update n (\<lambda>_. m') (bs_files bs)\<rparr>)"
    and "storage_ok cmp (bs\<lparr>bs_files := amap_update n (\<lambda>_. m') (bs_files bs)\<rparr>)"
    and "abs_storage (bs\<lparr>bs_files := amap_update n (\<lambda>_. m') (bs_files bs)\<rparr>) = abs_storage bs"
proof -
  let ?g = "\<lambda>x. if x = m then f x else None" and ?bs = "bs\<lparr>bs_files := amap_update n (\<lambda>_. m') (bs_files bs)\<rparr>"
  show "with_file n f bs = Some ?bs" using m f by (simp add: with_file_def)
  have run: "with_file n ?g bs = Some ?bs" using m f by (simp add: with_file_def)
  have *: "same_place x x'" if "?g x = Some x'" for x x' using that f same by (auto split: if_splits)
  show "storage_ok cmp ?bs" by (rule with_file_ok [OF ok run *])
  show "abs_storage ?bs = abs_storage bs" by (rule with_file_abs [OF run *])
qed

lemma on_files_all:
  assumes "storage_ok cmp bs" and "distinct ns"
    and "\<And>n. n \<in> set ns \<Longrightarrow> \<exists>m m'. map_of (bs_files bs) n = Some m \<and> f m = Some m' \<and> same_place m m'"
  shows "\<exists>bs'. on_files f ns bs = Some bs' \<and> storage_ok cmp bs' \<and> abs_storage bs' = abs_storage bs \<and>
    (\<forall>n. map_of (bs_files bs') n =
      (if n \<in> set ns then Option.bind (map_of (bs_files bs) n) f else map_of (bs_files bs) n)) \<and>
    bs' = bs\<lparr>bs_files := bs_files bs'\<rparr>"
  using assms
proof (induction ns arbitrary: bs)
  case (Cons n ns)
  obtain m m' where m: "map_of (bs_files bs) n = Some m" "f m = Some m'" "same_place m m'"
    using Cons.prems(3) [of n] by auto
  let ?bs = "bs\<lparr>bs_files := amap_update n (\<lambda>_. m') (bs_files bs)\<rparr>"
  note w = with_file_at [where f = f, OF Cons.prems(1) m]
  have lk: "map_of (bs_files ?bs) x = (if x = n then Some m' else map_of (bs_files bs) x)" for x
    using m(1) by (simp add: amap_simps)
  have "\<exists>m m'. map_of (bs_files ?bs) x = Some m \<and> f m = Some m' \<and> same_place m m'" if x: "x \<in> set ns" for x
    using Cons.prems(2) Cons.prems(3) [of x] x lk [of x] by auto
  then obtain bs' where bs': "on_files f ns ?bs = Some bs'" "storage_ok cmp bs'" "abs_storage bs' = abs_storage ?bs"
    "bs' = ?bs\<lparr>bs_files := bs_files bs'\<rparr>"
    and l: "\<And>x. map_of (bs_files bs') x =
      (if x \<in> set ns then Option.bind (map_of (bs_files ?bs) x) f else map_of (bs_files ?bs) x)"
    using Cons.IH [OF w(2)] Cons.prems(2) by auto
  have "map_of (bs_files bs') x =
      (if x \<in> set (n # ns) then Option.bind (map_of (bs_files bs) x) f else map_of (bs_files bs) x)" for x
    using l [of x] lk [of x] m Cons.prems(2) by auto
  moreover have "bs' = bs\<lparr>bs_files := bs_files bs'\<rparr>" by (subst bs'(4)) simp
  ultimately show ?case using bs' w(1,3) by auto
qed auto

lemma on_files_cong:
  assumes "on_files f ns bs = Some bs'"
  shows "bs' = bs\<lparr>bs_files := bs_files bs'\<rparr>"
  using assms
proof (induction ns arbitrary: bs)
  case (Cons n ns)
  then obtain bs1 where a: "with_file n f bs = Some bs1" and b: "on_files f ns bs1 = Some bs'"
    by (auto simp: bind_eq_Some_conv)
  have "bs' = bs1\<lparr>bs_files := bs_files bs'\<rparr>" using Cons.IH [OF b] .
  moreover have "bs1\<lparr>bs_files := x\<rparr> = bs\<lparr>bs_files := x\<rparr>" for x
    using a by (auto simp: with_file_def bind_eq_Some_conv)
  ultimately show ?case by simp
qed auto

section \<open>What the picker picks\<close>

definition size_of :: "'f BlobStorage \<Rightarrow> u64 \<Rightarrow> u64" where
  "size_of bs n = (case map_of (bs_files bs) n of Some m \<Rightarrow> file_size m | None \<Rightarrow> 0)"

definition batch_bytes :: "'f BlobStorage \<Rightarrow> u64 list \<Rightarrow> u64" where
  "batch_bytes bs ns = sum_list (map (size_of bs) ns)"

definition collectable :: "TitanCFOptions \<Rightarrow> 'f BlobStorage \<Rightarrow> u64 \<Rightarrow> bool" where
  "collectable opts bs n =
     (case map_of (bs_files bs) n of
        Some m \<Rightarrow> file_state m = kNormal \<and> \<not> (level_merge opts \<and> file_type m = kSorted)
      | None \<Rightarrow> False)"

definition pick_inv :: "TitanCFOptions \<Rightarrow> 'f BlobStorage \<Rightarrow> GCScore list \<Rightarrow> pick_state \<Rightarrow> bool" where
  "pick_inv opts bs seen p =
     (subseq (pk_files p) (map gcs_file_number seen) \<and> list_all (collectable opts bs) (pk_files p) \<and>
      pk_batch_size p = batch_bytes bs (pk_files p) \<and>
      (length (pk_files p) \<le> 1 \<or> batch_bytes bs (butlast (pk_files p)) < max_gc_batch_size opts) \<and>
      (pk_stop p \<or> pk_files p = [] \<or> pk_batch_size p < max_gc_batch_size opts))"

lemma pick_inv_push:
  assumes "pick_inv opts bs seen p" and "\<not> pk_stop p" and "collectable opts bs (gcs_file_number sc)"
  shows "pick_inv opts bs (seen @ [sc])
    (p\<lparr>pk_files := pk_files p @ [gcs_file_number sc],
       pk_batch_size := pk_batch_size p + size_of bs (gcs_file_number sc), pk_estimate_output_size := e,
       pk_stop := (pk_batch_size p + size_of bs (gcs_file_number sc) \<ge> max_gc_batch_size opts)\<rparr>)"
  using assms by (auto simp: pick_inv_def batch_bytes_def list_emb_append_mono)

lemma pick_inv_skip: "pick_inv opts bs seen p \<Longrightarrow> pick_inv opts bs (seen @ [sc]) p"
  by (auto simp: pick_inv_def intro: subseq_order.trans)

lemma pick_inv_skips: "pick_inv opts bs seen p \<Longrightarrow> pick_inv opts bs (seen @ scs) p"
  by (induction scs rule: rev_induct) (auto simp flip: append_assoc intro: pick_inv_skip)

lemma pick_step_inv:
  assumes ok: "storage_ok cmp bs" and inv: "pick_inv opts bs seen p"
    and run: "pick_step nd opts bs cnt sc p = Some (b, p')"
  shows "pick_inv opts bs (seen @ [sc]) p'"
proof -
  obtain m where m: "map_of (bs_files bs) (gcs_file_number sc) = Some m"
    using run by (auto simp: pick_step_def FindFile_def exec_simps split: option.splits)
  have n: "file_number m = gcs_file_number sc" using storage_okD(2) [OF ok m] .
  have s: "size_of bs (gcs_file_number sc) = file_size m" using m by (simp add: size_of_def)
  have skip: "pick_inv opts bs (seen @ [sc]) p" by (rule pick_inv_skip [OF inv])
  then have next_time: "pick_inv opts bs (seen @ [sc]) (p\<lparr>pk_continue_next_time := True\<rparr>)"
    by (auto simp: pick_inv_def)
  show ?thesis
  proof (cases "file_state m = kNormal \<and> \<not> (level_merge opts \<and> file_type m = kSorted) \<and> \<not> pk_stop p")
    case True
    then have "collectable opts bs (gcs_file_number sc)" using m by (simp add: collectable_def)
    from pick_inv_push [OF inv _ this] True run m n s show ?thesis
      by (auto simp: pick_step_def FindFile_def CheckBlobFile_def Let_def exec_simps)
  next
    case False
    with run m skip next_time show ?thesis
      by (auto simp: pick_step_def FindFile_def CheckBlobFile_def exec_simps split: if_splits)
  qed
qed

lemma pick_loop_inv:
  assumes "storage_ok cmp bs"
  shows "pick_loop nd opts bs cnt scs p = Some p' \<Longrightarrow> pick_inv opts bs seen p \<Longrightarrow> pick_inv opts bs (seen @ scs) p'"
proof (induction scs arbitrary: cnt p seen)
  case (Cons sc scs)
  obtain b p1 where s: "pick_step nd opts bs (Suc cnt) sc p = Some (b, p1)"
    and r: "b \<and> p' = p1 \<or> \<not> b \<and> pick_loop nd opts bs (Suc cnt) scs p1 = Some p'"
    using Cons.prems(1) by (auto simp: bind_eq_Some_conv split: if_splits)
  note i = pick_step_inv [OF assms Cons.prems(2) s]
  have "pick_inv opts bs (seen @ sc # scs) p1" using pick_inv_skips [OF i, of scs] by simp
  with r Cons.IH [OF _ i] show ?case by auto
qed simp

lemma subseq_distinct:
  assumes "subseq xs ys" and "distinct ys"
  shows "distinct xs"
  using assms
proof (induction rule: list_emb.induct)
  case (list_emb_Cons2 x y xs ys)
  then show ?case by (auto elim: list_emb_set)
qed auto

lemma picked_normal:
  assumes "storage_ok cmp bs" and "collectable opts bs n"
  shows "\<exists>m m'. map_of (bs_files bs) n = Some m \<and> FileStateTransit nd kGCBegin m = Some m' \<and> same_place m m'
    \<and> file_state m' = kBeingGC"
  using assms
  by (auto simp: collectable_def FileStateTransit_def same_place_def is_obsolete_def split: option.splits)

lemma PickBlobGC_picks:
  assumes "storage_ok cmp bs" and "distinct (map gcs_file_number (bs_gc_score bs))"
    and "PickBlobGC nd opts bs = Some (Some gc, bs')"
  shows "gc_inputs gc \<noteq> []" and "subseq (gc_inputs gc) (map gcs_file_number (bs_gc_score bs))"
    and "list_all (collectable opts bs) (gc_inputs gc)"
    and "min_gc_batch_size opts \<le> batch_bytes bs (gc_inputs gc)"
    and "length (gc_inputs gc) \<le> 1 \<or> batch_bytes bs (butlast (gc_inputs gc)) < max_gc_batch_size opts"
    and "storage_ok cmp bs' \<and> abs_storage bs' = abs_storage bs"
    and "map_of (bs_files bs') n =
      (if n \<in> set (gc_inputs gc) then map_option (\<lambda>m. m\<lparr>file_state := kBeingGC\<rparr>) (map_of (bs_files bs) n)
       else map_of (bs_files bs) n)"
proof -
  obtain p where p: "pick_loop nd opts bs 0 (bs_gc_score bs)
       \<lparr>pk_files = [], pk_batch_size = 0, pk_estimate_output_size = 0, pk_stop = False,
        pk_continue_next_time = False\<rparr> = Some p"
    and ne: "pk_files p \<noteq> []" "\<not> pk_batch_size p < min_gc_batch_size opts"
    and new: "new_BlobGC nd (pk_files p) opts (pk_continue_next_time p) bs = Some (gc, bs')"
    using assms(3) by (auto simp: PickBlobGC_def bind_eq_Some_conv split: if_splits)
  have gc: "gc_inputs gc = pk_files p" and mark: "on_files (FileStateTransit nd kGCBegin) (pk_files p) bs = Some bs'"
    using new by (auto simp: new_BlobGC_def MarkFilesBeingGC_def Let_def bind_eq_Some_conv)
  have "pick_inv opts bs [] \<lparr>pk_files = [], pk_batch_size = 0, pk_estimate_output_size = 0, pk_stop = False,
        pk_continue_next_time = False\<rparr>"
    by (simp add: pick_inv_def batch_bytes_def)
  from pick_loop_inv [OF assms(1) p this] have inv: "pick_inv opts bs (bs_gc_score bs) p" by simp
  then show "gc_inputs gc \<noteq> []" and sub: "subseq (gc_inputs gc) (map gcs_file_number (bs_gc_score bs))"
    and all: "list_all (collectable opts bs) (gc_inputs gc)"
    and "min_gc_batch_size opts \<le> batch_bytes bs (gc_inputs gc)"
    and "length (gc_inputs gc) \<le> 1 \<or> batch_bytes bs (butlast (gc_inputs gc)) < max_gc_batch_size opts"
    using ne by (auto simp: pick_inv_def gc)
  have "distinct (pk_files p)" using subseq_distinct [OF sub assms(2)] by (simp add: gc)
  moreover have "\<exists>m m'. map_of (bs_files bs) n = Some m \<and> FileStateTransit nd kGCBegin m = Some m' \<and> same_place m m'"
    if "n \<in> set (pk_files p)" for n
    using that all picked_normal [OF assms(1), of opts n nd] by (auto simp: gc list_all_iff)
  ultimately obtain bs1 where "on_files (FileStateTransit nd kGCBegin) (pk_files p) bs = Some bs1"
    "storage_ok cmp bs1 \<and> abs_storage bs1 = abs_storage bs"
    and l: "\<And>n. map_of (bs_files bs1) n = (if n \<in> set (pk_files p)
      then Option.bind (map_of (bs_files bs) n) (FileStateTransit nd kGCBegin) else map_of (bs_files bs) n)"
    using on_files_all [OF assms(1), of "pk_files p" "FileStateTransit nd kGCBegin"] by blast
  then show "storage_ok cmp bs' \<and> abs_storage bs' = abs_storage bs" using mark by simp
  have "bs1 = bs'" using mark \<open>on_files _ _ _ = Some bs1\<close> by simp
  then show "map_of (bs_files bs') n =
      (if n \<in> set (gc_inputs gc) then map_option (\<lambda>m. m\<lparr>file_state := kBeingGC\<rparr>) (map_of (bs_files bs) n)
       else map_of (bs_files bs) n)"
    using l [of n] all by (auto simp: gc list_all_iff collectable_def FileStateTransit_def split: option.splits)
qed
text \<open>
  C30. The picker takes a batch of collectable files in the order of their scores: every
  file it hands to a collection was in state \<open>kNormal\<close> (and is unsorted under level merge),
  is marked as being collected, and no other file changes. The batch reaches the minimal
  size, and without its last file it is below the maximal size. The storage stays
  consistent.
\<close>

theorem picked_batch:
  assumes "storage_ok cmp bs" and "distinct (map gcs_file_number (bs_gc_score bs))"
    and "PickBlobGC nd opts bs = Some (Some gc, bs')"
  shows "gc_inputs gc \<noteq> [] \<and> subseq (gc_inputs gc) (map gcs_file_number (bs_gc_score bs)) \<and>
    list_all (collectable opts bs) (gc_inputs gc) \<and>
    min_gc_batch_size opts \<le> batch_bytes bs (gc_inputs gc) \<and>
    (length (gc_inputs gc) \<le> 1 \<or> batch_bytes bs (butlast (gc_inputs gc)) < max_gc_batch_size opts) \<and>
    storage_ok cmp bs' \<and> abs_storage bs' = abs_storage bs \<and>
    (\<forall>n. map_of (bs_files bs') n =
      (if n \<in> set (gc_inputs gc) then map_option (\<lambda>m. m\<lparr>file_state := kBeingGC\<rparr>) (map_of (bs_files bs) n)
       else map_of (bs_files bs) n))"
  using PickBlobGC_picks [OF assms] by blast

definition gc_sample_options :: TitanCFOptions where
  "gc_sample_options = (default_TitanCFOptions rle_codec)\<lparr>min_gc_batch_size := 1200, max_gc_batch_size := 1500\<rparr>"

definition gc_sample_storage :: "bytes BlobStorage" where
  "gc_sample_storage =
     sample_storage2\<lparr>bs_files := [(5, sample_meta\<lparr>file_state := kNormal\<rparr>), (6, sample_meta2\<lparr>file_state := kNormal\<rparr>)],
       bs_gc_score := [\<lparr>gcs_file_number = 5, gcs_score = Fin (1 / 2)\<rparr>, \<lparr>gcs_file_number = 6, gcs_score = Fin 0\<rparr>]\<rparr>"

lemma picked_batch_witness:
  "\<exists>gc bs'. PickBlobGC False gc_sample_options gc_sample_storage = Some (Some gc, bs') \<and> gc_inputs gc = [5, 6] \<and>
    map_of (bs_files bs') 6 = Some (sample_meta2\<lparr>file_state := kBeingGC\<rparr>)"
proof -
  have "map_option (map_option gc_inputs \<circ> fst) (PickBlobGC False gc_sample_options gc_sample_storage) = Some (Some [5, 6])"
    and ok: "storage_ok bytewise gc_sample_storage"
    and d: "distinct (map gcs_file_number (bs_gc_score gc_sample_storage))"
    by code_simp+
  then obtain gc bs' where p: "PickBlobGC False gc_sample_options gc_sample_storage = Some (Some gc, bs')"
    and i: "gc_inputs gc = [5, 6]"
    by auto
  have "map_of (bs_files gc_sample_storage) 6 = Some (sample_meta2\<lparr>file_state := kNormal\<rparr>)"
    by (simp add: gc_sample_storage_def)
  with picked_batch [OF ok d p] p i show ?thesis by auto
qed

section \<open>Releasing the files of a collection\<close>

lemma release_step:
  assumes "file_state m \<in> {kBeingGC, kPendingGC, kObsolete}"
  shows "\<exists>m'. FileStateTransit nd kGCCompleted m = Some m' \<and> same_place m m' \<and>
    file_state m' = (if is_obsolete m then kObsolete else kNormal)"
  using assms by (auto simp: FileStateTransit_def same_place_def is_obsolete_def)

lemma release_input:
  assumes "file_state m \<in> {kBeingGC, kPendingGC, kObsolete}"
  shows "\<exists>m'. FileStateTransit nd kGCCompleted (set_gc_mark False m) = Some m' \<and> same_place m m' \<and>
    file_state m' = (if is_obsolete m then kObsolete else kNormal) \<and> \<not> gc_mark m'"
  using assms by (auto simp: FileStateTransit_def same_place_def is_obsolete_def set_gc_mark_def)

definition held_by_gc :: "BlobGC \<Rightarrow> 'f BlobStorage \<Rightarrow> bool" where
  "held_by_gc gc bs =
     list_all (\<lambda>n. case map_of (bs_files bs) n of
        Some m \<Rightarrow> file_state m \<in> {kBeingGC, kPendingGC, kObsolete}
      | None \<Rightarrow> False) (gc_inputs gc @ gc_outputs gc)"

definition released :: "'f BlobStorage \<Rightarrow> 'f BlobStorage \<Rightarrow> u64 \<Rightarrow> bool" where
  "released bs bs' n =
     (case (map_of (bs_files bs) n, map_of (bs_files bs') n) of
        (Some m, Some m') \<Rightarrow> file_state m' = (if is_obsolete m then kObsolete else kNormal)
      | _ \<Rightarrow> False)"

text \<open>
  C31. A collection gives its files back: whatever its outcome, as long as its inputs and
  outputs are being collected, pending or obsolete, \<open>ReleaseGcFiles\<close> succeeds with its
  assertions on, every file that is not obsolete is \<open>kNormal\<close> and so can be picked again,
  an obsolete file stays obsolete, and all other files and the storage's contents stay as
  they were.
\<close>

theorem released_files_collectable:
  assumes "storage_ok cmp bs" and "distinct (gc_inputs gc @ gc_outputs gc)" and "held_by_gc gc bs"
  shows "\<exists>bs'. ReleaseGcFiles False gc bs = Some bs' \<and> storage_ok cmp bs' \<and> abs_storage bs' = abs_storage bs \<and>
    list_all (released bs bs') (gc_inputs gc @ gc_outputs gc) \<and>
    (\<forall>n. n \<in> set (gc_inputs gc @ gc_outputs gc) \<or> map_of (bs_files bs') n = map_of (bs_files bs) n)"
proof -
  let ?f = "\<lambda>m. FileStateTransit False kGCCompleted (set_gc_mark False m)" and ?g = "FileStateTransit False kGCCompleted"
  have held: "\<exists>m. map_of (bs_files bs) n = Some m \<and> file_state m \<in> {kBeingGC, kPendingGC, kObsolete}"
    if "n \<in> set (gc_inputs gc) \<union> set (gc_outputs gc)" for n
    using that assms(3) by (auto simp: held_by_gc_def list_all_iff split: option.splits)
  have 1: "\<exists>m m'. map_of (bs_files bs) n = Some m \<and> ?f m = Some m' \<and> same_place m m'" if i: "n \<in> set (gc_inputs gc)" for n
    using held [of n] i release_input by blast
  obtain bs1 where bs1: "on_files ?f (gc_inputs gc) bs = Some bs1" "storage_ok cmp bs1" "abs_storage bs1 = abs_storage bs"
    and l1: "\<And>n. map_of (bs_files bs1) n =
      (if n \<in> set (gc_inputs gc) then Option.bind (map_of (bs_files bs) n) ?f else map_of (bs_files bs) n)"
    using on_files_all [where f = ?f and ns = "gc_inputs gc", OF assms(1) _ 1] assms(2) by auto
  have same: "map_of (bs_files bs1) n = map_of (bs_files bs) n" if "n \<in> set (gc_outputs gc)" for n
    using l1 [of n] that assms(2) by auto
  have 2: "\<exists>m m'. map_of (bs_files bs1) n = Some m \<and> ?g m = Some m' \<and> same_place m m'" if o: "n \<in> set (gc_outputs gc)" for n
    using held [of n] same [OF o] o release_step [of _ False] by fastforce
  obtain bs2 where bs2: "on_files ?g (gc_outputs gc) bs1 = Some bs2" "storage_ok cmp bs2" "abs_storage bs2 = abs_storage bs1"
    and l2: "\<And>n. map_of (bs_files bs2) n =
      (if n \<in> set (gc_outputs gc) then Option.bind (map_of (bs_files bs1) n) ?g else map_of (bs_files bs1) n)"
    using on_files_all [where f = ?g and ns = "gc_outputs gc", OF bs1(2) _ 2] assms(2) by auto
  have "released bs bs2 n" if i: "n \<in> set (gc_inputs gc)" for n
  proof -
    obtain m where m: "map_of (bs_files bs) n = Some m" "file_state m \<in> {kBeingGC, kPendingGC, kObsolete}"
      using held i by auto
    have "n \<notin> set (gc_outputs gc)" using assms(2) i by auto
    with l2 [of n] l1 [of n] i m release_input [OF m(2), of False] show ?thesis by (auto simp: released_def)
  qed
  moreover have "released bs bs2 n" if o: "n \<in> set (gc_outputs gc)" for n
  proof -
    obtain m where m: "map_of (bs_files bs) n = Some m" "file_state m \<in> {kBeingGC, kPendingGC, kObsolete}"
      using held o by auto
    with l2 [of n] same [OF o] o release_step [OF m(2), of False] show ?thesis by (auto simp: released_def)
  qed
  moreover have "ReleaseGcFiles False gc bs = Some bs2" using bs1(1) bs2(1) by (simp add: ReleaseGcFiles_def)
  ultimately show ?thesis using bs1(3) bs2(2,3) l1 l2 by (auto simp: list_all_iff)
qed

definition gc_held_storage :: "bytes BlobStorage" where
  "gc_held_storage =
     gc_sample_storage\<lparr>bs_files := [(5, sample_meta\<lparr>file_state := kBeingGC, gc_mark := True\<rparr>), (6, sample_meta2\<lparr>file_state := kPendingGC\<rparr>)]\<rparr>"

definition gc_sample_job :: BlobGC where
  "gc_sample_job = \<lparr>gc_inputs = [5], gc_sampled_inputs = [5], gc_outputs = [6], gc_titan_cf_options = gc_sample_options,
     gc_cfh = Some 0, gc_trigger_next = False\<rparr>"

lemma released_files_collectable_witness:
  "\<exists>bs'. ReleaseGcFiles False gc_sample_job gc_held_storage = Some bs' \<and> released gc_held_storage bs' 5
    \<and> released gc_held_storage bs' 6"
proof -
  have "storage_ok bytewise gc_held_storage" "distinct (gc_inputs gc_sample_job @ gc_outputs gc_sample_job)"
    "held_by_gc gc_sample_job gc_held_storage"
    by code_simp+
  from released_files_collectable [OF this] show ?thesis by (auto simp: gc_sample_job_def)
qed

section \<open>Stale scores\<close>

text \<open>
  C32. The picker dereferences a null pointer when the first score names a file that the
  storage no longer has: it logs the number of the file it did not find. Nothing removes
  scores when files are purged, so scores computed before a purge lead there.
\<close>

theorem stale_score_is_undefined:
  assumes "bs_gc_score bs = sc # scs" and "map_of (bs_files bs) (gcs_file_number sc) = None"
  shows "PickBlobGC nd opts bs = None"
  using assms by (simp add: PickBlobGC_def pick_step_def FindFile_def CheckBlobFile_def)

lemma stale_score_is_undefined_witness:
  "\<exists>bs1 st1 bs2 st2 k2. ComputeGCScore gc_sample_storage = Some (2, bs1)
    \<and> MarkFileObsolete False (gcs_file_number (hd (bs_gc_score bs1))) 40 bs1 None = Some (True, bs2, st1)
    \<and> (\<exists>bs3. GetObsoleteFiles False bytewise (one_cache :: ((bytes \<times> bytes BlobFileReader) option, bytes BlobFileReader) cache_ops)
          None 41 bs2 st1 None = Some (None, bs3, st2, k2)
        \<and> PickBlobGC True gc_sample_options bs3 = None)"
proof -
  let ?R = "one_cache :: ((bytes \<times> bytes BlobFileReader) option, bytes BlobFileReader) cache_ops"
  have "map_option (\<lambda>(n, bs1). (n, map_option (\<lambda>(b, bs2, st). (b, Option.is_none st,
          map_option (\<lambda>(o1, bs3, st3, k3). (o1, map gcs_file_number (take 1 (bs_gc_score bs3)),
            map_of (bs_files bs3) (gcs_file_number (hd (bs_gc_score bs3))) = None))
          (GetObsoleteFiles False bytewise ?R None 41 bs2 None None)))
        (MarkFileObsolete False (gcs_file_number (hd (bs_gc_score bs1))) 40 bs1 None)))
      (ComputeGCScore gc_sample_storage) = Some (2, Some (True, True, Some (None, [5], True)))"
    by code_simp
  then obtain bs1 bs2 bs3 st3 k3 where c: "ComputeGCScore gc_sample_storage = Some (2, bs1)"
    and o: "MarkFileObsolete False (gcs_file_number (hd (bs_gc_score bs1))) 40 bs1 None = Some (True, bs2, None)"
    and g: "GetObsoleteFiles False bytewise ?R None 41 bs2 None None = Some (None, bs3, st3, k3)"
    and t: "map gcs_file_number (take 1 (bs_gc_score bs3)) = [5]"
    and h: "map_of (bs_files bs3) (gcs_file_number (hd (bs_gc_score bs3))) = None"
    by (auto simp: Option.is_none_def)
  obtain sc scs where s: "bs_gc_score bs3 = sc # scs" using t by (cases "bs_gc_score bs3") auto
  with h have "map_of (bs_files bs3) (gcs_file_number sc) = None" by simp
  from stale_score_is_undefined [OF s this] c o g show ?thesis by blast
qed

end
