(* ===== verification/Size_Collector.thy ===== *)
theory Size_Collector
  imports Blob_Format
begin

text \<open>
  \<open>src/blob_file_size_collector.h\<close> and \<open>src/blob_file_size_collector.cc\<close>: the table
  property that records how many bytes of each blob file the entries of a table refer to.
  A \<open>std::map\<close> of sizes is a list sorted by file number; the map of user properties is an
  association list.
\<close>

section \<open>The collector\<close>

datatype EntryType =
    kEntryPut | kEntryDelete | kEntrySingleDelete | kEntryMerge
  | kEntryRangeDeletion | kEntryBlobIndex | kEntryOther

type_synonym blob_sizes = "(u64 \<times> u64) list"

definition kPropertiesName :: string where
  "kPropertiesName = ''TitanDB.blob_discardable_size''"

definition new_BlobFileSizeCollector :: blob_sizes where
  "new_BlobFileSizeCollector = []"

definition Collector_Encode :: "coding \<Rightarrow> blob_sizes \<Rightarrow> bytes \<Rightarrow> bool \<times> bytes" where
  "Collector_Encode C sizes result =
     (True, result @ PutVarint32 C (of_nat (length sizes)) @
        concat (map (\<lambda>p. PutVarint64 C (fst p) @ PutVarint64 C (snd p)) sizes))"

fun decode_sizes :: "coding \<Rightarrow> nat \<Rightarrow> bytes \<Rightarrow> blob_sizes \<Rightarrow> bool \<times> bytes \<times> blob_sizes" where
  "decode_sizes C 0 src sizes = (True, src, sizes)"
| "decode_sizes C (Suc n) src sizes =
     (case GetVarint64 C src of
        None \<Rightarrow> (False, src, sizes)
      | Some (number, src1) \<Rightarrow>
          (case GetVarint64 C src1 of
             None \<Rightarrow> (False, src1, sizes)
           | Some (sz, src2) \<Rightarrow> decode_sizes C n src2 (omap_set number sz sizes)))"

definition Collector_Decode :: "coding \<Rightarrow> bytes \<Rightarrow> blob_sizes \<Rightarrow> bool \<times> bytes \<times> blob_sizes" where
  "Collector_Decode C src sizes =
     (case GetVarint32 C src of
        None \<Rightarrow> (False, src, sizes)
      | Some (num, src1) \<Rightarrow> decode_sizes C (unat num) src1 sizes)"

text \<open>The slice of the caller is advanced behind the index, through a cast of its const.\<close>

definition AddUserKey ::
    "coding \<Rightarrow> bytes \<Rightarrow> EntryType \<Rightarrow> blob_sizes \<Rightarrow> status \<times> bytes \<times> blob_sizes" where
  "AddUserKey C val ty sizes =
     (if ty \<noteq> kEntryBlobIndex then (OK, val, sizes)
      else let (s, index, rest) = BlobIndex_DecodeFrom C empty_BlobIndex val in
           if \<not> IsOk s then (s, rest, sizes)
           else (OK, rest,
             case map_of sizes (bi_file_number index) of
               None \<Rightarrow> omap_set (bi_file_number index) (bh_size (bi_blob_handle index)) sizes
             | Some v \<Rightarrow> omap_set (bi_file_number index) (v + bh_size (bi_blob_handle index)) sizes))"

definition Collector_Finish ::
    "bool \<Rightarrow> coding \<Rightarrow> blob_sizes \<Rightarrow> (string \<times> bytes) list \<Rightarrow> (status \<times> (string \<times> bytes) list) option" where
  "Collector_Finish nd C sizes properties =
     (if sizes = [] then Some (OK, properties)
      else do {
        let (ok, res) = Collector_Encode C sizes [];
        cpp_assert nd ok;
        cpp_assert nd (res \<noteq> []);
        Some (OK, amap_emplace kPropertiesName res properties)
      })"

section \<open>Collecting the entries of a table\<close>

text \<open>The entries of a table pass through the collector one after the other.\<close>

fun add_entries :: "coding \<Rightarrow> (EntryType \<times> bytes) list \<Rightarrow> blob_sizes \<Rightarrow> status \<times> blob_sizes" where
  "add_entries C [] sizes = (OK, sizes)"
| "add_entries C ((ty, val) # es) sizes =
     (let (s, _, sizes') = AddUserKey C val ty sizes
      in if \<not> IsOk s then (s, sizes') else add_entries C es sizes')"

definition entry_index :: "coding \<Rightarrow> EntryType \<times> bytes \<Rightarrow> BlobIndex option" where
  "entry_index C e =
     (if fst e \<noteq> kEntryBlobIndex then None
      else let (s, index, _) = BlobIndex_DecodeFrom C empty_BlobIndex (snd e)
           in if IsOk s then Some index else None)"

definition entry_size :: "coding \<Rightarrow> u64 \<Rightarrow> EntryType \<times> bytes \<Rightarrow> u64" where
  "entry_size C n e =
     (case entry_index C e of
        Some x \<Rightarrow> if bi_file_number x = n then bh_size (bi_blob_handle x) else 0
      | None \<Rightarrow> 0)"

definition refers_to :: "coding \<Rightarrow> u64 \<Rightarrow> EntryType \<times> bytes \<Rightarrow> bool" where
  "refers_to C n e = (case entry_index C e of Some x \<Rightarrow> bi_file_number x = n | None \<Rightarrow> False)"

lemma AddUserKey_size:
  assumes "AddUserKey C val ty sizes = (OK, rest, sizes')"
  shows "map_of sizes' n =
    (if map_of sizes n = None \<and> \<not> refers_to C n (ty, val) then None
     else Some ((case map_of sizes n of None \<Rightarrow> 0 | Some v \<Rightarrow> v) + entry_size C n (ty, val)))"
  using assms
  by (auto simp: AddUserKey_def refers_to_def entry_size_def entry_index_def amap_simps Let_def
      split: if_splits prod.splits option.splits)

lemma AddUserKey_ok: "AddUserKey C val ty sizes = (s, rest, sizes') \<Longrightarrow> omap_ok sizes \<Longrightarrow> omap_ok sizes'"
  by (auto simp: AddUserKey_def Let_def split: if_splits prod.splits option.splits)

lemma add_entries_ok: "add_entries C es sizes = (s, sizes') \<Longrightarrow> omap_ok sizes \<Longrightarrow> omap_ok sizes'"
  by (induction C es sizes rule: add_entries.induct)
     (auto simp: Let_def AddUserKey_ok split: prod.splits if_splits)

lemma add_entries_size:
  assumes "add_entries C es sizes = (OK, sizes')"
  shows "map_of sizes' n =
    (if map_of sizes n = None \<and> \<not> list_ex (refers_to C n) es then None
     else Some ((case map_of sizes n of None \<Rightarrow> 0 | Some v \<Rightarrow> v) + sum_list (map (entry_size C n) es)))"
  using assms
proof (induction C es sizes rule: add_entries.induct)
  case (2 C ty val es sizes)
  then obtain rest sizes1 where a: "AddUserKey C val ty sizes = (OK, rest, sizes1)"
    and r: "add_entries C es sizes1 = (OK, sizes')"
    by (auto simp: Let_def split: prod.splits if_splits)
  have "entry_size C n (ty, val) = 0" if "\<not> refers_to C n (ty, val)"
    using that by (auto simp: refers_to_def entry_size_def split: option.splits)
  with 2(1) [of "(OK, rest, sizes1)" OK "(rest, sizes1)" rest sizes1] a r
  show ?case by (auto simp: AddUserKey_size [OF a, of n] add.assoc)
qed (auto split: option.splits)

context coding_laws
begin

lemma decode_sizes_encoded:
  assumes "omap_ok (sizes0 @ sizes)"
  shows "decode_sizes C (length sizes)
      (concat (map (\<lambda>p. PutVarint64 C (fst p) @ PutVarint64 C (snd p)) sizes) @ r) sizes0
    = (True, r, sizes0 @ sizes)"
  using assms
proof (induction sizes arbitrary: sizes0)
  case (Cons p sizes)
  have "omap_set (fst p) (snd p) sizes0 = sizes0 @ [p]"
    using Cons.prems by (subst omap_set_last) (auto simp: sorted_wrt_append)
  with Cons.IH [of "sizes0 @ [p]"] Cons.prems show ?case by simp
qed simp

lemma collector_roundtrip:
  assumes "omap_ok sizes" and "length sizes < 2 ^ 32"
  shows "Collector_Decode C (snd (Collector_Encode C sizes []) @ r) [] = (True, r, sizes)"
proof -
  have "unat (of_nat (length sizes) :: u32) = length sizes"
    using assms(2) by (simp add: unat_of_nat)
  with decode_sizes_encoded [of "[]" sizes r] assms(1) show ?thesis
    by (simp add: Collector_Decode_def Collector_Encode_def)
qed

end

text \<open>
  C29. A table's property names every blob file its entries refer to, with the sum of the
  record sizes: when the collector accepted all entries, decoding the property gives a map
  that has a file exactly when some entry refers to it, with the total size of the records
  referred to. A table without references gets no property.
\<close>

theorem table_property_counts_references:
  assumes "coding_laws C" and "add_entries C es new_BlobFileSizeCollector = (OK, sizes)"
    and "length sizes < 2 ^ 32" and "map_of props kPropertiesName = None"
  shows "\<exists>props'. Collector_Finish nd C sizes props = Some (OK, props') \<and>
    (\<forall>n. map_of sizes n =
      (if list_ex (refers_to C n) es then Some (sum_list (map (entry_size C n) es)) else None)) \<and>
    (case map_of props' kPropertiesName of
       None \<Rightarrow> sizes = []
     | Some p \<Rightarrow> Collector_Decode C p [] = (True, [], sizes))"
proof -
  have ok: "omap_ok sizes" using add_entries_ok [OF assms(2)] by (simp add: new_BlobFileSizeCollector_def)
  have size: "map_of sizes n =
      (if list_ex (refers_to C n) es then Some (sum_list (map (entry_size C n) es)) else None)" for n
    using add_entries_size [OF assms(2), of n] by (simp add: new_BlobFileSizeCollector_def)
  have r: "Collector_Decode C (snd (Collector_Encode C sizes [])) [] = (True, [], sizes)"
    using coding_laws.collector_roundtrip [OF assms(1) ok assms(3), of "[]"] by simp
  have ne: "snd (Collector_Encode C sizes []) \<noteq> []"
    using coding_laws.varint32_nonempty [OF assms(1)] by (simp add: Collector_Encode_def)
  show ?thesis
  proof (cases "sizes = []")
    case True
    with size assms(4) show ?thesis by (simp add: Collector_Finish_def)
  next
    case False
    then have "Collector_Finish nd C sizes props
        = Some (OK, amap_emplace kPropertiesName (snd (Collector_Encode C sizes [])) props)"
      using ne by (simp add: Collector_Finish_def Collector_Encode_def)
    with size r assms(4) show ?thesis by (auto simp: amap_simps)
  qed
qed

definition sample_entries :: "(EntryType \<times> bytes) list" where
  "sample_entries =
     [(kEntryBlobIndex, BlobIndex_EncodeTo leb128 \<lparr>bi_file_number = 7, bi_blob_handle = \<lparr>bh_offset = 8, bh_size = 20\<rparr>\<rparr>),
      (kEntryPut, [1, 2, 3]),
      (kEntryBlobIndex, BlobIndex_EncodeTo leb128 \<lparr>bi_file_number = 3, bi_blob_handle = \<lparr>bh_offset = 8, bh_size = 5\<rparr>\<rparr>),
      (kEntryBlobIndex, BlobIndex_EncodeTo leb128 \<lparr>bi_file_number = 7, bi_blob_handle = \<lparr>bh_offset = 28, bh_size = 22\<rparr>\<rparr>)]"

lemma table_property_counts_references_witness:
  "\<exists>props'. add_entries leb128 sample_entries new_BlobFileSizeCollector = (OK, [(3, 5), (7, 42)])
    \<and> Collector_Finish False leb128 [(3, 5), (7, 42)] [] = Some (OK, props')
    \<and> (case map_of props' kPropertiesName of None \<Rightarrow> False
       | Some p \<Rightarrow> Collector_Decode leb128 p [] = (True, [], [(3, 5), (7, 42)]))"
proof -
  have a: "add_entries leb128 sample_entries new_BlobFileSizeCollector = (OK, [(3, 5), (7, 42)])"
    by code_simp
  from table_property_counts_references [OF coding_laws_leb128 a, of "[]" False] a show ?thesis
    by (auto split: option.splits)
qed

end
