(* ===== verification/Titan_DB.thy ===== *)
theory Titan_DB
  imports Foreground_Builder Blob_File_Set Table_Props Blob_GC Size_Collector
begin

text \<open>
  The state of \<open>TitanDBImpl\<close> (\<open>src/db_impl.h\<close>) and its file manager (\<open>src/db_impl.cc\<close>). The
  base database and the file system below the blob files are parameters. The blob file
  set, the statistics and the cache of readers are one state, \<open>db_bfs\<close>; the mutex is held
  for every operation the model takes as one step. \<open>db_base\<close> is the base database on its
  disk; \<open>db_open\<close> says whether \<open>db_\<close> points to it. A writer owns the bytes of its file
  until it is closed; \<open>bf_publish\<close> is the file system with the bytes of a closed writer.
\<close>

section \<open>The parameters\<close>

record ('e, 'w, 'f) blob_fs =
  bf_BlobFileName :: "string \<Rightarrow> u64 \<Rightarrow> string"
  bf_DescriptorFileName :: "string \<Rightarrow> u64 \<Rightarrow> string"
  bf_CreateDirIfMissing :: "string \<Rightarrow> 'e \<Rightarrow> status \<times> 'e"
  bf_CreateLogger :: "string \<Rightarrow> 'e \<Rightarrow> status \<times> 'e"
  bf_LockFile :: "string \<Rightarrow> 'e \<Rightarrow> status \<times> 'e"
  bf_UnlockFile :: "'e \<Rightarrow> 'e"
  bf_NewWritableFile :: "string \<Rightarrow> 'e \<Rightarrow> (status + 'w) \<times> 'e"
  bf_publish :: "u64 \<Rightarrow> 'w \<Rightarrow> 'e \<Rightarrow> 'e"
  bf_open :: "'e \<Rightarrow> u64 \<Rightarrow> status + 'f"
  bf_DeleteFile :: "string \<Rightarrow> 'e \<Rightarrow> status \<times> 'e"
  bf_iostats :: "'e \<Rightarrow> (u64 \<times> u64) option"

text \<open>What the events of the base database carry, and a table file of a level.\<close>

record FlushJobInfo =
  fj_cf_id :: u32
  fj_user_collected_properties :: "(string \<times> bytes) list"

record CompactionJobInfo =
  cj_status :: status
  cj_cf_id :: u32
  cj_input_files :: "string list"
  cj_output_files :: "string list"
  cj_output_level :: int
  cj_table_properties :: "(string \<times> (string \<times> bytes) list) list"

record sst_file =
  sf_name :: string
  sf_being_compacted :: bool
  sf_largest_user_key :: bytes
  sf_properties :: "status \<times> (string \<times> bytes) list option"

record ('d, 'v) base_db =
  bd_Open :: "bool \<Rightarrow> string list \<Rightarrow> 'd \<Rightarrow> status \<times> u32 list \<times> 'd"
  bd_Close :: "'d \<Rightarrow> status \<times> 'd"
  bd_CompactFiles :: "u32 \<Rightarrow> string list \<Rightarrow> int \<Rightarrow> 'd \<Rightarrow> status \<times> CompactionJobInfo \<times> 'd"
  bd_num_non_empty_levels :: "u32 \<Rightarrow> 'd \<Rightarrow> nat"
  bd_num_levels :: "u32 \<Rightarrow> 'd \<Rightarrow> nat"
  bd_LevelFiles_empty :: "u32 \<Rightarrow> nat \<Rightarrow> 'd \<Rightarrow> bool"
  bd_OverlapInLevel :: "u32 \<Rightarrow> nat \<Rightarrow> bytes option \<times> bytes option \<Rightarrow> 'd \<Rightarrow> bool"
  bd_GetCleanInputs :: "u32 \<Rightarrow> nat \<Rightarrow> bytes option \<times> bytes option \<Rightarrow> 'd \<Rightarrow> sst_file list"
  bd_GetImpl :: "u64 \<Rightarrow> u32 \<Rightarrow> bytes \<Rightarrow> 'd \<Rightarrow> status \<times> bytes \<times> bool"
  bd_Write :: "'v \<Rightarrow> 'd \<Rightarrow> status \<times> 'd"
  bd_Put :: "u32 \<Rightarrow> bytes \<Rightarrow> bytes \<Rightarrow> 'd \<Rightarrow> status \<times> 'd"
  bd_Delete :: "u32 \<Rightarrow> bytes \<Rightarrow> 'd \<Rightarrow> status \<times> 'd"
  bd_Flush :: "u32 \<Rightarrow> 'd \<Rightarrow> status \<times> 'd"
  bd_CompactRange :: "u32 \<Rightarrow> bytes option \<Rightarrow> bytes option \<Rightarrow> 'd \<Rightarrow> status \<times> 'd"
  bd_IngestExternalFile :: "u32 \<Rightarrow> string list \<Rightarrow> 'd \<Rightarrow> status \<times> 'd"
  bd_GetSnapshot :: "'d \<Rightarrow> u64 \<times> 'd"
  bd_ReleaseSnapshot :: "u64 \<Rightarrow> 'd \<Rightarrow> 'd"
  bd_oldest_snapshot :: "'d \<Rightarrow> u64 option"
  bd_GetLatestSequenceNumber :: "'d \<Rightarrow> u64"
  bd_IsDropped :: "u32 \<Rightarrow> 'd \<Rightarrow> bool"
  bd_GetColumnFamilyHandle :: "u32 \<Rightarrow> 'd \<Rightarrow> u32 option"
  bd_CreateColumnFamilies :: "string list \<Rightarrow> 'd \<Rightarrow> status \<times> u32 list \<times> 'd"
  bd_DropColumnFamilies :: "u32 list \<Rightarrow> 'd \<Rightarrow> status \<times> 'd"
  bd_DestroyColumnFamilyHandle :: "u32 \<Rightarrow> 'd \<Rightarrow> status \<times> 'd"
  bd_SetOptions :: "u32 \<Rightarrow> (string \<times> string) list \<Rightarrow> 'd \<Rightarrow> status \<times> 'd"
  bd_GetProperty :: "u32 \<Rightarrow> string \<Rightarrow> 'd \<Rightarrow> string option"
  bd_GetIntProperty :: "u32 \<Rightarrow> string \<Rightarrow> 'd \<Rightarrow> u64 option"
  bd_DeleteFilesInRanges :: "u32 \<Rightarrow> (bytes option \<times> bytes option) list \<Rightarrow> bool \<Rightarrow> 'd \<Rightarrow> status \<times> 'd"
  bd_OnBackgroundError :: "status \<Rightarrow> status"

text \<open>
  Everything outside the repository in one record. \<open>te_page\<close> is RocksDB's page size and
  \<open>te_uninit\<close> what an uninitialised variable holds.
\<close>

record ('e, 'k, 'f, 'w, 'c, 'd, 'v) titan_env =
  te_rocks :: "('w, 'f, 'k, 'c) rocks"
  te_manifest :: "'e manifest_fs"
  te_fs :: "('e, 'w, 'f) blob_fs"
  te_base :: "('d, 'v) base_db"
  te_batch :: "'v batch_ops"
  te_hash :: "bytes \<Rightarrow> u64"
  te_page :: u64
  te_uninit :: u64

section \<open>State\<close>

record TitanColumnFamilyInfo =
  ci_name :: string
  ci_immutable_cf_options :: ImmutableTitanCFOptions
  ci_mutable_cf_options :: MutableTitanCFOptions
  ci_titan_table_factory :: TitanTableFactory

record ('e, 'k, 'f, 'w, 'c, 'd) TitanDBImpl =
  db_dbname :: string
  db_dirname :: string
  db_options :: TitanDBOptions
  db_bfs :: "('e, 'k, 'f) BlobFileSet"
  db_blob_cache :: 'c
  db_base :: 'd
  db_open :: bool
  db_locked :: bool
  db_bg_error :: status
  db_has_bg_error :: bool
  db_cf_info :: "(u32 \<times> TitanColumnFamilyInfo) list"
  db_builders :: "(u32 \<times> 'w ForegroundBuilder) list"
  db_thread_purge_obsolete :: bool
  db_thread_dump_stats :: bool
  db_pending_outputs :: "u64 list"
  db_gc_queue :: "u32 list"
  db_bg_gc_scheduled :: int
  db_bg_gc_running :: int
  db_unscheduled_gc :: int
  db_drop_cf_requests :: int
  db_env_jobs :: nat
  db_shuting_down :: bool
  db_block_for_size :: bool

text \<open>
  The blob file set is made in \<open>Open\<close>; here it is an argument, as is the disk of the base
  database. A directory name that is not
  set becomes a subdirectory of the database.
\<close>

definition new_TitanDBImpl ::
    "TitanDBOptions \<Rightarrow> string \<Rightarrow> ('e, 'k, 'f) BlobFileSet \<Rightarrow> 'c \<Rightarrow> 'd \<Rightarrow> ('e, 'k, 'f, 'w, 'c, 'd) TitanDBImpl" where
  "new_TitanDBImpl options dbname bfs c d =
     (let opts = (if dirname options = '''' then options\<lparr>dirname := dbname @ ''/titandb''\<rparr> else options)
      in \<lparr>db_dbname = dbname, db_dirname = dirname opts, db_options = opts, db_bfs = bfs, db_blob_cache = c,
          db_base = d, db_open = False, db_locked = False, db_bg_error = OK, db_has_bg_error = False, db_cf_info = [], db_builders = [],
          db_thread_purge_obsolete = False, db_thread_dump_stats = False,
          db_pending_outputs = [], db_gc_queue = [], db_bg_gc_scheduled = 0, db_bg_gc_running = 0,
          db_unscheduled_gc = 0, db_drop_cf_requests = 0, db_env_jobs = 0, db_shuting_down = False,
          db_block_for_size = False\<rparr>)"

definition StartBackgroundTasks :: "('e, 'k, 'f, 'w, 'c, 'd) TitanDBImpl \<Rightarrow> ('e, 'k, 'f, 'w, 'c, 'd) TitanDBImpl" where
  "StartBackgroundTasks db =
     db\<lparr>db_thread_purge_obsolete :=
          (db_thread_purge_obsolete db \<or> purge_obsolete_files_period_sec (db_options db) > 0),
        db_thread_dump_stats :=
          (db_thread_dump_stats db \<or> titan_stats_dump_period_sec (db_options db) > 0)\<rparr>"

section \<open>Background errors\<close>

definition SetBGError ::
    "('d, 'v) base_db \<Rightarrow> status \<Rightarrow> ('e, 'k, 'f, 'w, 'c, 'd) TitanDBImpl \<Rightarrow> status \<times> ('e, 'k, 'f, 'w, 'c, 'd) TitanDBImpl" where
  "SetBGError D s db =
     (if IsOk s then (s, db)
      else let bg_err = bd_OnBackgroundError D s
           in (bg_err, if \<not> IsOk bg_err then db\<lparr>db_bg_error := bg_err, db_has_bg_error := True\<rparr> else db))"

definition GetBGError :: "('e, 'k, 'f, 'w, 'c, 'd) TitanDBImpl \<Rightarrow> status" where
  "GetBGError db = db_bg_error db"

definition HasBGError :: "('e, 'k, 'f, 'w, 'c, 'd) TitanDBImpl \<Rightarrow> bool" where
  "HasBGError db = db_has_bg_error db"

section \<open>The file manager\<close>

definition db_env :: "('e, 'k, 'f, 'w, 'c, 'd) TitanDBImpl \<Rightarrow> 'e" where
  "db_env db = bfs_env (db_bfs db)"

definition put_env :: "'e \<Rightarrow> ('e, 'k, 'f, 'w, 'c, 'd) TitanDBImpl \<Rightarrow> ('e, 'k, 'f, 'w, 'c, 'd) TitanDBImpl" where
  "put_env e db = db\<lparr>db_bfs := (db_bfs db)\<lparr>bfs_env := e\<rparr>\<rparr>"

definition db_LogAndApply ::
    "('e, 'k, 'f, 'w, 'c, 'd, 'v) titan_env \<Rightarrow> VersionEdit \<Rightarrow> ('e, 'k, 'f, 'w, 'c, 'd) TitanDBImpl
     \<Rightarrow> (status \<times> ('e, 'k, 'f, 'w, 'c, 'd) TitanDBImpl) option" where
  "db_LogAndApply T edit db = do {
     (s, bfs) \<leftarrow> LogAndApply (rk_nd (te_rocks T)) (rk_C (te_rocks T)) (rk_cmps (te_rocks T)) (te_manifest T) edit (db_bfs db);
     Some (s, db\<lparr>db_bfs := bfs\<rparr>)
   }"

definition FM_NewFile ::
    "('e, 'w, 'f) blob_fs \<Rightarrow> ('e, 'k, 'f, 'w, 'c, 'd) TitanDBImpl
     \<Rightarrow> status \<times> 'w BlobFileHandle option \<times> ('e, 'k, 'f, 'w, 'c, 'd) TitanDBImpl" where
  "FM_NewFile E db =
     (let (number, bfs) = NewFileNumber (db_bfs db);
          name = bf_BlobFileName E (db_dirname db) number;
          db = db\<lparr>db_bfs := bfs\<rparr>;
          (r, env) = bf_NewWritableFile E name (db_env db);
          db = put_env env db
      in case r of
           Inl s \<Rightarrow> (s, None, db)
         | Inr f \<Rightarrow> (OK, Some \<lparr>fh_number = number, fh_name = name, fh_file = f\<rparr>,
                     db\<lparr>db_pending_outputs := List.insert number (db_pending_outputs db)\<rparr>))"

text \<open>The files are synced and closed one after the other, up to the first error.\<close>

fun close_files :: "'w wfile \<Rightarrow> 'w finished_files \<Rightarrow> status \<times> (u64 \<times> 'w) list" where
  "close_files W [] = (OK, [])"
| "close_files W ((m, h) # fs) =
     (let (s, f) = wf_Sync W (fh_file h);
          (s, f) = (if IsOk s then wf_Close W f else (s, f))
      in if \<not> IsOk s then (s, [])
         else let (s', cs) = close_files W fs in (s', (fh_number h, f) # cs))"

definition FM_BatchFinishFiles ::
    "('e, 'k, 'f, 'w, 'c, 'd, 'v) titan_env \<Rightarrow> u32 \<Rightarrow> 'w finished_files \<Rightarrow> ('e, 'k, 'f, 'w, 'c, 'd) TitanDBImpl
     \<Rightarrow> (status \<times> ('e, 'k, 'f, 'w, 'c, 'd) TitanDBImpl) option" where
  "FM_BatchFinishFiles T cf files db =
     (let (s, closed) = close_files (rk_W (te_rocks T)) files;
          db = put_env (fold (\<lambda>(n, f). bf_publish (te_fs T) n f) closed (db_env db)) db
      in if \<not> IsOk s then Some (s, db)
         else do {
           let edit = fold (\<lambda>(m, h). VersionEdit_AddBlobFile m) files (SetColumnFamilyID cf new_VersionEdit);
           (s, db) \<leftarrow> db_LogAndApply T edit db;
           let db = (if IsOk s then db else snd (SetBGError (te_base T) s db));
           Some (s, db\<lparr>db_pending_outputs := filter (\<lambda>n. n \<notin> fh_number ` snd ` set files) (db_pending_outputs db)\<rparr>)
         })"

fun delete_handles ::
    "('e, 'w, 'f) blob_fs \<Rightarrow> 'w BlobFileHandle list \<Rightarrow> status \<Rightarrow> 'e \<Rightarrow> status \<times> 'e" where
  "delete_handles E [] s e = (s, e)"
| "delete_handles E (h # hs) s e = (let (s, e) = bf_DeleteFile E (fh_name h) e in delete_handles E hs s e)"

definition FM_BatchDeleteFiles ::
    "('e, 'w, 'f) blob_fs \<Rightarrow> 'w BlobFileHandle list \<Rightarrow> ('e, 'k, 'f, 'w, 'c, 'd) TitanDBImpl
     \<Rightarrow> (status \<times> ('e, 'k, 'f, 'w, 'c, 'd) TitanDBImpl) option" where
  "FM_BatchDeleteFiles E handles db =
     (let (s, e) = delete_handles E handles OK (db_env db); db = put_env e db
      in Some (s, db\<lparr>db_pending_outputs := filter (\<lambda>n. n \<notin> fh_number ` set handles) (db_pending_outputs db)\<rparr>))"

text \<open>The database as the world of its builders.\<close>

definition db_world ::
    "('e, 'k, 'f, 'w, 'c, 'd, 'v) titan_env \<Rightarrow> (('e, 'k, 'f, 'w, 'c, 'd) TitanDBImpl, 'w, 'f, 'k, 'c) world" where
  "db_world T =
     \<lparr>w_NewFile = FM_NewFile (te_fs T), w_BatchFinishFiles = FM_BatchFinishFiles T,
      w_BatchDeleteFiles = FM_BatchDeleteFiles (te_fs T),
      w_storage = (\<lambda>cf db. GetBlobStorage cf (db_bfs db)),
      w_put_storage = (\<lambda>cf bs db. db\<lparr>db_bfs := set_storage cf bs (db_bfs db)\<rparr>),
      w_stats = (\<lambda>db. bfs_stats (db_bfs db)), w_put_stats = (\<lambda>st db. db\<lparr>db_bfs := (db_bfs db)\<lparr>bfs_stats := st\<rparr>\<rparr>),
      w_readers = (\<lambda>db. bfs_file_cache (db_bfs db)),
      w_put_readers = (\<lambda>k db. db\<lparr>db_bfs := (db_bfs db)\<lparr>bfs_file_cache := k\<rparr>\<rparr>),
      w_blobs = db_blob_cache, w_put_blobs = (\<lambda>c db. db\<lparr>db_blob_cache := c\<rparr>),
      w_open = (\<lambda>db. bf_open (te_fs T) (db_env db)), w_iostats = (\<lambda>db. bf_iostats (te_fs T) (db_env db))\<rparr>"

end
