(* ===== verification/DB_Ops.thy ===== *)
theory DB_Ops
  imports Titan_DB "HOL-Library.List_Lexorder" "HOL-Library.Char_ord"
begin

text \<open>
  The operations of \<open>TitanDBImpl\<close> that a client calls: opening and closing, column
  families, writing, reading, options, properties and the purge of obsolete files
  (\<open>src/db_impl.cc\<close>, \<open>src/db_impl.h\<close> and \<open>src/db_impl_files.cc\<close>). An operation that waits
  on a condition variable returns \<open>Waits\<close> with the state in which it waits; the caller
  continues it when the condition is signalled.
\<close>

datatype ('s, 'a) outcome = Waits 's | Done 'a

section \<open>Scheduling\<close>

definition AddToGCQueue ::
    "u32 \<Rightarrow> ('e, 'k, 'f, 'w, 'c, 'd) TitanDBImpl \<Rightarrow> ('e, 'k, 'f, 'w, 'c, 'd) TitanDBImpl" where
  "AddToGCQueue cf db =
     db\<lparr>db_unscheduled_gc := db_unscheduled_gc db + 1, db_gc_queue := db_gc_queue db @ [cf]\<rparr>"

definition PopFirstFromGCQueue ::
    "('e, 'k, 'f, 'w, 'c, 'd) TitanDBImpl \<Rightarrow> (u32 \<times> ('e, 'k, 'f, 'w, 'c, 'd) TitanDBImpl) option" where
  "PopFirstFromGCQueue db =
     (case db_gc_queue db of
        [] \<Rightarrow> None
      | cf # q \<Rightarrow> Some (cf, db\<lparr>db_gc_queue := q\<rparr>))"

text \<open>The loop of \<open>MaybeScheduleGC\<close>, on the counters and the number of scheduled jobs.\<close>

function schedule_jobs :: "int \<Rightarrow> int \<times> int \<times> nat \<Rightarrow> int \<times> int \<times> nat" where
  "schedule_jobs m (unscheduled, scheduled, jobs) =
     (if unscheduled > 0 \<and> scheduled < m then schedule_jobs m (unscheduled - 1, scheduled + 1, Suc jobs)
      else (unscheduled, scheduled, jobs))"
  by pat_completeness auto
termination
  by (relation "measure (\<lambda>(m, u, s, j). nat u)") auto

declare schedule_jobs.simps [simp del]

definition MaybeScheduleGC ::
    "('e, 'k, 'f, 'w, 'c, 'd) TitanDBImpl \<Rightarrow> ('e, 'k, 'f, 'w, 'c, 'd) TitanDBImpl" where
  "MaybeScheduleGC db =
     (if disable_background_gc (db_options db) \<or> db_shuting_down db then db
      else let (u, s, j) = schedule_jobs (max_background_gc (db_options db))
                 (db_unscheduled_gc db, db_bg_gc_scheduled db, db_env_jobs db)
           in db\<lparr>db_unscheduled_gc := u, db_bg_gc_scheduled := s, db_env_jobs := j\<rparr>)"

section \<open>Writing\<close>

definition on_base ::
    "('d \<Rightarrow> status \<times> 'd) \<Rightarrow> ('e, 'k, 'f, 'w, 'c, 'd) TitanDBImpl
     \<Rightarrow> (status \<times> ('e, 'k, 'f, 'w, 'c, 'd) TitanDBImpl) option" where
  "on_base f db =
     (if \<not> db_open db then None
      else let (s, d) = f (db_base db) in Some (s, db\<lparr>db_base := d\<rparr>))"

definition unless_bg_error ::
    "('d \<Rightarrow> status \<times> 'd) \<Rightarrow> ('e, 'k, 'f, 'w, 'c, 'd) TitanDBImpl
     \<Rightarrow> (status \<times> ('e, 'k, 'f, 'w, 'c, 'd) TitanDBImpl) option" where
  "unless_bg_error f db = (if HasBGError db then Some (GetBGError db, db) else on_base f db)"

definition Titan_Write where
  "Titan_Write D batch db = unless_bg_error (bd_Write D batch) db"

definition Titan_Delete where
  "Titan_Delete D cf key db = unless_bg_error (bd_Delete D cf key) db"

definition Titan_IngestExternalFile where
  "Titan_IngestExternalFile D cf files db = unless_bg_error (bd_IngestExternalFile D cf files) db"

definition Titan_CompactRange where
  "Titan_CompactRange D cf b e db = unless_bg_error (bd_CompactRange D cf b e) db"

definition Titan_Flush where
  "Titan_Flush D cf db = unless_bg_error (bd_Flush D cf) db"

text \<open>
  While writes are blocked by the size of the blob files, \<open>Put\<close> asks for a collection and
  waits. A builder that is not in the map is made by the default constructor and has no
  worker to serve the request.
\<close>

definition builder_at ::
    "('e, 'k, 'f, 'w, 'c, 'd, 'v) titan_env \<Rightarrow> u32 \<Rightarrow> ('e, 'k, 'f, 'w, 'c, 'd) TitanDBImpl \<Rightarrow> 'w ForegroundBuilder" where
  "builder_at T cf db =
     (case map_of (db_builders db) cf of Some fb \<Rightarrow> fb | None \<Rightarrow> default_ForegroundBuilder (rk_L (te_rocks T)))"

definition put_asks_for_gc ::
    "u32 \<Rightarrow> ('e, 'k, 'f, 'w, 'c, 'd) TitanDBImpl \<Rightarrow> ('e, 'k, 'f, 'w, 'c, 'd) TitanDBImpl option" where
  "put_asks_for_gc cf db = do {
     bs \<leftarrow> GetBlobStorage cf (db_bfs db);
     (_, bs) \<leftarrow> ComputeGCScore bs;
     Some (MaybeScheduleGC (AddToGCQueue cf (db\<lparr>db_bfs := set_storage cf bs (db_bfs db)\<rparr>)))
   }"

definition put_separated ::
    "('e, 'k, 'f, 'w, 'c, 'd, 'v) titan_env \<Rightarrow> u32 \<Rightarrow> bytes \<Rightarrow> bytes \<Rightarrow> ('e, 'k, 'f, 'w, 'c, 'd) TitanDBImpl
     \<Rightarrow> (status \<times> ('e, 'k, 'f, 'w, 'c, 'd) TitanDBImpl) option" where
  "put_separated T cf key val db = do {
     (s, wb, fb, db) \<leftarrow> FB_Add (te_rocks T) (db_world T) (te_batch T) (te_hash T) key val (wb_empty (te_batch T))
        (builder_at T cf db) db;
     let db = db\<lparr>db_builders := amap_set cf fb (db_builders db)\<rparr>;
     if IsOk s then on_base (bd_Write (te_base T) wb) db
     else on_base (bd_Put (te_base T) cf key val) db
   }"

definition put_loop ::
    "('e, 'k, 'f, 'w, 'c, 'd, 'v) titan_env \<Rightarrow> u32 \<Rightarrow> bytes \<Rightarrow> bytes \<Rightarrow> ('e, 'k, 'f, 'w, 'c, 'd) TitanDBImpl
     \<Rightarrow> (('e, 'k, 'f, 'w, 'c, 'd) TitanDBImpl, status \<times> ('e, 'k, 'f, 'w, 'c, 'd) TitanDBImpl) outcome option" where
  "put_loop T cf key val db =
     (if block_write_size (db_options db) > 0 \<and> db_block_for_size db
      then map_option Waits (put_asks_for_gc cf db)
      else map_option Done
        (if sep_before_flush (db_options db) then put_separated T cf key val db
         else on_base (bd_Put (te_base T) cf key val) db))"

definition Titan_Put ::
    "('e, 'k, 'f, 'w, 'c, 'd, 'v) titan_env \<Rightarrow> u32 \<Rightarrow> bytes \<Rightarrow> bytes \<Rightarrow> ('e, 'k, 'f, 'w, 'c, 'd) TitanDBImpl
     \<Rightarrow> (('e, 'k, 'f, 'w, 'c, 'd) TitanDBImpl, status \<times> ('e, 'k, 'f, 'w, 'c, 'd) TitanDBImpl) outcome option" where
  "Titan_Put T cf key val db =
     (if HasBGError db then Some (Done (GetBGError db, db)) else put_loop T cf key val db)"

section \<open>Reading\<close>

text \<open>
  The value of a record that was read from a file still being built points to memory that
  is gone, and copying it is undefined.
\<close>

definition Titan_GetImpl ::
    "('e, 'k, 'f, 'w, 'c, 'd, 'v) titan_env \<Rightarrow> u64 \<Rightarrow> u32 \<Rightarrow> bytes \<Rightarrow> ('e, 'k, 'f, 'w, 'c, 'd) TitanDBImpl
     \<Rightarrow> (status \<times> bytes \<times> ('e, 'k, 'f, 'w, 'c, 'd) TitanDBImpl) option" where
  "Titan_GetImpl T snapshot cf key db =
     (if \<not> db_open db then None
      else let (s, val, is_blob_index) = bd_GetImpl (te_base T) snapshot cf key (db_base db) in
        if \<not> IsOk s \<or> \<not> is_blob_index then Some (s, val, db)
        else do {
          let (s, index, rest) = BlobIndex_DecodeFrom (rk_C (te_rocks T)) empty_BlobIndex val;
          cpp_assert (rk_nd (te_rocks T)) (IsOk s);
          if \<not> IsOk s then Some (s, rest, db)
          else case GetBlobStorage cf (db_bfs db) of
            None \<Rightarrow> Some (NotFound (''Column family id: '' @ to_string cf @ '' not Found.''), rest, db)
          | Some bs \<Rightarrow> do {
              (s, rec, alive, db) \<leftarrow> world_Get (te_rocks T) (db_world T) index empty_BlobRecord bs db;
              if \<not> IsOk s then Some (s, rest, db)
              else if \<not> alive then None
              else Some (s, r_value rec, db)
            }
        })"

definition Titan_Get ::
    "('e, 'k, 'f, 'w, 'c, 'd, 'v) titan_env \<Rightarrow> u64 option \<Rightarrow> u32 \<Rightarrow> bytes \<Rightarrow> ('e, 'k, 'f, 'w, 'c, 'd) TitanDBImpl
     \<Rightarrow> (status \<times> bytes \<times> ('e, 'k, 'f, 'w, 'c, 'd) TitanDBImpl) option" where
  "Titan_Get T snapshot cf key db =
     (case snapshot of
        Some sq \<Rightarrow> Titan_GetImpl T sq cf key db
      | None \<Rightarrow> do {
          let (sq, d) = bd_GetSnapshot (te_base T) (db_base db);
          (s, val, db) \<leftarrow> Titan_GetImpl T sq cf key (db\<lparr>db_base := d\<rparr>);
          Some (s, val, db\<lparr>db_base := bd_ReleaseSnapshot (te_base T) sq (db_base db)\<rparr>)
        })"

text \<open>A value of \<open>MultiGet\<close> is specified only where its status is good.\<close>

fun MultiGetImpl ::
    "('e, 'k, 'f, 'w, 'c, 'd, 'v) titan_env \<Rightarrow> u64 \<Rightarrow> u32 list \<Rightarrow> bytes list \<Rightarrow> ('e, 'k, 'f, 'w, 'c, 'd) TitanDBImpl
     \<Rightarrow> ((status \<times> bytes option) list \<times> ('e, 'k, 'f, 'w, 'c, 'd) TitanDBImpl) option" where
  "MultiGetImpl T sq cfs [] db = Some ([], db)"
| "MultiGetImpl T sq [] (key # keys) db = None"
| "MultiGetImpl T sq (cf # cfs) (key # keys) db = do {
     (s, val, db) \<leftarrow> Titan_GetImpl T sq cf key db;
     (rs, db) \<leftarrow> MultiGetImpl T sq cfs keys db;
     Some ((s, if IsOk s then Some val else None) # rs, db)
   }"

definition MultiGet ::
    "('e, 'k, 'f, 'w, 'c, 'd, 'v) titan_env \<Rightarrow> u64 option \<Rightarrow> u32 list \<Rightarrow> bytes list \<Rightarrow> ('e, 'k, 'f, 'w, 'c, 'd) TitanDBImpl
     \<Rightarrow> ((status \<times> bytes option) list \<times> ('e, 'k, 'f, 'w, 'c, 'd) TitanDBImpl) option" where
  "MultiGet T snapshot cfs keys db =
     (case snapshot of
        Some sq \<Rightarrow> MultiGetImpl T sq cfs keys db
      | None \<Rightarrow> do {
          let (sq, d) = bd_GetSnapshot (te_base T) (db_base db);
          (rs, db) \<leftarrow> MultiGetImpl T sq cfs keys (db\<lparr>db_base := d\<rparr>);
          Some (rs, db\<lparr>db_base := bd_ReleaseSnapshot (te_base T) sq (db_base db)\<rparr>)
        })"

definition GetOldestSnapshotSequence :: "('d, 'v) base_db \<Rightarrow> ('e, 'k, 'f, 'w, 'c, 'd) TitanDBImpl \<Rightarrow> u64 option" where
  "GetOldestSnapshotSequence D db =
     (if \<not> db_open db then None
      else Some (case bd_oldest_snapshot D (db_base db) of Some sq \<Rightarrow> sq | None \<Rightarrow> kMaxSequenceNumber))"

section \<open>Purging obsolete files\<close>

definition obsolete_name :: "('e, 'w, 'f) blob_fs \<Rightarrow> string \<Rightarrow> FileType \<times> u64 \<Rightarrow> string" where
  "obsolete_name E dir f =
     (if fst f = kBlobFile then bf_BlobFileName E dir (snd f) else bf_DescriptorFileName E dir (snd f))"

text \<open>The loop tests the status it would set instead of the status of the deletion.\<close>

fun delete_candidates :: "('e, 'w, 'f) blob_fs \<Rightarrow> string list \<Rightarrow> status \<Rightarrow> 'e \<Rightarrow> status \<times> 'e" where
  "delete_candidates E [] s e = (s, e)"
| "delete_candidates E (name # names) s e =
     (let (delete_status, e) = bf_DeleteFile E name e
      in delete_candidates E names (if \<not> IsOk s then delete_status else s) e)"

definition PurgeObsoleteFilesImpl ::
    "('e, 'k, 'f, 'w, 'c, 'd, 'v) titan_env \<Rightarrow> ('e, 'k, 'f, 'w, 'c, 'd) TitanDBImpl
     \<Rightarrow> (status \<times> ('e, 'k, 'f, 'w, 'c, 'd) TitanDBImpl) option" where
  "PurgeObsoleteFilesImpl T db = do {
     oldest \<leftarrow> GetOldestSnapshotSequence (te_base T) db;
     (files, bfs) \<leftarrow> FileSet_GetObsoleteFiles (rk_nd (te_rocks T)) (rk_cmps (te_rocks T)) (rk_R (te_rocks T)) oldest (db_bfs db);
     let db = db\<lparr>db_bfs := bfs\<rparr>;
     let candidates = remdups_adj (sort (map (obsolete_name (te_fs T) (db_dirname db)) files));
     let (s, e) = delete_candidates (te_fs T) candidates OK (db_env db);
     Some (s, put_env e db)
   }"

definition PurgeObsoleteFiles ::
    "('e, 'k, 'f, 'w, 'c, 'd, 'v) titan_env \<Rightarrow> ('e, 'k, 'f, 'w, 'c, 'd) TitanDBImpl \<Rightarrow> ('e, 'k, 'f, 'w, 'c, 'd) TitanDBImpl option" where
  "PurgeObsoleteFiles T db = do {
     (s, db) \<leftarrow> PurgeObsoleteFilesImpl T db;
     cpp_assert (rk_nd (te_rocks T)) (IsOk s);
     Some db
   }"

section \<open>Opening and closing\<close>

record TitanCFDescriptor =
  cd_name :: string
  cd_options :: TitanCFOptions
  cd_num_levels :: nat

definition ValidateOptions :: "TitanDBOptions \<Rightarrow> TitanCFDescriptor list \<Rightarrow> status" where
  "ValidateOptions options column_families = OK"

definition new_cf_info :: "TitanDBOptions \<Rightarrow> TitanCFDescriptor \<Rightarrow> TitanColumnFamilyInfo" where
  "new_cf_info opts desc =
     \<lparr>ci_name = cd_name desc, ci_immutable_cf_options = new_ImmutableTitanCFOptions (cd_options desc),
      ci_mutable_cf_options = new_MutableTitanCFOptions (cd_options desc),
      ci_titan_table_factory = new_TitanTableFactory opts (cd_options desc) (int (cd_num_levels desc))\<rparr>"

definition cf_descriptors :: "u32 list \<Rightarrow> TitanCFDescriptor list \<Rightarrow> (u32 \<times> TitanCFOptions \<times> nat) list" where
  "cf_descriptors ids descs =
     fold (\<lambda>(cf, desc). omap_emplace cf (cd_options desc, cd_num_levels desc)) (zip ids descs) []"

text \<open>The directories, the log and the lock, up to the first error.\<close>

definition open_directories ::
    "('e, 'w, 'f) blob_fs \<Rightarrow> ('e, 'k, 'f, 'w, 'c, 'd) TitanDBImpl \<Rightarrow> status \<times> ('e, 'k, 'f, 'w, 'c, 'd) TitanDBImpl" where
  "open_directories E db =
     (let (s, e) = bf_CreateDirIfMissing E (db_dbname db) (db_env db) in
      if \<not> IsOk s then (s, put_env e db) else
      let (s, e) = bf_CreateLogger E (db_dbname db) e in
      if \<not> IsOk s then (s, put_env e db) else
      let (s, e) = bf_CreateDirIfMissing E (db_dirname db) e in
      if \<not> IsOk s then (s, put_env e db) else
      let (s, e) = bf_LockFile E (db_dirname db) e
      in (s, (put_env e db)\<lparr>db_locked := IsOk s\<rparr>))"

definition add_foreground_builders ::
    "(u32 \<times> TitanCFOptions \<times> nat) list \<Rightarrow> ('e, 'k, 'f, 'w, 'c, 'd) TitanDBImpl \<Rightarrow> ('e, 'k, 'f, 'w, 'c, 'd) TitanDBImpl" where
  "add_foreground_builders cfs db =
     (if sep_before_flush (db_options db)
      then db\<lparr>db_builders := fold (\<lambda>(cf, opts, _) m.
             amap_update cf FB_Init (amap_emplace cf (new_ForegroundBuilder cf (db_options db) opts) m)) cfs (db_builders db)\<rparr>
      else db)"

text \<open>
  The base database is opened twice: with compactions off to learn the identifiers of the
  column families, and with Titan's table factories once the blob files are recovered. The
  arguments \<open>new_set\<close> and \<open>junk\<close> are the blob file set made on the way and the undefined
  fields of metadata objects.
\<close>

definition Titan_Open ::
    "('e, 'k, 'f, 'w, 'c, 'd, 'v) titan_env \<Rightarrow> ('e \<Rightarrow> TitanDBOptions \<Rightarrow> ('e, 'k, 'f) BlobFileSet) \<Rightarrow> u64 \<times> u32
     \<Rightarrow> TitanCFDescriptor list \<Rightarrow> ('e, 'k, 'f, 'w, 'c, 'd) TitanDBImpl
     \<Rightarrow> (status \<times> u32 list \<times> ('e, 'k, 'f, 'w, 'c, 'd) TitanDBImpl) option" where
  "Titan_Open T new_set junk descs db =
     (let P = te_rocks T; names = map cd_name descs; s = ValidateOptions (db_options db) descs in
      if \<not> IsOk s then Some (s, [], db) else
      let (s, db) = open_directories (te_fs T) db in
      if \<not> IsOk s then Some (s, [], db) else
      let db = db\<lparr>db_bfs := new_set (db_env db) (db_options db)\<rparr>;
          (s, ids, d) = bd_Open (te_base T) True names (db_base db) in
      if \<not> IsOk s then Some (s, [], db\<lparr>db_base := d\<rparr>)
      else if length ids < length descs then None
      else let cfs = cf_descriptors ids descs;
               db = db\<lparr>db_cf_info := fold (\<lambda>(cf, desc). amap_emplace cf (new_cf_info (db_options db) desc))
                         (zip ids descs) (db_cf_info db)\<rparr>;
               (s, d) = bd_Close (te_base T) d;
               db = db\<lparr>db_base := d\<rparr> in
           if \<not> IsOk s then Some (s, [], db)
           else do {
             let bfs = (db_bfs db)\<lparr>bfs_stats := map_option (TitanStats_Initialize cfs) (bfs_stats (db_bfs db))\<rparr>;
             (s, bfs) \<leftarrow> FileSet_Open (rk_nd P) (rk_C P) (rk_cmps P) (te_manifest T) (rk_R P) junk cfs bfs;
             let db = add_foreground_builders cfs (db\<lparr>db_bfs := bfs\<rparr>);
             if \<not> IsOk s then Some (s, [], db)
             else do {
               let (s, ids, d) = bd_Open (te_base T) False names (db_base db);
               Some (s, ids, db\<lparr>db_base := d, db_open := IsOk s\<rparr>)
             }
           })"

text \<open>
  Closing tells the workers to stop, takes back the jobs that have not started, and waits
  until no collection is scheduled.
\<close>

definition close_begin :: "('e, 'k, 'f, 'w, 'c, 'd) TitanDBImpl \<Rightarrow> ('e, 'k, 'f, 'w, 'c, 'd) TitanDBImpl" where
  "close_begin db =
     db\<lparr>db_shuting_down := True, db_block_for_size := False,
        db_bg_gc_scheduled := db_bg_gc_scheduled db - int (db_env_jobs db), db_env_jobs := 0\<rparr>"

definition close_wait ::
    "('e, 'k, 'f, 'w, 'c, 'd) TitanDBImpl
     \<Rightarrow> (('e, 'k, 'f, 'w, 'c, 'd) TitanDBImpl, ('e, 'k, 'f, 'w, 'c, 'd) TitanDBImpl) outcome" where
  "close_wait db =
     (if db_bg_gc_scheduled db > 0 then Waits db else Done (db\<lparr>db_thread_purge_obsolete := False\<rparr>))"

definition CloseImpl ::
    "('e, 'k, 'f, 'w, 'c, 'd) TitanDBImpl
     \<Rightarrow> (('e, 'k, 'f, 'w, 'c, 'd) TitanDBImpl, ('e, 'k, 'f, 'w, 'c, 'd) TitanDBImpl) outcome" where
  "CloseImpl db = close_wait (close_begin db)"

fun finish_builders ::
    "('e, 'k, 'f, 'w, 'c, 'd, 'v) titan_env \<Rightarrow> (u32 \<times> 'w ForegroundBuilder) list \<Rightarrow> ('e, 'k, 'f, 'w, 'c, 'd) TitanDBImpl
     \<Rightarrow> ('e, 'k, 'f, 'w, 'c, 'd) TitanDBImpl option" where
  "finish_builders T [] db = Some db"
| "finish_builders T ((cf, fb) # fbs) db = do {
     (fb, db) \<leftarrow> FB_Finish (te_rocks T) (db_world T) (te_batch T) fb db;
     finish_builders T fbs (db\<lparr>db_builders := amap_set cf fb (db_builders db)\<rparr>)
   }"

definition close_base ::
    "('e, 'k, 'f, 'w, 'c, 'd, 'v) titan_env \<Rightarrow> ('e, 'k, 'f, 'w, 'c, 'd) TitanDBImpl
     \<Rightarrow> (status \<times> ('e, 'k, 'f, 'w, 'c, 'd) TitanDBImpl) option" where
  "close_base T db = do {
     let (s, db) = (if db_open db
                    then (let (s, d) = bd_Close (te_base T) (db_base db) in (s, db\<lparr>db_base := d, db_open := False\<rparr>))
                    else (OK, db));
     db \<leftarrow> finish_builders T (db_builders db) db;
     Some (s, if db_locked db
              then (put_env (bf_UnlockFile (te_fs T) (db_env db)) db)\<lparr>db_locked := False\<rparr> else db)
   }"

text \<open>A close that waits goes on with \<open>close_resume\<close> of \<open>close_wait\<close> when it is signalled.\<close>

definition close_resume ::
    "('e, 'k, 'f, 'w, 'c, 'd, 'v) titan_env
     \<Rightarrow> (('e, 'k, 'f, 'w, 'c, 'd) TitanDBImpl, ('e, 'k, 'f, 'w, 'c, 'd) TitanDBImpl) outcome
     \<Rightarrow> (('e, 'k, 'f, 'w, 'c, 'd) TitanDBImpl, status \<times> ('e, 'k, 'f, 'w, 'c, 'd) TitanDBImpl) outcome option" where
  "close_resume T r =
     (case r of Waits db \<Rightarrow> Some (Waits db) | Done db \<Rightarrow> map_option Done (close_base T db))"

definition Titan_Close ::
    "('e, 'k, 'f, 'w, 'c, 'd, 'v) titan_env \<Rightarrow> ('e, 'k, 'f, 'w, 'c, 'd) TitanDBImpl
     \<Rightarrow> (('e, 'k, 'f, 'w, 'c, 'd) TitanDBImpl, status \<times> ('e, 'k, 'f, 'w, 'c, 'd) TitanDBImpl) outcome option" where
  "Titan_Close T db = do {
     db \<leftarrow> PurgeObsoleteFiles T db;
     close_resume T (CloseImpl db)
   }"

section \<open>Column families\<close>

definition Titan_CreateColumnFamilies ::
    "('e, 'k, 'f, 'w, 'c, 'd, 'v) titan_env \<Rightarrow> TitanCFDescriptor list \<Rightarrow> ('e, 'k, 'f, 'w, 'c, 'd) TitanDBImpl
     \<Rightarrow> (status \<times> u32 list \<times> ('e, 'k, 'f, 'w, 'c, 'd) TitanDBImpl) option" where
  "Titan_CreateColumnFamilies T descs db =
     (if \<not> db_open db then None
      else let (s, ids, d) = bd_CreateColumnFamilies (te_base T) (map cd_name descs) (db_base db); db = db\<lparr>db_base := d\<rparr> in
        do {
          cpp_assert (rk_nd (te_rocks T)) (length ids = length descs);
          if \<not> IsOk s then Some (s, ids, db)
          else if length ids < length descs then None
          else Some (s, ids,
            db\<lparr>db_cf_info := fold (\<lambda>(cf, desc). amap_emplace cf (new_cf_info (db_options db) desc)) (zip ids descs) (db_cf_info db),
               db_bfs := AddColumnFamilies (cf_descriptors ids descs) (db_bfs db)\<rparr>)
        })"

text \<open>
  A request to drop column families holds back collections. It waits for the running ones
  and is taken back only when the base database dropped the families.
\<close>

definition drop_request :: "('e, 'k, 'f, 'w, 'c, 'd) TitanDBImpl \<Rightarrow> ('e, 'k, 'f, 'w, 'c, 'd) TitanDBImpl" where
  "drop_request db = db\<lparr>db_drop_cf_requests := db_drop_cf_requests db + 1\<rparr>"

definition drop_wait ::
    "('e, 'k, 'f, 'w, 'c, 'd, 'v) titan_env \<Rightarrow> u32 list \<Rightarrow> ('e, 'k, 'f, 'w, 'c, 'd) TitanDBImpl
     \<Rightarrow> (('e, 'k, 'f, 'w, 'c, 'd) TitanDBImpl, status \<times> ('e, 'k, 'f, 'w, 'c, 'd) TitanDBImpl) outcome option" where
  "drop_wait T cfs db =
     (if db_bg_gc_running db > 0 then Some (Waits db)
      else if \<not> db_open db then None
      else let P = te_rocks T; (s, d) = bd_DropColumnFamilies (te_base T) cfs (db_base db); db = db\<lparr>db_base := d\<rparr> in
        if \<not> IsOk s then Some (Done (s, db))
        else do {
          (s, bfs) \<leftarrow> DropColumnFamilies (rk_nd P) (rk_C P) (rk_cmps P) (te_manifest T) cfs
             (bd_GetLatestSequenceNumber (te_base T) (db_base db)) (db_bfs db);
          Some (Done (s, db\<lparr>db_bfs := bfs, db_drop_cf_requests := db_drop_cf_requests db - 1\<rparr>))
        })"

definition Titan_DropColumnFamilies ::
    "('e, 'k, 'f, 'w, 'c, 'd, 'v) titan_env \<Rightarrow> u32 list \<Rightarrow> ('e, 'k, 'f, 'w, 'c, 'd) TitanDBImpl
     \<Rightarrow> (('e, 'k, 'f, 'w, 'c, 'd) TitanDBImpl, status \<times> ('e, 'k, 'f, 'w, 'c, 'd) TitanDBImpl) outcome option" where
  "Titan_DropColumnFamilies T cfs db = drop_wait T cfs (drop_request db)"

definition Titan_DestroyColumnFamilyHandle ::
    "('e, 'k, 'f, 'w, 'c, 'd, 'v) titan_env \<Rightarrow> u32 option \<Rightarrow> ('e, 'k, 'f, 'w, 'c, 'd) TitanDBImpl
     \<Rightarrow> (status \<times> ('e, 'k, 'f, 'w, 'c, 'd) TitanDBImpl) option" where
  "Titan_DestroyColumnFamilyHandle T handle db =
     (case handle of
        None \<Rightarrow> Some (InvalidArgument ''Column family handle is nullptr.'', db)
      | Some cf \<Rightarrow> do {
          (s, db) \<leftarrow> on_base (bd_DestroyColumnFamilyHandle (te_base T) cf) db;
          if \<not> IsOk s then Some (s, db)
          else do {
            let (destroy_status, bfs) = MaybeDestroyColumnFamily (rk_R (te_rocks T)) cf (db_bfs db);
            let db = db\<lparr>db_bfs := bfs\<rparr>;
            if \<not> IsOk destroy_status then Some (s, db)
            else do {
              cpp_assert (rk_nd (te_rocks T)) (map_of (db_cf_info db) cf \<noteq> None);
              Some (s, db\<lparr>db_cf_info := amap_erase cf (db_cf_info db)\<rparr>)
            }
          }
        })"

section \<open>Options and properties\<close>

definition set_run_mode :: "TitanBlobRunMode \<Rightarrow> TitanColumnFamilyInfo \<Rightarrow> TitanColumnFamilyInfo" where
  "set_run_mode mode ci =
     ci\<lparr>ci_titan_table_factory := SetBlobRunMode mode (ci_titan_table_factory ci),
        ci_mutable_cf_options := (ci_mutable_cf_options ci)\<lparr>mu_blob_run_mode := mode\<rparr>\<rparr>"

text \<open>Assertions on, the column family must be known; otherwise a lookup makes a new, empty entry.\<close>

definition Titan_SetOptions ::
    "('e, 'k, 'f, 'w, 'c, 'd, 'v) titan_env \<Rightarrow> u32 \<Rightarrow> (string \<times> string) list \<Rightarrow> ('e, 'k, 'f, 'w, 'c, 'd) TitanDBImpl
     \<Rightarrow> (status \<times> ('e, 'k, 'f, 'w, 'c, 'd) TitanDBImpl) option" where
  "Titan_SetOptions T cf new_options db =
     (let p = map_of new_options ''blob_run_mode''; opts = amap_erase ''blob_run_mode'' new_options;
          mode = Option.bind p (map_of blob_run_mode_string_map) in
      if p \<noteq> None \<and> mode = None
      then Some (InvalidArgument (''No blob_run_mode defined for '' @ the p), db)
      else do {
        (s, db) \<leftarrow> (if opts \<noteq> [] then on_base (bd_SetOptions (te_base T) cf opts) db else Some (OK, db));
        if \<not> IsOk s then Some (s, db)
        else case mode of
          None \<Rightarrow> Some (OK, db)
        | Some mode \<Rightarrow> do {
            cpp_assert (rk_nd (te_rocks T)) (map_of (db_cf_info db) cf \<noteq> None);
            ci \<leftarrow> map_of (db_cf_info db) cf;
            Some (OK, db\<lparr>db_cf_info := amap_update cf (\<lambda>_. set_run_mode mode ci) (db_cf_info db)\<rparr>)
          }
      })"

definition GetTitanOptions ::
    "('e, 'k, 'f, 'w, 'c, 'd, 'v) titan_env \<Rightarrow> u32 \<Rightarrow> ('e, 'k, 'f, 'w, 'c, 'd) TitanDBImpl
     \<Rightarrow> (TitanDBOptions \<times> TitanCFOptions) option" where
  "GetTitanOptions T cf db = do {
     ci \<leftarrow> map_of (db_cf_info db) cf;
     Some (db_options db, combine_TitanCFOptions (rk_L (te_rocks T)) (ci_immutable_cf_options ci) (ci_mutable_cf_options ci))
   }"

definition GetTitanDBOptions :: "('e, 'k, 'f, 'w, 'c, 'd) TitanDBImpl \<Rightarrow> TitanDBOptions" where
  "GetTitanDBOptions db = db_options db"

definition Titan_GetProperty ::
    "('d, 'v) base_db \<Rightarrow> u32 \<Rightarrow> string \<Rightarrow> ('e, 'k, 'f, 'w, 'c, 'd) TitanDBImpl \<Rightarrow> string option option" where
  "Titan_GetProperty D cf property db = do {
     states \<leftarrow> FileSet_PrintFileStates (db_bfs db);
     if \<not> db_open db then None else Some (bd_GetProperty D cf property (db_base db))
   }"

definition Titan_GetIntProperty ::
    "('d, 'v) base_db \<Rightarrow> u32 \<Rightarrow> string \<Rightarrow> ('e, 'k, 'f, 'w, 'c, 'd) TitanDBImpl \<Rightarrow> u64 option option" where
  "Titan_GetIntProperty D cf property db =
     (case Option.bind (bfs_stats (db_bfs db)) (\<lambda>st. Option.bind (TitanStats_internal_stats cf st) (Internal_GetIntProperty property)) of
        Some v \<Rightarrow> Some (Some v)
      | None \<Rightarrow> if \<not> db_open db then None else Some (bd_GetIntProperty D cf property (db_base db)))"

text \<open>Dumping writes and resets the operation counters of every known column family.\<close>

definition DumpStats ::
    "('e, 'k, 'f, 'w, 'c, 'd) TitanDBImpl
     \<Rightarrow> (string \<times> (InternalOpType \<times> u64 list) list) list \<times> ('e, 'k, 'f, 'w, 'c, 'd) TitanDBImpl" where
  "DumpStats db =
     (case bfs_stats (db_bfs db) of
        None \<Rightarrow> ([], db)
      | Some st \<Rightarrow>
          (let (lines, st) = fold (\<lambda>(cf, ci) (ls, st).
                 case TitanStats_internal_stats cf st of
                   None \<Rightarrow> (ls, st)
                 | Some t \<Rightarrow> (let (l, t) = DumpAndResetInternalOpStats t
                             in (ls @ [(ci_name ci, l)], amap_update cf (\<lambda>_. t) st)))
               (db_cf_info db) ([], st)
           in (lines, db\<lparr>db_bfs := (db_bfs db)\<lparr>bfs_stats := Some st\<rparr>\<rparr>)))"

section \<open>The database object\<close>

text \<open>\<open>TitanDB::Open\<close>: an object that could not be opened is deleted, which closes it.\<close>

definition delete_TitanDBImpl ::
    "('e, 'k, 'f, 'w, 'c, 'd, 'v) titan_env \<Rightarrow> ('e, 'k, 'f, 'w, 'c, 'd) TitanDBImpl
     \<Rightarrow> (('e, 'k, 'f, 'w, 'c, 'd) TitanDBImpl, status \<times> ('e, 'k, 'f, 'w, 'c, 'd) TitanDBImpl) outcome option" where
  "delete_TitanDBImpl T db = Titan_Close T (snd (DumpStats db))"

definition TitanDB_Open ::
    "('e, 'k, 'f, 'w, 'c, 'd, 'v) titan_env \<Rightarrow> ('e \<Rightarrow> TitanDBOptions \<Rightarrow> ('e, 'k, 'f) BlobFileSet) \<Rightarrow> u64 \<times> u32
     \<Rightarrow> TitanDBOptions \<Rightarrow> string \<Rightarrow> TitanCFDescriptor list \<Rightarrow> ('e, 'k, 'f) BlobFileSet \<Rightarrow> 'c \<Rightarrow> 'd
     \<Rightarrow> (status \<times> u32 list \<times> ('e, 'k, 'f, 'w, 'c, 'd) TitanDBImpl option) option" where
  "TitanDB_Open T new_set junk options dbname descs bfs c d = do {
     (s, ids, db) \<leftarrow> Titan_Open T new_set junk descs (new_TitanDBImpl options dbname bfs c d);
     if IsOk s then Some (s, ids, Some (StartBackgroundTasks db))
     else do {
       _ \<leftarrow> delete_TitanDBImpl T db;
       Some (s, ids, None)
     }
   }"

end
