(* ===== verification/DB_Events.thy ===== *)
theory DB_Events
  imports DB_Ops
begin

text \<open>
  What \<open>TitanDBImpl\<close> does when the base database sealed a memtable, flushed, compacted or
  deleted files in a range (\<open>src/db_impl.cc\<close>): the discardable sizes of blob files, their
  states, the deletion of files without live data and the marks for merging. A size
  difference is a signed 64-bit number, kept as a word.
\<close>

section \<open>Sealing a memtable\<close>

fun flush_builders ::
    "('e, 'k, 'f, 'w, 'c, 'd, 'v) titan_env \<Rightarrow> (u32 \<times> 'w ForegroundBuilder) list \<Rightarrow> ('e, 'k, 'f, 'w, 'c, 'd) TitanDBImpl
     \<Rightarrow> ('e, 'k, 'f, 'w, 'c, 'd) TitanDBImpl option" where
  "flush_builders T [] db = Some db"
| "flush_builders T ((cf, fb) # fbs) db = do {
     (fb, db) \<leftarrow> FB_Flush (te_rocks T) (db_world T) (te_batch T) fb db;
     flush_builders T fbs (db\<lparr>db_builders := amap_set cf fb (db_builders db)\<rparr>)
   }"

definition OnMemTableSealed ::
    "('e, 'k, 'f, 'w, 'c, 'd, 'v) titan_env \<Rightarrow> ('e, 'k, 'f, 'w, 'c, 'd) TitanDBImpl
     \<Rightarrow> ('e, 'k, 'f, 'w, 'c, 'd) TitanDBImpl option" where
  "OnMemTableSealed T db =
     (if sep_before_flush (db_options db) then flush_builders T (db_builders db) db else Some db)"

section \<open>A completed flush\<close>

definition flushed_file ::
    "bool \<Rightarrow> coding \<Rightarrow> u32 \<Rightarrow> u64 \<times> u64 \<Rightarrow> u64 \<times> 'f BlobStorage \<times> stats_ptr \<Rightarrow> (u64 \<times> 'f BlobStorage \<times> stats_ptr) option" where
  "flushed_file nd C cf f = (\<lambda>(delta, bs, st). do {
     file \<leftarrow> FindFile nd (fst f) bs;
     case file of
       None \<Rightarrow> Some (delta, bs, st)
     | Some m \<Rightarrow> do {
         let discardable = (if discardable_size m = 0
                            then file_size m - snd f - kBlobHeaderSize - of_nat (kBlobFooterSize C)
                            else - snd f);
         let delta = delta + discardable;
         let st = SubStats cf LIVE_BLOB_SIZE delta st;
         bs \<leftarrow> with_file (fst f) (\<lambda>m. do {
           m \<leftarrow> AddDiscardableSize nd discardable m;
           cpp_assert nd (file_type m \<noteq> kSorted \<or> discardable_size m = 0);
           FileStateTransit nd kFlushCompleted m
         }) bs;
         Some (delta, bs, st)
       }
   })"

definition put_storage_stats ::
    "u32 \<Rightarrow> 'f BlobStorage \<Rightarrow> stats_ptr \<Rightarrow> ('e, 'k, 'f, 'w, 'c, 'd) TitanDBImpl \<Rightarrow> ('e, 'k, 'f, 'w, 'c, 'd) TitanDBImpl" where
  "put_storage_stats cf bs st db = db\<lparr>db_bfs := (set_storage cf bs (db_bfs db))\<lparr>bfs_stats := st\<rparr>\<rparr>"

definition OnFlushCompleted ::
    "('e, 'k, 'f, 'w, 'c, 'd, 'v) titan_env \<Rightarrow> FlushJobInfo \<Rightarrow> ('e, 'k, 'f, 'w, 'c, 'd) TitanDBImpl
     \<Rightarrow> ('e, 'k, 'f, 'w, 'c, 'd) TitanDBImpl option" where
  "OnFlushCompleted T info db =
     (let nd = rk_nd (te_rocks T); C = rk_C (te_rocks T); cf = fj_cf_id info in
      case map_of (fj_user_collected_properties info) kPropertiesName of
        None \<Rightarrow> Some db
      | Some src \<Rightarrow> do {
          let (ok, _, sizes) = Collector_Decode C src [];
          cpp_assert nd ok;
          cpp_assert nd (sizes \<noteq> []);
          case GetBlobStorage cf (db_bfs db) of
            None \<Rightarrow> do { cpp_assert nd False; Some db }
          | Some bs \<Rightarrow> do {
              (_, bs, st) \<leftarrow> foldM (flushed_file nd C cf) sizes (0, bs, bfs_stats (db_bfs db));
              Some (put_storage_stats cf bs st db)
            }
        })"

section \<open>Marking files for merging\<close>

text \<open>
  \<open>blob_ends_cmp\<close> orders the ends of files by key. It says that the smallest end of a file is
  below itself, so it is not irreflexive; the sort compares different elements only, which
  \<open>ends_before\<close> states.
\<close>

type_synonym blob_end = "BlobFileMeta \<times> bool"

definition end_key :: "blob_end \<Rightarrow> bytes" where
  "end_key e = (if snd e then smallest_key (fst e) else largest_key (fst e))"

definition blob_ends_cmp :: "blob_end \<Rightarrow> blob_end \<Rightarrow> bool" where
  "blob_ends_cmp end1 end2 =
     (let c = bytewise (end_key end1) (end_key end2) in
      if c = 0
      then (if file_number (fst end1) = file_number (fst end2) then snd end1 else \<not> snd end1 \<and> snd end2)
      else c < 0)"

definition ends_before :: "blob_end \<Rightarrow> blob_end \<Rightarrow> bool" where
  "ends_before end1 end2 =
     (\<not> (file_number (fst end1) = file_number (fst end2) \<and> snd end1 = snd end2) \<and> blob_ends_cmp end1 end2)"

definition mergeable_state :: "BlobFileMeta \<Rightarrow> bool" where
  "mergeable_state m = (file_state m \<notin> {kObsolete, kToMerge, kToGC})"

text \<open>The sweep over the sorted ends; \<open>tmp\<close> has the files that ended before each start.\<close>

fun sweep_ends ::
    "bool \<Rightarrow> int \<Rightarrow> blob_end list \<Rightarrow> int \<Rightarrow> int \<Rightarrow> (u64 \<times> int) list \<Rightarrow> 'f BlobStorage \<times> nat
     \<Rightarrow> ('f BlobStorage \<times> nat) option" where
  "sweep_ends nd max_runs [] cur_add cur_remove tmp acc = Some acc"
| "sweep_ends nd max_runs ((f, is_smallest) # es) cur_add cur_remove tmp (bs, marked) =
     (if is_smallest
      then sweep_ends nd max_runs es (cur_add + 1) cur_remove (amap_set (file_number f) cur_remove tmp) (bs, marked)
      else case map_of tmp (file_number f) of
        None \<Rightarrow> sweep_ends nd max_runs es cur_add (cur_remove + 1) tmp (bs, marked)
      | Some before \<Rightarrow> do {
          m \<leftarrow> map_of (bs_files bs) (file_number f);
          acc \<leftarrow> (if cur_add - before > max_runs \<and> mergeable_state m
                  then map_option (\<lambda>bs. (bs, marked + 1)) (with_file (file_number f) (FileStateTransit nd kNeedMerge) bs)
                  else Some (bs, marked));
          sweep_ends nd max_runs es cur_add (cur_remove + 1) tmp acc
        })"

definition MarkFileIfNeedMerge ::
    "bool \<Rightarrow> u64 list \<Rightarrow> int \<Rightarrow> 'f BlobStorage \<Rightarrow> ('f BlobStorage \<times> nat) option" where
  "MarkFileIfNeedMerge nd files max_runs bs =
     (if files = [] then Some (bs, 0)
      else do {
        metas \<leftarrow> those (map (map_of (bs_files bs)) files);
        blob_ends \<leftarrow> std_sort ends_before (concat (map (\<lambda>m. [(m, True), (m, False)]) metas));
        sweep_ends nd max_runs blob_ends 0 0 [] (bs, 0)
      })"

section \<open>A completed compaction\<close>

record size_diffs =
  sd_diff :: "(u64 \<times> u64) list"
  sd_inputs :: "u64 list"
  sd_outputs :: "u64 list"

definition calc_entry :: "u64 \<Rightarrow> bool \<Rightarrow> u64 \<times> u64 \<Rightarrow> size_diffs \<Rightarrow> size_diffs" where
  "calc_entry coefficient output f d =
     (let d = (if output
               then (if fst f \<in> set (sd_inputs d) then d else d\<lparr>sd_outputs := insort_insert (fst f) (sd_outputs d)\<rparr>)
               else d\<lparr>sd_inputs := insort_insert (fst f) (sd_inputs d)\<rparr>)
      in d\<lparr>sd_diff := omap_set (fst f)
             ((case map_of (sd_diff d) (fst f) of None \<Rightarrow> 0 | Some x \<Rightarrow> x) + coefficient * snd f) (sd_diff d)\<rparr>)"

definition calc_file ::
    "bool \<Rightarrow> coding \<Rightarrow> (string \<times> (string \<times> bytes) list) list \<Rightarrow> u64 \<Rightarrow> bool \<Rightarrow> string \<Rightarrow> size_diffs \<Rightarrow> size_diffs option" where
  "calc_file nd C table_properties coefficient output file d =
     (case Option.bind (map_of table_properties file) (\<lambda>props. map_of props kPropertiesName) of
        None \<Rightarrow> Some d
      | Some src \<Rightarrow>
          (let (ok, _, sizes) = Collector_Decode C src [] in
           if \<not> ok then do { cpp_assert nd False; Some d }
           else Some (fold (calc_entry coefficient output) sizes d)))"

definition calc_bfs ::
    "bool \<Rightarrow> coding \<Rightarrow> (string \<times> (string \<times> bytes) list) list \<Rightarrow> string list \<Rightarrow> u64 \<Rightarrow> bool \<Rightarrow> size_diffs \<Rightarrow> size_diffs option" where
  "calc_bfs nd C table_properties files coefficient output d =
     foldM (calc_file nd C table_properties coefficient output) files d"

definition compaction_sizes :: "bool \<Rightarrow> coding \<Rightarrow> CompactionJobInfo \<Rightarrow> size_diffs option" where
  "compaction_sizes nd C info = do {
     d \<leftarrow> calc_bfs nd C (cj_table_properties info) (cj_input_files info) (- 1) False
            \<lparr>sd_diff = [], sd_inputs = [], sd_outputs = []\<rparr>;
     calc_bfs nd C (cj_table_properties info) (cj_output_files info) 1 True d
   }"

text \<open>
  The output files become normal, in order; a missing file ends the handler, which the flag
  in the result says.
\<close>

fun complete_outputs ::
    "bool \<Rightarrow> u64 list \<Rightarrow> 'f BlobStorage \<Rightarrow> (bool \<times> 'f BlobStorage) option" where
  "complete_outputs nd [] bs = Some (True, bs)"
| "complete_outputs nd (n # ns) bs = do {
     file \<leftarrow> FindFile nd n bs;
     if file = None then do { cpp_assert nd False; Some (False, bs) }
     else do {
       bs \<leftarrow> with_file n (FileStateTransit nd kCompactionCompleted) bs;
       complete_outputs nd ns bs
     }
   }"

record 'f compaction_acc =
  ca_delta :: u64
  ca_edit :: VersionEdit
  ca_files :: "u64 list"
  ca_mark :: nat
  ca_storage :: "'f BlobStorage"
  ca_stats :: stats_ptr

definition in_last_levels :: "nat \<Rightarrow> BlobFileMeta \<Rightarrow> bool" where
  "in_last_levels num_levels m = (sint (file_level m) \<ge> int num_levels - 2)"

definition count_ratio_change :: "u32 \<Rightarrow> BlobFileMeta \<Rightarrow> BlobFileMeta \<Rightarrow> stats_ptr \<Rightarrow> stats_ptr" where
  "count_ratio_change cf m m' st =
     (let before = GetDiscardableRatioLevel m; after = GetDiscardableRatioLevel m'
      in if before \<noteq> after then SubStats cf before 1 (AddStats cf after 1 st) else st)"

text \<open>One file of the size differences: a negative difference is discardable data.\<close>

definition compacted_file ::
    "bool \<Rightarrow> coding \<Rightarrow> u32 \<Rightarrow> u64 \<Rightarrow> bool \<Rightarrow> u64 \<times> u64 \<Rightarrow> 'f compaction_acc \<Rightarrow> 'f compaction_acc option" where
  "compacted_file nd C cf latest count_sorted_run f a = do {
     let bs = ca_storage a;
     let opts = bs_cf_options bs;
     file \<leftarrow> FindFile nd (fst f) bs;
     if sint (snd f) \<ge> 0
     then Some (case file of
        Some m \<Rightarrow> (if count_sorted_run \<and> file_type m = kSorted \<and> in_last_levels (bs_num_levels bs) m
                  then a\<lparr>ca_files := ca_files a @ [fst f]\<rparr> else a)
      | None \<Rightarrow> a)
     else case file of
       None \<Rightarrow> Some a
     | Some m \<Rightarrow> do {
         let a = (if is_obsolete m then a else a\<lparr>ca_delta := ca_delta a + (- snd f)\<rparr>);
         m' \<leftarrow> AddDiscardableSize nd (- snd f) m;
         bs \<leftarrow> with_file (fst f) (\<lambda>_. Some m') bs;
         let a = a\<lparr>ca_storage := bs, ca_stats := count_ratio_change cf m m' (ca_stats a)\<rparr>;
         if \<not> level_merge opts then Some a
         else if NoLiveData C m' \<and> file_type m' = kSorted
         then Some (a\<lparr>ca_edit := DeleteBlobFile (file_number m') latest (ca_edit a)\<rparr>)
         else do {
           a \<leftarrow> (if file_type m' = kSorted \<and> dbl_less (blob_file_discardable_ratio opts) (GetDiscardableRatio m')
                 then do {
                   bs \<leftarrow> with_file (fst f) (FileStateTransit nd kNeedGC) (ca_storage a);
                   Some (a\<lparr>ca_storage := bs, ca_mark := ca_mark a + (if file_state m' \<noteq> kToGC then 1 else 0)\<rparr>)
                 }
                 else Some a);
           Some (if count_sorted_run \<and> file_type m' = kSorted \<and> in_last_levels (bs_num_levels bs) m'
                 then a\<lparr>ca_files := ca_files a @ [fst f]\<rparr> else a)
         }
       }
   }"

text \<open>The threshold of the size-triggered collection: a shift by 30 of a converted double.\<close>

definition wisc_threshold :: "dbl \<Rightarrow> u64 option" where
  "wisc_threshold ratio =
     (case ratio of
        Fin r \<Rightarrow> if 0 \<le> 100 + 100 * r then Some (push_bit 30 (word_of_int \<lfloor>100 + 100 * r\<rfloor>)) else None
      | _ \<Rightarrow> None)"

definition int_property_or_0 ::
    "('d, 'v) base_db \<Rightarrow> string \<Rightarrow> ('e, 'k, 'f, 'w, 'c, 'd) TitanDBImpl \<Rightarrow> u64 option" where
  "int_property_or_0 D property db =
     map_option (\<lambda>v. case v of Some x \<Rightarrow> x | None \<Rightarrow> 0) (Titan_GetIntProperty D 0 property db)"

definition block_by_size :: "u64 \<Rightarrow> ('e, 'k, 'f, 'w, 'c, 'd) TitanDBImpl \<Rightarrow> ('e, 'k, 'f, 'w, 'c, 'd) TitanDBImpl" where
  "block_by_size total_size db =
     (if block_write_size (db_options db) > 0
      then db\<lparr>db_block_for_size := (total_size > block_write_size (db_options db))\<rparr>
      else db)"

definition trigger_gc ::
    "('d, 'v) base_db \<Rightarrow> u32 \<Rightarrow> ('e, 'k, 'f, 'w, 'c, 'd) TitanDBImpl \<Rightarrow> ('e, 'k, 'f, 'w, 'c, 'd) TitanDBImpl option" where
  "trigger_gc D cf db = do {
     bs \<leftarrow> GetBlobStorage cf (db_bfs db);
     let opts = bs_cf_options bs;
     total_size \<leftarrow> int_property_or_0 D ''rocksdb.titandb.live-blob-file-size'' db;
     threshold \<leftarrow> (if level_merge opts then Some 0 else wisc_threshold (blob_file_discardable_ratio opts));
     let wisc_gc = (\<not> level_merge opts \<and> total_size > threshold);
     let bg_gc = (level_merge opts \<and> sep_before_flush (db_options db));
     let db = block_by_size total_size db;
     if \<not> (wisc_gc \<or> bg_gc) then Some db
     else do {
       (n, bs) \<leftarrow> ComputeGCScore bs;
       let db = db\<lparr>db_bfs := set_storage cf bs (db_bfs db)\<rparr>;
       if blob_file_target_size opts = 0 then None
       else if of_nat n > 1073741824 div blob_file_target_size opts \<or> db_block_for_size db
       then Some (MaybeScheduleGC (AddToGCQueue cf db))
       else Some db
     }
   }"

definition OnCompactionCompleted ::
    "('e, 'k, 'f, 'w, 'c, 'd, 'v) titan_env \<Rightarrow> CompactionJobInfo \<Rightarrow> ('e, 'k, 'f, 'w, 'c, 'd) TitanDBImpl
     \<Rightarrow> ('e, 'k, 'f, 'w, 'c, 'd) TitanDBImpl option" where
  "OnCompactionCompleted T info db =
     (let nd = rk_nd (te_rocks T); C = rk_C (te_rocks T); cf = cj_cf_id info in
      if \<not> IsOk (cj_status info) then Some db
      else do {
        d \<leftarrow> compaction_sizes nd C info;
        case GetBlobStorage cf (db_bfs db) of
          None \<Rightarrow> Some db
        | Some bs \<Rightarrow> do {
            (found, bs) \<leftarrow> complete_outputs nd (sd_outputs d) bs;
            if \<not> found then Some (db\<lparr>db_bfs := set_storage cf bs (db_bfs db)\<rparr>)
            else do {
              let opts = bs_cf_options bs;
              let count_sorted_run = (level_merge opts \<and> range_merge opts \<and>
                    int (bs_num_levels bs) - 2 \<le> cj_output_level info);
              a \<leftarrow> foldM (compacted_file nd C cf (bd_GetLatestSequenceNumber (te_base T) (db_base db)) count_sorted_run) (sd_diff d)
                 \<lparr>ca_delta = 0, ca_edit = new_VersionEdit, ca_files = [], ca_mark = 0, ca_storage = bs,
                  ca_stats = bfs_stats (db_bfs db)\<rparr>;
              let db = put_storage_stats cf (ca_storage a) (SubStats cf LIVE_BLOB_SIZE (ca_delta a) (ca_stats a)) db;
              db \<leftarrow> (if level_merge opts
                     then do {
                       (_, db) \<leftarrow> db_LogAndApply T (ca_edit a) db;
                       bs \<leftarrow> GetBlobStorage cf (db_bfs db);
                       (bs, _) \<leftarrow> MarkFileIfNeedMerge nd (ca_files a) (max_sorted_runs opts) bs;
                       Some (db\<lparr>db_bfs := set_storage cf bs (db_bfs db)\<rparr>)
                     }
                     else Some db);
              trigger_gc (te_base T) cf db
            }
          }
      })"

definition Titan_CompactFiles ::
    "('e, 'k, 'f, 'w, 'c, 'd, 'v) titan_env \<Rightarrow> u32 \<Rightarrow> string list \<Rightarrow> int \<Rightarrow> ('e, 'k, 'f, 'w, 'c, 'd) TitanDBImpl
     \<Rightarrow> (status \<times> ('e, 'k, 'f, 'w, 'c, 'd) TitanDBImpl) option" where
  "Titan_CompactFiles T cf input_files output_level db =
     (if HasBGError db then Some (GetBGError db, db)
      else if \<not> db_open db then None
      else let (s, info, d) = bd_CompactFiles (te_base T) cf input_files output_level (db_base db); db = db\<lparr>db_base := d\<rparr> in
        if \<not> IsOk s then Some (s, db)
        else map_option (Pair s) (OnCompactionCompleted T info db))"

section \<open>Deleting files in ranges\<close>

text \<open>
  The loop over the levels asks \<open>LevelFiles\<close> and \<open>OverlapInLevel\<close> about the number of the
  range instead of the level; a number that is no level reads behind the array. The tables
  found are collected by name.
\<close>

type_synonym table_props = "(string \<times> (string \<times> bytes) list) list"

definition collect_table ::
    "comparator \<Rightarrow> bool \<Rightarrow> bytes option \<Rightarrow> sst_file \<Rightarrow> table_props \<Rightarrow> status option \<times> table_props" where
  "collect_table cmp include_end e f props =
     (if sf_being_compacted f \<or>
         (\<not> include_end \<and> (case e of Some limit \<Rightarrow> cmp (sf_largest_user_key f) limit = 0 | None \<Rightarrow> False)) \<or>
         map_of props (sf_name f) \<noteq> None
      then (None, props)
      else case sf_properties f of
        (s, Some p) \<Rightarrow> if IsOk s then (None, props @ [(sf_name f, p)]) else (Some s, props)
      | (s, None) \<Rightarrow> (Some s, props))"

fun collect_tables ::
    "comparator \<Rightarrow> bool \<Rightarrow> bytes option \<Rightarrow> sst_file list \<Rightarrow> table_props \<Rightarrow> status option \<times> table_props" where
  "collect_tables cmp include_end e [] props = (None, props)"
| "collect_tables cmp include_end e (f # fs) props =
     (case collect_table cmp include_end e f props of
        (Some s, props) \<Rightarrow> (Some s, props)
      | (None, props) \<Rightarrow> collect_tables cmp include_end e fs props)"

fun collect_levels ::
    "('d, 'v) base_db \<Rightarrow> comparator \<Rightarrow> u32 \<Rightarrow> 'd \<Rightarrow> bool \<Rightarrow> nat \<Rightarrow> bytes option \<times> bytes option \<Rightarrow> nat list \<Rightarrow> table_props
     \<Rightarrow> (status option \<times> table_props) option" where
  "collect_levels D cmp cf d include_end i rng [] props = Some (None, props)"
| "collect_levels D cmp cf d include_end i rng (level # levels) props =
     (if i \<ge> bd_num_levels D cf d then None
      else if bd_LevelFiles_empty D cf i d \<or> \<not> bd_OverlapInLevel D cf i rng d
      then collect_levels D cmp cf d include_end i rng levels props
      else case collect_tables cmp include_end (snd rng) (bd_GetCleanInputs D cf level rng d) props of
        (Some s, props) \<Rightarrow> Some (Some s, props)
      | (None, props) \<Rightarrow> collect_levels D cmp cf d include_end i rng levels props)"

fun collect_ranges ::
    "('d, 'v) base_db \<Rightarrow> comparator \<Rightarrow> u32 \<Rightarrow> 'd \<Rightarrow> bool \<Rightarrow> nat \<Rightarrow> (bytes option \<times> bytes option) list \<Rightarrow> table_props
     \<Rightarrow> (status option \<times> table_props) option" where
  "collect_ranges D cmp cf d include_end i [] props = Some (None, props)"
| "collect_ranges D cmp cf d include_end i (rng # ranges) props = do {
     (s, props) \<leftarrow> collect_levels D cmp cf d include_end i rng [1..<bd_num_non_empty_levels D cf d] props;
     if s \<noteq> None then Some (s, props)
     else collect_ranges D cmp cf d include_end (Suc i) ranges props
   }"

definition range_sizes :: "bool \<Rightarrow> coding \<Rightarrow> string \<times> (string \<times> bytes) list \<Rightarrow> (u64 \<times> u64) list \<Rightarrow> (u64 \<times> u64) list option" where
  "range_sizes nd C p total_sizes =
     (case map_of (snd p) kPropertiesName of
        None \<Rightarrow> Some total_sizes
      | Some src \<Rightarrow>
          (let (ok, _, sizes) = Collector_Decode C src [] in
           if \<not> ok then do { cpp_assert nd False; Some total_sizes }
           else Some (fold (\<lambda>(n, sz) t. omap_set n ((case map_of t n of None \<Rightarrow> 0 | Some x \<Rightarrow> x) + sz) t) sizes total_sizes)))"

text \<open>One blob file of the deleted tables: the sizes, the statistics and the edit.\<close>

definition range_file ::
    "bool \<Rightarrow> coding \<Rightarrow> u32 \<Rightarrow> u64 \<Rightarrow> u64 \<times> u64 \<Rightarrow> 'f compaction_acc \<Rightarrow> 'f compaction_acc option" where
  "range_file nd C cf latest f a = do {
     let bs = ca_storage a;
     let opts = bs_cf_options bs;
     file \<leftarrow> FindFile nd (fst f) bs;
     case file of
       None \<Rightarrow> Some a
     | Some m \<Rightarrow> do {
         let a = (if is_obsolete m then a else a\<lparr>ca_delta := ca_delta a + snd f\<rparr>);
         m' \<leftarrow> AddDiscardableSize nd (snd f) m;
         bs \<leftarrow> with_file (fst f) (\<lambda>_. Some m') bs;
         let a = a\<lparr>ca_storage := bs, ca_stats := count_ratio_change cf m m' (ca_stats a)\<rparr>;
         if \<not> level_merge opts then Some a
         else if NoLiveData C m' then Some (a\<lparr>ca_edit := DeleteBlobFile (file_number m') latest (ca_edit a)\<rparr>)
         else if dbl_less (if sint (file_level m') = int (bs_num_levels bs) - 1 then blob_file_discardable_ratio opts
                           else high_level_blob_discardable_ratio opts) (GetDiscardableRatio m')
         then do {
           bs \<leftarrow> with_file (fst f) (FileStateTransit nd kNeedGC) (ca_storage a);
           Some (a\<lparr>ca_edit := UpdateBlobFile (fst f) (snd f) (ca_edit a), ca_storage := bs\<rparr>)
         }
         else Some (if snd f > 0 then a\<lparr>ca_edit := UpdateBlobFile (fst f) (snd f) (ca_edit a)\<rparr> else a)
       }
   }"

definition Titan_DeleteFilesInRanges ::
    "('e, 'k, 'f, 'w, 'c, 'd, 'v) titan_env \<Rightarrow> u32 \<Rightarrow> (bytes option \<times> bytes option) list \<Rightarrow> bool
     \<Rightarrow> ('e, 'k, 'f, 'w, 'c, 'd) TitanDBImpl \<Rightarrow> (status \<times> ('e, 'k, 'f, 'w, 'c, 'd) TitanDBImpl) option" where
  "Titan_DeleteFilesInRanges T cf ranges include_end db =
     (let P = te_rocks T; nd = rk_nd P; D = te_base T in
      if \<not> db_open db then None
      else do {
        (failed, props) \<leftarrow> collect_ranges D (rk_cmps P cf) cf (db_base db) include_end 0 ranges [];
        case failed of
          Some s \<Rightarrow> Some (s, db)
        | None \<Rightarrow> do {
            sizes \<leftarrow> foldM (range_sizes nd (rk_C P)) props [];
            (s, db) \<leftarrow> on_base (bd_DeleteFilesInRanges D cf ranges include_end) db;
            if \<not> IsOk s then Some (s, db)
            else do {
              let latest = bd_GetLatestSequenceNumber D (db_base db);
              (s, bfs) \<leftarrow> DeleteBlobFilesInRanges nd (rk_C P) (rk_cmps P) (te_manifest T) cf ranges include_end latest (db_bfs db);
              let db = db\<lparr>db_bfs := bfs\<rparr>;
              if \<not> IsOk s then Some (s, db)
              else case GetBlobStorage cf (db_bfs db) of
                None \<Rightarrow> Some (NotFound (''Column family id: '' @ to_string cf @ '' not Found.''), db)
              | Some bs \<Rightarrow> do {
                  a \<leftarrow> foldM (range_file nd (rk_C P) cf latest) sizes
                    \<lparr>ca_delta = 0, ca_edit = new_VersionEdit, ca_files = [], ca_mark = 0, ca_storage = bs,
                     ca_stats = bfs_stats (db_bfs db)\<rparr>;
                  let db = put_storage_stats cf (ca_storage a) (SubStats cf LIVE_BLOB_SIZE (ca_delta a) (ca_stats a)) db;
                  if level_merge (bs_cf_options bs)
                  then do { (_, db) \<leftarrow> db_LogAndApply T (ca_edit a) db; Some (s, db) }
                  else do {
                    (_, bs) \<leftarrow> ComputeGCScore (ca_storage a);
                    Some (s, MaybeScheduleGC (AddToGCQueue cf (db\<lparr>db_bfs := set_storage cf bs (db_bfs db)\<rparr>)))
                  }
                }
            }
          }
      })"

section \<open>The listener\<close>

text \<open>\<open>BaseDbListener\<close> forwards the events of the base database (\<open>src/base_db_listener.cc\<close>).\<close>

datatype base_event =
  FlushCompleted FlushJobInfo
| MemTableSealed
| CompactionCompleted CompactionJobInfo

fun BaseDbListener ::
    "('e, 'k, 'f, 'w, 'c, 'd, 'v) titan_env \<Rightarrow> base_event \<Rightarrow> ('e, 'k, 'f, 'w, 'c, 'd) TitanDBImpl
     \<Rightarrow> ('e, 'k, 'f, 'w, 'c, 'd) TitanDBImpl option" where
  "BaseDbListener T (FlushCompleted info) db = OnFlushCompleted T info db"
| "BaseDbListener T MemTableSealed db = OnMemTableSealed T db"
| "BaseDbListener T (CompactionCompleted info) db = OnCompactionCompleted T info db"

end
