(* ===== verification/Blob_File_Iterator.thy ===== *)
theory Blob_File_Iterator
  imports Blob_File_Reader "HOL-Library.Multiset"
begin

text \<open>
  \<open>src/blob_file_iterator.h\<close> and \<open>src/blob_file_iterator.cc\<close>: the scan over the records
  of one blob file that garbage collection uses, and the merge of several such scans by
  a priority queue. The page size is a RocksDB constant and an argument. The buffers
  that own the memory of the current record are not part of the state.
\<close>

section \<open>The iterator over one file\<close>

record 'f BlobFileIterator =
  it_file :: 'f
  it_file_number :: u64
  it_file_size :: u64
  it_init :: bool
  it_end_of_blob_record :: u64
  it_status :: status
  it_valid :: bool
  it_decoder :: BlobDecoder
  it_iterate_offset :: u64
  it_cur_blob_record :: BlobRecord
  it_cur_record_offset :: u64
  it_cur_record_size :: u64
  it_readahead_begin :: u64
  it_readahead_end :: u64
  it_readahead_size :: u64

definition it_kMinReadaheadSize :: u64 where
  "it_kMinReadaheadSize = 4096"

definition it_kMaxReadaheadSize :: u64 where
  "it_kMaxReadaheadSize = 262144"

text \<open>The offset and the size of the current record are uninitialised before the first one.\<close>

definition new_BlobFileIterator ::
    "codec \<Rightarrow> u64 \<Rightarrow> u64 \<Rightarrow> 'f \<Rightarrow> u64 \<Rightarrow> u64 \<Rightarrow> 'f BlobFileIterator" where
  "new_BlobFileIterator L off0 size0 f file_no fsize =
     \<lparr>it_file = f, it_file_number = file_no, it_file_size = fsize, it_init = False,
      it_end_of_blob_record = 0, it_status = OK, it_valid = False,
      it_decoder = new_BlobDecoder L, it_iterate_offset = 0,
      it_cur_blob_record = empty_BlobRecord, it_cur_record_offset = off0,
      it_cur_record_size = size0, it_readahead_begin = 0, it_readahead_end = 0,
      it_readahead_size = it_kMinReadaheadSize\<rparr>"

text \<open>
  \<open>Init\<close> stores the status of decoding the footer and goes on whatever it is.
\<close>

definition BlobFileIterator_Init ::
    "bool \<Rightarrow> coding \<Rightarrow> 'f rfile \<Rightarrow> 'f BlobFileIterator \<Rightarrow> (bool \<times> 'f BlobFileIterator) option" where
  "BlobFileIterator_Init nd C F it =
     (let (s, slice) = rf_Read F (it_file it) 0 kBlobHeaderSize; it = it\<lparr>it_status := s\<rparr> in
      if \<not> IsOk s then Some (False, it)
      else let (s, _, _) = BlobFileHeader_DecodeFrom C new_BlobFileHeader slice; it = it\<lparr>it_status := s\<rparr> in
      if \<not> IsOk s then Some (False, it)
      else let (s, slice) = rf_Read F (it_file it) (it_file_size it - of_nat (kBlobFooterSize C))
                              (of_nat (kBlobFooterSize C)); it = it\<lparr>it_status := s\<rparr> in
      if \<not> IsOk s then Some (False, it)
      else do {
        (s, footer, _) \<leftarrow> BlobFileFooter_DecodeFrom C new_BlobFileFooter slice;
        let it = it\<lparr>it_status := s,
                    it_end_of_blob_record := it_file_size it - of_nat (kBlobFooterSize C) -
                                             snd (meta_index_handle footer)\<rparr>;
        cpp_assert nd (it_end_of_blob_record it > kBlobHeaderSize);
        Some (True, it\<lparr>it_init := True\<rparr>)
      })"

definition BlobFileIterator_Valid :: "'f BlobFileIterator \<Rightarrow> bool" where
  "BlobFileIterator_Valid it = (it_valid it \<and> IsOk (it_status it))"

definition BlobFileIterator_key :: "'f BlobFileIterator \<Rightarrow> bytes" where
  "BlobFileIterator_key it = r_key (it_cur_blob_record it)"

definition BlobFileIterator_value :: "'f BlobFileIterator \<Rightarrow> bytes" where
  "BlobFileIterator_value it = r_value (it_cur_blob_record it)"

definition BlobFileIterator_GetBlobIndex :: "'f BlobFileIterator \<Rightarrow> BlobIndex" where
  "BlobFileIterator_GetBlobIndex it =
     \<lparr>bi_file_number = it_file_number it,
      bi_blob_handle = \<lparr>bh_offset = it_cur_record_offset it, bh_size = it_cur_record_size it\<rparr>\<rparr>"

definition BlobFileIterator_GetBlobRecord ::
    "bool \<Rightarrow> coding \<Rightarrow> codec \<Rightarrow> 'f rfile \<Rightarrow> 'f BlobFileIterator \<Rightarrow> 'f BlobFileIterator option" where
  "BlobFileIterator_GetBlobRecord nd C L F it =
     (let (s, header_buffer) = rf_Read F (it_file it) (it_iterate_offset it) (of_nat kRecordHeaderSize);
          it = it\<lparr>it_status := s\<rparr> in
      if \<not> IsOk s then Some it
      else do {
        (s, d, _) \<leftarrow> BlobDecoder_DecodeHeader C (it_decoder it) header_buffer;
        let it = it\<lparr>it_status := s, it_decoder := d\<rparr>;
        if \<not> IsOk s then Some it
        else do {
          let record_size = ucast (d_record_size d);
          let (s, record_slice) = rf_Read F (it_file it) (it_iterate_offset it + of_nat kRecordHeaderSize) record_size;
          (s, rec) \<leftarrow> (if IsOk s
                       then do {
                         (s, rec, _, _) \<leftarrow> BlobDecoder_DecodeRecord nd C L d record_slice (it_cur_blob_record it) [];
                         Some (s, rec)
                       }
                       else Some (s, it_cur_blob_record it));
          let it = it\<lparr>it_status := s, it_cur_blob_record := rec\<rparr>;
          if \<not> IsOk s then Some it
          else Some (it\<lparr>it_cur_record_offset := it_iterate_offset it,
                        it_cur_record_size := of_nat kRecordHeaderSize + record_size,
                        it_iterate_offset := it_iterate_offset it + (of_nat kRecordHeaderSize + record_size),
                        it_valid := True\<rparr>)
        }
      })"

text \<open>
  The doubling loop of \<open>PrefetchAndGet\<close>, with fuel. Sixty-four rounds are more than a
  non-zero 64-bit number can be doubled below \<open>kMaxReadaheadSize\<close>.
\<close>

fun grow_readahead :: "nat \<Rightarrow> u64 \<Rightarrow> u64 \<Rightarrow> u64 \<Rightarrow> u64 option" where
  "grow_readahead 0 end_off min_blob n = None"
| "grow_readahead (Suc fuel) end_off min_blob n =
     (if end_off + n \<le> min_blob \<and> n < it_kMaxReadaheadSize
      then grow_readahead fuel end_off min_blob (n * 2) else Some n)"

definition align_readahead :: "u64 \<Rightarrow> 'f BlobFileIterator \<Rightarrow> 'f BlobFileIterator" where
  "align_readahead page it =
     (if it_readahead_begin it > it_iterate_offset it \<or> it_readahead_end it < it_iterate_offset it
      then (let b = it_iterate_offset it - (and (it_iterate_offset it) (page - 1))
            in it\<lparr>it_readahead_begin := b, it_readahead_end := b,
                  it_readahead_size := it_kMinReadaheadSize\<rparr>)
      else it)"

definition extend_readahead ::
    "'f rfile \<Rightarrow> TitanCFOptions \<Rightarrow> 'f BlobFileIterator \<Rightarrow> 'f BlobFileIterator option" where
  "extend_readahead F opts it =
     (let min_blob = it_iterate_offset it + of_nat kRecordHeaderSize + min_blob_size opts in
      if it_readahead_end it \<le> min_blob
      then do {
        n \<leftarrow> grow_readahead 64 (it_readahead_end it) min_blob (it_readahead_size it);
        Some (it\<lparr>it_file := rf_Prefetch F (it_file it) (it_readahead_end it) n,
                 it_readahead_end := it_readahead_end it + n,
                 it_readahead_size := min it_kMaxReadaheadSize (n * 2)\<rparr>)
      }
      else Some it)"

definition BlobFileIterator_PrefetchAndGet ::
    "bool \<Rightarrow> coding \<Rightarrow> codec \<Rightarrow> 'f rfile \<Rightarrow> u64 \<Rightarrow> TitanCFOptions \<Rightarrow> 'f BlobFileIterator
     \<Rightarrow> 'f BlobFileIterator option" where
  "BlobFileIterator_PrefetchAndGet nd C L F page opts it =
     (if it_iterate_offset it \<ge> it_end_of_blob_record it then Some (it\<lparr>it_valid := False\<rparr>)
      else do {
        it \<leftarrow> extend_readahead F opts (align_readahead page it);
        it \<leftarrow> BlobFileIterator_GetBlobRecord nd C L F it;
        Some (if it_readahead_end it < it_iterate_offset it
              then it\<lparr>it_readahead_end := it_iterate_offset it\<rparr> else it)
      })"

definition BlobFileIterator_SeekToFirst ::
    "bool \<Rightarrow> coding \<Rightarrow> codec \<Rightarrow> 'f rfile \<Rightarrow> u64 \<Rightarrow> TitanCFOptions \<Rightarrow> 'f BlobFileIterator
     \<Rightarrow> 'f BlobFileIterator option" where
  "BlobFileIterator_SeekToFirst nd C L F page opts it = do {
     (ready, it) \<leftarrow> (if it_init it then Some (True, it) else BlobFileIterator_Init nd C F it);
     if \<not> ready then Some it
     else BlobFileIterator_PrefetchAndGet nd C L F page opts
            (it\<lparr>it_status := OK, it_iterate_offset := kBlobHeaderSize\<rparr>)
   }"

definition BlobFileIterator_Next ::
    "bool \<Rightarrow> coding \<Rightarrow> codec \<Rightarrow> 'f rfile \<Rightarrow> u64 \<Rightarrow> TitanCFOptions \<Rightarrow> 'f BlobFileIterator
     \<Rightarrow> 'f BlobFileIterator option" where
  "BlobFileIterator_Next nd C L F page opts it = do {
     cpp_assert nd (it_init it);
     BlobFileIterator_PrefetchAndGet nd C L F page opts it
   }"

text \<open>
  The loop of \<open>IterateForPrev\<close>: the last component is false when it returned early on
  an error. Every round advances by at least the nine header bytes, so \<open>offset\<close> rounds
  are enough below \<open>2^63\<close>.
\<close>

fun iterate_prev_loop ::
    "nat \<Rightarrow> coding \<Rightarrow> 'f rfile \<Rightarrow> u64 \<Rightarrow> 'f BlobFileIterator \<Rightarrow> u64
     \<Rightarrow> ('f BlobFileIterator \<times> u64 \<times> bool) option" where
  "iterate_prev_loop 0 C F offset it total_length = None"
| "iterate_prev_loop (Suc fuel) C F offset it total_length =
     (if \<not> it_iterate_offset it < offset then Some (it, total_length, True)
      else let (s, header_buffer) = rf_Read F (it_file it) (it_iterate_offset it) (of_nat kRecordHeaderSize);
               it = it\<lparr>it_status := s\<rparr> in
        if \<not> IsOk s then Some (it, total_length, False)
        else do {
          (s, d, _) \<leftarrow> BlobDecoder_DecodeHeader C (it_decoder it) header_buffer;
          let it = it\<lparr>it_status := s, it_decoder := d\<rparr>;
          if \<not> IsOk s then Some (it, total_length, False)
          else do {
            let total_length = of_nat kRecordHeaderSize + ucast (d_record_size d);
            iterate_prev_loop fuel C F offset (it\<lparr>it_iterate_offset := it_iterate_offset it + total_length\<rparr>) total_length
          }
        })"

definition BlobFileIterator_IterateForPrev ::
    "bool \<Rightarrow> coding \<Rightarrow> 'f rfile \<Rightarrow> u64 \<Rightarrow> 'f BlobFileIterator \<Rightarrow> 'f BlobFileIterator option" where
  "BlobFileIterator_IterateForPrev nd C F offset it = do {
     (ready, it) \<leftarrow> (if it_init it then Some (True, it) else BlobFileIterator_Init nd C F it);
     if \<not> ready then Some it
     else if offset \<ge> it_end_of_blob_record it
     then Some (it\<lparr>it_iterate_offset := offset, it_status := InvalidArgument ''Out of bound''\<rparr>)
     else do {
       (it, total_length, finished) \<leftarrow>
         iterate_prev_loop (Suc (unat offset)) C F offset
           (it\<lparr>it_status := OK, it_iterate_offset := kBlobHeaderSize\<rparr>) 0;
       if \<not> finished then Some it
       else let it = (if it_iterate_offset it > offset
                      then it\<lparr>it_iterate_offset := it_iterate_offset it - total_length\<rparr> else it)
            in Some (it\<lparr>it_valid := False\<rparr>)
     }
   }"

section \<open>Merging several files\<close>

text \<open>
  The iterators are owned by a vector; the heap and \<open>current_\<close> point into it and are
  indices here. \<open>std::priority_queue\<close> with the comparator of the source hands out an
  element with the smallest key; among equal keys, which the standard leaves open, the
  model takes the one that was pushed first.
\<close>

record 'f BlobFileMergeIterator =
  mi_status :: status
  mi_iterators :: "'f BlobFileIterator list"
  mi_min_heap :: "nat list"
  mi_current :: "nat option"

definition new_BlobFileMergeIterator :: "'f BlobFileIterator list \<Rightarrow> 'f BlobFileMergeIterator" where
  "new_BlobFileMergeIterator its =
     \<lparr>mi_status = OK, mi_iterators = its, mi_min_heap = [], mi_current = None\<rparr>"

fun heap_top :: "comparator \<Rightarrow> (nat \<Rightarrow> bytes) \<Rightarrow> nat list \<Rightarrow> nat option" where
  "heap_top cmp key [] = None"
| "heap_top cmp key (x # xs) =
     (case heap_top cmp key xs of
        None \<Rightarrow> Some x
      | Some y \<Rightarrow> if cmp (key x) (key y) > 0 then Some y else Some x)"

definition mi_key_of :: "'f BlobFileMergeIterator \<Rightarrow> nat \<Rightarrow> bytes" where
  "mi_key_of m i = BlobFileIterator_key (mi_iterators m ! i)"

definition heap_push :: "nat \<Rightarrow> 'f BlobFileMergeIterator \<Rightarrow> 'f BlobFileMergeIterator" where
  "heap_push i m = m\<lparr>mi_min_heap := mi_min_heap m @ [i]\<rparr>"

definition MergeIterator_status :: "'f BlobFileMergeIterator \<Rightarrow> status" where
  "MergeIterator_status m =
     (case mi_current m of
        Some i \<Rightarrow> if \<not> IsOk (it_status (mi_iterators m ! i)) then it_status (mi_iterators m ! i)
                  else mi_status m
      | None \<Rightarrow> mi_status m)"

definition MergeIterator_Valid :: "'f BlobFileMergeIterator \<Rightarrow> bool" where
  "MergeIterator_Valid m =
     (case mi_current m of
        None \<Rightarrow> False
      | Some i \<Rightarrow> IsOk (MergeIterator_status m) \<and> BlobFileIterator_Valid (mi_iterators m ! i)
                  \<and> IsOk (it_status (mi_iterators m ! i)))"

fun seek_each ::
    "('f BlobFileIterator \<Rightarrow> 'f BlobFileIterator option) \<Rightarrow> nat list \<Rightarrow> 'f BlobFileMergeIterator
     \<Rightarrow> 'f BlobFileMergeIterator option" where
  "seek_each seek [] m = Some m"
| "seek_each seek (i # is) m = do {
     it \<leftarrow> seek (mi_iterators m ! i);
     let m = m\<lparr>mi_iterators := (mi_iterators m)[i := it]\<rparr>;
     seek_each seek is (if IsOk (it_status it) \<and> BlobFileIterator_Valid it then heap_push i m else m)
   }"

definition MergeIterator_SeekToFirst ::
    "bool \<Rightarrow> coding \<Rightarrow> codec \<Rightarrow> 'f rfile \<Rightarrow> u64 \<Rightarrow> TitanCFOptions \<Rightarrow> comparator \<Rightarrow> 'f BlobFileMergeIterator
     \<Rightarrow> 'f BlobFileMergeIterator option" where
  "MergeIterator_SeekToFirst nd C L F page opts cmp m = do {
     m \<leftarrow> seek_each (BlobFileIterator_SeekToFirst nd C L F page opts) [0..<length (mi_iterators m)] m;
     Some (case heap_top cmp (mi_key_of m) (mi_min_heap m) of
             Some i \<Rightarrow> m\<lparr>mi_current := Some i, mi_min_heap := remove1 i (mi_min_heap m)\<rparr>
           | None \<Rightarrow> m\<lparr>mi_status := Aborted ''No iterator is valid''\<rparr>)
   }"

definition MergeIterator_Next ::
    "bool \<Rightarrow> coding \<Rightarrow> codec \<Rightarrow> 'f rfile \<Rightarrow> u64 \<Rightarrow> TitanCFOptions \<Rightarrow> comparator \<Rightarrow> 'f BlobFileMergeIterator
     \<Rightarrow> 'f BlobFileMergeIterator option" where
  "MergeIterator_Next nd C L F page opts cmp m = do {
     cpp_assert nd (MergeIterator_Valid m);
     i \<leftarrow> mi_current m;
     it \<leftarrow> BlobFileIterator_Next nd C L F page opts (mi_iterators m ! i);
     let m = m\<lparr>mi_iterators := (mi_iterators m)[i := it]\<rparr>;
     let m = (if IsOk (it_status it) \<and> BlobFileIterator_Valid it then heap_push i m else m);
     Some (case heap_top cmp (mi_key_of m) (mi_min_heap m) of
             Some j \<Rightarrow> m\<lparr>mi_current := Some j, mi_min_heap := remove1 j (mi_min_heap m)\<rparr>
           | None \<Rightarrow> m\<lparr>mi_current := None\<rparr>)
   }"

definition MergeIterator_key :: "bool \<Rightarrow> 'f BlobFileMergeIterator \<Rightarrow> bytes option" where
  "MergeIterator_key nd m = do {
     cpp_assert nd (mi_current m \<noteq> None);
     i \<leftarrow> mi_current m;
     Some (BlobFileIterator_key (mi_iterators m ! i))
   }"

definition MergeIterator_value :: "bool \<Rightarrow> 'f BlobFileMergeIterator \<Rightarrow> bytes option" where
  "MergeIterator_value nd m = do {
     cpp_assert nd (mi_current m \<noteq> None);
     i \<leftarrow> mi_current m;
     Some (BlobFileIterator_value (mi_iterators m ! i))
   }"

definition MergeIterator_GetBlobIndex :: "'f BlobFileMergeIterator \<Rightarrow> BlobIndex option" where
  "MergeIterator_GetBlobIndex m = do {
     i \<leftarrow> mi_current m;
     Some (BlobFileIterator_GetBlobIndex (mi_iterators m ! i))
   }"

section \<open>The readahead loop ends\<close>

lemma grow_readahead_enough:
  "n \<noteq> 0 \<Longrightarrow> 2 ^ 18 \<le> unat n * 2 ^ k \<Longrightarrow>
   \<exists>m. grow_readahead (Suc k) e b n = Some m \<and> m \<noteq> 0 \<and> (unat n \<le> 2 ^ 19 \<longrightarrow> unat m \<le> 2 ^ 19)"
proof (induction k arbitrary: n)
  case 0
  then have "\<not> n < it_kMaxReadaheadSize" by (simp add: it_kMaxReadaheadSize_def word_less_nat_alt)
  with 0 show ?case by simp
next
  case (Suc k)
  show ?case
  proof (cases "e + n \<le> b \<and> n < it_kMaxReadaheadSize")
    case True
    then have small: "unat n < 262144" by (simp add: it_kMaxReadaheadSize_def word_less_nat_alt)
    then have "unat n * 2 < 2 ^ LENGTH(64)" by simp
    then have dbl: "unat (n * 2) = unat n * 2" using unat_mult_lem [of n 2] by simp
    with Suc.prems(1) have "n * 2 \<noteq> 0" by (metis mult_eq_0_iff unat_eq_zero zero_neq_numeral)
    moreover have "2 ^ 18 \<le> unat (n * 2) * 2 ^ k" using Suc.prems(2) dbl by (simp add: mult.assoc)
    ultimately show ?thesis using Suc.IH [of "n * 2"] True small dbl by simp
  next
    case False
    with Suc.prems(1) show ?thesis by auto
  qed
qed

definition readahead_ok :: "u64 \<Rightarrow> bool" where
  "readahead_ok n = (n \<noteq> 0 \<and> n \<le> it_kMaxReadaheadSize)"

lemma grow_readahead_returns:
  assumes "readahead_ok n"
  obtains m where "grow_readahead 64 e b n = Some m" "readahead_ok (min it_kMaxReadaheadSize (m * 2))"
proof -
  have pos: "0 < unat n" and le: "unat n \<le> 2 ^ 19"
    using assms by (auto simp: readahead_ok_def unat_gt_0 it_kMaxReadaheadSize_def word_le_nat_alt)
  then have "2 ^ 18 \<le> unat n * 2 ^ 63" by (cases "unat n") simp_all
  then obtain m where m: "grow_readahead (Suc 63) e b n = Some m" "m \<noteq> 0" "unat m \<le> 2 ^ 19"
    using grow_readahead_enough [of n 63 e b] pos le by (auto simp: unat_gt_0)
  have "unat (m * 2) = unat m * 2" using m(3) unat_mult_lem [of m 2] by simp
  then have "m * 2 \<noteq> 0" using m(2) by (metis mult_eq_0_iff unat_eq_zero zero_neq_numeral)
  then have "readahead_ok (min it_kMaxReadaheadSize (m * 2))"
    by (auto simp: readahead_ok_def it_kMaxReadaheadSize_def min_def)
  moreover have "grow_readahead 64 e b n = Some m"
    using m(1) by (simp only: eval_nat_numeral BitM.simps)
  ultimately show ?thesis by (rule that [rotated])
qed

section \<open>Scanning a built file\<close>

text \<open>
  \<open>scan_at\<close>: the iterator is initialised on the image of the records \<open>rs\<close> and the next
  record to read is number \<open>i\<close>.
\<close>

definition scan_at ::
    "bool \<Rightarrow> coding \<Rightarrow> codec \<Rightarrow> byte \<Rightarrow> ('f \<Rightarrow> bytes) \<Rightarrow> BlobRecord list \<Rightarrow> nat \<Rightarrow> 'f BlobFileIterator \<Rightarrow> bool" where
  "scan_at nd C L ty data rs i it =
     (it_init it \<and> it_status it = OK \<and> i \<le> length rs \<and>
      data (it_file it) = file_image nd C L ty rs \<and>
      it_end_of_blob_record it = of_nat (8 + length (concat (map (record_bytes nd C L ty) rs))) \<and>
      it_iterate_offset it = of_nat (8 + length (concat (map (record_bytes nd C L ty) (take i rs)))) \<and>
      \<not> only_value (it_cur_blob_record it) \<and> readahead_ok (it_readahead_size it))"

text \<open>What a client sees at a valid position.\<close>

definition it_item :: "'f BlobFileIterator \<Rightarrow> bytes \<times> bytes \<times> BlobIndex" where
  "it_item it = (BlobFileIterator_key it, BlobFileIterator_value it, BlobFileIterator_GetBlobIndex it)"

definition file_item ::
    "bool \<Rightarrow> coding \<Rightarrow> codec \<Rightarrow> byte \<Rightarrow> u64 \<Rightarrow> BlobRecord list \<Rightarrow> nat \<Rightarrow> bytes \<times> bytes \<times> BlobIndex" where
  "file_item nd C L ty n rs i =
     (r_key (rs ! i), r_value (rs ! i),
      \<lparr>bi_file_number = n, bi_blob_handle = handles_from 8 (map (record_bytes nd C L ty) rs) ! i\<rparr>)"

definition scannable :: "bool \<Rightarrow> coding \<Rightarrow> codec \<Rightarrow> byte \<Rightarrow> BlobRecord list \<Rightarrow> bool" where
  "scannable nd C L ty rs =
     ((\<forall>r\<in>set rs. storable C r \<and> \<not> only_value r) \<and> length (file_image nd C L ty rs) < 2 ^ 64)"

context blob_reading
begin

lemma image_parts:
  assumes "i < length rs"
  obtains post where "file_image nd C L ty rs =
    (BlobFileHeader_EncodeTo C new_BlobFileHeader @ concat (map (record_bytes nd C L ty) (take i rs))) @
    record_bytes nd C L ty (rs ! i) @ post"
proof -
  have "concat (map (record_bytes nd C L ty) rs) =
      concat (map (record_bytes nd C L ty) (take i rs)) @ record_bytes nd C L ty (rs ! i) @
      concat (map (record_bytes nd C L ty) (drop (Suc i) rs))"
    using id_take_nth_drop [OF assms] by (metis concat.simps(2) concat_append list.simps(9) map_append)
  then show ?thesis using that by (simp add: file_image_def)
qed

lemma read_header_payload:
  assumes d: "data f = pre @ (hdr @ pl) @ post" and len: "length (data f) < 2 ^ 64" and h: "length hdr = 9"
  shows "rf_Read F f (of_nat (length pre)) (of_nat kRecordHeaderSize) = (OK, hdr)"
    and "rf_Read F f (of_nat (length pre) + of_nat kRecordHeaderSize) (of_nat (length pl)) = (OK, pl)"
proof -
  have "data f = pre @ hdr @ (pl @ post)" using d by simp
  from read_part [OF this len] h show "rf_Read F f (of_nat (length pre)) (of_nat kRecordHeaderSize) = (OK, hdr)"
    by (simp add: kRecordHeaderSize_def)
  have "data f = (pre @ hdr) @ pl @ post" using d by simp
  from read_part [OF this len] h
  show "rf_Read F f (of_nat (length pre) + of_nat kRecordHeaderSize) (of_nat (length pl)) = (OK, pl)"
    by (simp add: kRecordHeaderSize_def)
qed

lemma get_record_step:
  assumes at: "scan_at nd C L ty data rs i it" and i: "i < length rs" and sc: "scannable nd C L ty rs"
  obtains d where "BlobFileIterator_GetBlobRecord nd' C L F it =
    Some (it\<lparr>it_status := OK, it_decoder := d, it_cur_blob_record := rs ! i,
             it_cur_record_offset := it_iterate_offset it,
             it_cur_record_size := of_nat (length (record_bytes nd C L ty (rs ! i))),
             it_iterate_offset := of_nat (8 + length (concat (map (record_bytes nd C L ty) (take (Suc i) rs)))),
             it_valid := True\<rparr>)"
proof -
  let ?r = "rs ! i"
  let ?pre = "BlobFileHeader_EncodeTo C new_BlobFileHeader @ concat (map (record_bytes nd C L ty) (take i rs))"
  have st: "storable C ?r" "\<not> only_value ?r" and len: "length (data (it_file it)) < 2 ^ 64"
    using sc i at by (auto simp: scannable_def scan_at_def)
  obtain post where img: "data (it_file it) = ?pre @ record_bytes nd C L ty ?r @ post"
    using image_parts [OF i] at by (metis scan_at_def)
  obtain hdr pl where e: "BlobEncoder_EncodeRecord nd C L ty ?r = Some (hdr, pl)"
    "record_bytes nd C L ty ?r = hdr @ pl" "length pl < 2 ^ 32" "length hdr = 9"
    using record_encoded [OF st(1)] by metis
  note rd = read_header_payload [OF img [unfolded e(2)] len e(4)]
  have off: "it_iterate_offset it = of_nat (length ?pre)" using at by (simp add: scan_at_def)
  have ov: "only_value (it_cur_blob_record it) = only_value ?r" using at st(2) by (simp add: scan_at_def)
  have fits: "record_fits ?r" using st(1) by (simp add: storable_def)
  obtain d where d: "BlobDecoder_DecodeHeader C (it_decoder it) (hdr @ []) = Some (OK, d, [])"
      "\<And>nd' buf s. BlobDecoder_DecodeRecord nd' C L d (pl @ s) (it_cur_blob_record it) buf
           = Some (OK, record_seen ?r (it_cur_blob_record it), s, owned_buffer d ?r buf)"
      "d_record_size d = of_nat (length pl)"
    using record_roundtrip [OF e(1,3) fits ov] by metis
  have seen: "record_seen ?r (it_cur_blob_record it) = ?r"
    using at st(2) by (simp add: record_seen_def scan_at_def)
  have sz: "ucast (d_record_size d) = (of_nat (length pl) :: u64)"
    using e(3) d(3) by (simp add: unsigned_of_nat take_bit_nat_eq_self)
  have next_off: "of_nat (8 + length (concat (map (record_bytes nd C L ty) (take (Suc i) rs))))
      = it_iterate_offset it + (of_nat kRecordHeaderSize + (of_nat (length pl) :: u64))"
    using i e(2,4) by (simp add: off take_Suc_conv_app_nth kRecordHeaderSize_def)
  have run: "BlobFileIterator_GetBlobRecord nd' C L F it =
    Some (it\<lparr>it_status := OK, it_decoder := d, it_cur_blob_record := ?r, it_cur_record_offset := it_iterate_offset it,
             it_cur_record_size := of_nat kRecordHeaderSize + of_nat (length pl),
             it_iterate_offset := it_iterate_offset it + (of_nat kRecordHeaderSize + of_nat (length pl)),
             it_valid := True\<rparr>)"
    using d(1) d(2) [of nd' "[]" "[]"] rd
    by (simp add: BlobFileIterator_GetBlobRecord_def off sz seen Let_def)
  show ?thesis
    by (rule that [of d], unfold next_off run) (simp add: e(2,4) kRecordHeaderSize_def)
qed

end

lemma scan_at_status: "scan_at nd C L ty data rs i it \<Longrightarrow> it_status it = OK"
  by (simp add: scan_at_def)

lemma scan_at_readahead:
  "data (it_file it') = data (it_file it) \<Longrightarrow> it_init it' = it_init it \<Longrightarrow>
   it_status it' = it_status it \<Longrightarrow> it_end_of_blob_record it' = it_end_of_blob_record it \<Longrightarrow>
   it_iterate_offset it' = it_iterate_offset it \<Longrightarrow> it_cur_blob_record it' = it_cur_blob_record it \<Longrightarrow>
   readahead_ok (it_readahead_size it') \<Longrightarrow> scan_at nd C L ty data rs i it \<Longrightarrow> scan_at nd C L ty data rs i it'"
  by (simp add: scan_at_def)

context blob_reading
begin

lemma align_scan:
  assumes "scan_at nd C L ty data rs i it"
  shows "scan_at nd C L ty data rs i (align_readahead page it)"
    and "it_file_number (align_readahead page it) = it_file_number it"
    and "it_iterate_offset (align_readahead page it) = it_iterate_offset it"
  using assms by (simp_all add: scan_at_def align_readahead_def Let_def readahead_ok_def
      it_kMinReadaheadSize_def it_kMaxReadaheadSize_def)

lemma extend_scan:
  assumes at: "scan_at nd C L ty data rs i it"
  obtains it' where "extend_readahead F opts it = Some it'" "scan_at nd C L ty data rs i it'"
    "it_file_number it' = it_file_number it" "it_iterate_offset it' = it_iterate_offset it"
proof -
  let ?mb = "it_iterate_offset it + of_nat kRecordHeaderSize + min_blob_size opts"
  obtain n where n: "grow_readahead 64 (it_readahead_end it) ?mb (it_readahead_size it) = Some n"
      "readahead_ok (min it_kMaxReadaheadSize (n * 2))"
    using grow_readahead_returns at by (metis scan_at_def)
  show ?thesis
  proof (cases "it_readahead_end it \<le> ?mb")
    case True
    with n at show ?thesis
      by (intro that [of "it\<lparr>it_file := rf_Prefetch F (it_file it) (it_readahead_end it) n,
                 it_readahead_end := it_readahead_end it + n,
                 it_readahead_size := min it_kMaxReadaheadSize (n * 2)\<rparr>"])
         (auto simp: extend_readahead_def intro: scan_at_readahead)
  next
    case False
    with at show ?thesis by (intro that [of it]) (simp_all add: extend_readahead_def)
  qed
qed

lemma offset_below_end:
  assumes i: "i < length rs" and sc: "scannable nd C L ty rs" and at: "scan_at nd C L ty data rs i it"
  shows "\<not> it_end_of_blob_record it \<le> it_iterate_offset it"
proof -
  let ?c = "\<lambda>rs. concat (map (record_bytes nd C L ty) rs)"
  obtain hdr pl where "record_bytes nd C L ty (rs ! i) = hdr @ pl" "length hdr = 9"
    using record_encoded [of "rs ! i" nd ty] sc i by (metis nth_mem scannable_def)
  then have pos: "0 < length (record_bytes nd C L ty (rs ! i))" by simp
  have split: "?c rs = ?c (take i rs) @ record_bytes nd C L ty (rs ! i) @ ?c (drop (Suc i) rs)"
    using id_take_nth_drop [OF i] by (metis concat.simps(2) concat_append list.simps(9) map_append)
  have big: "8 + length (?c rs) < 2 ^ 64" using sc by (simp add: scannable_def file_image_def)
  have "unat (of_nat (8 + length (?c rs)) :: u64) = 8 + length (?c rs)"
    using big by (subst unat_of_nat) simp
  moreover have "unat (of_nat (8 + length (?c (take i rs))) :: u64) = 8 + length (?c (take i rs))"
    using big split by (subst unat_of_nat) simp
  ultimately show ?thesis using at pos split by (simp add: scan_at_def word_le_nat_alt)
qed

lemma prefetch_step:
  assumes at: "scan_at nd C L ty data rs i it" and sc: "scannable nd C L ty rs"
  shows "\<exists>it'. BlobFileIterator_PrefetchAndGet nd' C L F page opts it = Some it'
     \<and> it_file_number it' = it_file_number it
     \<and> (if i < length rs
        then scan_at nd C L ty data rs (Suc i) it' \<and> BlobFileIterator_Valid it'
           \<and> it_item it' = file_item nd C L ty (it_file_number it) rs i
        else scan_at nd C L ty data rs i it' \<and> \<not> BlobFileIterator_Valid it')"
proof (cases "i < length rs")
  case False
  then have "it_iterate_offset it = it_end_of_blob_record it" using at by (simp add: scan_at_def)
  with False at show ?thesis
    by (simp add: BlobFileIterator_PrefetchAndGet_def BlobFileIterator_Valid_def scan_at_def)
next
  case True
  note go = offset_below_end [OF True sc at]
  obtain b where b: "extend_readahead F opts (align_readahead page it) = Some b"
      "scan_at nd C L ty data rs i b" "it_file_number b = it_file_number it"
      "it_iterate_offset b = it_iterate_offset it"
    using extend_scan [OF align_scan(1) [OF at, of page]] align_scan(2,3) [OF at, of page] by metis
  obtain d where g: "BlobFileIterator_GetBlobRecord nd' C L F b = Some (b\<lparr>it_status := OK, it_decoder := d,
             it_cur_blob_record := rs ! i, it_cur_record_offset := it_iterate_offset b,
             it_cur_record_size := of_nat (length (record_bytes nd C L ty (rs ! i))),
             it_iterate_offset := of_nat (8 + length (concat (map (record_bytes nd C L ty) (take (Suc i) rs)))),
             it_valid := True\<rparr>)" (is "_ = Some ?c")
    using get_record_step [OF b(2) True sc] .
  have C: "scan_at nd C L ty data rs (Suc i) ?c" "BlobFileIterator_Valid ?c"
      "it_item ?c = file_item nd C L ty (it_file_number it) rs i" "it_file_number ?c = it_file_number it"
    using b True sc
    by (auto simp: scan_at_def scannable_def BlobFileIterator_Valid_def it_item_def file_item_def
          BlobFileIterator_key_def BlobFileIterator_value_def BlobFileIterator_GetBlobIndex_def
          handles_from_nth take_map)
  let ?d = "if it_readahead_end ?c < it_iterate_offset ?c
            then ?c\<lparr>it_readahead_end := it_iterate_offset ?c\<rparr> else ?c"
  have "BlobFileIterator_PrefetchAndGet nd' C L F page opts it = Some ?d"
    using go b(1) g by (simp add: BlobFileIterator_PrefetchAndGet_def)
  moreover have "scan_at nd C L ty data rs (Suc i) ?d" "BlobFileIterator_Valid ?d"
      "it_item ?d = file_item nd C L ty (it_file_number it) rs i" "it_file_number ?d = it_file_number it"
    using C
    by (auto simp: scan_at_def BlobFileIterator_Valid_def it_item_def
          BlobFileIterator_key_def BlobFileIterator_value_def BlobFileIterator_GetBlobIndex_def)
  ultimately show ?thesis using True by auto
qed

end

text \<open>A client reads positions until the iterator is no longer valid.\<close>

fun drain ::
    "nat \<Rightarrow> ('i \<Rightarrow> bool) \<Rightarrow> ('i \<Rightarrow> 'x option) \<Rightarrow> ('i \<Rightarrow> 'i option) \<Rightarrow> 'i \<Rightarrow> ('x list \<times> 'i) option" where
  "drain 0 valid item step it = None"
| "drain (Suc fuel) valid item step it =
     (if \<not> valid it then Some ([], it)
      else do {
        x \<leftarrow> item it;
        it \<leftarrow> step it;
        (xs, it) \<leftarrow> drain fuel valid item step it;
        Some (x # xs, it)
      })"

text \<open>
  \<open>yields step xs it\<close>: the iterator hands out exactly the items \<open>xs\<close>, one after each
  step, and is then no longer valid.
\<close>

primrec yields ::
    "('f BlobFileIterator \<Rightarrow> 'f BlobFileIterator option) \<Rightarrow> (bytes \<times> bytes \<times> BlobIndex) list
     \<Rightarrow> 'f BlobFileIterator \<Rightarrow> bool" where
  "yields step [] it = (\<not> BlobFileIterator_Valid it)"
| "yields step (x # xs) it =
     (BlobFileIterator_Valid it \<and> it_item it = x \<and> (\<exists>it'. step it = Some it' \<and> yields step xs it'))"

lemma yields_valid: "yields step xs it \<Longrightarrow> BlobFileIterator_Valid it \<longleftrightarrow> xs \<noteq> []"
  by (cases xs) auto

lemma drain_yields:
  "yields step xs it \<Longrightarrow>
   \<exists>it'. drain (Suc (length xs)) BlobFileIterator_Valid (Some \<circ> it_item) step it = Some (xs, it')
       \<and> \<not> BlobFileIterator_Valid it'"
  by (induction xs arbitrary: it) fastforce+

context blob_reading
begin

lemma init_image:
  assumes f: "data f = file_image nd C L ty rs" and sc: "scannable nd C L ty rs" and ne: "rs \<noteq> []"
    and it: "it = new_BlobFileIterator L o0 z0 f n (of_nat (length (data f)))"
  shows "BlobFileIterator_Init nd' C F it = Some (True, it\<lparr>it_status := OK, it_init := True,
      it_end_of_blob_record := of_nat (8 + length (concat (map (record_bytes nd C L ty) rs)))\<rparr>)"
proof -
  let ?hdr = "BlobFileHeader_EncodeTo C new_BlobFileHeader"
  let ?foot = "BlobFileFooter_EncodeTo C new_BlobFileFooter"
  let ?c = "concat (map (record_bytes nd C L ty) rs)"
  have len: "length (data f) < 2 ^ 64" using f sc by (simp add: scannable_def)
  have d1: "data f = [] @ ?hdr @ (?c @ ?foot)" and d2: "data f = (?hdr @ ?c) @ ?foot @ []"
    using f by (simp_all add: file_image_def)
  have r1: "rf_Read F f 0 kBlobHeaderSize = (OK, ?hdr)"
    using read_part [OF d1 len] by (simp add: kBlobHeaderSize_def)
  have off: "of_nat (length (data f)) - of_nat (kBlobFooterSize C) = (of_nat (8 + length ?c) :: u64)"
    using d2 by simp
  have r2: "rf_Read F f (of_nat (8 + length ?c)) (of_nat (kBlobFooterSize C)) = (OK, ?foot)"
    using read_part [OF d2 len] by simp
  have "0 < length ?c"
  proof -
    have "storable C (hd rs)" using sc ne by (simp add: scannable_def)
    then obtain hdr pl where "record_bytes nd C L ty (hd rs) = hdr @ pl" "length hdr = 9"
      by (rule record_encoded)
    then show ?thesis using ne by (cases rs) auto
  qed
  moreover have "unat (of_nat (8 + length ?c) :: u64) = 8 + length ?c"
    using len d2 by (subst unat_of_nat) simp
  ultimately have big: "kBlobHeaderSize < (of_nat (8 + length ?c) :: u64)"
    by (simp add: kBlobHeaderSize_def word_less_nat_alt)
  have h: "BlobFileHeader_DecodeFrom C new_BlobFileHeader (?hdr @ []) = (OK, new_BlobFileHeader, [])"
    by (rule header_roundtrip) (simp add: new_BlobFileHeader_def)
  have ft: "BlobFileFooter_DecodeFrom C new_BlobFileFooter (?foot @ []) = Some (OK, new_BlobFileFooter, [])"
    by (rule footer_roundtrip)
  have m: "snd (meta_index_handle new_BlobFileFooter) = 0" by (simp add: new_BlobFileFooter_def)
  show ?thesis
    using r1 r2 h ft big off m
    by (simp add: BlobFileIterator_Init_def it new_BlobFileIterator_def)
qed

lemma seek_image:
  assumes f: "data f = file_image nd C L ty rs" and sc: "scannable nd C L ty rs" and ne: "rs \<noteq> []"
  shows "\<exists>it'. BlobFileIterator_SeekToFirst nd' C L F page opts
            (new_BlobFileIterator L o0 z0 f n (of_nat (length (data f)))) = Some it'
     \<and> it_file_number it' = n \<and> scan_at nd C L ty data rs 1 it' \<and> BlobFileIterator_Valid it'
     \<and> it_item it' = file_item nd C L ty n rs 0"
proof -
  let ?it = "new_BlobFileIterator L o0 z0 f n (of_nat (length (data f)))"
  let ?i = "?it\<lparr>it_status := OK, it_init := True,
      it_end_of_blob_record := of_nat (8 + length (concat (map (record_bytes nd C L ty) rs)))\<rparr>"
  let ?j = "?i\<lparr>it_status := OK, it_iterate_offset := kBlobHeaderSize\<rparr>"
  have at: "scan_at nd C L ty data rs 0 ?j" and n: "it_file_number ?j = n"
    using f by (simp_all add: scan_at_def new_BlobFileIterator_def kBlobHeaderSize_def empty_BlobRecord_def
          readahead_ok_def it_kMinReadaheadSize_def it_kMaxReadaheadSize_def)
  have "BlobFileIterator_SeekToFirst nd' C L F page opts ?it
      = BlobFileIterator_PrefetchAndGet nd' C L F page opts ?j"
    using init_image [OF f sc ne refl, of nd']
    by (simp add: BlobFileIterator_SeekToFirst_def new_BlobFileIterator_def)
  with prefetch_step [OF at sc, of nd' page opts] ne n show ?thesis by auto
qed

lemma scan_yields:
  assumes "scan_at nd C L ty data rs i it" and "scannable nd C L ty rs" and "0 < i"
    and "BlobFileIterator_Valid it" and "it_item it = file_item nd C L ty (it_file_number it) rs (i - 1)"
  shows "yields (BlobFileIterator_Next nd' C L F page opts)
           (map (file_item nd C L ty (it_file_number it) rs) [i - 1..<length rs]) it"
  using assms
proof (induction "length rs - i" arbitrary: i it)
  case 0
  then have i: "i = length rs" using 0 by (simp add: scan_at_def)
  obtain it' where st: "BlobFileIterator_PrefetchAndGet nd' C L F page opts it = Some it'"
      "\<not> BlobFileIterator_Valid it'"
    using prefetch_step [OF 0(2,3), of nd' page opts] i by auto
  have up: "[length rs - 1..<length rs] = [length rs - 1]" using i 0(4) by (cases "length rs") auto
  have "it_init it" using 0(2) by (simp add: scan_at_def)
  with st i 0(5,6) up show ?case by (simp add: BlobFileIterator_Next_def)
next
  case (Suc k)
  then have i: "i < length rs" by auto
  obtain it' where st: "BlobFileIterator_PrefetchAndGet nd' C L F page opts it = Some it'"
      "it_file_number it' = it_file_number it" "scan_at nd C L ty data rs (Suc i) it'"
      "BlobFileIterator_Valid it'" "it_item it' = file_item nd C L ty (it_file_number it) rs i"
    using prefetch_step [OF Suc(3,4), of nd' page opts] i by auto
  have k: "k = length rs - Suc i" using Suc(2) by simp
  have rest: "yields (BlobFileIterator_Next nd' C L F page opts)
      (map (file_item nd C L ty (it_file_number it) rs) [i..<length rs]) it'"
    using Suc(1) [OF k st(3) Suc(4)] st by auto
  have up: "[i - 1..<length rs] = (i - 1) # [i..<length rs]" using i Suc(5) by (simp add: upt_rec)
  have "it_init it" using Suc(3) by (simp add: scan_at_def)
  with st(1) rest Suc(6,7) show ?case
    unfolding up by (simp add: BlobFileIterator_Next_def)
qed

lemma seek_yields:
  assumes f: "data f = file_image nd C L ty rs" and sc: "scannable nd C L ty rs" and ne: "rs \<noteq> []"
  shows "\<exists>it'. BlobFileIterator_SeekToFirst nd' C L F page opts
            (new_BlobFileIterator L o0 z0 f n (of_nat (length (data f)))) = Some it'
     \<and> yields (BlobFileIterator_Next nd' C L F page opts)
           (map (file_item nd C L ty n rs) [0..<length rs]) it'"
  using seek_image [OF assms, of nd' page opts o0 z0 n] scan_yields [OF _ sc, of 1] by fastforce

end

section \<open>The smallest key comes first\<close>

context comparator_laws
begin

lemma heap_top_min:
  "heap_top cmp key xs = Some y \<Longrightarrow> y \<in> set xs \<and> (\<forall>x\<in>set xs. cmp (key y) (key x) \<le> 0)"
proof (induction xs arbitrary: y)
  case (Cons x xs)
  show ?case
  proof (cases "heap_top cmp key xs")
    case None
    then have "xs = []" by (cases xs) (auto split: option.splits if_splits)
    with Cons.prems show ?thesis by simp
  next
    case (Some z)
    note z = Cons.IH [OF Some]
    show ?thesis
    proof (cases "cmp (key x) (key z) > 0")
      case True
      then have "cmp (key z) (key x) \<le> 0" using cmp_swap by force
      with True Some Cons.prems z show ?thesis by auto
    next
      case False
      then have "cmp (key x) (key z) \<le> 0" by simp
      with False Some Cons.prems z cmp_trans show ?thesis by auto
    qed
  qed
qed simp

lemma heap_top_None: "heap_top cmp key xs = None \<longleftrightarrow> xs = []"
  by (cases xs) (auto split: option.splits)

end

section \<open>The merge\<close>

text \<open>
  \<open>merge_ok step cmp rest m\<close>: the iterator of index \<open>i\<close> still yields \<open>rest ! i\<close>; those
  with something left are the current one and the ones in the heap, and no key in the
  heap is smaller than the current one.
\<close>

definition merge_ok ::
    "('f BlobFileIterator \<Rightarrow> 'f BlobFileIterator option) \<Rightarrow> comparator \<Rightarrow> (bytes \<times> bytes \<times> BlobIndex) list list
     \<Rightarrow> 'f BlobFileMergeIterator \<Rightarrow> bool" where
  "merge_ok step cmp rest m =
     (length (mi_iterators m) = length rest \<and> mi_status m = OK \<and> distinct (mi_min_heap m) \<and>
      (\<forall>i<length rest. yields step (rest ! i) (mi_iterators m ! i)) \<and>
      (\<forall>i. i \<in> set (mi_min_heap m) \<or> mi_current m = Some i \<longleftrightarrow> i < length rest \<and> rest ! i \<noteq> []) \<and>
      (case mi_current m of
         None \<Rightarrow> mi_min_heap m = []
       | Some i \<Rightarrow> i \<notin> set (mi_min_heap m) \<and>
           (\<forall>j\<in>set (mi_min_heap m). cmp (fst (hd (rest ! i))) (fst (hd (rest ! j))) \<le> 0)))"

definition merge_item :: "'f BlobFileMergeIterator \<Rightarrow> (bytes \<times> bytes \<times> BlobIndex) option" where
  "merge_item m = do {
     k \<leftarrow> MergeIterator_key False m;
     v \<leftarrow> MergeIterator_value False m;
     x \<leftarrow> MergeIterator_GetBlobIndex m;
     Some (k, v, x)
   }"

lemma yields_key: "yields step (x # xs) it \<Longrightarrow> BlobFileIterator_key it = fst x"
  by (auto simp: it_item_def)

lemma merge_ok_valid:
  assumes "merge_ok step cmp rest m"
  shows "MergeIterator_Valid m \<longleftrightarrow> mi_current m \<noteq> None"
proof (cases "mi_current m")
  case (Some i)
  then have "i < length rest" "rest ! i \<noteq> []" "yields step (rest ! i) (mi_iterators m ! i)" "mi_status m = OK"
    using assms by (auto simp: merge_ok_def)
  then have "BlobFileIterator_Valid (mi_iterators m ! i)" by (simp add: yields_valid)
  with Some \<open>mi_status m = OK\<close> show ?thesis
    by (simp add: MergeIterator_Valid_def MergeIterator_status_def BlobFileIterator_Valid_def)
qed (simp add: MergeIterator_Valid_def)

lemma merge_ok_item:
  assumes "merge_ok step cmp rest m" and "mi_current m = Some i"
  shows "merge_item m = Some (hd (rest ! i))"
proof -
  have ne: "rest ! i \<noteq> []" and y: "yields step (rest ! i) (mi_iterators m ! i)"
    using assms by (auto simp: merge_ok_def)
  from ne obtain x xs where x: "rest ! i = x # xs" by (cases "rest ! i") simp_all
  with y have "it_item (mi_iterators m ! i) = x" by simp
  with x assms(2) show ?thesis
    by (auto simp: merge_item_def MergeIterator_key_def MergeIterator_value_def
          MergeIterator_GetBlobIndex_def it_item_def)
qed

text \<open>Taking the next element from the heap establishes the invariant.\<close>

definition take_top :: "comparator \<Rightarrow> 'f BlobFileMergeIterator \<Rightarrow> 'f BlobFileMergeIterator" where
  "take_top cmp m =
     (case heap_top cmp (mi_key_of m) (mi_min_heap m) of
        Some j \<Rightarrow> m\<lparr>mi_current := Some j, mi_min_heap := remove1 j (mi_min_heap m)\<rparr>
      | None \<Rightarrow> m\<lparr>mi_current := None\<rparr>)"

context comparator_laws
begin

lemma take_top_ok:
  assumes "length (mi_iterators m) = length rest" and "mi_status m = OK" and "distinct (mi_min_heap m)"
    and y: "\<forall>i<length rest. yields step (rest ! i) (mi_iterators m ! i)"
    and h: "\<forall>i. i \<in> set (mi_min_heap m) \<longleftrightarrow> i < length rest \<and> rest ! i \<noteq> []"
  shows "merge_ok step cmp rest (take_top cmp m)"
proof (cases "heap_top cmp (mi_key_of m) (mi_min_heap m)")
  case None
  then have "mi_min_heap m = []" by (simp add: heap_top_None)
  with None assms show ?thesis by (simp add: merge_ok_def take_top_def)
next
  case (Some j)
  note top = heap_top_min [OF Some]
  have key: "mi_key_of m i = fst (hd (rest ! i))" if "i \<in> set (mi_min_heap m)" for i
    using that h y yields_key by (cases "rest ! i") (fastforce simp: mi_key_of_def)+
  have "\<forall>i\<in>set (remove1 j (mi_min_heap m)). cmp (fst (hd (rest ! j))) (fst (hd (rest ! i))) \<le> 0"
    using top key by (metis notin_set_remove1)
  with Some top assms show ?thesis
    by (auto simp: merge_ok_def take_top_def)
qed

lemma merge_next:
  assumes ok: "merge_ok (BlobFileIterator_Next nd C L F page opts) cmp rest m" and c: "mi_current m = Some i"
  shows "\<exists>m'. MergeIterator_Next nd C L F page opts cmp m = Some m'
     \<and> merge_ok (BlobFileIterator_Next nd C L F page opts) cmp (rest[i := tl (rest ! i)]) m'"
proof -
  let ?step = "BlobFileIterator_Next nd C L F page opts"
  have i: "i < length rest" "rest ! i \<noteq> []" "i \<notin> set (mi_min_heap m)"
      and y: "yields ?step (rest ! i) (mi_iterators m ! i)"
      and len: "length (mi_iterators m) = length rest"
    using ok c by (auto simp: merge_ok_def)
  from i(2) y obtain it' where st: "?step (mi_iterators m ! i) = Some it'" "yields ?step (tl (rest ! i)) it'"
    by (cases "rest ! i") auto
  let ?m = "m\<lparr>mi_iterators := (mi_iterators m)[i := it']\<rparr>"
  let ?p = "if IsOk (it_status it') \<and> BlobFileIterator_Valid it' then heap_push i ?m else ?m"
  let ?r = "rest[i := tl (rest ! i)]"
  have push: "IsOk (it_status it') \<and> BlobFileIterator_Valid it' \<longleftrightarrow> tl (rest ! i) \<noteq> []"
    using yields_valid [OF st(2)] by (auto simp: BlobFileIterator_Valid_def)
  have its: "mi_iterators ?p = (mi_iterators m)[i := it']"
      and hp: "set (mi_min_heap ?p) = set (mi_min_heap m) \<union> (if tl (rest ! i) \<noteq> [] then {i} else {})"
    using push by (auto simp: heap_push_def)
  have mem: "j \<in> set (mi_min_heap m) \<longleftrightarrow> j \<noteq> i \<and> j < length rest \<and> rest ! j \<noteq> []" for j
    using ok c i by (auto simp: merge_ok_def)
  have "merge_ok ?step cmp ?r (take_top cmp ?p)"
  proof (rule take_top_ok)
    have "yields ?step (?r ! j) ((mi_iterators m)[i := it'] ! j)" if "j < length rest" for j
      using ok st(2) len that by (cases "j = i") (simp_all add: merge_ok_def)
    then show "\<forall>j<length ?r. yields ?step (?r ! j) (mi_iterators ?p ! j)" unfolding its by simp
    have "j \<in> set (mi_min_heap ?p) \<longleftrightarrow> j < length rest \<and> ?r ! j \<noteq> []" for j
      unfolding hp using mem [of j] i(1) by (cases "j = i") simp_all
    then show "\<forall>j. j \<in> set (mi_min_heap ?p) \<longleftrightarrow> j < length ?r \<and> ?r ! j \<noteq> []" by simp
  qed (use ok i len in \<open>simp_all add: merge_ok_def heap_push_def\<close>)
  moreover have "MergeIterator_Next nd C L F page opts cmp m = Some (take_top cmp ?p)"
    using merge_ok_valid [OF ok] c st(1)
    by (simp add: MergeIterator_Next_def take_top_def Let_def)
  ultimately show ?thesis by blast
qed

end

lemma merge_ok_current:
  "merge_ok step cmp rest m \<Longrightarrow> mi_current m = Some i \<Longrightarrow> i < length rest \<and> rest ! i \<noteq> []"
  by (auto simp: merge_ok_def)

lemma merge_ok_done:
  assumes "merge_ok step cmp rest m"
  shows "mi_current m = None \<longleftrightarrow> concat rest = []"
proof
  assume "mi_current m = None"
  then have "\<forall>i<length rest. rest ! i = []" using assms by (auto simp: merge_ok_def)
  then show "concat rest = []" by (metis concat_eq_Nil_conv in_set_conv_nth)
next
  assume "concat rest = []"
  then have "\<forall>i<length rest. rest ! i = []" by simp
  then show "mi_current m = None" using merge_ok_current [OF assms] by (cases "mi_current m") auto
qed

definition key_sorted :: "comparator \<Rightarrow> (bytes \<times> bytes \<times> BlobIndex) list \<Rightarrow> bool" where
  "key_sorted cmp xs = sorted_wrt (\<lambda>a b. cmp (fst a) (fst b) \<le> 0) xs"

lemma concat_update_tl:
  assumes "i < length rest" and "rest ! i = x # xs"
  shows "mset (concat rest) = add_mset x (mset (concat (rest[i := xs])))"
    and "length (concat rest) = Suc (length (concat (rest[i := xs])))"
proof -
  have r: "rest = take i rest @ (x # xs) # drop (Suc i) rest"
    using id_take_nth_drop [OF assms(1)] assms(2) by simp
  have u: "rest[i := xs] = take i rest @ xs # drop (Suc i) rest"
    using assms(1) by (simp add: upd_conv_take_nth_drop)
  show "mset (concat rest) = add_mset x (mset (concat (rest[i := xs])))"
    unfolding u by (subst r) simp
  show "length (concat rest) = Suc (length (concat (rest[i := xs])))"
    unfolding u by (subst r) simp
qed

context comparator_laws
begin

lemma current_smallest:
  assumes ok: "merge_ok step cmp rest m" and c: "mi_current m = Some i"
    and s: "\<forall>xs\<in>set rest. key_sorted cmp xs" and y: "y \<in> set (concat rest)"
  shows "cmp (fst (hd (rest ! i))) (fst y) \<le> 0"
proof -
  obtain zs where "zs \<in> set rest" "y \<in> set zs" using y by auto
  then obtain j where j: "j < length rest" "y \<in> set (rest ! j)" by (metis in_set_conv_nth)
  then have ne: "rest ! j \<noteq> []" by auto
  have "key_sorted cmp (rest ! j)" using s j(1) by simp
  with ne j(2) have hdy: "cmp (fst (hd (rest ! j))) (fst y) \<le> 0"
    by (cases "rest ! j") (auto simp: key_sorted_def)
  have "j \<in> set (mi_min_heap m) \<or> j = i" using ok c j(1) ne by (auto simp: merge_ok_def)
  then show ?thesis
  proof
    assume "j \<in> set (mi_min_heap m)"
    then have "cmp (fst (hd (rest ! i))) (fst (hd (rest ! j))) \<le> 0" using ok c by (simp add: merge_ok_def)
    with hdy cmp_trans show ?thesis by blast
  qed (use hdy in simp)
qed

lemma merge_drain:
  assumes "merge_ok (BlobFileIterator_Next nd C L F page opts) cmp rest m"
  shows "\<exists>ys m'. drain (Suc (length (concat rest))) MergeIterator_Valid merge_item
             (MergeIterator_Next nd C L F page opts cmp) m = Some (ys, m')
           \<and> mset ys = mset (concat rest)
           \<and> ((\<forall>xs\<in>set rest. key_sorted cmp xs) \<longrightarrow> key_sorted cmp ys)"
  using assms
proof (induction "length (concat rest)" arbitrary: rest m)
  case 0
  then have e: "concat rest = []" by simp
  then have "\<not> MergeIterator_Valid m"
    using merge_ok_valid [OF 0(2)] merge_ok_done [OF 0(2)] by simp
  with e show ?case by (simp add: key_sorted_def)
next
  case (Suc n)
  have "concat rest \<noteq> []" using Suc(2) by (metis Zero_not_Suc list.size(3))
  then obtain i where c: "mi_current m = Some i"
    using merge_ok_done [OF Suc.prems] by (cases "mi_current m") simp_all
  obtain x xs where x: "i < length rest" "rest ! i = x # xs"
    using merge_ok_current [OF Suc.prems c] by (cases "rest ! i") simp_all
  note cu = concat_update_tl [OF x]
  obtain m' where st: "MergeIterator_Next nd C L F page opts cmp m = Some m'"
      and ok': "merge_ok (BlobFileIterator_Next nd C L F page opts) cmp (rest[i := xs]) m'"
    using merge_next [OF Suc.prems c] x(2) by auto
  have n: "n = length (concat (rest[i := xs]))" using Suc(2) cu(2) by simp
  obtain ys m'' where IH: "drain (Suc n) MergeIterator_Valid merge_item
        (MergeIterator_Next nd C L F page opts cmp) m' = Some (ys, m'')"
      "mset ys = mset (concat (rest[i := xs]))"
      "(\<forall>xs\<in>set (rest[i := xs]). key_sorted cmp xs) \<longrightarrow> key_sorted cmp ys"
    using Suc(1) [OF n ok'] n by blast
  have v: "MergeIterator_Valid m" and it: "merge_item m = Some x"
    using merge_ok_valid [OF Suc.prems] merge_ok_item [OF Suc.prems c] c x(2) by auto
  have run: "drain (Suc (length (concat rest))) MergeIterator_Valid merge_item
        (MergeIterator_Next nd C L F page opts cmp) m = Some (x # ys, m'')"
  proof -
    have "length (concat rest) = Suc n" using cu(2) n by simp
    then show ?thesis using v it st IH(1) by (simp del: drain.simps(2) add: drain.simps(2) [of "Suc n"])
  qed
  have ord: "key_sorted cmp (x # ys)" if s: "\<forall>xs\<in>set rest. key_sorted cmp xs"
  proof -
    have "rest ! i \<in> set rest" using x(1) by simp
    then have "key_sorted cmp (x # xs)" using s x(2) by metis
    then have "key_sorted cmp xs" by (simp add: key_sorted_def)
    then have "set (rest[i := xs]) \<subseteq> Collect (key_sorted cmp)" using s by (intro set_update_subsetI) blast+
    with IH(3) have "key_sorted cmp ys" by blast
    moreover have "cmp (fst x) (fst y) \<le> 0" if "y \<in> set ys" for y
    proof -
      have "y \<in># mset (concat (rest[i := xs]))" using that IH(2) by (metis set_mset_mset)
      then have "y \<in># mset (concat rest)" unfolding cu(1) by simp
      then have "y \<in> set (concat rest)" by (simp only: set_mset_mset)
      from current_smallest [OF Suc.prems c s this] show ?thesis unfolding x(2) by simp
    qed
    ultimately show ?thesis by (simp add: key_sorted_def)
  qed
  have "mset (x # ys) = mset (concat rest)" using IH(2) cu(1) by simp
  with run ord show ?case by blast
qed

end

lemma seek_each_all:
  assumes "\<And>i. i < length its \<Longrightarrow> \<exists>it'. seek (its ! i) = Some it' \<and> yields step (rest ! i) it' \<and> rest ! i \<noteq> []"
    and "k \<le> length its" and "length (mi_iterators m) = length its"
    and "\<forall>i. k \<le> i \<and> i < length its \<longrightarrow> mi_iterators m ! i = its ! i"
    and "\<forall>i<k. yields step (rest ! i) (mi_iterators m ! i)" and "mi_min_heap m = [0..<k]"
    and "mi_status m = OK"
  shows "\<exists>m'. seek_each seek [k..<length its] m = Some m' \<and> length (mi_iterators m') = length its
     \<and> (\<forall>i<length its. yields step (rest ! i) (mi_iterators m' ! i))
     \<and> mi_min_heap m' = [0..<length its] \<and> mi_status m' = OK"
  using assms(2-7)
proof (induction "length its - k" arbitrary: k m)
  case (Suc n)
  then have k: "k < length its" by simp
  obtain it' where s: "seek (its ! k) = Some it'" "yields step (rest ! k) it'" "rest ! k \<noteq> []"
    using assms(1) [OF k] by blast
  have v: "BlobFileIterator_Valid it'" using yields_valid [OF s(2)] s(3) by simp
  let ?m = "heap_push k (m\<lparr>mi_iterators := (mi_iterators m)[k := it']\<rparr>)"
  have up: "[k..<length its] = k # [Suc k..<length its]" using k by (simp add: upt_rec)
  have cur: "mi_iterators m ! k = its ! k" using Suc.prems(3) k by simp
  have run: "seek_each seek [k..<length its] m = seek_each seek [Suc k..<length its] ?m"
    using s(1) v cur by (simp add: up BlobFileIterator_Valid_def)
  have "\<exists>m'. seek_each seek [Suc k..<length its] ?m = Some m' \<and> length (mi_iterators m') = length its
     \<and> (\<forall>i<length its. yields step (rest ! i) (mi_iterators m' ! i))
     \<and> mi_min_heap m' = [0..<length its] \<and> mi_status m' = OK"
  proof (rule Suc.hyps(1))
    show "n = length its - Suc k" using Suc.hyps(2) by simp
    show "\<forall>i<Suc k. yields step (rest ! i) (mi_iterators ?m ! i)"
      using Suc.prems(2,4) s(2) k by (auto simp: heap_push_def less_Suc_eq)
  qed (use Suc.prems k in \<open>auto simp: heap_push_def\<close>)
  with run show ?case by simp
qed auto

locale file_merging = blob_reading C L F data + comparator_laws cmp
  for C :: coding and L :: codec and F :: "'f rfile" and data :: "'f \<Rightarrow> bytes" and cmp
begin

lemma merge_seek:
  assumes files: "\<forall>(f, n, rs)\<in>set files. data f = file_image nd C L ty rs \<and> scannable nd C L ty rs \<and> rs \<noteq> []"
    and ne: "files \<noteq> []"
  shows "\<exists>m. MergeIterator_SeekToFirst nd' C L F page opts cmp
        (new_BlobFileMergeIterator
          (map (\<lambda>(f, n, rs). new_BlobFileIterator L o0 z0 f n (of_nat (length (data f)))) files)) = Some m
     \<and> merge_ok (BlobFileIterator_Next nd' C L F page opts) cmp
         (map (\<lambda>(f, n, rs). map (file_item nd C L ty n rs) [0..<length rs]) files) m"
proof -
  let ?its = "map (\<lambda>(f, n, rs). new_BlobFileIterator L o0 z0 f n (of_nat (length (data f)))) files"
  let ?rest = "map (\<lambda>(f, n, rs). map (file_item nd C L ty n rs) [0..<length rs]) files"
  let ?seek = "BlobFileIterator_SeekToFirst nd' C L F page opts"
  let ?step = "BlobFileIterator_Next nd' C L F page opts"
  have each: "\<exists>it'. ?seek (?its ! i) = Some it' \<and> yields ?step (?rest ! i) it' \<and> ?rest ! i \<noteq> []"
    if "i < length ?its" for i
  proof -
    obtain f n rs where x: "files ! i = (f, n, rs)" by (cases "files ! i") auto
    with that have "(f, n, rs) \<in> set files" by (metis length_map nth_mem)
    with files have "data f = file_image nd C L ty rs" "scannable nd C L ty rs" "rs \<noteq> []" by auto
    from seek_yields [OF this, of nd' page opts o0 z0 n] x that this(3) show ?thesis by auto
  qed
  have "\<exists>m'. seek_each ?seek [0..<length ?its] (new_BlobFileMergeIterator ?its) = Some m'
     \<and> length (mi_iterators m') = length ?its \<and> (\<forall>i<length ?its. yields ?step (?rest ! i) (mi_iterators m' ! i))
     \<and> mi_min_heap m' = [0..<length ?its] \<and> mi_status m' = OK"
    by (rule seek_each_all [OF each]) (simp_all add: new_BlobFileMergeIterator_def)
  then obtain m where m: "seek_each ?seek [0..<length ?its] (new_BlobFileMergeIterator ?its) = Some m"
      "length (mi_iterators m) = length ?its" "\<forall>i<length ?its. yields ?step (?rest ! i) (mi_iterators m ! i)"
      "mi_min_heap m = [0..<length ?its]" "mi_status m = OK" by blast
  have heap: "i \<in> set (mi_min_heap m) \<longleftrightarrow> i < length ?rest \<and> ?rest ! i \<noteq> []" for i
    using m(4) each [of i] by auto
  have top: "heap_top cmp (mi_key_of m) (mi_min_heap m) \<noteq> None" using ne m(4) by (simp add: heap_top_None)
  have "MergeIterator_SeekToFirst nd' C L F page opts cmp (new_BlobFileMergeIterator ?its) = Some (take_top cmp m)"
    using m(1) top by (auto simp: MergeIterator_SeekToFirst_def take_top_def new_BlobFileMergeIterator_def)
  moreover have "merge_ok ?step cmp ?rest (take_top cmp m)"
    using m heap by (intro take_top_ok) auto
  ultimately show ?thesis by blast
qed

end

lemma file_mergingI:
  "coding_laws C \<Longrightarrow> codec_laws L \<Longrightarrow> rfile_laws F data \<Longrightarrow> comparator_laws cmp \<Longrightarrow> file_merging C L F data cmp"
  by (simp add: file_merging_def blob_reading_def record_format_def)

interpretation mem_merge: file_merging leb128 rle_codec mem_rfile "\<lambda>f. f" bytewise
  by (rule file_mergingI [OF coding_laws_leb128 codec_laws_rle rfile_laws_mem comparator_laws_bytewise])

section \<open>Properties\<close>

text \<open>
  C11. Scanning a built blob file from \<open>SeekToFirst\<close> with \<open>Next\<close> visits every record
  once, in file order, with the key, the value and the blob index under which it is
  stored, and then stops: the iterator is no longer valid after as many steps as the
  file has records.
\<close>

theorem scan_visits_every_record:
  assumes "coding_laws C" and "codec_laws L" and "rfile_laws F data"
    and "data f = file_image nd C L ty rs" and "scannable nd C L ty rs" and "rs \<noteq> []"
  shows "\<exists>it it'. BlobFileIterator_SeekToFirst nd' C L F page opts
              (new_BlobFileIterator L o0 z0 f n (of_nat (length (data f)))) = Some it
     \<and> drain (Suc (length rs)) BlobFileIterator_Valid (Some \<circ> it_item)
         (BlobFileIterator_Next nd' C L F page opts) it
       = Some (map (file_item nd C L ty n rs) [0..<length rs], it')
     \<and> \<not> BlobFileIterator_Valid it'"
proof -
  have br: "blob_reading C L F data" using assms(1-3) by (simp add: blob_reading_def record_format_def)
  obtain it where "BlobFileIterator_SeekToFirst nd' C L F page opts
        (new_BlobFileIterator L o0 z0 f n (of_nat (length (data f)))) = Some it"
      and y: "yields (BlobFileIterator_Next nd' C L F page opts) (map (file_item nd C L ty n rs) [0..<length rs]) it"
    using blob_reading.seek_yields [OF br assms(4-6)] by blast
  with drain_yields [OF y, unfolded length_map length_upt diff_zero] show ?thesis by blast
qed

lemma sample_scannable: "scannable False leb128 rle_codec 0 sample_records"
  using sample_storable sample_file_length
  by (auto simp: scannable_def sample_file_def sample_records_def)

lemma scan_visits_every_record_witness:
  "\<exists>it it'. BlobFileIterator_SeekToFirst True leb128 rle_codec mem_rfile 4096 (default_TitanCFOptions rle_codec)
              (new_BlobFileIterator rle_codec 0 0 sample_file 7 (of_nat (length sample_file))) = Some it
     \<and> drain (Suc (length sample_records)) BlobFileIterator_Valid (Some \<circ> it_item)
         (BlobFileIterator_Next True leb128 rle_codec mem_rfile 4096 (default_TitanCFOptions rle_codec)) it
       = Some (map (file_item False leb128 rle_codec 0 7 sample_records) [0..<length sample_records], it')
     \<and> \<not> BlobFileIterator_Valid it'"
  by (rule scan_visits_every_record [OF coding_laws_leb128 codec_laws_rle rfile_laws_mem sample_file_def
      sample_scannable]) (simp add: sample_records_def)

text \<open>Scans opened on files given with their numbers and records, and what they hold.\<close>

definition open_scans ::
    "codec \<Rightarrow> ('f \<Rightarrow> bytes) \<Rightarrow> u64 \<Rightarrow> u64 \<Rightarrow> ('f \<times> u64 \<times> BlobRecord list) list \<Rightarrow> 'f BlobFileIterator list" where
  "open_scans L data o0 z0 files =
     map (\<lambda>(f, n, rs). new_BlobFileIterator L o0 z0 f n (of_nat (length (data f)))) files"

definition scan_items ::
    "bool \<Rightarrow> coding \<Rightarrow> codec \<Rightarrow> byte \<Rightarrow> ('f \<times> u64 \<times> BlobRecord list) list \<Rightarrow> (bytes \<times> bytes \<times> BlobIndex) list list" where
  "scan_items nd C L ty files =
     map (\<lambda>(f, n, rs). map (file_item nd C L ty n rs) [0..<length rs]) files"

definition scan_files_ok ::
    "bool \<Rightarrow> coding \<Rightarrow> codec \<Rightarrow> byte \<Rightarrow> ('f \<Rightarrow> bytes) \<Rightarrow> ('f \<times> u64 \<times> BlobRecord list) list \<Rightarrow> bool" where
  "scan_files_ok nd C L ty data files =
     (files \<noteq> [] \<and> (\<forall>(f, n, rs)\<in>set files.
        data f = file_image nd C L ty rs \<and> scannable nd C L ty rs \<and> rs \<noteq> []))"

text \<open>
  C12. Merging the scans of several built files hands out every record of every file
  exactly once and then ends; when the keys of each file are in order, the merged
  sequence is in order.
\<close>

theorem merge_iterator_sorted:
  assumes "coding_laws C" and "codec_laws L" and "rfile_laws F data" and "comparator_laws cmp"
    and "scan_files_ok nd C L ty data files"
  shows "\<exists>m ys m'. MergeIterator_SeekToFirst nd' C L F page opts cmp
         (new_BlobFileMergeIterator (open_scans L data o0 z0 files)) = Some m
     \<and> drain (Suc (length (concat (scan_items nd C L ty files)))) MergeIterator_Valid merge_item
         (MergeIterator_Next nd' C L F page opts cmp) m = Some (ys, m')
     \<and> mset ys = mset (concat (scan_items nd C L ty files))
     \<and> ((\<forall>xs\<in>set (scan_items nd C L ty files). key_sorted cmp xs) \<longrightarrow> key_sorted cmp ys)"
proof -
  have files: "\<forall>(f, n, rs)\<in>set files. data f = file_image nd C L ty rs \<and> scannable nd C L ty rs \<and> rs \<noteq> []"
      "files \<noteq> []"
    using assms(5) unfolding scan_files_ok_def by (rule conjunct2, rule conjunct1)
  have "\<exists>m. MergeIterator_SeekToFirst nd' C L F page opts cmp
         (new_BlobFileMergeIterator (open_scans L data o0 z0 files)) = Some m
      \<and> merge_ok (BlobFileIterator_Next nd' C L F page opts) cmp (scan_items nd C L ty files) m"
    unfolding open_scans_def scan_items_def
    by (rule file_merging.merge_seek [OF file_mergingI [OF assms(1-4)] files])
  then obtain m where m: "MergeIterator_SeekToFirst nd' C L F page opts cmp
         (new_BlobFileMergeIterator (open_scans L data o0 z0 files)) = Some m"
      and ok: "merge_ok (BlobFileIterator_Next nd' C L F page opts) cmp (scan_items nd C L ty files) m"
    by blast
  from m comparator_laws.merge_drain [OF assms(4) ok] show ?thesis by blast
qed

definition sample_scan_files :: "(bytes \<times> u64 \<times> BlobRecord list) list" where
  "sample_scan_files = [(sample_file, 7, sample_records), (sample_file, 8, sample_records)]"

lemma merge_iterator_sorted_witness:
  "\<exists>m ys m'. MergeIterator_SeekToFirst True leb128 rle_codec mem_rfile 4096 (default_TitanCFOptions rle_codec)
        bytewise (new_BlobFileMergeIterator (open_scans rle_codec (\<lambda>f. f) 0 0 sample_scan_files)) = Some m
     \<and> drain (Suc (length (concat (scan_items False leb128 rle_codec 0 sample_scan_files))))
         MergeIterator_Valid merge_item
         (MergeIterator_Next True leb128 rle_codec mem_rfile 4096 (default_TitanCFOptions rle_codec) bytewise) m
       = Some (ys, m')
     \<and> mset ys = mset (concat (scan_items False leb128 rle_codec 0 sample_scan_files))"
proof -
  have f: "scan_files_ok False leb128 rle_codec 0 (\<lambda>f. f) sample_scan_files"
    using sample_scannable
    by (simp add: scan_files_ok_def sample_scan_files_def sample_file_def) (simp add: sample_records_def)
  show ?thesis
    using merge_iterator_sorted [OF coding_laws_leb128 codec_laws_rle rfile_laws_mem
        comparator_laws_bytewise f] by blast
qed

end
