(* ===== verification/GC_Job.thy ===== *)
theory GC_Job
  imports DB_Events Blob_File_Iterator
begin

text \<open>
  \<open>BlobGCJob\<close> (\<open>src/blob_gc_job.h\<close>, \<open>src/blob_gc_job.cc\<close>) and the background work that runs it
  (\<open>src/db_impl_gc.cc\<close>). A job reads the records of its input files in key order, writes those
  the base database still refers to into new files, installs the files, rewrites the
  references and retires the inputs. The time counters are left out. The loop over the
  records is a partial function whose value is \<open>None\<close> also when it does not return.
\<close>

section \<open>State\<close>

record GarbageCollectionWriteCallback =
  wc_cfh :: u32
  wc_key :: bytes
  wc_blob_index :: BlobIndex
  wc_value :: bytes
  wc_read_bytes :: u64

record gc_metrics =
  me_bytes_read :: u64
  me_bytes_written :: u64
  me_num_keys_overwritten :: u64
  me_bytes_overwritten :: u64
  me_num_keys_relocated :: u64
  me_bytes_relocated :: u64
  me_num_new_files :: u64
  me_num_files :: u64
  me_small_file :: u64
  me_discardable :: u64

record ('w, 'v) BlobGCJob =
  gj_gc :: BlobGC
  gj_builders :: "('w BlobFileHandle \<times> 'w BlobFileBuilder) list"
  gj_rewrites :: "('v \<times> GarbageCollectionWriteCallback) list"
  gj_metrics :: gc_metrics
  gj_prev_bytes :: "u64 \<times> u64"
  gj_io_bytes :: "u64 \<times> u64"

definition new_BlobGCJob :: "BlobGC \<Rightarrow> ('w, 'v) BlobGCJob" where
  "new_BlobGCJob gc =
     \<lparr>gj_gc = gc, gj_builders = [], gj_rewrites = [],
      gj_metrics = \<lparr>me_bytes_read = 0, me_bytes_written = 0, me_num_keys_overwritten = 0, me_bytes_overwritten = 0,
        me_num_keys_relocated = 0, me_bytes_relocated = 0, me_num_new_files = 0, me_num_files = 0,
        me_small_file = 0, me_discardable = 0\<rparr>,
      gj_prev_bytes = (0, 0), gj_io_bytes = (0, 0)\<rparr>"

text \<open>A read without a snapshot sees the latest sequence number.\<close>

definition latest_GetImpl :: "('d, 'v) base_db \<Rightarrow> u32 \<Rightarrow> bytes \<Rightarrow> 'd \<Rightarrow> status \<times> bytes \<times> bool" where
  "latest_GetImpl D cf key d = bd_GetImpl D (bd_GetLatestSequenceNumber D d) cf key d"

text \<open>
  The callback that compares the reference in the base database with the one the job has
  read. No call of the job passes it on any more.
\<close>

definition Callback ::
    "coding \<Rightarrow> ('d, 'v) base_db \<Rightarrow> 'd \<Rightarrow> GarbageCollectionWriteCallback \<Rightarrow> status \<times> GarbageCollectionWriteCallback" where
  "Callback C D d wc =
     (let (s, index_entry, is_blob_index) = latest_GetImpl D (wc_cfh wc) (wc_key wc) d in
      if \<not> IsOk s \<and> \<not> IsNotFound s then (s, wc)
      else let wc = wc\<lparr>wc_read_bytes := of_nat (length (wc_key wc)) + of_nat (length index_entry)\<rparr> in
        if IsNotFound s then (Busy ''key deleted'', wc)
        else if \<not> is_blob_index then (Busy ''key overwritten with other value'', wc)
        else let (s, other, _) = BlobIndex_DecodeFrom C empty_BlobIndex index_entry in
          if \<not> IsOk s then (s, wc)
          else if \<not> BlobIndex_eq (wc_blob_index wc) other then (Busy ''key overwritten with other blob'', wc)
          else (OK, wc))"

section \<open>Reading the inputs\<close>

definition Job_Prepare ::
    "('m, 'w, 'f, 'k, 'c) world \<Rightarrow> 'm \<Rightarrow> ('w, 'v) BlobGCJob \<Rightarrow> status \<times> ('w, 'v) BlobGCJob" where
  "Job_Prepare M w j = (OK, j\<lparr>gj_prev_bytes := SavePrevIOBytes M w (gj_prev_bytes j)\<rparr>)"

definition SampleCandidateFiles :: "('w, 'v) BlobGCJob \<Rightarrow> status \<times> ('w, 'v) BlobGCJob" where
  "SampleCandidateFiles j = (OK, j\<lparr>gj_gc := set_sampled_inputs (gc_inputs (gj_gc j)) (gj_gc j)\<rparr>)"

definition DoSample :: "BlobFileMeta \<Rightarrow> bool \<Rightarrow> ('w, 'v) BlobGCJob \<Rightarrow> status \<times> bool \<times> ('w, 'v) BlobGCJob" where
  "DoSample file selected j =
     (let opts = gc_titan_cf_options (gj_gc j); me = gj_metrics j in
      if file_size file \<le> merge_small_file_threshold opts
      then (OK, True, j\<lparr>gj_metrics := me\<lparr>me_small_file := me_small_file me + 1\<rparr>\<rparr>)
      else if dbl_le (blob_file_discardable_ratio opts) (GetDiscardableRatio file)
      then (OK, True, j\<lparr>gj_metrics := me\<lparr>me_discardable := me_discardable me + 1\<rparr>\<rparr>)
      else (OK, selected, j))"

text \<open>The iterators of the inputs, up to the first file that cannot be opened.\<close>

fun input_iterators ::
    "codec \<Rightarrow> 'f rfile \<Rightarrow> (u64 \<Rightarrow> status + 'f) \<Rightarrow> u64 \<Rightarrow> 'f BlobStorage \<Rightarrow> u64 list
     \<Rightarrow> (status + 'f BlobFileIterator list) option" where
  "input_iterators L F op junk bs [] = Some (Inr [])"
| "input_iterators L F op junk bs (n # ns) = do {
     m \<leftarrow> map_of (bs_files bs) n;
     case NewBlobFileReader F op n 0 of
       Inl s \<Rightarrow> Some (Inl s)
     | Inr f \<Rightarrow> do {
         r \<leftarrow> input_iterators L F op junk bs ns;
         Some (case r of
           Inl s \<Rightarrow> Inl s
         | Inr its \<Rightarrow> Inr (new_BlobFileIterator L junk junk f n (file_size m) # its))
       }
   }"

definition BuildIterator ::
    "bool \<Rightarrow> codec \<Rightarrow> 'f rfile \<Rightarrow> (u64 \<Rightarrow> status + 'f) \<Rightarrow> u64 \<Rightarrow> 'f BlobStorage \<Rightarrow> u64 list
     \<Rightarrow> (status + 'f BlobFileMergeIterator) option" where
  "BuildIterator nd L F op junk bs inputs = do {
     cpp_assert nd (inputs \<noteq> []);
     r \<leftarrow> input_iterators L F op junk bs inputs;
     Some (case r of Inl s \<Rightarrow> Inl s | Inr its \<Rightarrow> Inr (new_BlobFileMergeIterator its))
   }"

text \<open>A record is discarded when the base database does not refer to it.\<close>

definition DiscardEntry ::
    "coding \<Rightarrow> ('d, 'v) base_db \<Rightarrow> u32 \<Rightarrow> bytes \<Rightarrow> BlobIndex \<Rightarrow> 'd \<Rightarrow> gc_metrics \<Rightarrow> status \<times> bool \<times> gc_metrics" where
  "DiscardEntry C D cf key index d me =
     (let (s, index_entry, is_blob_index) = latest_GetImpl D cf key d in
      if \<not> IsOk s \<and> \<not> IsNotFound s then (s, False, me)
      else let me = me\<lparr>me_bytes_read := me_bytes_read me + (of_nat (length key) + of_nat (length index_entry))\<rparr> in
        if IsNotFound s \<or> \<not> is_blob_index then (OK, True, me)
        else let (s, other, _) = BlobIndex_DecodeFrom C empty_BlobIndex index_entry in
          if \<not> IsOk s then (s, False, me) else (OK, \<not> BlobIndex_eq index other, me))"

section \<open>Rewriting the live records\<close>

text \<open>The output file that is being written.\<close>

record 'w gc_output =
  go_handle :: "'w BlobFileHandle option"
  go_builder :: "'w BlobFileBuilder option"
  go_size :: u64

text \<open>
  Separation before the flush without level merging: the value goes through the foreground
  builder like a new one. The status of the builder is only printed, so that the record is
  skipped when it fails.
\<close>

definition gc_put_foreground ::
    "('e, 'k, 'f, 'w, 'c, 'd, 'v) titan_env \<Rightarrow> u32 \<Rightarrow> bytes \<Rightarrow> bytes \<Rightarrow> ('e, 'k, 'f, 'w, 'c, 'd) TitanDBImpl
     \<Rightarrow> (status \<times> ('e, 'k, 'f, 'w, 'c, 'd) TitanDBImpl) option" where
  "gc_put_foreground T cf key val db = do {
     (add_status, wb, fb, db) \<leftarrow> FB_Add (te_rocks T) (db_world T) (te_batch T) (te_hash T) key val (wb_empty (te_batch T))
        (builder_at T cf db) db;
     let db = db\<lparr>db_builders := amap_set cf fb (db_builders db)\<rparr>;
     if IsOk add_status then on_base (bd_Write (te_base T) wb) db else Some (OK, db)
   }"

text \<open>
  A new output file is opened for the first record and after a full file. With a target
  size of zero the null pointers of the first round would be kept as a finished file.
\<close>

definition gc_open_output ::
    "('e, 'k, 'f, 'w, 'c, 'd, 'v) titan_env \<Rightarrow> ('w, 'v) BlobGCJob \<times> 'w gc_output \<times> ('e, 'k, 'f, 'w, 'c, 'd) TitanDBImpl
     \<Rightarrow> (status \<times> ('w, 'v) BlobGCJob \<times> 'w gc_output \<times> ('e, 'k, 'f, 'w, 'c, 'd) TitanDBImpl) option" where
  "gc_open_output T = (\<lambda>(j, out, db).
     let P = te_rocks T; full = (go_size out \<ge> blob_file_target_size (gc_titan_cf_options (gj_gc j))) in
     if (go_handle out \<noteq> None \<or> go_builder out \<noteq> None) \<and> \<not> full then Some (OK, j, out, db)
     else do {
       j \<leftarrow> (if full
              then do {
                h \<leftarrow> go_handle out;
                b \<leftarrow> go_builder out;
                cpp_assert (rk_nd P) (IsOk (bb_status b));
                Some (j\<lparr>gj_builders := gj_builders j @ [(h, b)]\<rparr>)
              }
              else Some j);
       let (s, h, db) = w_NewFile (db_world T) db;
       if \<not> IsOk s then Some (s, j, out\<lparr>go_handle := None, go_builder := None\<rparr>, db)
       else do {
         h \<leftarrow> h;
         Some (OK, j, \<lparr>go_handle = Some h, go_builder = Some (new_BlobFileBuilder (rk_C P) (rk_W P) (fh_file h) 0),
                       go_size = 0\<rparr>, db)
       }
     })"

definition gc_put_output ::
    "('e, 'k, 'f, 'w, 'c, 'd, 'v) titan_env \<Rightarrow> u32 \<Rightarrow> bytes \<Rightarrow> bytes \<Rightarrow> BlobIndex
     \<Rightarrow> ('w, 'v) BlobGCJob \<times> 'w gc_output \<times> ('e, 'k, 'f, 'w, 'c, 'd) TitanDBImpl
     \<Rightarrow> (bool \<times> status \<times> ('w, 'v) BlobGCJob \<times> 'w gc_output \<times> ('e, 'k, 'f, 'w, 'c, 'd) TitanDBImpl) option" where
  "gc_put_output T cf key val index st = do {
     let P = te_rocks T;
     (s, j, out, db) \<leftarrow> gc_open_output T st;
     if \<not> IsOk s then Some (True, s, j, out, db)
     else do {
       let rec = \<lparr>r_key = key, r_value = val, only_value = False\<rparr>;
       let me = gj_metrics j;
       h \<leftarrow> go_handle out;
       b \<leftarrow> go_builder out;
       (bh, b) \<leftarrow> BlobFileBuilder_Add (rk_nd P) (rk_C P) (rk_L P) (rk_W P) (rk_cmps P cf) (gc_titan_cf_options (gj_gc j)) rec
          \<lparr>bh_offset = 0, bh_size = 0\<rparr> b;
       let entry = BlobIndex_EncodeTo (rk_C P) \<lparr>bi_file_number = fh_number h, bi_blob_handle = bh\<rparr>;
       cpp_assert (rk_nd P) (key \<noteq> []);
       let wc = \<lparr>wc_cfh = cf, wc_key = key, wc_blob_index = index, wc_value = entry, wc_read_bytes = te_uninit T\<rparr>;
       let (s, wb) = wb_PutBlobIndex (te_batch T) cf key entry (wb_empty (te_batch T));
       Some (\<not> IsOk s, s,
         j\<lparr>gj_metrics := me\<lparr>me_bytes_written := me_bytes_written me + of_nat (BlobRecord_size rec)\<rparr>,
           gj_rewrites := gj_rewrites j @ [(wb, wc)]\<rparr>,
         out\<lparr>go_builder := Some b, go_size := go_size out + of_nat (BlobRecord_size rec)\<rparr>, db)
     }
   }"

text \<open>One round of the loop; the flag is the \<open>break\<close>.\<close>

definition gc_entry ::
    "('e, 'k, 'f, 'w, 'c, 'd, 'v) titan_env \<Rightarrow> u32 \<Rightarrow> bytes \<times> bytes \<times> BlobIndex
     \<Rightarrow> ('w, 'v) BlobGCJob \<times> 'w gc_output \<times> ('e, 'k, 'f, 'w, 'c, 'd) TitanDBImpl
     \<Rightarrow> (bool \<times> status \<times> ('w, 'v) BlobGCJob \<times> 'w gc_output \<times> ('e, 'k, 'f, 'w, 'c, 'd) TitanDBImpl) option" where
  "gc_entry T cf = (\<lambda>(key, val, index) (j, out, db).
     if db_shuting_down db then Some (True, ShutdownInProgress, j, out, db)
     else let me = gj_metrics j; sz = bh_size (bi_blob_handle index);
              me = me\<lparr>me_bytes_read := me_bytes_read me + sz\<rparr>;
              (s, discardable, me) = DiscardEntry (rk_C (te_rocks T)) (te_base T) cf key index (db_base db) me;
              j = j\<lparr>gj_metrics := me\<rparr> in
       if \<not> IsOk s then Some (True, s, j, out, db)
       else if discardable
       then Some (False, OK, j\<lparr>gj_metrics := me\<lparr>me_num_keys_overwritten := me_num_keys_overwritten me + 1,
                                  me_bytes_overwritten := me_bytes_overwritten me + sz\<rparr>\<rparr>, out, db)
       else if sep_before_flush (db_options db) \<and> \<not> level_merge (gc_titan_cf_options (gj_gc j))
       then map_option (\<lambda>(s, db). (False, s, j, out, db)) (gc_put_foreground T cf key val db)
       else gc_put_output T cf key val index (j, out, db))"

definition gc_item ::
    "bool \<Rightarrow> 'f BlobFileMergeIterator \<Rightarrow> (bytes \<times> bytes \<times> BlobIndex) option" where
  "gc_item nd m = do {
     index \<leftarrow> MergeIterator_GetBlobIndex m;
     key \<leftarrow> MergeIterator_key nd m;
     val \<leftarrow> MergeIterator_value nd m;
     Some (key, val, index)
   }"

partial_function (option) gc_loop ::
    "('e, 'k, 'f, 'w, 'c, 'd, 'v) titan_env \<Rightarrow> u32 \<Rightarrow> TitanCFOptions \<Rightarrow> 'f BlobFileMergeIterator \<Rightarrow> status
     \<Rightarrow> ('w, 'v) BlobGCJob \<times> 'w gc_output \<times> ('e, 'k, 'f, 'w, 'c, 'd) TitanDBImpl
     \<Rightarrow> (status \<times> 'f BlobFileMergeIterator \<times> ('w, 'v) BlobGCJob \<times> 'w gc_output \<times> ('e, 'k, 'f, 'w, 'c, 'd) TitanDBImpl) option" where
  "gc_loop T cf opts m s st =
     (if \<not> MergeIterator_Valid m then Some (s, m, st)
      else do {
        item \<leftarrow> gc_item (rk_nd (te_rocks T)) m;
        r \<leftarrow> gc_entry T cf item st;
        if fst r then Some (fst (snd r), m, snd (snd r))
        else do {
          m' \<leftarrow> MergeIterator_Next (rk_nd (te_rocks T)) (rk_C (te_rocks T)) (rk_L (te_rocks T)) (rk_F (te_rocks T)) (te_page T)
             opts (rk_cmps (te_rocks T) cf) m;
          gc_loop T cf opts m' (fst (snd r)) (snd (snd r))
        }
      })"

text \<open>
  The last output file joins the others when the loop ended well. An iterator that failed
  gives its status.
\<close>

definition gc_keep_output :: "bool \<Rightarrow> 'w gc_output \<Rightarrow> ('w, 'v) BlobGCJob \<Rightarrow> ('w, 'v) BlobGCJob option" where
  "gc_keep_output nd out j =
     (case (go_handle out, go_builder out) of
        (Some h, Some b) \<Rightarrow> do {
          cpp_assert nd (IsOk (bb_status b));
          Some (j\<lparr>gj_builders := gj_builders j @ [(h, b)]\<rparr>)
        }
      | (h, b) \<Rightarrow> do { cpp_assert nd (h = None \<and> b = None); Some j })"

definition DoRunGC ::
    "('e, 'k, 'f, 'w, 'c, 'd, 'v) titan_env \<Rightarrow> u32 \<Rightarrow> 'f BlobStorage \<Rightarrow> ('w, 'v) BlobGCJob \<Rightarrow> ('e, 'k, 'f, 'w, 'c, 'd) TitanDBImpl
     \<Rightarrow> (status \<times> ('w, 'v) BlobGCJob \<times> ('e, 'k, 'f, 'w, 'c, 'd) TitanDBImpl) option" where
  "DoRunGC T cf bs j db = do {
     let P = te_rocks T;
     let opts = gc_titan_cf_options (gj_gc j);
     r \<leftarrow> BuildIterator (rk_nd P) (rk_L P) (rk_F P) (bf_open (te_fs T) (db_env db)) (te_uninit T) bs (gc_sampled_inputs (gj_gc j));
     case r of
       Inl s \<Rightarrow> Some (s, j, db)
     | Inr m \<Rightarrow> do {
         m \<leftarrow> MergeIterator_SeekToFirst (rk_nd P) (rk_C P) (rk_L P) (rk_F P) (te_page T) opts (rk_cmps P cf) m;
         cpp_assert (rk_nd P) (MergeIterator_Valid m);
         (s, m, j, out, db) \<leftarrow> gc_loop T cf opts m OK (j, \<lparr>go_handle = None, go_builder = None, go_size = 0\<rparr>, db);
         if \<not> IsOk (MergeIterator_status m) then Some (MergeIterator_status m, j, db)
         else if \<not> IsOk s then Some (s, j, db)
         else do { j \<leftarrow> gc_keep_output (rk_nd P) out j; Some (s, j, db) }
       }
   }"

definition Job_Run ::
    "('e, 'k, 'f, 'w, 'c, 'd, 'v) titan_env \<Rightarrow> u32 \<Rightarrow> 'f BlobStorage \<Rightarrow> ('w, 'v) BlobGCJob \<Rightarrow> ('e, 'k, 'f, 'w, 'c, 'd) TitanDBImpl
     \<Rightarrow> (status \<times> ('w, 'v) BlobGCJob \<times> ('e, 'k, 'f, 'w, 'c, 'd) TitanDBImpl) option" where
  "Job_Run T cf bs j db =
     (let (s, j) = SampleCandidateFiles j in
      if \<not> IsOk s then Some (s, j, db)
      else if gc_sampled_inputs (gj_gc j) = [] then Some (OK, j, db)
      else DoRunGC T cf bs j db)"

section \<open>Installing the result\<close>

fun finish_outputs ::
    "coding \<Rightarrow> 'w wfile \<Rightarrow> ('w BlobFileHandle \<times> 'w BlobFileBuilder) list
     \<Rightarrow> status \<times> nat \<times> ('w BlobFileHandle \<times> 'w BlobFileBuilder) list" where
  "finish_outputs C W [] = (OK, 0, [])"
| "finish_outputs C W ((h, b) # hbs) =
     (let (s, b) = BlobFileBuilder_Finish C W b; h = h\<lparr>fh_file := bb_file b\<rparr> in
      if \<not> IsOk s then (s, 0, (h, b) # hbs)
      else let (s, n, hbs) = finish_outputs C W hbs in (s, Suc n, (h, b) # hbs))"

definition output_meta ::
    "bool \<Rightarrow> 'w wfile \<Rightarrow> bool \<Rightarrow> 'w BlobFileHandle \<times> 'w BlobFileBuilder \<Rightarrow> (BlobFileMeta \<times> 'w BlobFileHandle) option" where
  "output_meta nd W sep = (\<lambda>(h, b). do {
     m \<leftarrow> FileStateTransit nd kGCOutput
        (new_BlobFileMeta (fh_number h) (wf_GetFileSize W (fh_file h)) 0 0 (bb_smallest_key b) (bb_largest_key b)
          (if sep then kUnSorted else kSorted));
     Some (m, h)
   })"

text \<open>When a file cannot be finished, the status returned is that of deleting the files.\<close>

definition InstallOutputBlobFiles ::
    "('e, 'k, 'f, 'w, 'c, 'd, 'v) titan_env \<Rightarrow> u32 \<Rightarrow> ('w, 'v) BlobGCJob \<Rightarrow> ('e, 'k, 'f, 'w, 'c, 'd) TitanDBImpl
     \<Rightarrow> (status \<times> ('w, 'v) BlobGCJob \<times> ('e, 'k, 'f, 'w, 'c, 'd) TitanDBImpl) option" where
  "InstallOutputBlobFiles T cf j db =
     (let P = te_rocks T; (s, n, hbs) = finish_outputs (rk_C P) (rk_W P) (gj_builders j); me = gj_metrics j;
          j = j\<lparr>gj_builders := hbs, gj_metrics := me\<lparr>me_num_new_files := me_num_new_files me + of_nat n\<rparr>\<rparr> in
      if IsOk s
      then do {
        files \<leftarrow> those (map (output_meta (rk_nd P) (rk_W P) (sep_before_flush (db_options db))) hbs);
        (s, db) \<leftarrow> w_BatchFinishFiles (db_world T) cf files db;
        Some (s, if IsOk s then j\<lparr>gj_gc := fold AddOutputFile (map (file_number \<circ> fst) files) (gj_gc j)\<rparr> else j, db)
      }
      else do {
        (s, db) \<leftarrow> w_BatchDeleteFiles (db_world T) (map fst hbs) db;
        Some (s, j, db)
      })"

text \<open>
  The new references are written one by one, without the callback: what the base database
  holds for the key by now is not looked at.
\<close>

fun rewrite_keys ::
    "('e, 'k, 'f, 'w, 'c, 'd, 'v) titan_env \<Rightarrow> u32 \<Rightarrow> ('v \<times> GarbageCollectionWriteCallback) list \<Rightarrow> status \<Rightarrow> gc_metrics
     \<Rightarrow> ('e, 'k, 'f, 'w, 'c, 'd) TitanDBImpl \<Rightarrow> (status \<times> gc_metrics \<times> ('e, 'k, 'f, 'w, 'c, 'd) TitanDBImpl) option" where
  "rewrite_keys T cf [] s me db = Some (s, me, db)"
| "rewrite_keys T cf ((wb, wc) # ws) s me db =
     (if bd_IsDropped (te_base T) cf (db_base db) then Some (Aborted ''Column family drop'', me, db)
      else if db_shuting_down db then Some (ShutdownInProgress, me, db)
      else do {
        (s, db) \<leftarrow> on_base (bd_Write (te_base T) wb) db;
        let sz = bh_size (bi_blob_handle (wc_blob_index wc));
        if IsOk s
        then rewrite_keys T cf ws s
          (me\<lparr>me_bytes_written := me_bytes_written me + wb_GetDataSize (te_batch T) wb,
              me_num_keys_relocated := me_num_keys_relocated me + 1,
              me_bytes_relocated := me_bytes_relocated me + sz,
              me_bytes_read := me_bytes_read me + wc_read_bytes wc\<rparr>) db
        else if IsBusy s
        then rewrite_keys T cf ws s
          (me\<lparr>me_num_keys_overwritten := me_num_keys_overwritten me + 1,
              me_bytes_overwritten := me_bytes_overwritten me + sz,
              me_bytes_read := me_bytes_read me + wc_read_bytes wc\<rparr>) db
        else Some (s, me, db)
      })"

definition RewriteValidKeyToLSM ::
    "('e, 'k, 'f, 'w, 'c, 'd, 'v) titan_env \<Rightarrow> u32 \<Rightarrow> ('w, 'v) BlobGCJob \<Rightarrow> ('e, 'k, 'f, 'w, 'c, 'd) TitanDBImpl
     \<Rightarrow> (status \<times> ('w, 'v) BlobGCJob \<times> ('e, 'k, 'f, 'w, 'c, 'd) TitanDBImpl) option" where
  "RewriteValidKeyToLSM T cf j db = do {
     (s, me, db) \<leftarrow> rewrite_keys T cf (gj_rewrites j) OK (gj_metrics j) db;
     Some (if IsBusy s then OK else s, j\<lparr>gj_metrics := me\<rparr>, db)
   }"

definition DeleteInputBlobFiles ::
    "('e, 'k, 'f, 'w, 'c, 'd, 'v) titan_env \<Rightarrow> u32 \<Rightarrow> ('w, 'v) BlobGCJob \<Rightarrow> ('e, 'k, 'f, 'w, 'c, 'd) TitanDBImpl
     \<Rightarrow> (status \<times> ('w, 'v) BlobGCJob \<times> ('e, 'k, 'f, 'w, 'c, 'd) TitanDBImpl) option" where
  "DeleteInputBlobFiles T cf j db = do {
     let obsolete_sequence = bd_GetLatestSequenceNumber (te_base T) (db_base db);
     let inputs = gc_sampled_inputs (gj_gc j);
     let me = gj_metrics j;
     (s, db) \<leftarrow> db_LogAndApply T (fold (\<lambda>n. DeleteBlobFile n obsolete_sequence) inputs (SetColumnFamilyID cf new_VersionEdit)) db;
     Some (s, j\<lparr>gj_metrics := me\<lparr>me_num_files := me_num_files me + of_nat (length inputs)\<rparr>\<rparr>, db)
   }"

definition Job_UpdateInternalOpStats ::
    "('m, 'w, 'f, 'k, 'c) world \<Rightarrow> u32 \<Rightarrow> ('w, 'v) BlobGCJob \<Rightarrow> 'm \<Rightarrow> ('w, 'v) BlobGCJob \<times> 'm" where
  "Job_UpdateInternalOpStats M cf j w =
     (if w_stats M w = None then (j, w)
      else let io = UpdateIOBytes M w (gj_prev_bytes j) (gj_io_bytes j); me = gj_metrics j in
        (j\<lparr>gj_io_bytes := io\<rparr>,
         w_put_stats M (add_op_stats cf GC
           [(COUNT, 1), (BYTES_READ, me_bytes_read me), (BYTES_WRITTEN, me_bytes_written me),
            (IO_BYTES_READ, fst io), (IO_BYTES_WRITTEN, snd io), (INPUT_FILE_NUM, me_num_files me),
            (OUTPUT_FILE_NUM, me_num_new_files me)] (w_stats M w)) w))"

definition Job_Finish ::
    "('e, 'k, 'f, 'w, 'c, 'd, 'v) titan_env \<Rightarrow> u32 \<Rightarrow> ('w, 'v) BlobGCJob \<Rightarrow> ('e, 'k, 'f, 'w, 'c, 'd) TitanDBImpl
     \<Rightarrow> (status \<times> ('w, 'v) BlobGCJob \<times> ('e, 'k, 'f, 'w, 'c, 'd) TitanDBImpl) option" where
  "Job_Finish T cf j db = do {
     (s, j, db) \<leftarrow>
       (if sep_before_flush (db_options db) \<and> \<not> level_merge (fb_cf_options (builder_at T cf db)) then Some (OK, j, db)
        else do {
          (s, j, db) \<leftarrow> InstallOutputBlobFiles T cf j db;
          if IsOk s then RewriteValidKeyToLSM T cf j db else Some (s, j, db)
        });
     (s, j, db) \<leftarrow> (if IsOk s \<and> \<not> bd_IsDropped (te_base T) cf (db_base db) then DeleteInputBlobFiles T cf j db
                      else Some (s, j, db));
     let (j, db) = (if IsOk s then Job_UpdateInternalOpStats (db_world T) cf j db else (j, db));
     Some (s, j, db)
   }"

section \<open>Background work\<close>

text \<open>
  \<open>BackgroundGC\<close> in three parts, between which the mutex is released: choosing the files,
  running the job and finishing it. The job keeps the storage it was made for.
\<close>

definition gc_start ::
    "('e, 'k, 'f, 'w, 'c, 'd, 'v) titan_env \<Rightarrow> u32 \<Rightarrow> ('e, 'k, 'f, 'w, 'c, 'd) TitanDBImpl
     \<Rightarrow> (('w, 'v) BlobGCJob option \<times> ('e, 'k, 'f, 'w, 'c, 'd) TitanDBImpl) option" where
  "gc_start T cf db =
     (if IsColumnFamilyObsolete cf (db_bfs db) then Some (None, db)
      else case GetBlobStorage cf (db_bfs db) of
        None \<Rightarrow> Some (None, db)
      | Some bs \<Rightarrow> do {
          (gc, bs) \<leftarrow> PickBlobGC (rk_nd (te_rocks T)) (bs_cf_options bs) bs;
          let db = db\<lparr>db_bfs := set_storage cf bs (db_bfs db)\<rparr>;
          case gc of
            None \<Rightarrow> Some (None, db)
          | Some gc \<Rightarrow>
              if \<not> db_open db then None
              else do {
                cfh \<leftarrow> bd_GetColumnFamilyHandle (te_base T) cf (db_base db);
                cpp_assert (rk_nd (te_rocks T)) (cf = cfh);
                let db = db\<lparr>db_builders := amap_emplace cf (builder_at T cf db) (db_builders db)\<rparr>;
                let (_, j) = Job_Prepare (db_world T) db (new_BlobGCJob (SetColumnFamily cfh gc));
                Some (Some j, db)
              }
        })"

definition gc_run ::
    "('e, 'k, 'f, 'w, 'c, 'd, 'v) titan_env \<Rightarrow> u32 \<Rightarrow> ('w, 'v) BlobGCJob \<Rightarrow> ('e, 'k, 'f, 'w, 'c, 'd) TitanDBImpl
     \<Rightarrow> (status \<times> ('w, 'v) BlobGCJob \<times> ('e, 'k, 'f, 'w, 'c, 'd) TitanDBImpl) option" where
  "gc_run T cf j db = do {
     bs \<leftarrow> GetBlobStorage cf (db_bfs db);
     Job_Run T cf bs j db
   }"

definition unblock_by_size :: "u64 \<Rightarrow> ('e, 'k, 'f, 'w, 'c, 'd) TitanDBImpl \<Rightarrow> ('e, 'k, 'f, 'w, 'c, 'd) TitanDBImpl" where
  "unblock_by_size total_size db =
     (if db_block_for_size db \<and> total_size < block_write_size (db_options db)
      then db\<lparr>db_block_for_size := False\<rparr> else db)"

definition gc_wants_more :: "bool \<Rightarrow> ('e, 'k, 'f, 'w, 'c, 'd) TitanDBImpl \<Rightarrow> bool" where
  "gc_wants_more trigger_next db =
     ((of_int (db_bg_gc_scheduled db - 1) + of_nat (length (db_gc_queue db)) :: u64)
        < ucast (2 * of_int (max_background_gc (db_options db)) :: u32) \<and>
      (db_block_for_size db \<or> trigger_next))"

definition gc_end ::
    "('e, 'k, 'f, 'w, 'c, 'd, 'v) titan_env \<Rightarrow> u32 \<Rightarrow> status \<Rightarrow> ('w, 'v) BlobGCJob \<Rightarrow> ('e, 'k, 'f, 'w, 'c, 'd) TitanDBImpl
     \<Rightarrow> (status \<times> ('e, 'k, 'f, 'w, 'c, 'd) TitanDBImpl) option" where
  "gc_end T cf s j db = do {
     (s, j, db) \<leftarrow> (if IsOk s then Job_Finish T cf j db else Some (s, j, db));
     bs \<leftarrow> GetBlobStorage cf (db_bfs db);
     bs \<leftarrow> ReleaseGcFiles (rk_nd (te_rocks T)) (gj_gc j) bs;
     let db = db\<lparr>db_bfs := set_storage cf bs (db_bfs db)\<rparr>;
     total_size \<leftarrow> int_property_or_0 (te_base T) ''rocksdb.titandb.live-blob-file-size'' db;
     live_size \<leftarrow> int_property_or_0 (te_base T) ''rocksdb.titandb.live-blob-size'' db;
     let db = unblock_by_size total_size db;
     let opts = bs_cf_options bs;
     threshold \<leftarrow> (if level_merge opts then Some 0 else wisc_threshold (blob_file_discardable_ratio opts));
     let wisc_gc = (\<not> level_merge opts \<and> total_size > threshold);
     let db = (if gc_wants_more (gc_trigger_next (gj_gc j)) db \<or> wisc_gc then AddToGCQueue cf db else db);
     Some (s, if IsOk s then db else snd (SetBGError (te_base T) s db))
   }"

definition BackgroundGC ::
    "('e, 'k, 'f, 'w, 'c, 'd, 'v) titan_env \<Rightarrow> u32 \<Rightarrow> ('e, 'k, 'f, 'w, 'c, 'd) TitanDBImpl
     \<Rightarrow> (status \<times> ('e, 'k, 'f, 'w, 'c, 'd) TitanDBImpl) option" where
  "BackgroundGC T cf db = do {
     (job, db) \<leftarrow> gc_start T cf db;
     case job of
       None \<Rightarrow> Some (OK, db)
     | Some j \<Rightarrow> do {
         (s, j, db) \<leftarrow> gc_run T cf j db;
         gc_end T cf s j db
       }
   }"

text \<open>The job waits while column families are being dropped, before it counts as running.\<close>

definition BackgroundCallGC ::
    "('e, 'k, 'f, 'w, 'c, 'd, 'v) titan_env \<Rightarrow> ('e, 'k, 'f, 'w, 'c, 'd) TitanDBImpl
     \<Rightarrow> (('e, 'k, 'f, 'w, 'c, 'd) TitanDBImpl, ('e, 'k, 'f, 'w, 'c, 'd) TitanDBImpl) outcome option" where
  "BackgroundCallGC T db = do {
     cpp_assert (rk_nd (te_rocks T)) (db_bg_gc_scheduled db > 0);
     if db_drop_cf_requests db > 0 then Some (Waits db)
     else do {
       let db = db\<lparr>db_bg_gc_running := db_bg_gc_running db + 1\<rparr>;
       db \<leftarrow> (if db_gc_queue db \<noteq> []
               then do {
                 (cf, db) \<leftarrow> PopFirstFromGCQueue db;
                 (_, db) \<leftarrow> BackgroundGC T cf db;
                 Some db
               }
               else Some db);
       Some (Done (MaybeScheduleGC (db\<lparr>db_bg_gc_running := db_bg_gc_running db - 1,
                                       db_bg_gc_scheduled := db_bg_gc_scheduled db - 1\<rparr>)))
     }
   }"

text \<open>A worker thread takes a job from the queue of the environment.\<close>

definition BGWorkGC ::
    "('e, 'k, 'f, 'w, 'c, 'd, 'v) titan_env \<Rightarrow> ('e, 'k, 'f, 'w, 'c, 'd) TitanDBImpl
     \<Rightarrow> (('e, 'k, 'f, 'w, 'c, 'd) TitanDBImpl, ('e, 'k, 'f, 'w, 'c, 'd) TitanDBImpl) outcome option" where
  "BGWorkGC T db = BackgroundCallGC T (db\<lparr>db_env_jobs := db_env_jobs db - 1\<rparr>)"

definition TEST_StartGC ::
    "('e, 'k, 'f, 'w, 'c, 'd, 'v) titan_env \<Rightarrow> u32 \<Rightarrow> ('e, 'k, 'f, 'w, 'c, 'd) TitanDBImpl
     \<Rightarrow> (('e, 'k, 'f, 'w, 'c, 'd) TitanDBImpl, status \<times> ('e, 'k, 'f, 'w, 'c, 'd) TitanDBImpl) outcome option" where
  "TEST_StartGC T cf db =
     (if db_drop_cf_requests db > 0 then Some (Waits db)
      else do {
        (s, db) \<leftarrow> BackgroundGC T cf (db\<lparr>db_bg_gc_running := db_bg_gc_running db + 1,
                                         db_bg_gc_scheduled := db_bg_gc_scheduled db + 1\<rparr>);
        Some (Done (s, db\<lparr>db_bg_gc_running := db_bg_gc_running db - 1,
                          db_bg_gc_scheduled := db_bg_gc_scheduled db - 1\<rparr>))
      })"

end
