(* ===== verification/DB_Iter.thy ===== *)
theory DB_Iter
  imports DB_Ops
begin

text \<open>
  \<open>TitanDBIterator\<close> (\<open>src/db_iter.h\<close>) and the operations of \<open>TitanDBImpl\<close> that make it. The
  iterator of the base database is a parameter, the record \<open>base_iter\<close>. The source keeps a
  raw pointer to the blob storage; the model keeps the column family, and reading after it is
  gone is undefined. The iterator works in a world, as the builders do.
\<close>

section \<open>State\<close>

record 'i base_iter =
  bi_Valid :: "'i \<Rightarrow> bool"
  bi_status :: "'i \<Rightarrow> status"
  bi_IsBlob :: "'i \<Rightarrow> bool"
  bi_key :: "'i \<Rightarrow> bytes"
  bi_value :: "'i \<Rightarrow> bytes"
  bi_SeekToFirst :: "'i \<Rightarrow> 'i"
  bi_SeekToLast :: "'i \<Rightarrow> 'i"
  bi_Seek :: "bytes \<Rightarrow> 'i \<Rightarrow> 'i"
  bi_SeekForPrev :: "bytes \<Rightarrow> 'i \<Rightarrow> 'i"
  bi_Next :: "'i \<Rightarrow> 'i"
  bi_Prev :: "'i \<Rightarrow> 'i"

record ('i, 'f) TitanDBIterator =
  di_status :: status
  di_record :: BlobRecord
  di_options :: TitanReadOptions
  di_cf :: u32
  di_snap :: "u64 option"
  di_iter :: 'i
  di_files :: "(u64 \<times> 'f BlobFilePrefetcher) list"

definition new_TitanDBIterator ::
    "TitanReadOptions \<Rightarrow> u32 \<Rightarrow> u64 option \<Rightarrow> 'i \<Rightarrow> ('i, 'f) TitanDBIterator" where
  "new_TitanDBIterator options cf snap i =
     \<lparr>di_status = OK, di_record = empty_BlobRecord, di_options = options, di_cf = cf, di_snap = snap,
      di_iter = i, di_files = []\<rparr>"

definition Iter_Valid :: "'i base_iter \<Rightarrow> ('i, 'f) TitanDBIterator \<Rightarrow> bool" where
  "Iter_Valid I it = bi_Valid I (di_iter it)"

definition Iter_status :: "'i base_iter \<Rightarrow> ('i, 'f) TitanDBIterator \<Rightarrow> status" where
  "Iter_status I it = (if IsOk (di_status it) then bi_status I (di_iter it) else di_status it)"

section \<open>Reading the value of the current entry\<close>

definition ShouldGetBlobValue ::
    "'i base_iter \<Rightarrow> ('i, 'f) TitanDBIterator \<Rightarrow> bool \<times> ('i, 'f) TitanDBIterator" where
  "ShouldGetBlobValue I it =
     (if \<not> bi_Valid I (di_iter it) \<or> \<not> bi_IsBlob I (di_iter it) \<or> key_only (di_options it)
      then (False, it\<lparr>di_status := bi_status I (di_iter it)\<rparr>)
      else (True, it))"

text \<open>The prefetcher of a file, made when the file is met for the first time.\<close>

definition prefetcher_of ::
    "('w, 'f, 'k, 'c) rocks \<Rightarrow> ('m, 'w, 'f, 'k, 'c) world \<Rightarrow> u64 \<Rightarrow> ('i, 'f) TitanDBIterator \<Rightarrow> 'm
     \<Rightarrow> ('f BlobFilePrefetcher option \<times> ('i, 'f) TitanDBIterator \<times> 'm) option" where
  "prefetcher_of P M n it w =
     (case map_of (di_files it) n of
        Some p \<Rightarrow> Some (Some p, it, w)
      | None \<Rightarrow> do {
          bs \<leftarrow> w_storage M (di_cf it) w;
          (s, p, w) \<leftarrow> world_NewPrefetcher P M n bs w;
          let it = it\<lparr>di_status := s\<rparr>;
          if \<not> IsOk s then Some (None, it, w)
          else do {
            p \<leftarrow> p;
            Some (Some p, it\<lparr>di_files := amap_emplace n p (di_files it)\<rparr>, w)
          }
        })"

definition GetBlobValue ::
    "('w, 'f, 'k, 'c) rocks \<Rightarrow> ('m, 'w, 'f, 'k, 'c) world \<Rightarrow> 'i base_iter \<Rightarrow> ('i, 'f) TitanDBIterator \<Rightarrow> 'm
     \<Rightarrow> (('i, 'f) TitanDBIterator \<times> 'm) option" where
  "GetBlobValue P M I it w = do {
     cpp_assert (rk_nd P) (IsOk (bi_status I (di_iter it)));
     let (s, index) = DecodeInto (BlobIndex_DecodeFrom (rk_C P)) (bi_value I (di_iter it)) empty_BlobIndex;
     let it = it\<lparr>di_status := s\<rparr>;
     if \<not> IsOk s then Some (it, w)
     else do {
       (p, it, w) \<leftarrow> prefetcher_of P M (bi_file_number index) it w;
       case p of
         None \<Rightarrow> Some (it, w)
       | Some p \<Rightarrow> do {
           (s, rec, p, w) \<leftarrow> world_PrefetcherGet P M (bi_blob_handle index) (di_record it) p w;
           Some (it\<lparr>di_status := s, di_record := rec,
                    di_files := amap_set (bi_file_number index) p (di_files it)\<rparr>, w)
         }
     }
   }"

definition show_entry ::
    "('w, 'f, 'k, 'c) rocks \<Rightarrow> ('m, 'w, 'f, 'k, 'c) world \<Rightarrow> 'i base_iter \<Rightarrow> 'i \<Rightarrow> ('i, 'f) TitanDBIterator \<Rightarrow> 'm
     \<Rightarrow> (('i, 'f) TitanDBIterator \<times> 'm) option" where
  "show_entry P M I i it w =
     (let (should, it) = ShouldGetBlobValue I (it\<lparr>di_iter := i\<rparr>)
      in if should then GetBlobValue P M I it w else Some (it, w))"

section \<open>Moving\<close>

definition Iter_SeekToFirst where
  "Iter_SeekToFirst P M I it w = show_entry P M I (bi_SeekToFirst I (di_iter it)) it w"

definition Iter_SeekToLast where
  "Iter_SeekToLast P M I it w = show_entry P M I (bi_SeekToLast I (di_iter it)) it w"

definition Iter_Seek where
  "Iter_Seek P M I target it w = show_entry P M I (bi_Seek I target (di_iter it)) it w"

definition Iter_SeekForPrev where
  "Iter_SeekForPrev P M I target it w = show_entry P M I (bi_SeekForPrev I target (di_iter it)) it w"

definition Iter_Next where
  "Iter_Next P M I it w = do {
     cpp_assert (rk_nd P) (Iter_Valid I it);
     show_entry P M I (bi_Next I (di_iter it)) it w
   }"

definition Iter_Prev where
  "Iter_Prev P M I it w = do {
     cpp_assert (rk_nd P) (Iter_Valid I it);
     show_entry P M I (bi_Prev I (di_iter it)) it w
   }"

definition Iter_key :: "bool \<Rightarrow> 'i base_iter \<Rightarrow> ('i, 'f) TitanDBIterator \<Rightarrow> bytes option" where
  "Iter_key nd I it = do {
     cpp_assert nd (Iter_Valid I it);
     Some (bi_key I (di_iter it))
   }"

definition Iter_value :: "bool \<Rightarrow> 'i base_iter \<Rightarrow> ('i, 'f) TitanDBIterator \<Rightarrow> bytes option" where
  "Iter_value nd I it = do {
     cpp_assert nd (Iter_Valid I it \<and> \<not> key_only (di_options it));
     Some (if key_only (di_options it) then []
           else if \<not> bi_IsBlob I (di_iter it) then bi_value I (di_iter it)
           else r_value (di_record it))
   }"

section \<open>Scanning\<close>

text \<open>
  The first loop of \<open>Scan\<close> visits up to \<open>len\<close> entries: it notes the blob index of a separated
  value and copies any other one. The flag says that the loop returned early, which leaves
  the caller's length unchanged.
\<close>

record scan_state =
  sc_indexes :: "BlobIndex list"
  sc_keys :: "bytes list"
  sc_values :: "bytes list"

definition scan_note ::
    "('w, 'f, 'k, 'c) rocks \<Rightarrow> ('m, 'w, 'f, 'k, 'c) world \<Rightarrow> 'i base_iter \<Rightarrow> nat \<Rightarrow> ('i, 'f) TitanDBIterator \<Rightarrow> scan_state \<Rightarrow> 'm
     \<Rightarrow> (bool \<times> ('i, 'f) TitanDBIterator \<times> scan_state \<times> 'm) option" where
  "scan_note P M I i it sc w = do {
     cpp_assert (rk_nd P) (IsOk (bi_status I (di_iter it)));
     let (s, index) = DecodeInto (BlobIndex_DecodeFrom (rk_C P)) (bi_value I (di_iter it)) empty_BlobIndex;
     let sc = sc\<lparr>sc_indexes := (sc_indexes sc)[i := index]\<rparr>;
     let it = it\<lparr>di_status := s\<rparr>;
     if \<not> IsOk s then Some (True, it, sc, w)
     else do {
       (p, it, w) \<leftarrow> prefetcher_of P M (bi_file_number index) it w;
       case p of
         None \<Rightarrow> Some (True, it, sc, w)
       | Some p \<Rightarrow>
           Some (False, it\<lparr>di_files := amap_set (bi_file_number index)
                    (BlobFilePrefetcher_Prefetch (rk_F P) (bi_blob_handle index) p) (di_files it)\<rparr>, sc, w)
     }
   }"

fun scan_visit ::
    "('w, 'f, 'k, 'c) rocks \<Rightarrow> ('m, 'w, 'f, 'k, 'c) world \<Rightarrow> 'i base_iter \<Rightarrow> nat \<Rightarrow> nat \<Rightarrow> ('i, 'f) TitanDBIterator \<Rightarrow> scan_state \<Rightarrow> 'm
     \<Rightarrow> (bool \<times> nat \<times> ('i, 'f) TitanDBIterator \<times> scan_state \<times> 'm) option" where
  "scan_visit P M I 0 i it sc w = Some (False, i, it, sc, w)"
| "scan_visit P M I (Suc n) i it sc w =
     (if \<not> Iter_Valid I it then Some (False, i, it, sc, w)
      else do {
        let (should, it) = ShouldGetBlobValue I it;
        (stop, it, sc, w) \<leftarrow>
          (if should then scan_note P M I i it sc w
           else Some (False, it, sc\<lparr>sc_values := (sc_values sc)[i := bi_value I (di_iter it)]\<rparr>, w));
        if stop then Some (True, i, it, sc, w)
        else scan_visit P M I n (Suc i) (it\<lparr>di_iter := bi_Next I (di_iter it)\<rparr>)
          (sc\<lparr>sc_keys := (sc_keys sc)[i := bi_key I (di_iter it)]\<rparr>) w
      })"

text \<open>
  The second loop reads a value wherever the slot is empty, whatever the entry was; the
  status of the read is not looked at and the record is reused.
\<close>

fun scan_fill ::
    "('w, 'f, 'k, 'c) rocks \<Rightarrow> ('m, 'w, 'f, 'k, 'c) world \<Rightarrow> nat list \<Rightarrow> ('i, 'f) TitanDBIterator \<Rightarrow> BlobRecord \<Rightarrow> scan_state \<Rightarrow> 'm
     \<Rightarrow> (scan_state \<times> 'm) option" where
  "scan_fill P M [] it rec sc w = Some (sc, w)"
| "scan_fill P M (j # js) it rec sc w =
     (if sc_values sc ! j \<noteq> [] then scan_fill P M js it rec sc w
      else do {
        p \<leftarrow> map_of (di_files it) (bi_file_number (sc_indexes sc ! j));
        (s, rec, c) \<leftarrow> BlobFilePrefetcher_PointGet (rk_nd P) (rk_C P) (rk_L P) (rk_F P) (rk_K P)
           (bi_blob_handle (sc_indexes sc ! j)) rec p (w_blobs M w);
        scan_fill P M js it rec (sc\<lparr>sc_values := (sc_values sc)[j := r_value rec]\<rparr>) (w_put_blobs M c w)
      })"

definition Iter_Scan ::
    "('w, 'f, 'k, 'c) rocks \<Rightarrow> ('m, 'w, 'f, 'k, 'c) world \<Rightarrow> 'i base_iter \<Rightarrow> bytes \<Rightarrow> nat \<Rightarrow> bytes list \<Rightarrow> bytes list
     \<Rightarrow> ('i, 'f) TitanDBIterator \<Rightarrow> 'm \<Rightarrow> (nat \<times> bytes list \<times> bytes list \<times> ('i, 'f) TitanDBIterator \<times> 'm) option" where
  "Iter_Scan P M I target len ks vs it w =
     (if length ks < len \<or> length vs < len then None
      else do {
        (stop, i, it, sc, w) \<leftarrow> scan_visit P M I len 0 (it\<lparr>di_iter := bi_Seek I target (di_iter it)\<rparr>)
           \<lparr>sc_indexes = replicate len empty_BlobIndex, sc_keys = ks, sc_values = vs\<rparr> w;
        if stop then Some (len, sc_keys sc, sc_values sc, it, w)
        else do {
          (sc, w) \<leftarrow> scan_fill P M [0..<i] it empty_BlobRecord sc w;
          Some (i, sc_keys sc, sc_values sc, it, w)
        }
      })"

text \<open>A bulk of the second loop with read-ahead, of which a failed read keeps the slot.\<close>

fun BulkRead ::
    "('w, 'f, 'k, 'c) rocks \<Rightarrow> ('m, 'w, 'f, 'k, 'c) world \<Rightarrow> BlobIndex list \<Rightarrow> nat list \<Rightarrow> ('i, 'f) TitanDBIterator
     \<Rightarrow> status \<Rightarrow> BlobRecord \<Rightarrow> bytes list \<Rightarrow> 'm \<Rightarrow> (status \<times> bytes list \<times> ('i, 'f) TitanDBIterator \<times> 'm) option" where
  "BulkRead P M indexes [] it s rec vals w = Some (s, vals, it, w)"
| "BulkRead P M indexes (j # js) it s rec vals w =
     (if j \<ge> length vals then None
      else if vals ! j \<noteq> [] then BulkRead P M indexes js it s rec vals w
      else if j \<ge> length indexes then None
      else do {
        let n = bi_file_number (indexes ! j);
        p \<leftarrow> map_of (di_files it) n;
        (r, rec, p, w) \<leftarrow> world_PrefetcherGet P M (bi_blob_handle (indexes ! j)) rec p w;
        let it = it\<lparr>di_files := amap_set n p (di_files it)\<rparr>;
        if \<not> IsOk r then BulkRead P M indexes js it r rec vals w
        else BulkRead P M indexes js it s rec (vals[j := r_value rec]) w
      })"

section \<open>Making iterators\<close>

text \<open>
  \<open>new_iter\<close> makes the iterator of the base database for a snapshot and a column family. The
  result is null when the blob storage of the column family is gone.
\<close>

definition NewIteratorImpl ::
    "(u64 \<Rightarrow> u32 \<Rightarrow> 'd \<Rightarrow> 'i) \<Rightarrow> TitanReadOptions \<Rightarrow> u64 \<Rightarrow> u32 \<Rightarrow> u64 option \<Rightarrow> ('e, 'k, 'f, 'w, 'c, 'd) TitanDBImpl
     \<Rightarrow> ('i, 'f) TitanDBIterator option option" where
  "NewIteratorImpl new_iter options sq cf snap db =
     (case GetBlobStorage cf (db_bfs db) of
        None \<Rightarrow> Some None
      | Some bs \<Rightarrow>
          if \<not> db_open db then None
          else Some (Some (new_TitanDBIterator options cf snap (new_iter sq cf (db_base db)))))"

definition with_snapshot ::
    "('d, 'v) base_db \<Rightarrow> u64 option \<Rightarrow> ('e, 'k, 'f, 'w, 'c, 'd) TitanDBImpl
     \<Rightarrow> u64 \<times> u64 option \<times> ('e, 'k, 'f, 'w, 'c, 'd) TitanDBImpl" where
  "with_snapshot D snapshot db =
     (case snapshot of
        Some sq \<Rightarrow> (sq, None, db)
      | None \<Rightarrow> (let (sq, d) = bd_GetSnapshot D (db_base db) in (sq, Some sq, db\<lparr>db_base := d\<rparr>)))"

definition Titan_NewIterator ::
    "('d, 'v) base_db \<Rightarrow> (u64 \<Rightarrow> u32 \<Rightarrow> 'd \<Rightarrow> 'i) \<Rightarrow> TitanReadOptions \<Rightarrow> u64 option \<Rightarrow> u32 \<Rightarrow> ('e, 'k, 'f, 'w, 'c, 'd) TitanDBImpl
     \<Rightarrow> (('i, 'f) TitanDBIterator option \<times> ('e, 'k, 'f, 'w, 'c, 'd) TitanDBImpl) option" where
  "Titan_NewIterator D new_iter options snapshot cf db = do {
     let (sq, snap, db) = with_snapshot D snapshot db;
     it \<leftarrow> NewIteratorImpl new_iter options sq cf snap db;
     Some (it, db)
   }"

definition Titan_NewIterators ::
    "('d, 'v) base_db \<Rightarrow> (u64 \<Rightarrow> u32 \<Rightarrow> 'd \<Rightarrow> 'i) \<Rightarrow> TitanReadOptions \<Rightarrow> u64 option \<Rightarrow> u32 list \<Rightarrow> ('e, 'k, 'f, 'w, 'c, 'd) TitanDBImpl
     \<Rightarrow> (status \<times> ('i, 'f) TitanDBIterator option list \<times> ('e, 'k, 'f, 'w, 'c, 'd) TitanDBImpl) option" where
  "Titan_NewIterators D new_iter options snapshot cfs db = do {
     let (sq, snap, db) = with_snapshot D snapshot db;
     its \<leftarrow> those (map (\<lambda>cf. NewIteratorImpl new_iter options sq cf snap db) cfs);
     Some (OK, its, db)
   }"

text \<open>Deleting an iterator that owns its snapshot releases it.\<close>

definition delete_iterator ::
    "('d, 'v) base_db \<Rightarrow> ('i, 'f) TitanDBIterator \<Rightarrow> ('e, 'k, 'f, 'w, 'c, 'd) TitanDBImpl \<Rightarrow> ('e, 'k, 'f, 'w, 'c, 'd) TitanDBImpl" where
  "delete_iterator D it db =
     (case di_snap it of None \<Rightarrow> db | Some sq \<Rightarrow> db\<lparr>db_base := bd_ReleaseSnapshot D sq (db_base db)\<rparr>)"

definition grow_to :: "nat \<Rightarrow> bytes list \<Rightarrow> bytes list" where
  "grow_to n xs = (if length xs < n then xs @ replicate (n - length xs) [] else xs)"

text \<open>The scan of the default column family; a null iterator is dereferenced.\<close>

definition Titan_Scan ::
    "('e, 'k, 'f, 'w, 'c, 'd, 'v) titan_env \<Rightarrow> (u64 \<Rightarrow> u32 \<Rightarrow> 'd \<Rightarrow> 'i) \<Rightarrow> 'i base_iter \<Rightarrow> u64 option \<Rightarrow> bytes \<Rightarrow> nat \<Rightarrow> bytes list \<Rightarrow> bytes list
     \<Rightarrow> ('e, 'k, 'f, 'w, 'c, 'd) TitanDBImpl
     \<Rightarrow> (nat \<times> bytes list \<times> bytes list \<times> ('e, 'k, 'f, 'w, 'c, 'd) TitanDBImpl) option" where
  "Titan_Scan T new_iter I snapshot start_key len ks vs db = do {
     (iter, db) \<leftarrow> Titan_NewIterator (te_base T) new_iter default_TitanReadOptions snapshot 0 db;
     it \<leftarrow> iter;
     (ret, ks, vs, it, db) \<leftarrow> Iter_Scan (te_rocks T) (db_world T) I start_key len (grow_to len ks) (grow_to len vs) it db;
     Some (ret, ks, vs, delete_iterator (te_base T) it db)
   }"

end
