(* ===== verification/Manifest_Props.thy ===== *)
theory Manifest_Props
  imports Blob_File_Set
begin

text \<open>
  The manifest protocol: a logged edit that fails leaves the storages alone, a snapshot
  written by \<open>OpenManifest\<close> is replayed to the same live files, and what happens to the
  rest of a manifest behind a corruption.
\<close>

declare map_of_eq_Some_iff [simp del]

section \<open>Collecting and applying\<close>

lemma collect_added:
  assumes "distinct (map file_number ms)" and "\<And>m. m \<in> set ms \<Longrightarrow> map_of (ce_added_files c) (file_number m) = None"
  shows "collect_all CF_AddFile ms c
    = (OK, c\<lparr>ce_added_files := ce_added_files c @ map (\<lambda>m. (file_number m, m)) ms\<rparr>)"
  using assms
proof (induction ms arbitrary: c)
  case (Cons m ms)
  have new: "map_of (ce_added_files c) (file_number m) = None" using Cons.prems(2) by simp
  have "map_of (ce_added_files c @ [(file_number m, m)]) (file_number x) = None" if "x \<in> set ms" for x
  proof -
    have "file_number x \<noteq> file_number m"
      using Cons.prems(1) imageI [OF that, of file_number] by (simp, metis)
    with Cons.prems(2) [of x] that show ?thesis by (simp add: map_of_eq_None_iff)
  qed
  with Cons.IH [of "c\<lparr>ce_added_files := ce_added_files c @ [(file_number m, m)]\<rparr>"] Cons.prems(1) new
  show ?case by (simp add: CF_AddFile_def amap_emplace_def)
qed simp

lemma AddEdit_added:
  assumes "\<not> ec_sealed ec" and "IsOk (ec_status ec)"
    and "ve_deleted_files e = []" and "ve_updated_discardable_size e = []"
    and "map_of (ec_column_families ec) (ve_column_family_id e) \<in> {None, Some new_CFEditCollector}"
    and "distinct (map file_number (ve_added_files e))"
    and "ve_has_next_file_number e \<Longrightarrow> ec_next_file_number ec \<le> ve_next_file_number e"
  shows "AddEdit e ec = (OK, ec\<lparr>ec_column_families := amap_set (ve_column_family_id e)
        \<lparr>ce_added_files = map (\<lambda>m. (file_number m, m)) (ve_added_files e), ce_deleted_files = [],
         ce_updated_discardable_size = []\<rparr> (ec_column_families ec),
      ec_next_file_number := (if ve_has_next_file_number e then ve_next_file_number e else ec_next_file_number ec),
      ec_has_next_file_number := (ve_has_next_file_number e \<or> ec_has_next_file_number ec)\<rparr>)"
proof -
  have c0: "(case map_of (ec_column_families ec) (ve_column_family_id e) of None \<Rightarrow> new_CFEditCollector | Some c \<Rightarrow> c)
      = new_CFEditCollector"
    using assms(5) by (auto split: option.split)
  have "collect_all CF_AddFile (ve_added_files e) new_CFEditCollector
      = (OK, \<lparr>ce_added_files = map (\<lambda>m. (file_number m, m)) (ve_added_files e), ce_deleted_files = [],
         ce_updated_discardable_size = []\<rparr>)"
    using collect_added [OF assms(6), of new_CFEditCollector] by (simp add: new_CFEditCollector_def)
  with c0 assms(1-4,7) show ?thesis
    by (cases ec) (auto simp: AddEdit_def set_collector_def Let_def not_less)
qed

lemma apply_batches:
  assumes "amap_ok qs"
    and "\<And>cf c bs st. (cf, c) \<in> set qs \<Longrightarrow> map_of ss cf = Some bs \<Longrightarrow>
      \<exists>bs' st'. CF_Apply nd (cmps cf) c (bs, st) = Some (OK, bs', st') \<and> Q cf c bs bs'"
  shows "\<exists>ss' st'. for_each (apply_cf nd cmps) qs (ss, st) = Some (OK, ss', st') \<and> map fst ss' = map fst ss \<and>
    (\<forall>cf bs. map_of ss cf = Some bs \<longrightarrow> (\<exists>bs'. map_of ss' cf = Some bs' \<and>
       (case map_of qs cf of None \<Rightarrow> bs' = bs | Some c \<Rightarrow> Q cf c bs bs')))"
  using assms
proof (induction qs arbitrary: ss st)
  case (Cons q qs)
  obtain cf c where q: "q = (cf, c)" by (cases q)
  show ?case
  proof (cases "map_of ss cf")
    case None
    have "\<exists>ss' st'. for_each (apply_cf nd cmps) qs (ss, st) = Some (OK, ss', st') \<and> map fst ss' = map fst ss \<and>
      (\<forall>cf bs. map_of ss cf = Some bs \<longrightarrow> (\<exists>bs'. map_of ss' cf = Some bs' \<and>
         (case map_of qs cf of None \<Rightarrow> bs' = bs | Some c \<Rightarrow> Q cf c bs bs')))"
      using Cons.prems by (intro Cons.IH) auto
    moreover have "apply_cf nd cmps q (ss, st) = Some (OK, ss, st)" using None q by (simp add: apply_cf_def)
    ultimately show ?thesis using None q by fastforce
  next
    case (Some bs)
    obtain bs1 st1 where a: "CF_Apply nd (cmps cf) c (bs, st) = Some (OK, bs1, st1)" and Q: "Q cf c bs bs1"
      using Cons.prems(2) [of cf c bs st] Some q by auto
    let ?ss = "amap_update cf (\<lambda>_. bs1) ss"
    have notin: "map_of qs cf = None" using Cons.prems(1) q by (simp add: map_of_eq_None_iff)
    have look: "map_of ?ss = (map_of ss)(cf \<mapsto> bs1)" using Some by (simp add: amap_simps)
    have "\<exists>ss' st'. for_each (apply_cf nd cmps) qs (?ss, st1) = Some (OK, ss', st') \<and> map fst ss' = map fst ?ss \<and>
      (\<forall>cf bs. map_of ?ss cf = Some bs \<longrightarrow> (\<exists>bs'. map_of ss' cf = Some bs' \<and>
         (case map_of qs cf of None \<Rightarrow> bs' = bs | Some c \<Rightarrow> Q cf c bs bs')))"
    proof (rule Cons.IH)
      fix cf' c' bs' st'
      assume in_qs: "(cf', c') \<in> set qs" and m: "map_of ?ss cf' = Some bs'"
      have "cf' \<noteq> cf" using in_qs notin by (force simp: map_of_eq_None_iff)
      with m Cons.prems(2) [of cf' c' bs' st'] in_qs
      show "\<exists>b s. CF_Apply nd (cmps cf') c' (bs', st') = Some (OK, b, s) \<and> Q cf' c' bs' b"
        by (simp add: look)
    qed (use Cons.prems(1) in simp)
    then obtain ss' st' where r: "for_each (apply_cf nd cmps) qs (?ss, st1) = Some (OK, ss', st')" "map fst ss' = map fst ss"
      and p: "\<And>cf bs. map_of ?ss cf = Some bs \<Longrightarrow> \<exists>bs'. map_of ss' cf = Some bs' \<and>
         (case map_of qs cf of None \<Rightarrow> bs' = bs | Some c \<Rightarrow> Q cf c bs bs')" by auto
    have "\<exists>bs'. map_of ss' x = Some bs' \<and> (case map_of (q # qs) x of None \<Rightarrow> bs' = b | Some c \<Rightarrow> Q x c b bs')"
      if "map_of ss x = Some b" for x b
      using p [of x "if x = cf then bs1 else b"] that notin Q Some q by (auto simp: look split: if_splits)
    moreover have "apply_cf nd cmps q (ss, st) = Some (OK, ?ss, st1)" using a Some q by (simp add: apply_cf_def)
    ultimately show ?thesis using r by auto
  qed
qed simp

section \<open>A corruption in the manifest\<close>

lemma replay_bad_status: "\<not> IsOk s \<Longrightarrow> replay nd C j items s ec = Some (Inr ec)"
  by (induction items arbitrary: s) (auto split: log_item.split)

lemma replay_corruption:
  "\<not> IsOk r \<Longrightarrow>
   replay nd C j (map LogRecord recs @ LogCorruption r # rest) OK ec = replay nd C j (map LogRecord recs) OK ec"
proof (induction recs arbitrary: ec)
  case Nil
  then show ?case by (simp add: replay_bad_status)
next
  case (Cons b recs)
  show ?case
  proof (cases "VersionEdit_DecodeFrom nd C j new_VersionEdit b")
    case (Some p)
    obtain s1 e where p: "p = (s1, e)" by (cases p)
    obtain s2 ec2 where a: "AddEdit e ec = (s2, ec2)" by (cases "AddEdit e ec")
    show ?thesis using Cons.IH [of ec2] Cons.prems by (cases "s2 = OK") (auto simp: Some p a)
  qed simp
qed

section \<open>A snapshot and its replay\<close>

definition live_metas :: "'f BlobStorage \<Rightarrow> BlobFileMeta list" where
  "live_metas bs = map snd (filter (\<lambda>p. \<not> is_obsolete (snd p)) (bs_files bs))"

lemma snapshot_edit_eq:
  "snapshot_edit (cf, bs) = new_VersionEdit\<lparr>ve_column_family_id := cf, ve_added_files := live_metas bs\<rparr>"
proof -
  have eq: "fold (\<lambda>file e. if is_obsolete (snd file) then e else VersionEdit_AddBlobFile (snd file) e) fs e
      = e\<lparr>ve_added_files := ve_added_files e @ map snd (filter (\<lambda>p. \<not> is_obsolete (snd p)) fs)\<rparr>" for fs e
    by (induction fs arbitrary: e) (auto simp: VersionEdit_AddBlobFile_def)
  show ?thesis
    unfolding snapshot_edit_def eq by (simp add: SetColumnFamilyID_def new_VersionEdit_def live_metas_def)
qed

lemma persistent_snapshot_edit:
  "persistent_edit (snapshot_edit (cf, bs))
   = new_VersionEdit\<lparr>ve_column_family_id := cf, ve_added_files := map persistent_meta (live_metas bs)\<rparr>"
  by (simp add: snapshot_edit_eq persistent_edit_def new_VersionEdit_def)

definition snapshot_batch :: "'f BlobStorage \<Rightarrow> CFEditCollector" where
  "snapshot_batch bs =
     \<lparr>ce_added_files = map (\<lambda>m. (file_number m, persistent_meta m)) (live_metas bs), ce_deleted_files = [],
      ce_updated_discardable_size = []\<rparr>"

lemma live_metas_numbers:
  assumes "storage_ok cmp bs"
  shows "map file_number (live_metas bs) = map fst (filter (\<lambda>p. \<not> is_obsolete (snd p)) (bs_files bs))"
    and "distinct (map file_number (live_metas bs))"
    and "file_number ` set (live_metas bs) = fs_live (abs_storage bs)"
proof -
  have nums: "file_number (snd p) = fst p" if "p \<in> set (bs_files bs)" for p
    using assms that by (simp add: storage_ok_def)
  then show eq: "map file_number (live_metas bs) = map fst (filter (\<lambda>p. \<not> is_obsolete (snd p)) (bs_files bs))"
    by (simp add: live_metas_def)
  have ok: "amap_ok (bs_files bs)" using storage_okD(1) [OF assms] .
  then show "distinct (map file_number (live_metas bs))" unfolding eq by (rule distinct_map_filter)
  have "file_number ` set (live_metas bs) = fst ` set (filter (\<lambda>p. \<not> is_obsolete (snd p)) (bs_files bs))"
    using eq by (metis list.set_map)
  also have "\<dots> = fs_live (abs_storage bs)"
    using ok by (force simp: live_iff map_of_eq_Some_iff)
  finally show "file_number ` set (live_metas bs) = fs_live (abs_storage bs)" .
qed

context coding_laws
begin

lemma replay_edit:
  assumes "list_all meta_fits (ve_added_files e)" and "amap_ok (ve_updated_discardable_size e)"
    and "AddEdit (persistent_edit e) ec = (OK, ec')"
  shows "replay nd C j (LogRecord (VersionEdit_EncodeTo C e) # items) OK ec = replay nd C j items OK ec'"
  using version_edit_roundtrip [OF assms(1,2), of nd j] assms(3) by simp

lemma replay_snapshot:
  assumes "amap_ok cfs" and "\<not> ec_sealed ec" and "IsOk (ec_status ec)"
    and "\<And>cf bs. (cf, bs) \<in> set cfs \<Longrightarrow> storage_ok (cmps cf) bs \<and> list_all meta_fits (live_metas bs) \<and>
      map_of (ec_column_families ec) cf \<in> {None, Some new_CFEditCollector}"
  shows "replay nd C j (map (\<lambda>p. LogRecord (VersionEdit_EncodeTo C (snapshot_edit p))) cfs) OK ec
    = Some (Inr (ec\<lparr>ec_column_families :=
        fold (\<lambda>p. amap_set (fst p) (snapshot_batch (snd p))) cfs (ec_column_families ec)\<rparr>))"
  using assms
proof (induction cfs arbitrary: ec)
  case (Cons p cfs)
  obtain cf bs where p: "p = (cf, bs)" by (cases p)
  let ?e = "snapshot_edit (cf, bs)"
  let ?ec = "ec\<lparr>ec_column_families := amap_set cf (snapshot_batch bs) (ec_column_families ec)\<rparr>"
  have bs: "storage_ok (cmps cf) bs" "list_all meta_fits (live_metas bs)"
    "map_of (ec_column_families ec) cf \<in> {None, Some new_CFEditCollector}"
    using Cons.prems(4) [of cf bs] p by auto
  have pm: "file_number (persistent_meta m) = file_number m" for m by (simp add: persistent_meta_def)
  have "AddEdit (persistent_edit ?e) ec = (OK, ?ec)"
    unfolding persistent_snapshot_edit
    by (subst AddEdit_added)
      (use Cons.prems(2,3) bs live_metas_numbers(2) [OF bs(1)] in
        \<open>simp_all add: new_VersionEdit_def snapshot_batch_def comp_def pm\<close>)
  then have step: "replay nd C j (LogRecord (VersionEdit_EncodeTo C ?e) # items) OK ec = replay nd C j items OK ?ec" for items
    by (intro replay_edit) (use bs(2) in \<open>simp_all add: snapshot_edit_eq new_VersionEdit_def\<close>)
  have "replay nd C j (map (\<lambda>p. LogRecord (VersionEdit_EncodeTo C (snapshot_edit p))) cfs) OK ?ec
      = Some (Inr (?ec\<lparr>ec_column_families :=
          fold (\<lambda>p. amap_set (fst p) (snapshot_batch (snd p))) cfs (ec_column_families ?ec)\<rparr>))"
  proof (rule Cons.IH)
    fix cf' bs' assume q: "(cf', bs') \<in> set cfs"
    have "cf' \<noteq> cf" using q Cons.prems(1) p by force
    with Cons.prems(4) [of cf' bs'] q
    show "storage_ok (cmps cf') bs' \<and> list_all meta_fits (live_metas bs') \<and>
        map_of (ec_column_families ?ec) cf' \<in> {None, Some new_CFEditCollector}"
      by (simp add: amap_simps)
  qed (use Cons.prems in simp_all)
  with step p show ?case by simp
qed simp

end

definition snapshot_items :: "coding \<Rightarrow> ('e, 'k, 'f) BlobFileSet \<Rightarrow> log_item list" where
  "snapshot_items C bfs =
     LogRecord (VersionEdit_EncodeTo C (SetNextFileNumber (bfs_next_file_number bfs) new_VersionEdit)) #
     map (\<lambda>p. LogRecord (VersionEdit_EncodeTo C (snapshot_edit p))) (bfs_column_families bfs)"

text \<open>
  What the manifest needs from the file system: a new log is empty, a record that was added
  is at its end, and neither syncing nor naming the current manifest changes it.
\<close>

locale manifest_laws =
  fixes G :: "'e manifest_fs" and logs :: "'e \<Rightarrow> u64 \<Rightarrow> log_item list"
  assumes new_log: "fs_NewWritableFile G e n = (OK, e') \<Longrightarrow> logs e' n = []"
    and add_record: "fs_AddRecord G e n r = (OK, e') \<Longrightarrow> logs e' n = logs e n @ [LogRecord r]"
    and sync_log: "fs_SyncTitanManifest G e n = (OK, e') \<Longrightarrow> logs e' n = logs e n"
    and current_log: "fs_SetCurrentFile G e n = (OK, e') \<Longrightarrow> logs e' n = logs e n"
begin

lemma log_records:
  assumes "for_each (\<lambda>p bfs. Some (AddRecord G n (f p) bfs)) ps bfs = Some (OK, bfs')"
  shows "logs (bfs_env bfs') n = logs (bfs_env bfs) n @ map (LogRecord \<circ> f) ps \<and>
    bfs' = bfs\<lparr>bfs_env := bfs_env bfs'\<rparr>"
  using assms
proof (induction ps arbitrary: bfs)
  case (Cons p ps)
  obtain s env where a: "fs_AddRecord G (bfs_env bfs) n (f p) = (s, env)" by (cases "fs_AddRecord G (bfs_env bfs) n (f p)")
  have s: "s = OK" and rest: "for_each (\<lambda>p bfs. Some (AddRecord G n (f p) bfs)) ps (bfs\<lparr>bfs_env := env\<rparr>) = Some (OK, bfs')"
    using Cons.prems a by (auto simp: AddRecord_def split: if_splits)
  with Cons.IH [OF rest] add_record [of "bfs_env bfs" n "f p" env] a show ?case by auto
qed simp

lemma write_snapshot_log:
  assumes "WriteSnapshot C G n bfs = Some (OK, bfs')"
  shows "logs (bfs_env bfs') n = logs (bfs_env bfs) n @ snapshot_items C bfs \<and> bfs' = bfs\<lparr>bfs_env := bfs_env bfs'\<rparr>"
proof -
  let ?r = "VersionEdit_EncodeTo C (SetNextFileNumber (bfs_next_file_number bfs) new_VersionEdit)"
  obtain s env where a: "fs_AddRecord G (bfs_env bfs) n ?r = (s, env)" by (cases "fs_AddRecord G (bfs_env bfs) n ?r")
  have s: "s = OK" and rest: "for_each (\<lambda>p bfs. Some (AddRecord G n (VersionEdit_EncodeTo C (snapshot_edit p)) bfs))
      (bfs_column_families bfs) (bfs\<lparr>bfs_env := env\<rparr>) = Some (OK, bfs')"
    using assms a by (auto simp: WriteSnapshot_def AddRecord_def Let_def split: if_splits)
  show ?thesis
    using log_records [OF rest] add_record [of "bfs_env bfs" n ?r env] a s
    by (auto simp: snapshot_items_def comp_def)
qed

lemma open_manifest_log:
  assumes "OpenManifest C G n bfs = Some (OK, bfs')"
  shows "logs (bfs_env bfs') n = snapshot_items C bfs \<and> bfs' = bfs\<lparr>bfs_env := bfs_env bfs', bfs_manifest := Some n\<rparr>"
proof -
  obtain s0 e0 where n: "fs_NewWritableFile G (bfs_env bfs) n = (s0, e0)" by (cases "fs_NewWritableFile G (bfs_env bfs) n")
  have s0: "s0 = OK" using assms n by (auto simp: OpenManifest_def Let_def split: if_splits)
  let ?b1 = "bfs\<lparr>bfs_env := e0, bfs_manifest := Some n\<rparr>"
  obtain s1 b2 where w: "WriteSnapshot C G n ?b1 = Some (s1, b2)"
    using assms n s0 by (auto simp: OpenManifest_def Let_def bind_eq_Some_conv)
  have s1: "s1 = OK" using assms n s0 w by (cases "s1 = OK") (auto simp: OpenManifest_def Let_def)
  obtain s2 e2 where y: "fs_SyncTitanManifest G (bfs_env b2) n = (s2, e2)" by (cases "fs_SyncTitanManifest G (bfs_env b2) n")
  have s2: "s2 = OK" using assms n s0 w s1 y by (cases "s2 = OK") (auto simp: OpenManifest_def sync_manifest_def Let_def)
  obtain s3 e3 where c: "fs_SetCurrentFile G e2 n = (s3, e3)" by (cases "fs_SetCurrentFile G e2 n")
  have s3: "s3 = OK" and b': "bfs' = b2\<lparr>bfs_env := e3\<rparr>"
    using assms n s0 w s1 y s2 c by (cases "s3 = OK"; auto simp: OpenManifest_def sync_manifest_def Let_def)+
  have "logs (bfs_env b2) n = snapshot_items C bfs" and "b2 = ?b1\<lparr>bfs_env := bfs_env b2\<rparr>"
    using write_snapshot_log [OF w [unfolded s1]] new_log [OF n [unfolded s0]] by (simp_all add: snapshot_items_def)
  moreover have "logs e3 n = logs (bfs_env b2) n"
    using sync_log [OF y [unfolded s2]] current_log [OF c [unfolded s3]] by simp
  ultimately show ?thesis using b' by (cases b2) auto
qed

end

text \<open>Manifests in memory, with the number of the current one.\<close>

type_synonym mem_env = "(u64 \<times> log_item list) list \<times> u64 option"

definition manifest_name :: "u64 \<Rightarrow> string" where
  "manifest_name n = ''MANIFEST-'' @ to_string n"

definition mem_logs :: "mem_env \<Rightarrow> u64 \<Rightarrow> log_item list" where
  "mem_logs e n = (case map_of (fst e) n of None \<Rightarrow> [] | Some l \<Rightarrow> l)"

definition mem_fs :: "mem_env manifest_fs" where
  "mem_fs =
     \<lparr>fs_FileExists_CURRENT = (\<lambda>e. if snd e = None then NotFound '''' else OK),
      fs_ReadFileToString_CURRENT = (\<lambda>e. case snd e of None \<Rightarrow> (NotFound '''', [])
         | Some n \<Rightarrow> (OK, manifest_name n @ [CHR 0x0A])),
      fs_NewSequentialFile = (\<lambda>e name. case find (\<lambda>p. manifest_name (fst p) = name) (fst e) of
         None \<Rightarrow> Inl (NotFound name) | Some p \<Rightarrow> Inr (snd p)),
      fs_NewWritableFile = (\<lambda>e n. (OK, amap_set n [] (fst e), snd e)),
      fs_AddRecord = (\<lambda>e n r. (OK, amap_set n (mem_logs e n @ [LogRecord r]) (fst e), snd e)),
      fs_SyncTitanManifest = (\<lambda>e n. (OK, e)),
      fs_SetCurrentFile = (\<lambda>e n. (OK, fst e, Some n)),
      fs_GetChildren = (\<lambda>e. []), fs_ParseFileName = (\<lambda>f. None), fs_DeleteFile = (\<lambda>e f. e)\<rparr>"

interpretation mem_manifest: manifest_laws mem_fs mem_logs
  by standard (auto simp: mem_fs_def mem_logs_def amap_simps)

lemma manifest_laws_mem: "manifest_laws mem_fs mem_logs"
  by (rule mem_manifest.manifest_laws_axioms)

section \<open>Recovering a snapshot\<close>

lemma map_of_fold_set:
  "amap_ok cfs \<Longrightarrow> map_of (fold (\<lambda>p. amap_set (fst p) (f (snd p))) cfs m) x
   = (case map_of cfs x of None \<Rightarrow> map_of m x | Some v \<Rightarrow> Some (f v))"
proof (induction cfs arbitrary: m)
  case (Cons p cfs)
  obtain y v where p: "p = (y, v)" by (cases p)
  then have "map_of cfs y = None" using Cons.prems by (simp add: map_of_eq_None_iff)
  with Cons p show ?case by (auto simp: amap_simps split: option.split)
qed simp

lemma amap_ok_fold_set: "amap_ok m \<Longrightarrow> amap_ok (fold (\<lambda>p. amap_set (fst p) (f (snd p))) cfs m)"
  by (induction cfs arbitrary: m) auto

text \<open>A storage that was just made for the column family of \<open>bs\<close>.\<close>

definition fresh_for :: "comparator \<Rightarrow> 'f BlobStorage \<Rightarrow> 'f BlobStorage \<Rightarrow> bool" where
  "fresh_for cmp bs bs0 =
     (bs_files bs0 = [] \<and> storage_ok cmp bs0 \<and> scorable bs0 \<and> bs_num_levels bs0 = bs_num_levels bs)"

definition snapshot_ok :: "comparator \<Rightarrow> 'f BlobStorage \<Rightarrow> bool" where
  "snapshot_ok cmp bs =
     (storage_ok cmp bs \<and> list_all (\<lambda>m. meta_fits m \<and> file_size m \<noteq> 0) (live_metas bs))"

lemma snapshot_batch_seals:
  assumes "snapshot_ok cmp bs" and "fresh_for cmp bs bs0" and "comparator_laws cmp"
  shows "CF_Seal nd bs0 (snapshot_batch bs) = Some OK"
    and "\<exists>bs1 st'. CF_Apply nd cmp (snapshot_batch bs) (bs0, st) = Some (OK, bs1, st') \<and> storage_ok cmp bs1 \<and>
      fs_live (abs_storage bs1) = fs_live (abs_storage bs)"
proof -
  have ok: "storage_ok cmp bs" and ok0: "storage_ok cmp bs0" and files0: "bs_files bs0 = []"
    using assms(1,2) by (simp_all add: snapshot_ok_def fresh_for_def)
  show seal: "CF_Seal nd bs0 (snapshot_batch bs) = Some OK"
    using CF_Seal_iff [OF ok0, of nd "snapshot_batch bs"] files0 by (simp add: snapshot_batch_def)
  have cf: "cf_ok (snapshot_batch bs)"
    using live_metas_numbers(2) [OF ok] by (simp add: cf_ok_def snapshot_batch_def comp_def persistent_meta_def)
  have live: "fs_live (abs_storage bs0) = {}" using files0 by (simp add: abs_storage_def)
  have "batch_added (snapshot_batch bs) = fs_live (abs_storage bs)" "batch_deleted (snapshot_batch bs) = {}"
    using live_metas_numbers(3) [OF ok] by (simp_all add: batch_added_def batch_deleted_def snapshot_batch_def image_image)
  moreover have "\<not> is_obsolete (snd p) \<and> file_bucket bs0 (snd p) \<le> bs_num_levels bs0 \<and> file_size (snd p) \<noteq> 0"
    if p: "p \<in> set (ce_added_files (snapshot_batch bs))" for p
  proof -
    obtain m where m: "m \<in> set (live_metas bs)" and sp: "snd p = persistent_meta m"
      using p by (auto simp: snapshot_batch_def)
    have "file_bucket bs m \<le> bs_num_levels bs"
      using m storage_okD(5) [OF ok] by (auto simp: live_metas_def levels_ok_def)
    then have "file_bucket bs0 (persistent_meta m) \<le> bs_num_levels bs0"
      using assms(2) by (simp add: file_bucket_def fresh_for_def persistent_meta_def split: if_splits)
    moreover have "file_size m \<noteq> 0" using m assms(1) by (simp add: snapshot_ok_def list_all_iff)
    ultimately show ?thesis using sp by (simp add: persistent_meta_def is_obsolete_def)
  qed
  ultimately show "\<exists>bs1 st'. CF_Apply nd cmp (snapshot_batch bs) (bs0, st) = Some (OK, bs1, st') \<and> storage_ok cmp bs1 \<and>
      fs_live (abs_storage bs1) = fs_live (abs_storage bs)"
    using CF_Apply_sealed [OF assms(3) ok0 cf seal, of st] live assms(2)
    by (simp add: snapshot_batch_def fresh_for_def)
qed

definition snapshot_collector :: "('e, 'k, 'f) BlobFileSet \<Rightarrow> EditCollector" where
  "snapshot_collector bfs =
     new_EditCollector\<lparr>ec_has_next_file_number := True, ec_next_file_number := bfs_next_file_number bfs,
       ec_column_families := fold (\<lambda>p. amap_set (fst p) (snapshot_batch (snd p))) (bfs_column_families bfs)
         [(0, new_CFEditCollector)]\<rparr>"

context coding_laws
begin

lemma replay_items:
  assumes "amap_ok (bfs_column_families bfs)"
    and "\<And>cf bs. (cf, bs) \<in> set (bfs_column_families bfs) \<Longrightarrow> snapshot_ok (cmps cf) bs"
  shows "replay nd C j (snapshot_items C bfs) OK new_EditCollector = Some (Inr (snapshot_collector bfs))"
proof -
  let ?e = "SetNextFileNumber (bfs_next_file_number bfs) new_VersionEdit"
  let ?ec = "new_EditCollector\<lparr>ec_has_next_file_number := True, ec_next_file_number := bfs_next_file_number bfs,
      ec_column_families := [(0, new_CFEditCollector)]\<rparr>"
  have "AddEdit (persistent_edit ?e) new_EditCollector = (OK, ?ec)"
    by (subst AddEdit_added)
      (simp_all add: persistent_edit_def SetNextFileNumber_def new_VersionEdit_def new_EditCollector_def new_CFEditCollector_def)
  then have step: "replay nd C j (LogRecord (VersionEdit_EncodeTo C ?e) # items) OK new_EditCollector
      = replay nd C j items OK ?ec" for items
    by (intro replay_edit) (simp_all add: SetNextFileNumber_def new_VersionEdit_def)
  show ?thesis
    unfolding snapshot_items_def step
    by (subst replay_snapshot [OF assms(1), of _ cmps])
      (use assms(2) in \<open>auto simp: snapshot_collector_def new_EditCollector_def snapshot_ok_def list_all_iff\<close>)
qed

end

lemma recover_snapshot:
  fixes bfs :: "('e, 'k, 'f) BlobFileSet" and bfs0 :: "('e2, 'k2, 'f) BlobFileSet"
  assumes "coding_laws C" and cl: "\<And>cf. comparator_laws (cmps cf)"
    and dist: "amap_ok (bfs_column_families bfs)"
    and snap: "\<And>cf bs. map_of (bfs_column_families bfs) cf = Some bs \<Longrightarrow> snapshot_ok (cmps cf) bs"
    and fresh: "\<And>cf bs0. map_of (bfs_column_families bfs0) cf = Some bs0 \<Longrightarrow>
      \<exists>bs. map_of (bfs_column_families bfs) cf = Some bs \<and> fresh_for (cmps cf) bs bs0"
  shows "\<exists>bfs1. recover_edits nd C cmps j (snapshot_items C bfs) bfs0 = Some (OK, bfs1) \<and>
    bfs_next_file_number bfs1 = bfs_next_file_number bfs \<and>
    map fst (bfs_column_families bfs1) = map fst (bfs_column_families bfs0) \<and>
    (\<forall>cf bs bs0. map_of (bfs_column_families bfs) cf = Some bs \<longrightarrow> map_of (bfs_column_families bfs0) cf = Some bs0 \<longrightarrow>
      (\<exists>bs1. map_of (bfs_column_families bfs1) cf = Some bs1 \<and> storage_ok (cmps cf) bs1 \<and>
        fs_live (abs_storage bs1) = fs_live (abs_storage bs)))"
proof -
  let ?cfs = "bfs_column_families bfs" and ?ss = "bfs_column_families bfs0"
  let ?ec = "snapshot_collector bfs" and ?qs = "ec_column_families (snapshot_collector bfs)"
  have "\<And>cf bs. (cf, bs) \<in> set ?cfs \<Longrightarrow> snapshot_ok (cmps cf) bs"
    using snap dist by (simp add: map_of_eq_Some_iff)
  then have rep: "replay nd C j (snapshot_items C bfs) OK new_EditCollector = Some (Inr ?ec)"
    using coding_laws.replay_items [OF assms(1) dist] by blast
  have qs: "amap_ok ?qs" "map_of ?qs cf = Some (snapshot_batch bs)" if "map_of ?cfs cf = Some bs" for cf bs
    using that map_of_fold_set [OF dist, of snapshot_batch "[(0, new_CFEditCollector)]" cf]
      amap_ok_fold_set [of "[(0, new_CFEditCollector)]" snapshot_batch ?cfs]
    by (simp_all add: snapshot_collector_def)
  have qok: "amap_ok ?qs"
    using amap_ok_fold_set [of "[(0, new_CFEditCollector)]" snapshot_batch ?cfs] by (simp add: snapshot_collector_def)
  have st: "ec_status ?ec = OK" "\<not> ec_sealed ?ec" "ec_has_next_file_number ?ec" "ec_next_file_number ?ec = bfs_next_file_number bfs"
    by (simp_all add: snapshot_collector_def new_EditCollector_def)
  have match: "\<exists>bs. map_of ?cfs cf = Some bs \<and> c = snapshot_batch bs \<and> snapshot_ok (cmps cf) bs \<and> fresh_for (cmps cf) bs bs0"
    if q: "(cf, c) \<in> set ?qs" and s0: "map_of ?ss cf = Some bs0" for cf c bs0
  proof -
    obtain bs where bs: "map_of ?cfs cf = Some bs" "fresh_for (cmps cf) bs bs0" using fresh [OF s0] by blast
    have "map_of ?qs cf = Some c" using q qok by (simp add: map_of_eq_Some_iff)
    with qs(2) [OF bs(1)] have "c = snapshot_batch bs" by simp
    with bs snap show ?thesis by blast
  qed
  have "for_each (seal_cf nd ?ss) ?qs () = Some (OK, ())"
  proof (rule for_each_all_OK)
    fix p assume p: "p \<in> set ?qs"
    show "seal_cf nd ?ss p () = Some (OK, ())"
    proof (cases "map_of ?ss (fst p)")
      case (Some bs0)
      with match [of "fst p" "snd p" bs0] p obtain bs where "snd p = snapshot_batch bs" "snapshot_ok (cmps (fst p)) bs"
        "fresh_for (cmps (fst p)) bs bs0" by auto
      then have "CF_Seal nd bs0 (snd p) = Some OK" using snapshot_batch_seals(1) [OF _ _ cl] by simp
      with Some show ?thesis by (simp add: seal_cf_def)
    qed (simp add: seal_cf_def)
  qed
  then have seal: "EditCollector_Seal nd ?ss ?ec = Some (OK, ?ec\<lparr>ec_sealed := True\<rparr>)"
    by (simp add: EditCollector_Seal_def st)
  let ?Q = "\<lambda>cf c bs0 bs1. storage_ok (cmps cf) bs1 \<and>
      (\<forall>bs. map_of ?cfs cf = Some bs \<longrightarrow> fs_live (abs_storage bs1) = fs_live (abs_storage bs))"
  have "\<exists>bs1 st'. CF_Apply nd (cmps cf) c (bs0, st) = Some (OK, bs1, st') \<and> ?Q cf c bs0 bs1"
    if "(cf, c) \<in> set ?qs" "map_of ?ss cf = Some bs0" for cf c bs0 st
    using match [OF that] snapshot_batch_seals(2) [OF _ _ cl, of cf _ bs0 nd st] by fastforce
  then obtain ss' st' where app: "for_each (apply_cf nd cmps) ?qs (?ss, bfs_stats bfs0) = Some (OK, ss', st')"
    and keys: "map fst ss' = map fst ?ss"
    and res: "\<And>cf bs0. map_of ?ss cf = Some bs0 \<Longrightarrow> \<exists>bs1. map_of ss' cf = Some bs1 \<and>
       (case map_of ?qs cf of None \<Rightarrow> bs1 = bs0 | Some c \<Rightarrow> ?Q cf c bs0 bs1)"
    using apply_batches [OF qok, where Q = ?Q and ss = ?ss and st = "bfs_stats bfs0" and nd = nd and cmps = cmps] by blast
  let ?bfs1 = "bfs0\<lparr>bfs_column_families := ss', bfs_stats := st', bfs_next_file_number := bfs_next_file_number bfs\<rparr>"
  have "recover_edits nd C cmps j (snapshot_items C bfs) bfs0 = Some (OK, ?bfs1)"
    by (simp add: recover_edits_def rep seal EditCollector_Apply_def st app GetNextFileNumber_def)
  moreover have "\<exists>bs1. map_of ss' cf = Some bs1 \<and> storage_ok (cmps cf) bs1 \<and> fs_live (abs_storage bs1) = fs_live (abs_storage bs)"
    if "map_of ?cfs cf = Some bs" "map_of ?ss cf = Some bs0" for cf bs bs0
    using res [OF that(2)] qs(2) [OF that(1)] that(1) by simp
  ultimately show ?thesis using keys by (intro exI [of _ ?bfs1]) simp
qed

section \<open>Properties\<close>

text \<open>
  C26. The live files survive a restart: after \<open>OpenManifest\<close> succeeded, replaying the new
  manifest into storages that were just made for the same column families succeeds, restores
  the next file number, and gives every column family consistent storage with exactly the
  live files it had; obsolete files are gone.
\<close>

theorem snapshot_recovers_live_files:
  fixes bfs :: "('e, 'k, 'f) BlobFileSet" and bfs0 :: "('e, 'k, 'f) BlobFileSet"
  assumes "coding_laws C" and "manifest_laws G logs" and "\<And>cf. comparator_laws (cmps cf)"
    and "amap_ok (bfs_column_families bfs)"
    and "\<And>cf bs. map_of (bfs_column_families bfs) cf = Some bs \<Longrightarrow> snapshot_ok (cmps cf) bs"
    and "OpenManifest C G n bfs = Some (OK, bfs')"
    and "\<And>cf bs0. map_of (bfs_column_families bfs0) cf = Some bs0 \<Longrightarrow>
      \<exists>bs. map_of (bfs_column_families bfs) cf = Some bs \<and> fresh_for (cmps cf) bs bs0"
  shows "\<exists>bfs1. recover_edits nd C cmps j (logs (bfs_env bfs') n) bfs0 = Some (OK, bfs1) \<and>
    bfs_next_file_number bfs1 = bfs_next_file_number bfs \<and>
    (\<forall>cf bs bs0. map_of (bfs_column_families bfs) cf = Some bs \<longrightarrow> map_of (bfs_column_families bfs0) cf = Some bs0 \<longrightarrow>
      (\<exists>bs1. map_of (bfs_column_families bfs1) cf = Some bs1 \<and> storage_ok (cmps cf) bs1 \<and>
        fs_live (abs_storage bs1) = fs_live (abs_storage bs)))"
proof -
  have "logs (bfs_env bfs') n = snapshot_items C bfs"
    using manifest_laws.open_manifest_log [OF assms(2,6)] by blast
  then show ?thesis
    using recover_snapshot [of C cmps bfs bfs0 nd j] assms(1,3,4,5,7) by auto
qed

definition sample_set :: "(mem_env, unit, bytes) BlobFileSet" where
  "sample_set =
     \<lparr>bfs_env = ([], None), bfs_db_options = default_TitanDBOptions, bfs_file_cache = (), bfs_stats = None,
      bfs_obsolete_manifests = [], bfs_obsolete_columns = [], bfs_column_families = [(0, sample_storage)],
      bfs_manifest = None, bfs_next_file_number = 9\<rparr>"

definition sample_set0 :: "(mem_env, unit, bytes) BlobFileSet" where
  "sample_set0 = sample_set\<lparr>bfs_column_families := [(0, sample_store)], bfs_next_file_number := 1\<rparr>"

lemma snapshot_recovers_live_files_witness:
  "\<exists>bfs' bfs1 bs1. OpenManifest leb128 mem_fs 3 sample_set = Some (OK, bfs')
    \<and> recover_edits False leb128 (\<lambda>_. bytewise) (0, 0) (mem_logs (bfs_env bfs') 3) sample_set0 = Some (OK, bfs1)
    \<and> bfs_next_file_number bfs1 = 9 \<and> map_of (bfs_column_families bfs1) 0 = Some bs1
    \<and> fs_live (abs_storage bs1) = {6}"
proof -
  have "map_option fst (OpenManifest leb128 mem_fs 3 sample_set) = Some OK"
    and s: "snapshot_ok bytewise sample_storage" and f: "fresh_for bytewise sample_storage sample_store"
    by code_simp+
  then obtain bfs' where o: "OpenManifest leb128 mem_fs 3 sample_set = Some (OK, bfs')" by auto
  have cfs: "bfs_column_families sample_set = [(0, sample_storage)]" "bfs_column_families sample_set0 = [(0, sample_store)]"
    "bfs_next_file_number sample_set = 9"
    by (simp_all add: sample_set_def sample_set0_def)
  have "fs_live (abs_storage sample_storage) = {6}"
    by (auto simp: live_iff sample_storage_def is_obsolete_def sample_meta2_def new_BlobFileMeta_def split: if_splits)
  moreover obtain bfs1 where
    r: "recover_edits False leb128 (\<lambda>_. bytewise) (0, 0) (mem_logs (bfs_env bfs') 3) sample_set0 = Some (OK, bfs1)"
      "bfs_next_file_number bfs1 = bfs_next_file_number sample_set"
    and all: "\<forall>cf bs bs0. map_of (bfs_column_families sample_set) cf = Some bs \<longrightarrow>
      map_of (bfs_column_families sample_set0) cf = Some bs0 \<longrightarrow>
      (\<exists>bs1. map_of (bfs_column_families bfs1) cf = Some bs1 \<and> storage_ok bytewise bs1 \<and>
        fs_live (abs_storage bs1) = fs_live (abs_storage bs))"
  proof -
    have "\<exists>bfs1. recover_edits False leb128 (\<lambda>_. bytewise) (0, 0) (mem_logs (bfs_env bfs') 3) sample_set0 = Some (OK, bfs1)
        \<and> bfs_next_file_number bfs1 = bfs_next_file_number sample_set
        \<and> (\<forall>cf bs bs0. map_of (bfs_column_families sample_set) cf = Some bs \<longrightarrow>
          map_of (bfs_column_families sample_set0) cf = Some bs0 \<longrightarrow>
          (\<exists>bs1. map_of (bfs_column_families bfs1) cf = Some bs1 \<and> storage_ok bytewise bs1 \<and>
            fs_live (abs_storage bs1) = fs_live (abs_storage bs)))"
      by (rule snapshot_recovers_live_files [OF coding_laws_leb128 manifest_laws_mem comparator_laws_bytewise _ _ o])
        (use s f in \<open>auto simp: cfs split: if_splits\<close>)
    then show ?thesis using that by blast
  qed
  moreover obtain bs1 where "map_of (bfs_column_families bfs1) 0 = Some bs1"
    and "fs_live (abs_storage bs1) = fs_live (abs_storage sample_storage)"
    using all [rule_format, of 0 sample_storage sample_store] by (auto simp: cfs)
  ultimately show ?thesis using o by (simp add: cfs)
qed

text \<open>
  C27. The manifest is written ahead of the storages: \<open>LogAndApply\<close> changes the storages of
  the column families only after the whole edit, with the next file number, was added to
  the manifest and synced. A rejected edit or a failed write leaves them as they were.
\<close>

theorem manifest_written_ahead:
  assumes "LogAndApply nd C cmps G edit bfs = Some (s, bfs')"
    and "bfs_column_families bfs' \<noteq> bfs_column_families bfs"
  shows "\<exists>lg env1 env2. bfs_manifest bfs = Some lg \<and>
    fs_AddRecord G (bfs_env bfs) lg
      (VersionEdit_EncodeTo C (SetNextFileNumber (bfs_next_file_number bfs) edit)) = (OK, env1) \<and>
    fs_SyncTitanManifest G env1 lg = (OK, env2) \<and> bfs_env bfs' = env2"
proof -
  let ?edit = "SetNextFileNumber (bfs_next_file_number bfs) edit"
  obtain s1 c1 where a: "AddEdit ?edit new_EditCollector = (s1, c1)" by (cases "AddEdit ?edit new_EditCollector")
  have s1: "s1 = OK" using assms a by (auto simp: LogAndApply_def Let_def split: if_splits)
  obtain s2 c2 where b: "EditCollector_Seal nd (bfs_column_families bfs) c1 = Some (s2, c2)"
    using assms(1) a s1 by (auto simp: LogAndApply_def Let_def bind_eq_Some_conv)
  have s2: "s2 = OK" using assms a s1 b by (auto simp: LogAndApply_def Let_def split: if_splits)
  obtain lg where lg: "bfs_manifest bfs = Some lg"
    using assms(1) a s1 b s2 by (auto simp: LogAndApply_def Let_def bind_eq_Some_conv)
  obtain s3 e3 where c: "fs_AddRecord G (bfs_env bfs) lg (VersionEdit_EncodeTo C ?edit) = (s3, e3)"
    by (cases "fs_AddRecord G (bfs_env bfs) lg (VersionEdit_EncodeTo C ?edit)")
  have s3: "s3 = OK" using assms a s1 b s2 lg c by (auto simp: LogAndApply_def AddRecord_def Let_def split: if_splits)
  obtain s4 e4 where d: "fs_SyncTitanManifest G e3 lg = (s4, e4)" by (cases "fs_SyncTitanManifest G e3 lg")
  have s4: "s4 = OK"
    using assms a s1 b s2 lg c s3 d by (auto simp: LogAndApply_def AddRecord_def sync_manifest_def Let_def split: if_splits)
  have "bfs_env bfs' = e4"
    using assms(1) a s1 b s2 lg c s3 d s4
    by (auto simp: LogAndApply_def AddRecord_def sync_manifest_def Let_def bind_eq_Some_conv)
  with lg c s3 d s4 show ?thesis by blast
qed

definition sample_set1 :: "(mem_env, unit, bytes) BlobFileSet" where
  "sample_set1 = sample_set\<lparr>bfs_manifest := Some 3\<rparr>"

definition sample_edit6 :: VersionEdit where
  "sample_edit6 = DeleteBlobFile 6 50 new_VersionEdit"

lemma manifest_written_ahead_witness:
  "\<exists>s bfs' lg env1. LogAndApply True leb128 (\<lambda>_. bytewise) mem_fs sample_edit6 sample_set1 = Some (s, bfs')
    \<and> bfs_manifest sample_set1 = Some lg
    \<and> fs_AddRecord mem_fs ([], None) lg (VersionEdit_EncodeTo leb128 (SetNextFileNumber 9 sample_edit6)) = (OK, env1)"
proof -
  have "map_option (\<lambda>(s, b). (s, map (\<lambda>p. map (\<lambda>q. is_obsolete (snd q)) (bs_files (snd p))) (bfs_column_families b)))
      (LogAndApply True leb128 (\<lambda>_. bytewise) mem_fs sample_edit6 sample_set1) = Some (OK, [[True, True]])"
    by code_simp
  then obtain bfs' where r: "LogAndApply True leb128 (\<lambda>_. bytewise) mem_fs sample_edit6 sample_set1 = Some (OK, bfs')"
    and o: "map (\<lambda>p. map (\<lambda>q. is_obsolete (snd q)) (bs_files (snd p))) (bfs_column_families bfs') = [[True, True]]"
    by auto
  have "map (\<lambda>p. map (\<lambda>q. is_obsolete (snd q)) (bs_files (snd p))) (bfs_column_families sample_set1) = [[True, False]]"
    by code_simp
  with o have "bfs_column_families bfs' \<noteq> bfs_column_families sample_set1" by auto
  from manifest_written_ahead [OF r this] r show ?thesis
    by (auto simp: sample_set1_def sample_set_def)
qed

text \<open>
  C28. A corruption that the log reader reports while the manifest is replayed is dropped:
  the records before it are applied, every record behind it is ignored, and recovery goes on
  as if the manifest ended there, without reporting the corruption.
\<close>

theorem manifest_corruption_swallowed:
  assumes "\<not> IsOk r"
  shows "recover_edits nd C cmps j (map LogRecord recs @ LogCorruption r # rest) bfs
    = recover_edits nd C cmps j (map LogRecord recs) bfs"
  using replay_corruption [OF assms] by (simp add: recover_edits_def)

lemma manifest_corruption_swallowed_witness:
  "\<exists>bfs'. recover_edits True leb128 (\<lambda>_. bytewise) (0, 0)
     (map LogRecord [VersionEdit_EncodeTo leb128 (SetNextFileNumber 9 new_VersionEdit)] @
      LogCorruption (Corruption ''bad block'' '''') # [LogRecord (VersionEdit_EncodeTo leb128 sample_edit)])
     sample_set0 = Some (OK, bfs')"
proof -
  have "map_option fst (recover_edits True leb128 (\<lambda>_. bytewise) (0, 0)
      (map LogRecord [VersionEdit_EncodeTo leb128 (SetNextFileNumber 9 new_VersionEdit)]) sample_set0) = Some OK"
    by code_simp
  then obtain bfs' where e: "recover_edits True leb128 (\<lambda>_. bytewise) (0, 0)
      (map LogRecord [VersionEdit_EncodeTo leb128 (SetNextFileNumber 9 new_VersionEdit)]) sample_set0 = Some (OK, bfs')"
    by auto
  have bad: "Corruption ''bad block'' '''' \<noteq> OK" by simp
  from e show ?thesis unfolding manifest_corruption_swallowed [OF bad] by blast
qed

end
