(* ===== verification/DB_Props.thy ===== *)
theory DB_Props
  imports GC_Job DB_Iter Manifest_Props
begin

text \<open>
  What the database makes of its parts: the blob files that a flush hands over are published and
  registered, and a read through the database follows a reference to the value it stands for. The
  laws of the file system below the blob files are a locale; the world of the database satisfies
  what the table builder relies on.
\<close>

section \<open>The file system\<close>

text \<open>
  A new file is empty and leaves the others alone; a closed file can be opened with the bytes
  written; the manifest is another file.
\<close>

locale blob_fs_laws =
  fixes E :: "('e, 'w, 'f) blob_fs" and G :: "'e manifest_fs" and contents :: "'w \<Rightarrow> bytes" and data :: "'f \<Rightarrow> bytes"
  assumes new_empty: "bf_NewWritableFile E name e = (Inr f, e') \<Longrightarrow> contents f = []"
    and new_fails: "bf_NewWritableFile E name e = (Inl s, e') \<Longrightarrow> s \<noteq> OK"
    and publish_same: "\<exists>g. bf_open E (bf_publish E n f e) n = Inr g \<and> data g = contents f"
    and publish_other: "m \<noteq> n \<Longrightarrow> bf_open E (bf_publish E n f e) m = bf_open E e m"
    and manifest_add: "bf_open E (snd (fs_AddRecord G e lg r)) = bf_open E e"
    and manifest_sync: "bf_open E (snd (fs_SyncTitanManifest G e lg)) = bf_open E e"
begin

lemma publish_all:
  assumes "distinct (map fst fs)"
  shows "n \<notin> fst ` set fs \<Longrightarrow> bf_open E (fold (\<lambda>(n, f). bf_publish E n f) fs e) n = bf_open E e n"
    and "(n, f) \<in> set fs \<Longrightarrow> \<exists>g. bf_open E (fold (\<lambda>(n, f). bf_publish E n f) fs e) n = Inr g \<and> data g = contents f"
proof -
  show other: "n \<notin> fst ` set fs \<Longrightarrow> bf_open E (fold (\<lambda>(n, f). bf_publish E n f) fs e) n = bf_open E e n" for n e fs
    by (induction fs arbitrary: e) (auto simp: publish_other)
  show "(n, f) \<in> set fs \<Longrightarrow> \<exists>g. bf_open E (fold (\<lambda>(n, f). bf_publish E n f) fs e) n = Inr g \<and> data g = contents f"
    using assms
  proof (induction fs arbitrary: e)
    case (Cons p fs)
    show ?case
    proof (cases "p = (n, f)")
      case True
      then have "n \<notin> fst ` set fs"
        using Cons.prems(2) by auto
      with True show ?thesis
        using other [of n fs "bf_publish E n f e"] publish_same [of n f e] by simp
    next
      case False
      with Cons show ?thesis
        by auto
    qed
  qed simp
qed

end

lemma close_files_OK:
  assumes "wfile_laws W contents" "close_files W files = (OK, cl)"
  shows "map fst cl = map (\<lambda>mh. fh_number (snd mh)) files \<and>
    map (\<lambda>c. contents (snd c)) cl = map (\<lambda>mh. contents (fh_file (snd mh))) files"
  using assms(2)
proof (induction files arbitrary: cl)
  case (Cons mh files)
  obtain m h where mh: "mh = (m, h)"
    by fastforce
  obtain s1 f1 where s1: "wf_Sync W (fh_file h) = (s1, f1)"
    by fastforce
  obtain s2 f2 where s2: "wf_Close W f1 = (s2, f2)"
    by fastforce
  obtain s3 cs where s3: "close_files W files = (s3, cs)"
    by fastforce
  have "s1 = OK \<and> s2 = OK \<and> s3 = OK \<and> cl = (fh_number h, f2) # cs"
    using Cons.prems s1 s2 s3 by (auto simp: mh split: if_splits)
  with Cons.IH [of cs] s1 s2 s3 wfile_laws.sync_ok [OF assms(1), of "fh_file h" f1]
    wfile_laws.close_ok [OF assms(1), of f1 f2] show ?case
    by (simp add: mh)
qed simp

section \<open>Registering files\<close>

lemma collect_added_OK:
  assumes "collect_all CF_AddFile ms c = (OK, c')"
  shows "c' = c\<lparr>ce_added_files := ce_added_files c @ map (\<lambda>m. (file_number m, m)) ms\<rparr>
    \<and> distinct (map file_number ms) \<and> (\<forall>m\<in>set ms. map_of (ce_added_files c) (file_number m) = None)"
  using assms
proof (induction ms arbitrary: c)
  case (Cons m ms)
  then have n: "map_of (ce_added_files c) (file_number m) = None"
    by (auto simp: CF_AddFile_def [of m c] split: if_splits)
  let ?c = "c\<lparr>ce_added_files := ce_added_files c @ [(file_number m, m)]\<rparr>"
  have "collect_all CF_AddFile ms ?c = (OK, c')"
    using Cons.prems n by (simp add: CF_AddFile_def [of m c] amap_emplace_def)
  from Cons.IH [OF this] n show ?case
    by (auto simp: map_of_eq_None_iff)
qed simp

lemma apply_added_OK:
  assumes "foldM (apply_added cmp c) ps (bs, st) = Some (bs', st')" "ce_deleted_files c = []"
    "list_all (\<lambda>p. fst p = file_number (snd p)) ps"
  shows "(\<forall>p\<in>set ps. map_of (bs_files bs') (fst p) = Some (snd p)) \<and>
    (\<forall>n m. map_of (bs_files bs) n = Some m \<longrightarrow> map_of (bs_files bs') n = Some m) \<and>
    bs_cf_options bs' = bs_cf_options bs"
  using assms
proof (induction ps arbitrary: bs st)
  case (Cons p ps)
  obtain bs1 st1 where a: "BlobStorage_AddBlobFile cmp (snd p) bs st = Some (bs1, st1)"
    and r: "foldM (apply_added cmp c) ps (bs1, st1) = Some (bs', st')"
    using Cons.prems(1,2) by (auto simp: apply_added_def [of cmp c p] bind_eq_Some_conv)
  have f: "bs_files bs1 = amap_emplace (file_number (snd p)) (snd p) (bs_files bs)"
    "map_of (bs_files bs) (file_number (snd p)) = None" "bs_cf_options bs1 = bs_cf_options bs"
    using a by (auto simp: BlobStorage_AddBlobFile_def bind_eq_Some_conv split: if_splits)
  then have v: "map_of (bs_files bs1) = (map_of (bs_files bs))(file_number (snd p) \<mapsto> snd p)"
    by (auto simp: fun_eq_iff map_of_amap_emplace)
  have new: "map_of (bs_files bs1) (fst p) = Some (snd p)"
    using Cons.prems(3) by (simp add: v)
  have keep: "map_of (bs_files bs1) n = Some m" if "map_of (bs_files bs) n = Some m" for n m
    using that f(2) by (auto simp: v)
  note IH = Cons.IH [OF r Cons.prems(2)]
  have "list_all (\<lambda>p. fst p = file_number (snd p)) ps"
    using Cons.prems(3) by simp
  from IH [OF this] new keep f(3) show ?case
    by simp
qed simp

definition add_only :: "u32 \<Rightarrow> BlobFileMeta list \<Rightarrow> VersionEdit \<Rightarrow> bool" where
  "add_only cf ms e = (ve_column_family_id e = cf \<and> ve_added_files e = ms \<and> ve_deleted_files e = []
     \<and> ve_updated_discardable_size e = [])"

lemma add_only_files:
  "add_only cf (map fst files) (fold (\<lambda>(m, h). VersionEdit_AddBlobFile m) files (SetColumnFamilyID cf new_VersionEdit))"
proof -
  have "fold (\<lambda>(m, h). VersionEdit_AddBlobFile m) files e = e\<lparr>ve_added_files := ve_added_files e @ map fst files\<rparr>" for e
    by (induction files arbitrary: e) (auto simp: VersionEdit_AddBlobFile_def)
  then show ?thesis
    by (simp add: add_only_def SetColumnFamilyID_def new_VersionEdit_def)
qed

lemma LogAndApply_adds:
  assumes run: "LogAndApply nd C cmps G e bfs = Some (OK, bfs')" and e: "add_only cf ms e"
    and bs: "GetBlobStorage cf bfs = Some bs"
  obtains bs' where "GetBlobStorage cf bfs' = Some bs'" "distinct (map file_number ms)"
    "\<forall>m\<in>set ms. map_of (bs_files bs') (file_number m) = Some m"
    "\<forall>n m. map_of (bs_files bs) n = Some m \<longrightarrow> map_of (bs_files bs') n = Some m"
    "bs_cf_options bs' = bs_cf_options bs" "bfs_file_cache bfs' = bfs_file_cache bfs"
    "\<exists>lg r. bfs_env bfs' = snd (fs_SyncTitanManifest G (snd (fs_AddRecord G (bfs_env bfs) lg r)) lg)"
proof -
  define c where "c = \<lparr>ce_added_files = map (\<lambda>m. (file_number m, m)) ms, ce_deleted_files = [], ce_updated_discardable_size = []\<rparr>"
  let ?e = "SetNextFileNumber (bfs_next_file_number bfs) e"
  obtain s ec where a: "AddEdit ?e new_EditCollector = (s, ec)"
    by fastforce
  have s: "s = OK"
    using run a by (auto simp: LogAndApply_def Let_def split: if_splits)
  obtain s1 c1 where c1: "collect_all CF_AddFile ms new_CFEditCollector = (s1, c1)"
    by fastforce
  have s1: "s1 = OK"
    using a s e c1 by (auto simp: AddEdit_def add_only_def SetNextFileNumber_def new_EditCollector_def Let_def split: if_splits)
  have dist: "distinct (map file_number ms)" and c1c: "c1 = c"
    using collect_added_OK [of ms new_CFEditCollector c1] c1 s1 by (simp_all add: c_def new_CFEditCollector_def)
  have ec: "ec_column_families ec = [(cf, c)]" "ec_status ec = OK"
    using a s e c1 s1 c1c
    by (auto simp: AddEdit_def add_only_def SetNextFileNumber_def new_EditCollector_def set_collector_def
        Let_def split: if_splits)
  let ?r = "VersionEdit_EncodeTo C ?e"
  note run = run [unfolded LogAndApply_def Let_def a prod.case]
  obtain s2 ec1 where m1: "EditCollector_Seal nd (bfs_column_families bfs) ec = Some (s2, ec1)"
    using run s by (cases "EditCollector_Seal nd (bfs_column_families bfs) ec") auto
  have s2: "s2 = OK"
    using run s m1 by (cases "s2 = OK") simp_all
  obtain lg where lg: "bfs_manifest bfs = Some lg"
    using run s m1 s2 by (cases "bfs_manifest bfs") simp_all
  obtain s3 bfs1 where m2: "AddRecord G lg ?r bfs = (s3, bfs1)"
    by fastforce
  have s3: "s3 = OK"
    using run s m1 s2 lg m2 by (cases "s3 = OK") simp_all
  obtain s4 bfs2 where m3: "sync_manifest G lg bfs1 = (s4, bfs2)"
    by fastforce
  have s4: "s4 = OK"
    using run s m1 s2 lg m2 s3 m3 by (cases "s4 = OK") simp_all
  have ap: "\<exists>ec2 ss st. EditCollector_Apply nd cmps ec1 (bfs_column_families bfs2) (bfs_stats bfs2) = Some (OK, ec2, ss, st)
      \<and> bfs' = bfs2\<lparr>bfs_column_families := ss, bfs_stats := st\<rparr>"
    using run s m1 s2 lg m2 s3 m3 s4 by (auto simp: bind_eq_Some_conv)
  note m = m1 [unfolded s2] m2 [unfolded s3] m3 [unfolded s4]
  have ec1: "ec_column_families ec1 = [(cf, c)]"
    using m(1) ec by (auto simp: EditCollector_Seal_def bind_eq_Some_conv split: if_splits)
  have same: "bfs_column_families bfs2 = bfs_column_families bfs" "bfs_file_cache bfs2 = bfs_file_cache bfs"
    "bfs_env bfs2 = snd (fs_SyncTitanManifest G (snd (fs_AddRecord G (bfs_env bfs) lg (VersionEdit_EncodeTo C ?e))) lg)"
    using m(2,3) by (auto simp: AddRecord_def sync_manifest_def split: prod.splits)
  obtain ec2 ss st where ap: "EditCollector_Apply nd cmps ec1 (bfs_column_families bfs) (bfs_stats bfs2) = Some (OK, ec2, ss, st)"
    "bfs' = bfs2\<lparr>bfs_column_families := ss, bfs_stats := st\<rparr>"
    using ap by (auto simp: same(1))
  have bs': "map_of (bfs_column_families bfs) cf = Some bs"
    using bs by (simp add: GetBlobStorage_def)
  obtain bs2 st2 where cfa: "CF_Apply nd (cmps cf) c (bs, bfs_stats bfs2) = Some (OK, bs2, st2)"
    and ss: "ss = amap_update cf (\<lambda>_. bs2) (bfs_column_families bfs)"
    using ap(1) bs' ec1 by (auto simp: EditCollector_Apply_def apply_cf_def bind_eq_Some_conv split: if_splits)
  obtain bs3 st3 gs where f: "foldM (apply_added (cmps cf) c) (ce_added_files c) (bs, bfs_stats bfs2) = Some (bs3, st3)"
    and bs2: "bs2 = bs3\<lparr>bs_gc_score := gs\<rparr>"
    using cfa by (auto simp: CF_Apply_def c_def ComputeGCScore_def Let_def bind_eq_Some_conv)
  note A = apply_added_OK [OF f]
  show ?thesis
  proof (rule that [of bs2])
    show "GetBlobStorage cf bfs' = Some bs2"
      using bs' by (simp add: ap(2) GetBlobStorage_def ss map_of_amap_update)
    show "\<exists>lg r. bfs_env bfs' = snd (fs_SyncTitanManifest G (snd (fs_AddRecord G (bfs_env bfs) lg r)) lg)"
      using same(3) by (auto simp: ap(2))
  qed (use dist A same(2) in \<open>auto simp: bs2 c_def ap(2) list_all_iff\<close>)
qed

section \<open>Values behind references\<close>

text \<open>
  A reference of a column family stands for a record: the file it names is registered with its
  size, can be opened, is a complete blob file and has the record at the handle.
\<close>

definition stored_at ::
    "('e, 'k, 'f, 'w, 'c, 'd, 'v) titan_env \<Rightarrow> ('f \<Rightarrow> bytes) \<Rightarrow> u32 \<Rightarrow> BlobIndex \<Rightarrow> BlobRecord \<Rightarrow> ('e, 'k, 'f, 'w, 'c, 'd) TitanDBImpl \<Rightarrow> bool" where
  "stored_at T data cf index r db =
     (\<exists>bs m f nd ty rs. GetBlobStorage cf (db_bfs db) = Some bs \<and>
        map_of (bs_files bs) (bi_file_number index) = Some m \<and> file_number m = bi_file_number index \<and>
        bf_open (te_fs T) (db_env db) (bi_file_number index) = Inr f \<and>
        data f = file_image nd (rk_C (te_rocks T)) (rk_L (te_rocks T)) ty rs \<and> file_size m = of_nat (length (data f)) \<and>
        record_at nd (rk_C (te_rocks T)) (rk_L (te_rocks T)) ty (data f) (bi_blob_handle index) r \<and>
        only_value r = (level_merge (bs_cf_options bs) \<and> file_type m = kSorted))"

text \<open>The database can serve reads of a column family: it is open and its cached readers read the files they are for.\<close>

definition readable ::
    "('e, 'k, 'f, 'w, 'c, 'd, 'v) titan_env \<Rightarrow> ('f \<Rightarrow> bytes) \<Rightarrow> ('k \<Rightarrow> bytes \<rightharpoonup> 'f BlobFileReader) \<Rightarrow> u32 \<Rightarrow> ('e, 'k, 'f, 'w, 'c, 'd) TitanDBImpl \<Rightarrow> bool" where
  "readable T data rentries cf db =
     (db_open db \<and> readers_ok data rentries (bf_open (te_fs T) (db_env db)) (bfs_file_cache (db_bfs db)) \<and>
      (\<forall>bs. GetBlobStorage cf (db_bfs db) = Some bs \<longrightarrow> blob_cache (bs_cf_options bs) = None))"

locale db_files =
  fixes T :: "('e, 'k, 'f, 'w, 'c, 'd, 'v) titan_env" and contents :: "'w \<Rightarrow> bytes" and data :: "'f \<Rightarrow> bytes"
    and centries :: "'c \<Rightarrow> bytes \<rightharpoonup> bytes" and rentries :: "'k \<Rightarrow> bytes \<rightharpoonup> 'f BlobFileReader"
  assumes coding: "coding_laws (rk_C (te_rocks T))" and codec: "codec_laws (rk_L (te_rocks T))"
    and writers: "wfile_laws (rk_W (te_rocks T)) contents" and readers: "rfile_laws (rk_F (te_rocks T)) data"
    and blob_caches: "cache_laws (rk_K (te_rocks T)) centries" and reader_caches: "cache_laws (rk_R (te_rocks T)) rentries"
    and fs: "blob_fs_laws (te_fs T) (te_manifest T) contents data"
begin

lemma caching:
  "reader_caching (rk_C (te_rocks T)) (rk_L (te_rocks T)) (rk_F (te_rocks T)) data (rk_K (te_rocks T)) centries
     (rk_R (te_rocks T)) rentries"
  by (rule reader_cachingI [OF coding codec readers blob_caches reader_caches])

lemma builds_tables:
  assumes "table_builder_laws B entries" "internal_key_laws I"
  shows "table_building (te_rocks T) (db_world T) B I contents entries"
  using coding codec writers assms blob_fs_laws.new_empty [OF fs] blob_fs_laws.new_fails [OF fs]
  by (intro table_building.intro)
    (auto simp: db_world_def FM_NewFile_def Let_def split: prod.splits sum.splits)

lemma GetImpl_resolves:
  assumes "readable T data rentries cf db" and "stored_at T data cf index r db"
    and "bd_GetImpl (te_base T) sq cf key (db_base db) = (OK, BlobIndex_EncodeTo (rk_C (te_rocks T)) index, True)"
  obtains db' where "Titan_GetImpl T sq cf key db = Some (OK, r_value r, db')" "readable T data rentries cf db'"
    "db' = db\<lparr>db_bfs := (db_bfs db)\<lparr>bfs_file_cache := bfs_file_cache (db_bfs db')\<rparr>\<rparr>"
proof -
  let ?P = "te_rocks T"
  obtain bs m f nd ty rs where s: "GetBlobStorage cf (db_bfs db) = Some bs"
      "map_of (bs_files bs) (bi_file_number index) = Some m" "file_number m = bi_file_number index"
      "bf_open (te_fs T) (db_env db) (bi_file_number index) = Inr f"
      "data f = file_image nd (rk_C ?P) (rk_L ?P) ty rs" "file_size m = of_nat (length (data f))"
      "record_at nd (rk_C ?P) (rk_L ?P) ty (data f) (bi_blob_handle index) r"
      "only_value r = (level_merge (bs_cf_options bs) \<and> file_type m = kSorted)"
    using assms(2) unfolding stored_at_def by blast
  have nc: "blob_cache (bs_cf_options bs) = None" and ro: "readers_ok data rentries (bf_open (te_fs T) (db_env db)) (bfs_file_cache (db_bfs db))"
    and o: "db_open db"
    using assms(1) s(1) by (auto simp: readable_def)
  have len: "length (data f) < 2 ^ 64"
    using s(7) by (simp add: record_at_def)
  let ?rec = "empty_BlobRecord\<lparr>only_value := (level_merge (bs_cf_options bs) \<and> file_type m = kSorted)\<rparr>"
  obtain k where g: "BlobFileCache_Get (rk_nd ?P) (rk_C ?P) (rk_L ?P) (rk_F ?P) (rk_K ?P) (rk_R ?P) (bs_cf_options bs)
        (rk_unique_id ?P) (rk_new_id ?P) (bf_open (te_fs T) (db_env db)) (bi_file_number index) (of_nat (length (data f)))
        (bi_blob_handle index) ?rec (bfs_file_cache (db_bfs db)) (db_blob_cache db)
      = Some (OK, record_seen r ?rec, k, db_blob_cache db)"
    and k: "readers_ok data rentries (bf_open (te_fs T) (db_env db)) k"
    using reader_caching.file_cache_get [where rec = ?rec, OF caching s(4,5) len nc ro s(7)] s(8) by fastforce
  let ?db = "db\<lparr>db_bfs := (db_bfs db)\<lparr>bfs_file_cache := k\<rparr>\<rparr>"
  have "world_Get ?P (db_world T) index empty_BlobRecord bs db = Some (OK, record_seen r ?rec, True, ?db)"
    using g s(2,3,6) by (simp add: world_Get_def BlobStorage_Get_def FindFile_def db_world_def)
  moreover have "BlobIndex_DecodeFrom (rk_C ?P) empty_BlobIndex (BlobIndex_EncodeTo (rk_C ?P) index) = (OK, index, [])"
    using coding_laws.blob_index_roundtrip [OF coding, of empty_BlobIndex index "[]"] by simp
  ultimately have "Titan_GetImpl T sq cf key db = Some (OK, r_value r, ?db)"
    using assms(3) o s(1) by (simp add: Titan_GetImpl_def record_seen_def)
  moreover have "readable T data rentries cf ?db"
    using o nc k s(1) by (simp add: readable_def db_env_def GetBlobStorage_def)
  ultimately show ?thesis
    by (rule that) simp
qed

lemma BatchFinish_ok:
  assumes run: "FM_BatchFinishFiles T cf files db = Some (OK, db')" and bs: "GetBlobStorage cf (db_bfs db) = Some bs"
    and num: "\<forall>mh\<in>set files. fh_number (snd mh) = file_number (fst mh)"
  obtains bs' where "GetBlobStorage cf (db_bfs db') = Some bs'" "bs_cf_options bs' = bs_cf_options bs"
    "\<forall>n m. map_of (bs_files bs) n = Some m \<longrightarrow> map_of (bs_files bs') n = Some m"
    "\<forall>mh\<in>set files. map_of (bs_files bs') (file_number (fst mh)) = Some (fst mh) \<and>
       (\<exists>g. bf_open (te_fs T) (db_env db') (file_number (fst mh)) = Inr g \<and> data g = contents (fh_file (snd mh)))"
    "\<forall>n. n \<notin> (\<lambda>mh. file_number (fst mh)) ` set files \<longrightarrow> bf_open (te_fs T) (db_env db') n = bf_open (te_fs T) (db_env db) n"
    "bfs_file_cache (db_bfs db') = bfs_file_cache (db_bfs db)" "db_open db' = db_open db" "db_base db' = db_base db"
proof -
  obtain s cl where c: "close_files (rk_W (te_rocks T)) files = (s, cl)"
    by fastforce
  have s: "s = OK"
    using run c by (auto simp: FM_BatchFinishFiles_def Let_def split: if_splits)
  note C = close_files_OK [OF writers c [unfolded s]]
  let ?env = "fold (\<lambda>(n, f). bf_publish (te_fs T) n f) cl (db_env db)"
  let ?e = "fold (\<lambda>(m, h). VersionEdit_AddBlobFile m) files (SetColumnFamilyID cf new_VersionEdit)"
  obtain bfs' where l: "LogAndApply (rk_nd (te_rocks T)) (rk_C (te_rocks T)) (rk_cmps (te_rocks T)) (te_manifest T) ?e
        ((db_bfs db)\<lparr>bfs_env := ?env\<rparr>) = Some (OK, bfs')"
    and db': "db_bfs db' = bfs'" "db_open db' = db_open db" "db_base db' = db_base db"
    using run c s by (auto simp: FM_BatchFinishFiles_def db_LogAndApply_def put_env_def db_env_def bind_eq_Some_conv Let_def split: if_splits)
  have bs0: "GetBlobStorage cf ((db_bfs db)\<lparr>bfs_env := ?env\<rparr>) = Some bs"
    using bs by (simp add: GetBlobStorage_def)
  obtain bs' where L: "GetBlobStorage cf bfs' = Some bs'" "distinct (map file_number (map fst files))"
      "\<forall>m\<in>set (map fst files). map_of (bs_files bs') (file_number m) = Some m"
      "\<forall>n m. map_of (bs_files bs) n = Some m \<longrightarrow> map_of (bs_files bs') n = Some m"
      "bs_cf_options bs' = bs_cf_options bs" "bfs_file_cache bfs' = bfs_file_cache (db_bfs db)"
      "\<exists>lg r. bfs_env bfs' = snd (fs_SyncTitanManifest (te_manifest T) (snd (fs_AddRecord (te_manifest T) ?env lg r)) lg)"
    by (rule LogAndApply_adds [OF l add_only_files bs0]) simp
  have op: "bf_open (te_fs T) (db_env db') = bf_open (te_fs T) ?env"
    using L(7) blob_fs_laws.manifest_add [OF fs] blob_fs_laws.manifest_sync [OF fs] by (auto simp: db_env_def db'(1))
  have nums: "map fst cl = map (\<lambda>mh. file_number (fst mh)) files"
    using C num by simp
  then have dist: "distinct (map fst cl)"
    using L(2) by (simp add: comp_def)
  have pub: "\<exists>g. bf_open (te_fs T) (db_env db') (file_number (fst mh)) = Inr g \<and> data g = contents (fh_file (snd mh))"
    if mh: "mh \<in> set files" for mh
  proof -
    obtain i where i: "i < length files" "files ! i = mh"
      using mh by (auto simp: in_set_conv_nth)
    have len: "length cl = length files"
      using C by (metis length_map)
    have "fst (cl ! i) = file_number (fst mh)" "contents (snd (cl ! i)) = contents (fh_file (snd mh))"
      using i len nums C by (metis nth_map)+
    moreover have "(fst (cl ! i), snd (cl ! i)) \<in> set cl"
      using i len by simp
    ultimately show ?thesis
      using blob_fs_laws.publish_all(2) [OF fs dist, of "fst (cl ! i)" "snd (cl ! i)" "db_env db"] by (simp add: op)
  qed
  have other: "bf_open (te_fs T) (db_env db') n = bf_open (te_fs T) (db_env db) n"
    if "n \<notin> (\<lambda>mh. file_number (fst mh)) ` set files" for n
  proof -
    have "fst ` set cl = (\<lambda>mh. file_number (fst mh)) ` set files"
      using nums by (metis list.set_map)
    then show ?thesis
      using that blob_fs_laws.publish_all(1) [OF fs dist, of n "db_env db"] by (simp add: op)
  qed
  show ?thesis
    by (rule that [of bs']) (use L pub other db' in auto)
qed

end

section \<open>A flush of the database\<close>

text \<open>What building a table leaves alone until the files are handed over.\<close>

definition db_core ::
    "('e, 'k, 'f, 'w, 'c, 'd) TitanDBImpl \<Rightarrow> (u32 \<times> 'f BlobStorage) list \<times> 'k \<times> bool \<times> 'd" where
  "db_core db = (bfs_column_families (db_bfs db), bfs_file_cache (db_bfs db), db_open db, db_base db)"

lemma db_core_simps [simp]:
  "db_core (db\<lparr>db_pending_outputs := x\<rparr>) = db_core db"
  "db_core (put_env e db) = db_core db"
  "db_core (db\<lparr>db_bfs := (db_bfs db)\<lparr>bfs_stats := st\<rparr>\<rparr>) = db_core db"
  "db_core (world_AddStats (db_world T) cf ty v db) = db_core db"
  "db_core (TT_UpdateInternalOpStats (db_world T) t db) = db_core db"
  by (simp_all add: db_core_def put_env_def world_AddStats_def TT_UpdateInternalOpStats_def db_world_def)

lemma NewFile_core: "w_NewFile (db_world T) db = (s, h, db') \<Longrightarrow> db_core db' = db_core db"
  by (auto simp: db_world_def FM_NewFile_def NewFileNumber_def Let_def split: prod.splits sum.splits)
    (simp_all add: db_core_def put_env_def)

lemma DeleteFile_core: "DeleteFile (db_world T) h db = Some (s, db') \<Longrightarrow> db_core db' = db_core db"
  by (auto simp: DeleteFile_def db_world_def FM_BatchDeleteFiles_def Let_def split: prod.splits)

lemma FinishBlobFile_core:
  "FinishBlobFile P (db_world T) B t db = Some (t', db') \<Longrightarrow> db_core db' = db_core db \<and> tt_cf_id t' = tt_cf_id t"
  by (auto simp: FinishBlobFile_def Let_def bind_eq_Some_conv split: option.splits if_splits prod.splits dest: DeleteFile_core)

lemma open_blob_file_core:
  "open_blob_file P (db_world T) B t db = Some (t', db') \<Longrightarrow> db_core db' = db_core db \<and> tt_cf_id t' = tt_cf_id t"
  by (auto simp: open_blob_file_def Let_def bind_eq_Some_conv split: option.splits if_splits prod.splits dest: NewFile_core)

lemma AddBlob_core:
  "AddBlob P (db_world T) B key val iv t db = Some (iv', t', db') \<Longrightarrow> db_core db' = db_core db \<and> tt_cf_id t' = tt_cf_id t"
  by (auto simp: AddBlob_def Let_def bind_eq_Some_conv split: option.splits if_splits prod.splits
      dest!: open_blob_file_core FinishBlobFile_core)

lemma TT_Add_core:
  assumes "plain_entry I (key, val)" "TT_Add P (db_world T) B I key val t db = Some (t', db')"
  shows "db_core db' = db_core db \<and> tt_cf_id t' = tt_cf_id t"
  using assms
  by (auto simp: TT_Add_def plain_entry_def add_separated_def base_add_def Let_def bind_eq_Some_conv
      split: option.splits if_splits dest!: AddBlob_core)

lemma TT_add_all_core:
  assumes "list_all (plain_entry I) es" "TT_add_all P (db_world T) B I es (t, db) = Some (t', db')"
  shows "db_core db' = db_core db \<and> tt_cf_id t' = tt_cf_id t"
  using assms
proof (induction es arbitrary: t db)
  case (Cons e es)
  obtain t1 db1 where a: "TT_Add P (db_world T) B I (fst e) (snd e) t db = Some (t1, db1)"
    and r: "TT_add_all P (db_world T) B I es (t1, db1) = Some (t', db')"
    using Cons.prems(2) by (auto simp: TT_add_all_def bind_eq_Some_conv)
  have "plain_entry I (fst e, snd e)"
    using Cons.prems(1) by simp
  from TT_Add_core [OF this a] Cons.IH [OF _ r] Cons.prems(1) show ?case
    by simp
qed (simp add: TT_add_all_def)

context table_building
begin

lemma TT_Finish_files:
  assumes ok: "TT_ok B t" and bld: "building contents P t fs"
    and run: "TT_Finish P M B t w = Some (OK, t', w')"
  shows "\<exists>w1. w_BatchFinishFiles M (tt_cf_id t) (tt_finished_blobs t') w = Some (OK, w1) \<and>
    w' = TT_UpdateInternalOpStats M t' w1"
proof -
  let ?t = "t\<lparr>tt_base_builder := snd (base_Finish B (tt_base_builder t))\<rparr>"
  obtain t1 w1 s w2 where f: "FinishBlobFile P M B ?t w = Some (t1, w1)" and t': "t' = t1\<lparr>tt_status := s\<rparr>"
    and b: "w_BatchFinishFiles M (tt_cf_id t1) (tt_finished_blobs t1) w1 = Some (s, w2)"
    and w': "w' = TT_UpdateInternalOpStats M t' w2" and st: "TT_ok B (t1\<lparr>tt_status := s\<rparr>)"
    using run by (auto simp: TT_Finish_def Let_def bind_eq_Some_conv TT_ok_def)
  have "tt_base_builder t1 = tt_base_builder ?t"
    using f by (auto simp: FinishBlobFile_def Let_def bind_eq_Some_conv split: option.splits if_splits prod.splits)
  then have ok0: "TT_ok B ?t"
    using ok st by (auto simp: TT_ok_parts)
  have "w1 = w \<and> tt_cf_id t1 = tt_cf_id t"
  proof (cases "tt_blob_builder ?t")
    case (Some b0)
    obtain s0 b where "BlobFileBuilder_Finish (rk_C P) (rk_W P) b0 = (s0, b)"
      by fastforce
    with f ok0 st Some show ?thesis
      by (cases "bb_status b = OK") (auto simp: FinishBlobFile_def TT_ok_parts Let_def bind_eq_Some_conv)
  qed (use f in \<open>auto simp: FinishBlobFile_def\<close>)
  moreover have "s = OK"
    using st by (simp add: TT_ok_parts)
  ultimately show ?thesis
    using b w' t' by auto
qed

end

context db_files
begin

lemma flushed_stored:
  assumes tb: "table_builder_laws B entries" and ik: "internal_key_laws I"
    and new: "new_TitanTableBuilder (db_world T) cf dbo opts base merge_level target start db0 = Some t0" and "entries base = []"
    and pl: "list_all (plain_entry I) es" and add: "TT_add_all (te_rocks T) (db_world T) B I es (t0, db0) = Some (t1, db1)"
    and ok: "TT_ok B t1" and fin: "TT_Finish (te_rocks T) (db_world T) B t1 db1 = Some (OK, t2, db2)"
    and bs: "GetBlobStorage cf (db_bfs db0) = Some bs" and lm: "level_merge (bs_cf_options bs) = level_merge opts"
    and sz: "\<forall>mh\<in>set (tt_finished_blobs t2). length (contents (fh_file (snd mh))) < 2 ^ 64"
  shows "list_all2 (\<lambda>e e'. if separated I opts e
      then \<exists>p index. ParseInternalKey I (fst e) = Some p \<and> snd e' = BlobIndex_EncodeTo (rk_C (te_rocks T)) index \<and>
        (let r = \<lparr>r_key = ik_user_key p, r_value = snd e, only_value = level_merge opts\<rparr>
         in storable (rk_C (te_rocks T)) r \<longrightarrow> stored_at T data cf index r db2)
      else e' = e) es (entries (tt_base_builder t2))"
proof -
  let ?P = "te_rocks T"
  note tbl = builds_tables [OF tb ik]
  have t0: "building contents ?P t0 []" "tt_cf_options t0 = opts" "tt_base_builder t0 = base" "tt_cf_id t0 = cf"
    using new by (auto simp: new_TitanTableBuilder_def building_def bind_eq_Some_conv)
  obtain fs es' where a: "building contents ?P t1 fs" "entries (tt_base_builder t1) = es'"
    "list_all2 (represents ?P I opts fs) es es'" "tt_cf_options t1 = opts"
    using table_building.TT_add_all_ok [OF tbl t0(1) pl add ok] t0 assms(4) by auto
  note F = table_building.TT_Finish_ok [OF tbl ok a(1) fin]
  have core: "db_core db1 = db_core db0" "tt_cf_id t1 = cf"
    using TT_add_all_core [OF pl add] t0(4) by auto
  obtain dbx where x: "FM_BatchFinishFiles T cf (tt_finished_blobs t2) db1 = Some (OK, dbx)"
    and db2: "db2 = TT_UpdateInternalOpStats (db_world T) t2 dbx"
    using table_building.TT_Finish_files [OF tbl ok a(1) fin] core(2) by (auto simp: db_world_def)
  have fo: "list_all2 (finished_ok contents ?P opts) (tt_finished_blobs t2) fs"
    using F(2) a(4) by simp
  then have num: "\<forall>mh\<in>set (tt_finished_blobs t2). fh_number (snd mh) = file_number (fst mh)"
    by (induction rule: list_all2_induct) (auto simp: finished_ok_def)
  have bs1: "GetBlobStorage cf (db_bfs db1) = Some bs"
    using bs core(1) by (simp add: GetBlobStorage_def db_core_def)
  obtain bs' where B: "GetBlobStorage cf (db_bfs dbx) = Some bs'" "bs_cf_options bs' = bs_cf_options bs"
    "\<forall>mh\<in>set (tt_finished_blobs t2). map_of (bs_files bs') (file_number (fst mh)) = Some (fst mh) \<and>
       (\<exists>g. bf_open (te_fs T) (db_env dbx) (file_number (fst mh)) = Inr g \<and> data g = contents (fh_file (snd mh)))"
    by (rule BatchFinish_ok [OF x bs1 num])
  have same: "GetBlobStorage cf (db_bfs db2) = Some bs'" "db_env db2 = db_env dbx"
    using B(1) by (simp_all add: db2 TT_UpdateInternalOpStats_def db_world_def db_env_def GetBlobStorage_def)
  have at: "stored_at T data cf index r db2"
    if loc: "located ?P opts fs index r" and st: "storable (rk_C ?P) r" and ov: "only_value r = level_merge opts" for index r
  proof -
    obtain rs j where l: "(bi_file_number index, rs) \<in> set fs" "j < length rs" "rs ! j = r"
      "bi_blob_handle index = handles_from 8 (map (rec_bytes ?P opts) rs) ! j"
      using loc by (auto simp: located_def)
    obtain i where i: "i < length fs" "fs ! i = (bi_file_number index, rs)"
      using l(1) by (auto simp: in_set_conv_nth)
    let ?mh = "tt_finished_blobs t2 ! i"
    have mh: "finished_ok contents ?P opts ?mh (bi_file_number index, rs)" "?mh \<in> set (tt_finished_blobs t2)"
      using fo i by (auto simp: list_all2_conv_all_nth)
    obtain g where g: "bf_open (te_fs T) (db_env dbx) (file_number (fst ?mh)) = Inr g" "data g = contents (fh_file (snd ?mh))"
      "map_of (bs_files bs') (file_number (fst ?mh)) = Some (fst ?mh)"
      using B(3) mh(2) by blast
    let ?img = "file_image (rk_nd ?P) (rk_C ?P) (rk_L ?P) (blob_file_compression opts) rs"
    have img: "data g = ?img" "file_number (fst ?mh) = bi_file_number index" "file_type (fst ?mh) = kSorted"
      "file_size (fst ?mh) = of_nat (length (data g))" "length ?img < 2 ^ 64"
      using mh g(2) sz by (auto simp: finished_ok_def)
    have "record_at (rk_nd ?P) (rk_C ?P) (rk_L ?P) (blob_file_compression opts) (data g) (bi_blob_handle index) r"
      using record_at_image [of j rs "rk_C ?P" "rk_nd ?P" "rk_L ?P" "blob_file_compression opts"] l st img(1,5)
        coding_laws.header_length [OF coding] by (auto simp: rec_bytes_def)
    with g(1,3) img(1-4) ov lm B(2) same show ?thesis
      unfolding stored_at_def
      by (intro exI [of _ bs'] exI [of _ "fst ?mh"] exI [of _ g] exI [of _ "rk_nd ?P"]
          exI [of _ "blob_file_compression opts"] exI [of _ rs]) auto
  qed
  have "list_all2 (represents ?P I opts fs) es (entries (tt_base_builder t2))"
    using a(2,3) F(1) by simp
  then show ?thesis
    by (rule list_all2_mono) (use at in \<open>fastforce simp: represents_def Let_def split: if_splits\<close>)
qed

end

section \<open>A database in memory\<close>

text \<open>
  A disk with the manifest logs and the blob files by number, and a base database that keeps every
  write: its sequence number is the number of writes, and a read looks at the writes up to the one
  of its snapshot. A write is a value, a blob index or, without either, a deletion.
\<close>

type_synonym mem_disk = "mem_env \<times> (u64 \<times> bytes) list"
type_synonym mem_write = "(u32 \<times> bytes) \<times> (bytes \<times> bool) option"

definition mem_manifest_fs :: "mem_disk manifest_fs" where
  "mem_manifest_fs =
     \<lparr>fs_FileExists_CURRENT = (\<lambda>e. fs_FileExists_CURRENT mem_fs (fst e)),
      fs_ReadFileToString_CURRENT = (\<lambda>e. fs_ReadFileToString_CURRENT mem_fs (fst e)),
      fs_NewSequentialFile = (\<lambda>e. fs_NewSequentialFile mem_fs (fst e)),
      fs_NewWritableFile = (\<lambda>e n. let (s, m) = fs_NewWritableFile mem_fs (fst e) n in (s, m, snd e)),
      fs_AddRecord = (\<lambda>e n r. let (s, m) = fs_AddRecord mem_fs (fst e) n r in (s, m, snd e)),
      fs_SyncTitanManifest = (\<lambda>e n. let (s, m) = fs_SyncTitanManifest mem_fs (fst e) n in (s, m, snd e)),
      fs_SetCurrentFile = (\<lambda>e n. let (s, m) = fs_SetCurrentFile mem_fs (fst e) n in (s, m, snd e)),
      fs_GetChildren = (\<lambda>e. []), fs_ParseFileName = (\<lambda>f. None), fs_DeleteFile = (\<lambda>e f. e)\<rparr>"

definition mem_file_name :: "string \<Rightarrow> u64 \<Rightarrow> string" where
  "mem_file_name dir n = to_string n @ ''.blob''"

definition mem_blob_fs :: "nat \<Rightarrow> (mem_disk, nat \<times> bytes, bytes) blob_fs" where
  "mem_blob_fs room =
     \<lparr>bf_BlobFileName = mem_file_name, bf_DescriptorFileName = (\<lambda>d n. manifest_name n),
      bf_CreateDirIfMissing = (\<lambda>d e. (OK, e)), bf_CreateLogger = (\<lambda>d e. (OK, e)), bf_LockFile = (\<lambda>f e. (OK, e)),
      bf_UnlockFile = (\<lambda>e. e), bf_NewWritableFile = (\<lambda>f e. (Inr (room, []), e)),
      bf_publish = (\<lambda>n f e. (fst e, amap_set n (snd f) (snd e))),
      bf_open = (\<lambda>e n. case map_of (snd e) n of None \<Rightarrow> Inl (NotFound []) | Some b \<Rightarrow> Inr b),
      bf_DeleteFile = (\<lambda>f e. (OK, fst e, filter (\<lambda>p. mem_file_name [] (fst p) \<noteq> f) (snd e))),
      bf_iostats = (\<lambda>e. None)\<rparr>"

definition mem_GetImpl :: "u64 \<Rightarrow> u32 \<Rightarrow> bytes \<Rightarrow> mem_write list \<Rightarrow> status \<times> bytes \<times> bool" where
  "mem_GetImpl sq cf key d =
     (case map_of (rev (take (unat sq) d)) (cf, key) of
        Some (Some (v, b)) \<Rightarrow> (OK, v, b)
      | _ \<Rightarrow> (NotFound [], [], False))"

definition mem_base :: "(mem_write list, mem_write list) base_db" where
  "mem_base =
     \<lparr>bd_Open = (\<lambda>ro ns d. (OK, map of_nat [0..<length ns], d)), bd_Close = Pair OK,
      bd_CompactFiles = (\<lambda>cf fs l d. (OK, \<lparr>cj_status = OK, cj_cf_id = cf, cj_input_files = [], cj_output_files = [],
          cj_output_level = l, cj_table_properties = []\<rparr>, d)),
      bd_num_non_empty_levels = (\<lambda>cf d. 0), bd_num_levels = (\<lambda>cf d. 7), bd_LevelFiles_empty = (\<lambda>cf l d. True),
      bd_OverlapInLevel = (\<lambda>cf l r d. False), bd_GetCleanInputs = (\<lambda>cf l r d. []),
      bd_GetImpl = mem_GetImpl, bd_Write = (\<lambda>b d. (OK, d @ b)),
      bd_Put = (\<lambda>cf k v d. (OK, d @ [((cf, k), Some (v, False))])), bd_Delete = (\<lambda>cf k d. (OK, d @ [((cf, k), None)])),
      bd_Flush = (\<lambda>cf d. (OK, d)), bd_CompactRange = (\<lambda>cf a b d. (OK, d)), bd_IngestExternalFile = (\<lambda>cf fs d. (OK, d)),
      bd_GetSnapshot = (\<lambda>d. (of_nat (length d), d)), bd_ReleaseSnapshot = (\<lambda>s d. d), bd_oldest_snapshot = (\<lambda>d. None),
      bd_GetLatestSequenceNumber = (\<lambda>d. of_nat (length d)), bd_IsDropped = (\<lambda>cf d. False),
      bd_GetColumnFamilyHandle = (\<lambda>cf d. Some cf), bd_CreateColumnFamilies = (\<lambda>ns d. (OK, map of_nat [0..<length ns], d)),
      bd_DropColumnFamilies = (\<lambda>cfs d. (OK, d)), bd_DestroyColumnFamilyHandle = (\<lambda>cf d. (OK, d)),
      bd_SetOptions = (\<lambda>cf m d. (OK, d)), bd_GetProperty = (\<lambda>cf p d. None), bd_GetIntProperty = (\<lambda>cf p d. None),
      bd_DeleteFilesInRanges = (\<lambda>cf rs b d. (OK, d)), bd_OnBackgroundError = (\<lambda>s. s)\<rparr>"

definition mem_batch :: "mem_write list batch_ops" where
  "mem_batch = \<lparr>wb_PutBlobIndex = (\<lambda>cf k v b. (OK, b @ [((cf, k), Some (v, True))])),
     wb_GetDataSize = (\<lambda>b. of_nat (length b)), wb_empty = []\<rparr>"

definition mem_titan ::
    "nat \<Rightarrow> (mem_disk, (bytes \<times> bytes BlobFileReader) option, bytes, nat \<times> bytes, (bytes \<times> bytes) option, mem_write list, mem_write list) titan_env" where
  "mem_titan room = \<lparr>te_rocks = mem_rocks, te_manifest = mem_manifest_fs, te_fs = mem_blob_fs room, te_base = mem_base,
     te_batch = mem_batch, te_hash = (\<lambda>k. of_nat (length k)), te_page = 4096, te_uninit = 0\<rparr>"

lemma blob_fs_laws_mem: "blob_fs_laws (mem_blob_fs room) mem_manifest_fs snd (\<lambda>f. f)"
  by unfold_locales
    (auto simp: mem_blob_fs_def mem_manifest_fs_def amap_simps fun_eq_iff mem_fs_def split: prod.splits)

lemma db_files_mem: "db_files (mem_titan room) snd (\<lambda>f. f) one_entries one_entries"
  using coding_laws_leb128 codec_laws_rle wfile_laws_mem rfile_laws_mem cache_laws_one cache_laws_one blob_fs_laws_mem
  by (intro db_files.intro) (auto simp: mem_titan_def mem_rocks_def)

interpretation mem_files: blob_fs_laws "mem_blob_fs room" mem_manifest_fs snd "\<lambda>f. f" for room
  by (rule blob_fs_laws_mem)

interpretation mem_db: db_files "mem_titan room" snd "\<lambda>f. f" one_entries one_entries for room
  by (rule db_files_mem)

text \<open>The table builder in the world of the database.\<close>

interpretation db_table: table_building mem_rocks "db_world (mem_titan room)" list_table typed_keys snd id for room
  using mem_db.builds_tables [OF table_builder_laws_list internal_key_laws_typed, of room] by (simp add: mem_titan_def)

definition sample_db ::
    "(mem_disk, (bytes \<times> bytes BlobFileReader) option, bytes, nat \<times> bytes, (bytes \<times> bytes) option, mem_write list) TitanDBImpl" where
  "sample_db = (new_TitanDBImpl default_TitanDBOptions ''db''
     \<lparr>bfs_env = (([(1, [])], Some 1), []), bfs_db_options = default_TitanDBOptions, bfs_file_cache = None, bfs_stats = None,
      bfs_obsolete_manifests = [], bfs_obsolete_columns = [], bfs_column_families = [(0, sample_store)],
      bfs_manifest = Some 1, bfs_next_file_number = 5\<rparr> None [])\<lparr>db_open := True\<rparr>"

definition small_flush :: "(bytes \<times> bytes) list" where
  "small_flush = [([97, 1], [1, 2, 3, 4, 5, 6, 7, 8]), ([98, 1], [9])]"

section \<open>Properties\<close>

lemma readable_base [simp]: "readable T data rentries cf (db\<lparr>db_base := d\<rparr>) = readable T data rentries cf db"
  by (simp add: readable_def db_env_def)

lemma stored_at_base [simp]: "stored_at T data cf index r (db\<lparr>db_base := d\<rparr>) = stored_at T data cf index r db"
  by (simp add: stored_at_def db_env_def)

text \<open>
  C37. What a flush has separated is read back through the database. When a table is built from the
  entries of a memtable in the world of the database and finishing it succeeds, and the base
  database then answers a read with the entry of the table for a key, \<open>GetImpl\<close> returns the value
  the memtable had for the key: found directly if it was kept in the table, and otherwise by
  decoding the reference, looking up the file among those the flush has registered in the
  manifest, opening it and reading the record.
\<close>

theorem flushed_value_is_read:
  assumes "db_files T contents data centries rentries" and "table_builder_laws B entries" and "internal_key_laws I"
    and "new_TitanTableBuilder (db_world T) cf dbo opts base merge_level target start db0 = Some t0" and "entries base = []"
    and "list_all (plain_entry I) es" and "TT_add_all (te_rocks T) (db_world T) B I es (t0, db0) = Some (t1, db1)"
    and "TT_ok B t1" and "TT_Finish (te_rocks T) (db_world T) B t1 db1 = Some (OK, t2, db2)"
    and "GetBlobStorage cf (db_bfs db0) = Some bs" and "level_merge (bs_cf_options bs) = level_merge opts"
    and "\<forall>mh\<in>set (tt_finished_blobs t2). length (contents (fh_file (snd mh))) < 2 ^ 64"
    and "i < length es" and "ParseInternalKey I (fst (es ! i)) = Some p"
    and "storable (rk_C (te_rocks T)) \<lparr>r_key = ik_user_key p, r_value = snd (es ! i), only_value = level_merge opts\<rparr>"
    and "readable T data rentries cf db2"
    and "bd_GetImpl (te_base T) sq cf (ik_user_key p) d
         = (OK, snd (entries (tt_base_builder t2) ! i), separated I opts (es ! i))"
  shows "\<exists>db3. Titan_GetImpl T sq cf (ik_user_key p) (db2\<lparr>db_base := d\<rparr>) = Some (OK, snd (es ! i), db3)"
proof -
  let ?e' = "entries (tt_base_builder t2) ! i"
  have at: "if separated I opts (es ! i)
      then \<exists>p index. ParseInternalKey I (fst (es ! i)) = Some p \<and> snd ?e' = BlobIndex_EncodeTo (rk_C (te_rocks T)) index \<and>
        (let r = \<lparr>r_key = ik_user_key p, r_value = snd (es ! i), only_value = level_merge opts\<rparr>
         in storable (rk_C (te_rocks T)) r \<longrightarrow> stored_at T data cf index r db2)
      else ?e' = es ! i"
    using list_all2_nthD [OF db_files.flushed_stored [OF assms(1-12)] assms(13)] .
  show ?thesis
  proof (cases "separated I opts (es ! i)")
    case True
    then obtain index where i: "snd ?e' = BlobIndex_EncodeTo (rk_C (te_rocks T)) index"
      "stored_at T data cf index \<lparr>r_key = ik_user_key p, r_value = snd (es ! i), only_value = level_merge opts\<rparr> (db2\<lparr>db_base := d\<rparr>)"
      using at assms(14,15) by (auto simp: Let_def)
    have "readable T data rentries cf (db2\<lparr>db_base := d\<rparr>)"
      using assms(16) by simp
    from db_files.GetImpl_resolves [OF assms(1) this i(2)] assms(17) True i(1) show ?thesis
      by (simp, metis BlobRecord.select_convs(2))
  next
    case False
    then show ?thesis
      using at assms(16,17) by (simp add: Titan_GetImpl_def readable_def)
  qed
qed

lemma small_flush_run:
  obtains t0 t1 db1 t2 db2 where
    "new_TitanTableBuilder (db_world (mem_titan 1000)) 0 default_TitanDBOptions sample_opts [] 5 0 (- 1) sample_db = Some t0"
    "TT_add_all mem_rocks (db_world (mem_titan 1000)) list_table typed_keys small_flush (t0, sample_db) = Some (t1, db1)"
    "TT_ok list_table t1" "TT_Finish mem_rocks (db_world (mem_titan 1000)) list_table t1 db1 = Some (OK, t2, db2)"
    "\<forall>mh\<in>set (tt_finished_blobs t2). length (snd (fh_file (snd mh))) < 2 ^ 64"
    "readable (mem_titan 1000) (\<lambda>f. f) one_entries 0 db2"
proof -
  let ?M = "db_world (mem_titan 1000)"
  let ?new = "new_TitanTableBuilder ?M 0 default_TitanDBOptions sample_opts [] 5 0 (- 1) sample_db
     :: (nat \<times> bytes, bytes, (bytes \<times> bytes) list) TitanTableBuilder option"
  have "\<not> Option.is_none ?new"
    by code_simp
  then obtain t0 where t0: "?new = Some t0"
    by (auto simp: Option.is_none_def)
  have "map_option (\<lambda>(t1, db1). (TT_ok list_table t1, map_option (\<lambda>(s, t2, db2). (s, db_open db2,
        Option.is_none (bfs_file_cache (db_bfs db2)),
        map (\<lambda>(cf, bs). (cf, Option.is_none (blob_cache (bs_cf_options bs)))) (bfs_column_families (db_bfs db2)),
        list_all (\<lambda>mh. length (snd (fh_file (snd mh))) < 1000) (tt_finished_blobs t2)))
        (TT_Finish mem_rocks ?M list_table t1 db1)))
      (TT_add_all mem_rocks ?M list_table typed_keys small_flush (the ?new, sample_db))
    = Some (True, Some (OK, True, True, [(0, True)], True))"
    by code_simp
  then obtain t1 db1 t2 db2 where
    r: "TT_add_all mem_rocks ?M list_table typed_keys small_flush (t0, sample_db) = Some (t1, db1)"
      "TT_ok list_table t1" "TT_Finish mem_rocks ?M list_table t1 db1 = Some (OK, t2, db2)"
      "db_open db2" "bfs_file_cache (db_bfs db2) = None"
      "map (\<lambda>(cf, bs). (cf, Option.is_none (blob_cache (bs_cf_options bs)))) (bfs_column_families (db_bfs db2)) = [(0, True)]"
      "list_all (\<lambda>mh. length (snd (fh_file (snd mh))) < 1000) (tt_finished_blobs t2)"
    by (auto simp: t0 Option.is_none_def)
  have "readable (mem_titan 1000) (\<lambda>f. f) one_entries 0 db2"
    using r(4-6) by (auto simp: readable_def readers_ok_def GetBlobStorage_def Option.is_none_def)
  moreover have "\<forall>mh\<in>set (tt_finished_blobs t2). length (snd (fh_file (snd mh))) < 2 ^ 64"
    using r(7) by (force simp: list_all_iff)
  ultimately show ?thesis
    using that t0 r(1-3) by blast
qed

lemma flushed_value_is_read_witness:
  "\<exists>t0 t1 db1 t2 db2 db3.
     TT_add_all mem_rocks (db_world (mem_titan 1000)) list_table typed_keys small_flush (t0, sample_db) = Some (t1, db1)
   \<and> TT_Finish mem_rocks (db_world (mem_titan 1000)) list_table t1 db1 = Some (OK, t2, db2)
   \<and> Titan_GetImpl (mem_titan 1000) 1 0 [97] (db2\<lparr>db_base := [((0, [97]), Some (snd (tt_base_builder t2 ! 0), True))]\<rparr>)
     = Some (OK, [1, 2, 3, 4, 5, 6, 7, 8], db3)"
proof -
  let ?T = "mem_titan 1000"
  obtain t0 t1 db1 t2 db2 where
    r: "new_TitanTableBuilder (db_world ?T) 0 default_TitanDBOptions sample_opts [] 5 0 (- 1) sample_db = Some t0"
      "TT_add_all mem_rocks (db_world ?T) list_table typed_keys small_flush (t0, sample_db) = Some (t1, db1)"
      "TT_ok list_table t1" "TT_Finish mem_rocks (db_world ?T) list_table t1 db1 = Some (OK, t2, db2)"
      "\<forall>mh\<in>set (tt_finished_blobs t2). length (snd (fh_file (snd mh))) < 2 ^ 64"
      "readable ?T (\<lambda>f. f) one_entries 0 db2"
    by (rule small_flush_run)
  have P: "te_rocks ?T = mem_rocks" "rk_C mem_rocks = leb128" "te_base ?T = mem_base"
    by (simp_all add: mem_titan_def mem_rocks_def)
  have f: "list_all (plain_entry typed_keys) small_flush" "separated typed_keys sample_opts (small_flush ! 0)"
    "ParseInternalKey typed_keys (fst (small_flush ! 0)) = Some \<lparr>ik_user_key = [97], ik_sequence = 0, ik_type = 1\<rparr>"
    "GetBlobStorage 0 (db_bfs sample_db) = Some sample_store"
    by code_simp (code_simp, simp_all add: small_flush_def typed_keys_def sample_db_def new_TitanDBImpl_def GetBlobStorage_def Let_def default_TitanDBOptions_def)
  let ?d = "[((0, [97]), Some (snd (tt_base_builder t2 ! 0), True))]"
  have "\<exists>db3. Titan_GetImpl ?T 1 0 [97] (db2\<lparr>db_base := ?d\<rparr>) = Some (OK, snd (small_flush ! 0), db3)"
    using flushed_value_is_read [OF db_files_mem table_builder_laws_list internal_key_laws_typed r(1) _ f(1) r(2) [folded P(1)] r(3)
        r(4) [folded P(1)] f(4) _ r(5) _ f(3) _ r(6), of 1 ?d] f(2)
    by (simp add: P sample_store_def new_BlobStorage_def sample_opts_def small_flush_def mem_base_def mem_GetImpl_def storable_def
        record_fits_def BlobRecord_EncodeTo_def leb128_def enc_varint.simps)
  moreover have "snd (small_flush ! 0) = [1, 2, 3, 4, 5, 6, 7, 8]"
    by (simp add: small_flush_def)
  ultimately show ?thesis
    using r(2,4) by metis
qed

end
