(* ===== verification/Ycsb_Store.thy ===== *)
theory Ycsb_Store
  imports Titan_Prelude
begin

text \<open>
  The in-memory stores of the YCSB benchmark: hashed strings (\<open>lib/string.h\<close>), the string hash
  table (\<open>lib/stl_hashtable.h\<close>) and the database of records made of it
  (\<open>db/hashtable_db.cc\<close>). A \<open>const char *\<close> is the list of its characters before the terminating
  zero. A table owns what its pointers point to, and is kept by value; the unordered map is a
  list, searched with the hash and the equality of the source. The variant with a lock
  (\<open>lib/lock_stl_hashtable.h\<close>) makes each call atomic, which calls of the model are.
\<close>

unbundle bit_operations_syntax

section \<open>Hashed strings\<close>

type_synonym cstring = string

definition c_str :: "string \<Rightarrow> cstring" where
  "c_str s = takeWhile (\<lambda>c. c \<noteq> CHR 0x00) s"

text \<open>A character is signed and extended to 64 bits.\<close>

definition char_u64 :: "char \<Rightarrow> u64" where
  "char_u64 c = signed (of_char c :: byte)"

fun SDBMHash_loop :: "u64 \<Rightarrow> cstring \<Rightarrow> u64" where
  "SDBMHash_loop h [] = h"
| "SDBMHash_loop h (c # cs) = SDBMHash_loop (char_u64 c + push_bit 6 h + push_bit 16 h - h) cs"

definition SDBMHash :: "cstring \<Rightarrow> u64" where
  "SDBMHash s = SDBMHash_loop 0 s"

record String =
  str_hash :: u64
  str_value :: cstring
  str_len :: nat

definition set_value :: "cstring \<Rightarrow> String" where
  "set_value v = \<lparr>str_hash = SDBMHash v, str_value = v, str_len = length v\<rparr>"

definition String_Copy :: "cstring \<Rightarrow> String" where
  "String_Copy s = set_value s"

definition String_Wrap :: "cstring \<Rightarrow> String" where
  "String_Wrap s = set_value s"

definition String_eq :: "String \<Rightarrow> String \<Rightarrow> bool" where
  "String_eq a b = (if str_hash a \<noteq> str_hash b then False else str_value a = str_value b)"

section \<open>The hash table\<close>

type_synonym 'v StlHashtable = "(String \<times> 'v) list"

definition tbl_find :: "cstring \<Rightarrow> 'v StlHashtable \<Rightarrow> (String \<times> 'v) option" where
  "tbl_find k t = find (\<lambda>p. String_eq (fst p) (String_Wrap k)) t"

definition Stl_Get :: "cstring \<Rightarrow> 'v StlHashtable \<Rightarrow> 'v option" where
  "Stl_Get k t = map_option snd (tbl_find k t)"

definition Stl_Insert :: "cstring option \<Rightarrow> 'v \<Rightarrow> 'v StlHashtable \<Rightarrow> bool \<times> 'v StlHashtable" where
  "Stl_Insert key v t =
     (case key of
        None \<Rightarrow> (False, t)
      | Some k \<Rightarrow> (case tbl_find k t of
           None \<Rightarrow> (True, t @ [(String_Copy k, v)])
         | Some _ \<Rightarrow> (False, t)))"

definition Stl_Update :: "cstring \<Rightarrow> 'v \<Rightarrow> 'v StlHashtable \<Rightarrow> 'v option \<times> 'v StlHashtable" where
  "Stl_Update k v t =
     (case tbl_find k t of
        None \<Rightarrow> (None, t)
      | Some p \<Rightarrow> (Some (snd p), map (\<lambda>q. if String_eq (fst q) (String_Wrap k) then (fst q, v) else q) t))"

definition Stl_Remove :: "cstring \<Rightarrow> 'v StlHashtable \<Rightarrow> 'v option \<times> 'v StlHashtable" where
  "Stl_Remove k t =
     (case tbl_find k t of
        None \<Rightarrow> (None, t)
      | Some p \<Rightarrow> (Some (snd p), filter (\<lambda>q. \<not> String_eq (fst q) (String_Wrap k)) t))"

definition Stl_Entries :: "cstring option \<Rightarrow> nat \<Rightarrow> 'v StlHashtable \<Rightarrow> (cstring \<times> 'v) list" where
  "Stl_Entries key n t =
     map (\<lambda>p. (str_value (fst p), snd p)) (take n
       (case key of
          None \<Rightarrow> t
        | Some k \<Rightarrow> dropWhile (\<lambda>p. \<not> String_eq (fst p) (String_Wrap k)) t))"

definition Stl_Size :: "'v StlHashtable \<Rightarrow> nat" where
  "Stl_Size t = length t"

section \<open>The database of records\<close>

type_synonym FieldHashtable = "cstring StlHashtable"
type_synonym HashtableDB = "FieldHashtable StlHashtable"

definition kOK :: int where "kOK = 0"
definition kErrorNoData :: int where "kErrorNoData = 1"
definition kErrorConflict :: int where "kErrorConflict = 2"

text \<open>The default number of entries is the largest \<open>size_t\<close>.\<close>

definition all_entries :: "'v StlHashtable \<Rightarrow> (cstring \<times> 'v) list" where
  "all_entries t = Stl_Entries None (2 ^ 64 - 1) t"

definition field_values :: "string list option \<Rightarrow> FieldHashtable \<Rightarrow> (string \<times> string) list" where
  "field_values fs ft =
     (case fs of
        None \<Rightarrow> all_entries ft
      | Some names \<Rightarrow> concat (map (\<lambda>f. case Stl_Get (c_str f) ft of None \<Rightarrow> [] | Some v \<Rightarrow> [(f, v)]) names))"

definition HashtableDB_Read ::
    "string \<Rightarrow> string \<Rightarrow> string list option \<Rightarrow> (string \<times> string) list \<Rightarrow> HashtableDB \<Rightarrow> int \<times> (string \<times> string) list" where
  "HashtableDB_Read table key fs result db =
     (case Stl_Get (c_str (table @ key)) db of
        None \<Rightarrow> (kErrorNoData, result)
      | Some ft \<Rightarrow> (kOK, field_values fs ft))"

definition HashtableDB_Scan ::
    "string \<Rightarrow> string \<Rightarrow> int \<Rightarrow> string list option \<Rightarrow> HashtableDB \<Rightarrow> int \<times> (string \<times> string) list list" where
  "HashtableDB_Scan table key len fs db =
     (kOK, map (\<lambda>p. field_values fs (snd p))
        (Stl_Entries (Some (c_str (table @ key))) (unat (of_int len :: u64)) db))"

text \<open>A record that is missing is made from the values; the result of inserting a field is not looked at.\<close>

fun insert_new_fields :: "(string \<times> string) list \<Rightarrow> FieldHashtable \<Rightarrow> FieldHashtable" where
  "insert_new_fields [] ft = ft"
| "insert_new_fields ((f, v) # vs) ft = insert_new_fields vs (snd (Stl_Insert (Some (c_str f)) (c_str v) ft))"

fun update_fields :: "(string \<times> string) list \<Rightarrow> FieldHashtable \<Rightarrow> FieldHashtable" where
  "update_fields [] ft = ft"
| "update_fields ((f, v) # vs) ft =
     (let (old, ft) = Stl_Update (c_str f) (c_str v) ft
      in update_fields vs (if old = None then snd (Stl_Insert (Some (c_str f)) (c_str v) ft) else ft))"

definition HashtableDB_Update ::
    "string \<Rightarrow> string \<Rightarrow> (string \<times> string) list \<Rightarrow> HashtableDB \<Rightarrow> int \<times> HashtableDB" where
  "HashtableDB_Update table key values db =
     (let k = c_str (table @ key) in
      case Stl_Get k db of
        None \<Rightarrow> (kOK, snd (Stl_Insert (Some k) (insert_new_fields values []) db))
      | Some ft \<Rightarrow> (kOK, snd (Stl_Update k (update_fields values ft) db)))"

text \<open>Inserting stops at the first field that is there already; the fields before it stay.\<close>

fun insert_fields :: "(string \<times> string) list \<Rightarrow> FieldHashtable \<Rightarrow> int \<times> FieldHashtable" where
  "insert_fields [] ft = (kOK, ft)"
| "insert_fields ((f, v) # vs) ft =
     (let (ok, ft) = Stl_Insert (Some (c_str f)) (c_str v) ft
      in if \<not> ok then (kErrorConflict, ft) else insert_fields vs ft)"

definition HashtableDB_Insert ::
    "string \<Rightarrow> string \<Rightarrow> (string \<times> string) list \<Rightarrow> HashtableDB \<Rightarrow> int \<times> HashtableDB" where
  "HashtableDB_Insert table key values db =
     (let k = c_str (table @ key);
          (ft, db) = (case Stl_Get k db of
                        None \<Rightarrow> ([], snd (Stl_Insert (Some k) [] db))
                      | Some ft \<Rightarrow> (ft, db));
          (code, ft) = insert_fields values ft
      in (code, snd (Stl_Update k ft db)))"

definition HashtableDB_Delete :: "string \<Rightarrow> string \<Rightarrow> HashtableDB \<Rightarrow> int \<times> HashtableDB" where
  "HashtableDB_Delete table key db =
     (let (ft, db) = Stl_Remove (c_str (table @ key)) db
      in (if ft = None then kErrorNoData else kOK, db))"

section \<open>Well-formed tables\<close>

text \<open>
  The hash and the length of every key belong to its characters, no key occurs twice, and no
  string contains the character that ends it.
\<close>

definition str_ok :: "String \<Rightarrow> bool" where
  "str_ok s = (s = set_value (str_value s) \<and> CHR 0x00 \<notin> set (str_value s))"

definition table_ok :: "'v StlHashtable \<Rightarrow> bool" where
  "table_ok t = (list_all (\<lambda>p. str_ok (fst p)) t \<and> distinct (map (\<lambda>p. str_value (fst p)) t))"

definition fields_ok :: "FieldHashtable \<Rightarrow> bool" where
  "fields_ok ft = (table_ok ft \<and> list_all (\<lambda>p. CHR 0x00 \<notin> set (snd p)) ft)"

definition store_ok :: "HashtableDB \<Rightarrow> bool" where
  "store_ok db = (table_ok db \<and> list_all (\<lambda>p. fields_ok (snd p)) db)"

definition stl_abs :: "'v StlHashtable \<Rightarrow> cstring \<rightharpoonup> 'v" where
  "stl_abs t = map_of (map (\<lambda>p. (str_value (fst p), snd p)) t)"

lemma c_str_no_zero [simp]: "CHR 0x00 \<notin> set (c_str s)"
  by (auto simp: c_str_def dest: set_takeWhileD)

lemma str_ok_Copy [simp]: "str_ok (String_Copy (c_str s))"
  by (simp add: str_ok_def String_Copy_def set_value_def)

lemma String_eq_ok: "str_ok s \<Longrightarrow> String_eq s (String_Wrap k) \<longleftrightarrow> str_value s = k"
  by (metis (no_types, lifting) String.select_convs(1,2) String_Wrap_def String_eq_def set_value_def str_ok_def)

lemma table_ok_eq:
  "table_ok t \<Longrightarrow> p \<in> set t \<Longrightarrow> String_eq (fst p) (String_Wrap k) \<longleftrightarrow> str_value (fst p) = k"
  by (auto simp: table_ok_def list_all_iff String_eq_ok)

lemma table_ok_simps [simp]:
  "table_ok []"
  "table_ok (p # t) \<longleftrightarrow> str_ok (fst p) \<and> str_value (fst p) \<notin> (\<lambda>q. str_value (fst q)) ` set t \<and> table_ok t"
  by (auto simp: table_ok_def)

lemma table_ok_by_keys:
  "table_ok t \<longleftrightarrow> list_all str_ok (map fst t) \<and> distinct (map str_value (map fst t))"
  by (simp add: table_ok_def list.pred_map comp_def)

lemma table_ok_keys: "map fst t' = map fst t \<Longrightarrow> table_ok t' \<longleftrightarrow> table_ok t"
  by (simp only: table_ok_by_keys)

lemma stl_abs_simps [simp]:
  "stl_abs [] = Map.empty"
  "stl_abs (p # t) = (stl_abs t)(str_value (fst p) \<mapsto> snd p)"
  by (auto simp: stl_abs_def)

lemma stl_abs_None: "stl_abs t k = None \<longleftrightarrow> k \<notin> (\<lambda>q. str_value (fst q)) ` set t"
  by (auto simp: stl_abs_def map_of_eq_None_iff image_image)

lemma tbl_find_abs: "table_ok t \<Longrightarrow> map_option snd (tbl_find k t) = stl_abs t k"
  by (induction t) (auto simp: tbl_find_def String_eq_ok)

lemma tbl_find_None: "table_ok t \<Longrightarrow> tbl_find k t = None \<longleftrightarrow> stl_abs t k = None"
  using tbl_find_abs [of t k] by (metis option.map_disc_iff)

text \<open>The operations as operations on maps.\<close>

lemma Stl_Get_abs: "table_ok t \<Longrightarrow> Stl_Get k t = stl_abs t k"
  by (simp add: Stl_Get_def tbl_find_abs)

lemma stl_abs_snoc: "stl_abs (t @ [(s, v)]) = (\<lambda>k. if stl_abs t k = None \<and> k = str_value s then Some v else stl_abs t k)"
  by (induction t) (auto simp: fun_eq_iff)

lemma Stl_Insert_abs:
  assumes "table_ok t"
  shows "fst (Stl_Insert (Some (c_str f)) v t) \<longleftrightarrow> stl_abs t (c_str f) = None"
    and "stl_abs (snd (Stl_Insert (Some (c_str f)) v t)) =
           (if stl_abs t (c_str f) = None then (stl_abs t)(c_str f \<mapsto> v) else stl_abs t)"
    and "table_ok (snd (Stl_Insert (Some (c_str f)) v t))"
    and "set (snd (Stl_Insert (Some (c_str f)) v t)) \<subseteq> insert (String_Copy (c_str f), v) (set t)"
proof -
  note n = tbl_find_None [OF assms, of "c_str f"]
  have ok: "table_ok (t @ [(String_Copy (c_str f), v)])" if "stl_abs t (c_str f) = None"
    using that assms by (auto simp: table_ok_def stl_abs_None String_Copy_def set_value_def str_ok_def)
  show "fst (Stl_Insert (Some (c_str f)) v t) \<longleftrightarrow> stl_abs t (c_str f) = None"
    using n by (auto simp: Stl_Insert_def split: option.splits)
  show "stl_abs (snd (Stl_Insert (Some (c_str f)) v t)) =
           (if stl_abs t (c_str f) = None then (stl_abs t)(c_str f \<mapsto> v) else stl_abs t)"
    using n by (auto simp: Stl_Insert_def stl_abs_snoc String_Copy_def set_value_def split: option.splits)
  show "table_ok (snd (Stl_Insert (Some (c_str f)) v t))"
    using n ok assms by (auto simp: Stl_Insert_def split: option.splits)
  show "set (snd (Stl_Insert (Some (c_str f)) v t)) \<subseteq> insert (String_Copy (c_str f), v) (set t)"
    by (auto simp: Stl_Insert_def split: option.splits)
qed

lemma Stl_Update_abs:
  assumes "table_ok t"
  shows "fst (Stl_Update k v t) = stl_abs t k"
    and "stl_abs (snd (Stl_Update k v t)) =
           (if stl_abs t k = None then stl_abs t else (stl_abs t)(k \<mapsto> v))"
    and "table_ok (snd (Stl_Update k v t))"
    and "snd ` set (snd (Stl_Update k v t)) \<subseteq> insert v (snd ` set t)"
proof -
  let ?u = "map (\<lambda>q. if String_eq (fst q) (String_Wrap k) then (fst q, v) else q)"
  have keys: "map fst (?u t) = map fst t"
    by (induction t) auto
  have absent: "stl_abs (?u t) = stl_abs t" if "stl_abs t k = None" "table_ok t" for t
    using that by (induction t) (auto simp: String_eq_ok split: if_splits)
  have "stl_abs (?u t) = (if stl_abs t k = None then stl_abs t else (stl_abs t)(k \<mapsto> v))"
    using assms
  proof (induction t)
    case (Cons p t)
    then show ?case
      using absent [of t] stl_abs_None [of t "str_value (fst p)"] by (auto simp: String_eq_ok fun_upd_twist)
  qed simp
  with table_ok_keys [OF keys] assms
  have u: "stl_abs (?u t) = (if stl_abs t k = None then stl_abs t else (stl_abs t)(k \<mapsto> v)) \<and> table_ok (?u t)"
    by blast
  note n = tbl_find_None [OF assms, of k] and g = tbl_find_abs [OF assms, of k]
  show "fst (Stl_Update k v t) = stl_abs t k"
    using n g by (auto simp: Stl_Update_def split: option.splits)
  show "stl_abs (snd (Stl_Update k v t)) = (if stl_abs t k = None then stl_abs t else (stl_abs t)(k \<mapsto> v))"
    and "table_ok (snd (Stl_Update k v t))"
    using n u assms by (auto simp: Stl_Update_def split: option.splits)
  show "snd ` set (snd (Stl_Update k v t)) \<subseteq> insert v (snd ` set t)"
    by (auto simp: Stl_Update_def split: option.splits)
qed

lemma Stl_Remove_abs:
  assumes "table_ok t"
  shows "fst (Stl_Remove k t) = stl_abs t k"
    and "stl_abs (snd (Stl_Remove k t)) = (stl_abs t)(k := None)"
    and "table_ok (snd (Stl_Remove k t))"
    and "set (snd (Stl_Remove k t)) \<subseteq> set t"
proof -
  have u: "stl_abs (filter (\<lambda>q. \<not> String_eq (fst q) (String_Wrap k)) t) = (stl_abs t)(k := None)
      \<and> table_ok (filter (\<lambda>q. \<not> String_eq (fst q) (String_Wrap k)) t)"
    using assms by (induction t) (auto simp: String_eq_ok fun_upd_twist)
  note n = tbl_find_None [OF assms, of k] and g = tbl_find_abs [OF assms, of k]
  show "fst (Stl_Remove k t) = stl_abs t k"
    using n g by (auto simp: Stl_Remove_def split: option.splits)
  show "stl_abs (snd (Stl_Remove k t)) = (stl_abs t)(k := None)" and "table_ok (snd (Stl_Remove k t))"
    using n u assms by (auto simp: Stl_Remove_def split: option.splits)
  show "set (snd (Stl_Remove k t)) \<subseteq> set t"
    by (auto simp: Stl_Remove_def split: option.splits)
qed

text \<open>Field lists: a new record keeps the first value of a field, an existing one takes the last.\<close>

definition c_pairs :: "(string \<times> string) list \<Rightarrow> (cstring \<times> cstring) list" where
  "c_pairs vs = map (\<lambda>(f, v). (c_str f, c_str v)) vs"

lemma c_pairs_simps [simp]:
  "c_pairs [] = []"
  "c_pairs ((f, v) # vs) = (c_str f, c_str v) # c_pairs vs"
  by (simp_all add: c_pairs_def)

lemma fields_okI:
  "table_ok ft' \<Longrightarrow> snd ` set ft' \<subseteq> insert (c_str v) (snd ` set ft) \<Longrightarrow> fields_ok ft \<Longrightarrow> fields_ok ft'"
proof -
  assume a: "table_ok ft'" "snd ` set ft' \<subseteq> insert (c_str v) (snd ` set ft)" "fields_ok ft"
  have "CHR 0x00 \<notin> set (snd p)" if "p \<in> set ft'" for p
    using subsetD [OF a(2) imageI [OF that]] a(3) c_str_no_zero [of v] by (auto simp: fields_ok_def list_all_iff)
  with a(1) show ?thesis
    by (simp add: fields_ok_def list_all_iff)
qed

lemma Stl_Insert_fields_ok:
  assumes "fields_ok ft"
  shows "fields_ok (snd (Stl_Insert (Some (c_str f)) (c_str v) ft))"
proof (rule fields_okI [OF _ _ assms])
  have t: "table_ok ft"
    using assms by (simp add: fields_ok_def)
  show "table_ok (snd (Stl_Insert (Some (c_str f)) (c_str v) ft))"
    by (rule Stl_Insert_abs(3) [OF t])
  show "snd ` set (snd (Stl_Insert (Some (c_str f)) (c_str v) ft)) \<subseteq> insert (c_str v) (snd ` set ft)"
    using image_mono [OF Stl_Insert_abs(4) [OF t, of f "c_str v"], of snd] by simp
qed

lemma Stl_Update_fields_ok:
  assumes "fields_ok ft"
  shows "fields_ok (snd (Stl_Update k (c_str v) ft))"
proof (rule fields_okI [OF _ _ assms])
  have t: "table_ok ft"
    using assms by (simp add: fields_ok_def)
  show "table_ok (snd (Stl_Update k (c_str v) ft))"
    by (rule Stl_Update_abs(3) [OF t])
  show "snd ` set (snd (Stl_Update k (c_str v) ft)) \<subseteq> insert (c_str v) (snd ` set ft)"
    by (rule Stl_Update_abs(4) [OF t])
qed

lemma insert_new_fields_ok:
  "fields_ok ft \<Longrightarrow> fields_ok (insert_new_fields vs ft) \<and> stl_abs (insert_new_fields vs ft) = map_of (c_pairs vs) ++ stl_abs ft"
proof (induction vs ft rule: insert_new_fields.induct)
  case (2 f v vs ft)
  then have t: "table_ok ft"
    by (simp add: fields_ok_def)
  show ?case
    using 2 Stl_Insert_fields_ok [OF 2(2), of f v] Stl_Insert_abs(2) [OF t, of f "c_str v"]
    by (auto simp: map_add_def fun_eq_iff split: option.splits)
qed simp

lemma update_fields_ok:
  "fields_ok ft \<Longrightarrow> fields_ok (update_fields vs ft) \<and> stl_abs (update_fields vs ft) = stl_abs ft ++ map_of (rev (c_pairs vs))"
proof (induction vs arbitrary: ft)
  case (Cons fv vs)
  obtain f v where fv: "fv = (f, v)"
    by fastforce
  define u where "u = Stl_Update (c_str f) (c_str v) ft"
  define w where "w = (if fst u = None then snd (Stl_Insert (Some (c_str f)) (c_str v) (snd u)) else snd u)"
  have t: "table_ok ft"
    using Cons.prems by (simp add: fields_ok_def)
  have u: "fields_ok (snd u)"
    using Cons.prems by (simp add: u_def Stl_Update_fields_ok)
  then have t': "table_ok (snd u)"
    by (simp add: fields_ok_def)
  have "fields_ok w"
    using u by (simp add: w_def Stl_Insert_fields_ok)
  moreover have "stl_abs w = (stl_abs ft)(c_str f \<mapsto> c_str v)"
    using Stl_Insert_abs(2) [OF t', of f "c_str v"] Stl_Update_abs [OF t, of "c_str f" "c_str v"]
    by (auto simp: w_def u_def)
  moreover have "update_fields (fv # vs) ft = update_fields vs w"
    by (simp add: fv u_def w_def split: prod.split)
  ultimately show ?case
    using Cons.IH [of w] by (simp add: fv map_add_def fun_eq_iff map_of_append split: option.splits)
qed simp

text \<open>The fields before the first conflict: those whose names are new and differ.\<close>

fun fresh_prefix :: "('a \<times> 'b) list \<Rightarrow> 'a set \<Rightarrow> ('a \<times> 'b) list" where
  "fresh_prefix [] taken = []"
| "fresh_prefix ((a, b) # ps) taken = (if a \<in> taken then [] else (a, b) # fresh_prefix ps (insert a taken))"

lemma fresh_prefix_new: "a \<in> A \<Longrightarrow> a \<notin> fst ` set (fresh_prefix ps A)"
  by (induction ps A rule: fresh_prefix.induct) auto

lemma insert_fields_ok:
  assumes "fields_ok ft"
  shows "fields_ok (snd (insert_fields vs ft))
       \<and> stl_abs (snd (insert_fields vs ft)) = stl_abs ft ++ map_of (fresh_prefix (c_pairs vs) (dom (stl_abs ft)))
       \<and> fst (insert_fields vs ft) = (if fresh_prefix (c_pairs vs) (dom (stl_abs ft)) = c_pairs vs then kOK else kErrorConflict)"
  using assms
proof (induction vs arbitrary: ft)
  case (Cons fv vs)
  obtain f v where fv: "fv = (f, v)"
    by fastforce
  define u where "u = Stl_Insert (Some (c_str f)) (c_str v) ft"
  have t: "table_ok ft"
    using Cons.prems by (simp add: fields_ok_def)
  have u: "fields_ok (snd u)"
    using Cons.prems by (simp add: u_def Stl_Insert_fields_ok)
  note a = Stl_Insert_abs(1,2) [OF t, of f "c_str v", folded u_def]
  have e: "insert_fields ((f, v) # vs) ft = (if fst u then insert_fields vs (snd u) else (kErrorConflict, snd u))"
    by (simp add: u_def split: prod.split)
  show ?case
  proof (cases "stl_abs ft (c_str f)")
    case None
    let ?P = "fresh_prefix (c_pairs vs) (insert (c_str f) (dom (stl_abs ft)))"
    have g: "fst u" and s: "stl_abs (snd u) = (stl_abs ft)(c_str f \<mapsto> c_str v)" and n: "c_str f \<notin> dom (stl_abs ft)"
      using None a by auto
    have d: "dom (stl_abs (snd u)) = insert (c_str f) (dom (stl_abs ft))"
      by (auto simp: s split: if_splits)
    have "map_of ?P (c_str f) = None"
      by (simp add: map_of_eq_None_iff fresh_prefix_new)
    then have m: "stl_abs (snd u) ++ map_of ?P = stl_abs ft ++ map_of ((c_str f, c_str v) # ?P)"
      by (auto simp: s map_add_def fun_eq_iff split: option.split)
    have p: "fresh_prefix (c_pairs (fv # vs)) (dom (stl_abs ft)) = (c_str f, c_str v) # ?P"
      using n by (simp add: fv)
    show ?thesis
      unfolding p using Cons.IH [OF u, unfolded d m] g by (simp add: e fv del: insert_fields.simps map_of.simps)
  next
    case (Some w)
    then have "stl_abs (snd u) = stl_abs ft" "\<not> fst u" "c_str f \<in> dom (stl_abs ft)"
      using a by auto
    then show ?thesis
      using u by (simp add: e fv del: insert_fields.simps)
  qed
qed simp

section \<open>Histories of the store\<close>

datatype store_op =
    Op_Update string string "(string \<times> string) list"
  | Op_Insert string string "(string \<times> string) list"
  | Op_Delete string string

fun store_step :: "store_op \<Rightarrow> HashtableDB \<Rightarrow> int \<times> HashtableDB" where
  "store_step (Op_Update table key vs) db = HashtableDB_Update table key vs db"
| "store_step (Op_Insert table key vs) db = HashtableDB_Insert table key vs db"
| "store_step (Op_Delete table key) db = HashtableDB_Delete table key db"

fun store_run :: "store_op list \<Rightarrow> HashtableDB \<Rightarrow> int list \<times> HashtableDB" where
  "store_run [] db = ([], db)"
| "store_run (x # xs) db = (let (r, db) = store_step x db; (rs, db) = store_run xs db in (r # rs, db))"

text \<open>The same on a map from record names to records, which are maps from field names to values.\<close>

type_synonym spec_store = "cstring \<rightharpoonup> (cstring \<rightharpoonup> cstring)"

fun spec_step :: "store_op \<Rightarrow> spec_store \<Rightarrow> int \<times> spec_store" where
  "spec_step (Op_Update table key vs) m =
     (let k = c_str (table @ key)
      in (kOK, m(k \<mapsto> (case m k of None \<Rightarrow> map_of (c_pairs vs) | Some r \<Rightarrow> r ++ map_of (rev (c_pairs vs))))))"
| "spec_step (Op_Insert table key vs) m =
     (let k = c_str (table @ key);
          r = (case m k of None \<Rightarrow> Map.empty | Some r \<Rightarrow> r);
          new = fresh_prefix (c_pairs vs) (dom r)
      in (if new = c_pairs vs then kOK else kErrorConflict, m(k \<mapsto> r ++ map_of new)))"
| "spec_step (Op_Delete table key) m =
     (let k = c_str (table @ key) in (if m k = None then kErrorNoData else kOK, m(k := None)))"

fun spec_run :: "store_op list \<Rightarrow> spec_store \<Rightarrow> int list \<times> spec_store" where
  "spec_run [] m = ([], m)"
| "spec_run (x # xs) m = (let (r, m) = spec_step x m; (rs, m) = spec_run xs m in (r # rs, m))"

definition store_abs :: "HashtableDB \<Rightarrow> spec_store" where
  "store_abs db = (\<lambda>k. map_option stl_abs (stl_abs db k))"

lemma stl_abs_in: "stl_abs t k = Some v \<Longrightarrow> v \<in> snd ` set t"
  by (induction t) (auto split: if_splits)

lemma store_ok_record: "store_ok db \<Longrightarrow> stl_abs db k = Some ft \<Longrightarrow> fields_ok ft"
  using stl_abs_in [of db k ft] by (auto simp: store_ok_def list_all_iff)

lemma store_ok_table: "store_ok db \<Longrightarrow> table_ok db"
  by (simp add: store_ok_def)

lemma store_okI: "table_ok db' \<Longrightarrow> snd ` set db' \<subseteq> insert ft (snd ` set db) \<Longrightarrow> store_ok db \<Longrightarrow> fields_ok ft \<Longrightarrow> store_ok db'"
  unfolding store_ok_def list_all_iff by (metis image_iff image_subset_iff insert_iff)

lemma Stl_Insert_store:
  assumes "store_ok db" "fields_ok ft" "stl_abs db (c_str s) = None"
  shows "store_ok (snd (Stl_Insert (Some (c_str s)) ft db))"
    and "store_abs (snd (Stl_Insert (Some (c_str s)) ft db)) = (store_abs db)(c_str s \<mapsto> stl_abs ft)"
proof -
  note a = Stl_Insert_abs [OF store_ok_table [OF assms(1)], of s ft]
  show "store_ok (snd (Stl_Insert (Some (c_str s)) ft db))"
    using image_mono [OF a(4), of snd] by (intro store_okI [OF a(3) _ assms(1,2)]) simp
  show "store_abs (snd (Stl_Insert (Some (c_str s)) ft db)) = (store_abs db)(c_str s \<mapsto> stl_abs ft)"
    using a(2) assms(3) by (auto simp: store_abs_def fun_eq_iff)
qed

lemma Stl_Update_store:
  assumes "store_ok db" "fields_ok ft" "stl_abs db k \<noteq> None"
  shows "store_ok (snd (Stl_Update k ft db))"
    and "store_abs (snd (Stl_Update k ft db)) = (store_abs db)(k \<mapsto> stl_abs ft)"
proof -
  note a = Stl_Update_abs [OF store_ok_table [OF assms(1)], of k ft]
  show "store_ok (snd (Stl_Update k ft db))"
    by (rule store_okI [OF a(3,4) assms(1,2)])
  show "store_abs (snd (Stl_Update k ft db)) = (store_abs db)(k \<mapsto> stl_abs ft)"
    using a(2) assms(3) by (auto simp: store_abs_def fun_eq_iff)
qed

lemma Update_refines:
  assumes "store_ok db"
  shows "store_ok (snd (HashtableDB_Update table key vs db))
       \<and> map_prod id store_abs (HashtableDB_Update table key vs db) = spec_step (Op_Update table key vs) (store_abs db)"
proof (cases "stl_abs db (c_str (table @ key))")
  case None
  then show ?thesis
    using Stl_Insert_store [OF assms _ None, of "insert_new_fields vs []"] insert_new_fields_ok [of "[]" vs]
    by (simp add: HashtableDB_Update_def Stl_Get_abs [OF store_ok_table [OF assms]] store_abs_def [of db] fields_ok_def)
next
  case (Some ft)
  then show ?thesis
    using Stl_Update_store [OF assms, of "update_fields vs ft" "c_str (table @ key)"]
      update_fields_ok [OF store_ok_record [OF assms Some], of vs]
    by (simp add: HashtableDB_Update_def Stl_Get_abs [OF store_ok_table [OF assms]] store_abs_def [of db])
qed

lemma Insert_refines:
  assumes "store_ok db"
  shows "store_ok (snd (HashtableDB_Insert table key vs db))
       \<and> map_prod id store_abs (HashtableDB_Insert table key vs db) = spec_step (Op_Insert table key vs) (store_abs db)"
proof -
  let ?k = "c_str (table @ key)"
  define ft where "ft = (case stl_abs db ?k of None \<Rightarrow> [] | Some ft \<Rightarrow> ft)"
  define db' where "db' = (case stl_abs db ?k of None \<Rightarrow> snd (Stl_Insert (Some ?k) [] db) | Some _ \<Rightarrow> db)"
  have e: "HashtableDB_Insert table key vs db =
      (fst (insert_fields vs ft), snd (Stl_Update ?k (snd (insert_fields vs ft)) db'))"
    by (simp add: HashtableDB_Insert_def Stl_Get_abs [OF store_ok_table [OF assms]] ft_def db'_def
        Let_def case_prod_beta split: option.split)
  have f: "fields_ok ft"
    using store_ok_record [OF assms] by (auto simp: ft_def fields_ok_def split: option.split)
  have n: "fields_ok []"
    by (simp add: fields_ok_def)
  have d: "store_ok db' \<and> store_abs db' = (store_abs db)(?k \<mapsto> stl_abs ft)"
  proof (cases "stl_abs db ?k")
    case None
    then show ?thesis
      using Stl_Insert_store [OF assms n None] by (simp add: db'_def ft_def)
  next
    case (Some r)
    then show ?thesis
      using assms by (simp add: db'_def ft_def store_abs_def fun_eq_iff)
  qed
  then have "stl_abs db' ?k \<noteq> None"
    by (metis fun_upd_same map_option_is_None option.discI store_abs_def)
  moreover have "(case store_abs db ?k of None \<Rightarrow> Map.empty | Some r \<Rightarrow> r) = stl_abs ft"
    by (simp add: store_abs_def ft_def split: option.split)
  ultimately show ?thesis
    using Stl_Update_store [OF conjunct1 [OF d], of "snd (insert_fields vs ft)" ?k] insert_fields_ok [OF f, of vs] d
    by (simp add: e Let_def)
qed

lemma Delete_refines:
  assumes "store_ok db"
  shows "store_ok (snd (HashtableDB_Delete table key db))
       \<and> map_prod id store_abs (HashtableDB_Delete table key db) = spec_step (Op_Delete table key) (store_abs db)"
proof -
  note a = Stl_Remove_abs [OF store_ok_table [OF assms], of "c_str (table @ key)"]
  have "store_ok (snd (Stl_Remove (c_str (table @ key)) db))"
    using a(3,4) assms by (auto simp: store_ok_def list_all_iff)
  then show ?thesis
    using a(1,2) by (auto simp: HashtableDB_Delete_def store_abs_def Let_def fun_eq_iff split: prod.splits)
qed

lemmas store_refines = Update_refines Insert_refines Delete_refines

lemma store_step_refines:
  "store_ok db \<Longrightarrow> store_ok (snd (store_step x db)) \<and> map_prod id store_abs (store_step x db) = spec_step x (store_abs db)"
  by (cases x) (simp_all only: store_step.simps store_refines)

lemma store_run_refines:
  "store_ok db \<Longrightarrow> store_ok (snd (store_run xs db)) \<and> map_prod id store_abs (store_run xs db) = spec_run xs (store_abs db)"
proof (induction xs arbitrary: db)
  case (Cons x xs)
  obtain r db' where e: "store_step x db = (r, db')"
    by fastforce
  then have s: "store_ok db'" "spec_step x (store_abs db) = (r, store_abs db')"
    using store_step_refines [OF Cons.prems, of x] by auto
  show ?case
    using Cons.IH [OF s(1)] by (cases "store_run xs db'") (auto simp: e s(2) split: prod.split)
qed simp

lemma store_ok_empty [simp]: "store_ok []" "store_abs [] = Map.empty"
  by (simp_all add: store_ok_def store_abs_def fun_eq_iff)

lemma Read_fields:
  assumes "store_ok db"
  shows "HashtableDB_Read table key (Some names) result db =
     (case store_abs db (c_str (table @ key)) of
        None \<Rightarrow> (kErrorNoData, result)
      | Some r \<Rightarrow> (kOK, concat (map (\<lambda>f. case r (c_str f) of None \<Rightarrow> [] | Some v \<Rightarrow> [(f, v)]) names)))"
proof (cases "stl_abs db (c_str (table @ key))")
  case None
  then show ?thesis
    by (simp add: HashtableDB_Read_def Stl_Get_abs [OF store_ok_table [OF assms]] store_abs_def)
next
  case (Some ft)
  then have "table_ok ft"
    using store_ok_record [OF assms Some] by (simp add: fields_ok_def)
  with Some show ?thesis
    by (simp add: HashtableDB_Read_def field_values_def Stl_Get_abs [OF store_ok_table [OF assms]] Stl_Get_abs store_abs_def)
qed



text \<open>Two pairs of table and key that give the same concatenation name the same record.\<close>

lemma store_step_spec:
  assumes "store_ok db" "store_step x db = (r, db')"
  shows "store_ok db'" "r = fst (spec_step x (store_abs db))" "store_abs db' = snd (spec_step x (store_abs db))"
  using store_step_refines [OF assms(1), of x] assms(2) by (auto dest: sym)

lemma record_names_collide:
  assumes "HashtableDB_Insert ''a'' ''bc'' [(''f'', ''v'')] [] = (r, db)"
  shows "r = kOK \<and> HashtableDB_Read ''ab'' ''c'' (Some [''f'']) [] db = (kOK, [(''f'', ''v'')])"
  using store_step_spec [of "[]" "Op_Insert ''a'' ''bc'' [(''f'', ''v'')]", simplified, OF assms]
  by (simp add: Read_fields c_str_def)

text \<open>An insertion that reports a conflict has stored the fields before it.\<close>

lemma conflict_keeps_earlier_fields:
  assumes "HashtableDB_Insert ''t'' ''k'' [(''f'', ''1''), (''g'', ''2''), (''f'', ''3'')] [] = (r, db)"
  shows "r = kErrorConflict \<and> HashtableDB_Read ''t'' ''k'' (Some [''f'', ''g'']) [] db = (kOK, [(''f'', ''1''), (''g'', ''2'')])"
  using store_step_spec [of "[]" "Op_Insert ''t'' ''k'' [(''f'', ''1''), (''g'', ''2''), (''f'', ''3'')]", simplified, OF assms]
  by (simp add: Read_fields c_str_def)

text \<open>Of a field given twice, an update keeps the first value if the record is new and the last if it is not.\<close>

lemma update_duplicates:
  assumes "HashtableDB_Update ''t'' ''k'' [(''f'', ''1''), (''f'', ''2'')] [] = (r, db)"
    and "HashtableDB_Update ''t'' ''k'' [(''f'', ''1''), (''f'', ''2'')] db = (r', db')"
  shows "snd (HashtableDB_Read ''t'' ''k'' (Some [''f'']) [] db) = [(''f'', ''1'')]
       \<and> snd (HashtableDB_Read ''t'' ''k'' (Some [''f'']) [] db') = [(''f'', ''2'')]"
proof -
  note a = store_step_spec [of "[]" "Op_Update ''t'' ''k'' [(''f'', ''1''), (''f'', ''2'')]", simplified, OF assms(1)]
  note b = store_step_spec [of db "Op_Update ''t'' ''k'' [(''f'', ''1''), (''f'', ''2'')]", simplified, OF a(1) assms(2)]
  show ?thesis
    using a b by (simp add: Read_fields c_str_def)
qed

end
