(* ===== verification/Ycsb_Workload.thy ===== *)
theory Ycsb_Workload
  imports Ycsb_Store Std_Algorithms
begin

text \<open>
  The workload of the YCSB benchmark: utilities and properties (\<open>core/utils.h\<close>,
  \<open>core/properties.h\<close>), the generators of numbers (\<open>core/*_generator.h\<close>), the workload
  (\<open>core/core_workload.cc\<close>) and the client that runs it on a database (\<open>core/client.h\<close>). Random
  engines and the functions of doubles that leave the rationals are the parameter \<open>cpp_lib\<close>. An
  exception that nobody catches ends the program, as the result \<open>None\<close> does. Time measurements
  and messages are left out.
\<close>

unbundle bit_operations_syntax

section \<open>Utilities\<close>

definition kFNVOffsetBasis64 :: u64 where "kFNVOffsetBasis64 = 0xCBF29CE484222325"
definition kFNVPrime64 :: u64 where "kFNVPrime64 = 1099511628211"

fun FNV_loop :: "nat \<Rightarrow> u64 \<Rightarrow> u64 \<Rightarrow> u64" where
  "FNV_loop 0 v h = h"
| "FNV_loop (Suc i) v h =
     (let octet = v AND 0x00ff; v = drop_bit 8 v; h = h XOR octet; h = h * kFNVPrime64 in FNV_loop i v h)"

definition FNVHash64 :: "u64 \<Rightarrow> u64" where
  "FNVHash64 v = FNV_loop 8 v kFNVOffsetBasis64"

definition utils_Hash :: "u64 \<Rightarrow> u64" where
  "utils_Hash v = FNVHash64 v"

definition tolower :: "char \<Rightarrow> char" where
  "tolower c = (let n = of_char c :: nat in if 65 \<le> n \<and> n \<le> 90 then char_of (n + 32) else c)"

definition isspace :: "char \<Rightarrow> bool" where
  "isspace c = (let n = of_char c :: nat in n = 32 \<or> (9 \<le> n \<and> n \<le> 13))"

definition StrToBool :: "string \<Rightarrow> bool option" where
  "StrToBool str =
     (let str = map tolower str in
      if str = ''true'' \<or> str = ''1'' then Some True
      else if str = ''false'' \<or> str = ''0'' then Some False
      else None)"

definition Trim :: "string \<Rightarrow> string" where
  "Trim str = (let front = dropWhile isspace str in rev (dropWhile isspace (rev front)))"

text \<open>Conversions of the standard library: white space, a sign, digits; what follows is ignored.\<close>

definition isdigit :: "char \<Rightarrow> bool" where
  "isdigit c = (let n = of_char c :: nat in 48 \<le> n \<and> n \<le> 57)"

definition parse_int :: "string \<Rightarrow> int option" where
  "parse_int s =
     (let s = dropWhile isspace s;
          neg = (s \<noteq> [] \<and> hd s = CHR ''-'');
          s = (if s \<noteq> [] \<and> (hd s = CHR ''-'' \<or> hd s = CHR ''+'') then tl s else s);
          ds = takeWhile isdigit s;
          n = fold (\<lambda>c n. n * 10 + (of_char c - 48)) ds (0 :: int)
      in if ds = [] then None else Some (if neg then - n else n))"

definition cpp_stoul :: "string \<Rightarrow> u64 option" where
  "cpp_stoul s = do { n \<leftarrow> parse_int s; if \<bar>n\<bar> < 2 ^ 64 then Some (of_int n) else None }"

definition cpp_stoi :: "string \<Rightarrow> int option" where
  "cpp_stoi s = do { n \<leftarrow> parse_int s; if - (2 ^ 31) \<le> n \<and> n < 2 ^ 31 then Some n else None }"

section \<open>Properties\<close>

type_synonym Properties = "(string \<times> string) list"

definition GetProperty :: "string \<Rightarrow> string \<Rightarrow> Properties \<Rightarrow> string" where
  "GetProperty key default_value p = (case map_of p key of None \<Rightarrow> default_value | Some v \<Rightarrow> v)"

definition SetProperty :: "string \<Rightarrow> string \<Rightarrow> Properties \<Rightarrow> Properties" where
  "SetProperty key v p = amap_set key v p"

fun getlines :: "string \<Rightarrow> string \<Rightarrow> string list" where
  "getlines [] line = [line]"
| "getlines (c # cs) line = (if c = CHR 0x0A then line # getlines cs [] else getlines cs (line @ [c]))"

definition load_line :: "string \<Rightarrow> Properties \<Rightarrow> Properties" where
  "load_line line p =
     (if line \<noteq> [] \<and> hd line = CHR ''#'' then p
      else if CHR ''='' \<notin> set line then p
      else SetProperty (Trim (takeWhile (\<lambda>c. c \<noteq> CHR ''='') line)) (Trim (tl (dropWhile (\<lambda>c. c \<noteq> CHR ''='') line))) p)"

definition Properties_Load :: "string option \<Rightarrow> Properties \<Rightarrow> Properties option" where
  "Properties_Load input p =
     (case input of None \<Rightarrow> None | Some content \<Rightarrow> Some (fold load_line (getlines content []) p))"

section \<open>Random numbers\<close>

text \<open>
  The engines: a 64-bit Mersenne twister with its seed, its next number and a number between two
  bounds, the static engine of \<open>RandomDouble\<close>, and \<open>rand\<close>. The functions of doubles give no
  result where that is infinite or not a number.
\<close>

record ('g, 'r, 's) cpp_lib =
  mt_seed :: "u64 \<Rightarrow> 'g"
  mt_next :: "'g \<Rightarrow> u64 \<times> 'g"
  mt_uniform :: "u64 \<Rightarrow> u64 \<Rightarrow> 'g \<Rightarrow> u64 \<times> 'g"
  RandomDouble :: "'r \<Rightarrow> rat \<times> 'r"
  c_rand :: "'s \<Rightarrow> nat \<times> 's"
  c_pow :: "rat \<Rightarrow> rat \<Rightarrow> rat option"
  c_log :: "rat \<Rightarrow> rat option"
  c_stod :: "string \<Rightarrow> rat option"

definition default_seed :: u64 where "default_seed = 5489"

definition RandomPrintChar :: "('g, 'r, 's) cpp_lib \<Rightarrow> 's \<Rightarrow> char \<times> 's" where
  "RandomPrintChar L s = (let (n, s) = c_rand L s in (char_of (n mod 93 + 33), s))"

definition fdiv :: "rat \<Rightarrow> rat \<Rightarrow> rat option" where
  "fdiv a b = (if b = 0 then None else Some (a / b))"

text \<open>A double is cut to an integer; outside the range of the type that is undefined.\<close>

definition cut_u64 :: "rat \<Rightarrow> u64 option" where
  "cut_u64 x = (if - 1 < x \<and> x < 2 ^ 64 then Some (if x < 0 then 0 else of_int \<lfloor>x\<rfloor>) else None)"

definition dbl_u64 :: "u64 \<Rightarrow> rat" where
  "dbl_u64 n = of_nat (unat n)"

section \<open>Generators\<close>

subsection \<open>Constants, counters and uniform numbers\<close>

definition new_ConstGenerator :: "int \<Rightarrow> u64" where
  "new_ConstGenerator constant = of_int constant"

definition Counter_Next :: "u64 \<Rightarrow> u64 \<times> u64" where
  "Counter_Next counter = (counter, counter + 1)"

definition Counter_Last :: "u64 \<Rightarrow> u64" where
  "Counter_Last counter = counter - 1"

definition Counter_Set :: "u64 \<Rightarrow> u64 \<Rightarrow> u64" where
  "Counter_Set start counter = start"

record 'g UniformGenerator =
  ug_last_int :: u64
  ug_generator :: 'g
  ug_min :: u64
  ug_max :: u64

definition Uniform_Next :: "('g, 'r, 's) cpp_lib \<Rightarrow> 'g UniformGenerator \<Rightarrow> u64 \<times> 'g UniformGenerator" where
  "Uniform_Next L u =
     (let (n, g) = mt_uniform L (ug_min u) (ug_max u) (ug_generator u)
      in (n, u\<lparr>ug_last_int := n, ug_generator := g\<rparr>))"

text \<open>A distribution whose bounds are in the wrong order is undefined.\<close>

definition new_UniformGenerator :: "('g, 'r, 's) cpp_lib \<Rightarrow> u64 \<Rightarrow> u64 \<Rightarrow> 'g UniformGenerator option" where
  "new_UniformGenerator L lo hi =
     (if lo \<le> hi then
        Some (snd (Uniform_Next L \<lparr>ug_last_int = 0, ug_generator = mt_seed L default_seed, ug_min = lo, ug_max = hi\<rparr>))
      else None)"

subsection \<open>Weighted choice\<close>

record 'v DiscreteGenerator =
  dg_values :: "('v \<times> rat) list"
  dg_sum :: rat
  dg_last :: "'v option"

definition new_DiscreteGenerator :: "'v DiscreteGenerator" where
  "new_DiscreteGenerator = \<lparr>dg_values = [], dg_sum = 0, dg_last = None\<rparr>"

definition AddValue :: "'v \<Rightarrow> rat \<Rightarrow> 'v DiscreteGenerator \<Rightarrow> 'v DiscreteGenerator" where
  "AddValue v w d =
     (let d = (if dg_values d = [] then d\<lparr>dg_last := Some v\<rparr> else d)
      in d\<lparr>dg_values := dg_values d @ [(v, w)], dg_sum := dg_sum d + w\<rparr>)"

fun choose_value :: "rat \<Rightarrow> rat \<Rightarrow> ('v \<times> rat) list \<Rightarrow> 'v option" where
  "choose_value s chooser [] = None"
| "choose_value s chooser ((v, w) # ps) =
     (if chooser < w / s then Some v else choose_value s (chooser - w / s) ps)"

text \<open>
  With a sum of zero the first quotient is an infinity or not a number: a positive weight is
  chosen, after any other no comparison succeeds.
\<close>

definition pick_value :: "rat \<Rightarrow> rat \<Rightarrow> ('v \<times> rat) list \<Rightarrow> 'v option" where
  "pick_value s chooser ps =
     (if s = 0 then (case ps of (v, w) # _ \<Rightarrow> if w > 0 then Some v else None | [] \<Rightarrow> None)
      else choose_value s chooser ps)"

definition Discrete_Next ::
    "bool \<Rightarrow> ('g, 'r, 's) cpp_lib \<Rightarrow> 'v DiscreteGenerator \<Rightarrow> 'r \<Rightarrow> ('v \<times> 'v DiscreteGenerator \<times> 'r) option" where
  "Discrete_Next nd L d r =
     (let (chooser, r) = RandomDouble L r in
      case pick_value (dg_sum d) chooser (dg_values d) of
        Some v \<Rightarrow> Some (v, d\<lparr>dg_last := Some v\<rparr>, r)
      | None \<Rightarrow> do { _ \<leftarrow> cpp_assert nd False; v \<leftarrow> dg_last d; Some (v, d, r) })"

subsection \<open>Zipfian numbers\<close>

record ZipfianGenerator =
  zg_num_items :: u64
  zg_base :: u64
  zg_theta :: rat
  zg_zeta_n :: rat
  zg_eta :: "rat option"
  zg_alpha :: "rat option"
  zg_zeta_2 :: rat
  zg_n_for_zeta :: u64
  zg_last_value :: u64

definition kZipfianConst :: rat where "kZipfianConst = 9 / 10"
definition kMaxNumItems :: u64 where "kMaxNumItems = drop_bit 24 (- 1)"

definition Zeta :: "('g, 'r, 's) cpp_lib \<Rightarrow> u64 \<Rightarrow> u64 \<Rightarrow> rat \<Rightarrow> rat \<Rightarrow> rat option" where
  "Zeta L last_num cur_num theta last_zeta =
     foldM (\<lambda>i zeta. do { p \<leftarrow> c_pow L (of_nat i) theta; q \<leftarrow> fdiv 1 p; Some (zeta + q) })
       [unat (last_num + 1)..<unat cur_num + 1] last_zeta"

definition RaiseZeta :: "bool \<Rightarrow> ('g, 'r, 's) cpp_lib \<Rightarrow> u64 \<Rightarrow> ZipfianGenerator \<Rightarrow> ZipfianGenerator option" where
  "RaiseZeta nd L num z = do {
     _ \<leftarrow> cpp_assert nd (num \<ge> zg_n_for_zeta z);
     zeta \<leftarrow> Zeta L (zg_n_for_zeta z) num (zg_theta z) (zg_zeta_n z);
     Some (z\<lparr>zg_zeta_n := zeta, zg_n_for_zeta := num\<rparr>) }"

definition zipf_Eta :: "('g, 'r, 's) cpp_lib \<Rightarrow> ZipfianGenerator \<Rightarrow> rat option" where
  "zipf_Eta L z = do {
     q \<leftarrow> fdiv 2 (dbl_u64 (zg_num_items z));
     p \<leftarrow> c_pow L q (1 - zg_theta z);
     r \<leftarrow> fdiv (zg_zeta_2 z) (zg_zeta_n z);
     fdiv (1 - p) (1 - r) }"

definition zipf_raise :: "bool \<Rightarrow> ('g, 'r, 's) cpp_lib \<Rightarrow> u64 \<Rightarrow> ZipfianGenerator \<Rightarrow> ZipfianGenerator option" where
  "zipf_raise nd L num z =
     (if num > zg_n_for_zeta z then do { z \<leftarrow> RaiseZeta nd L num z; Some (z\<lparr>zg_eta := zipf_Eta L z\<rparr>) }
      else Some z)"

definition Zipfian_Next_of ::
    "bool \<Rightarrow> ('g, 'r, 's) cpp_lib \<Rightarrow> u64 \<Rightarrow> ZipfianGenerator \<Rightarrow> 'r \<Rightarrow> (u64 \<times> ZipfianGenerator \<times> 'r) option" where
  "Zipfian_Next_of nd L num z r = do {
     _ \<leftarrow> cpp_assert nd (num \<ge> 2 \<and> num < kMaxNumItems);
     z \<leftarrow> zipf_raise nd L num z;
     let (u, r) = RandomDouble L r;
     let uz = u * zg_zeta_n z;
     if uz < 1 then Some (0, z\<lparr>zg_last_value := 0\<rparr>, r)
     else do {
       half \<leftarrow> c_pow L (1 / 2) (zg_theta z);
       if uz < 1 + half then Some (1, z\<lparr>zg_last_value := 1\<rparr>, r)
       else do {
         eta \<leftarrow> zg_eta z;
         alpha \<leftarrow> zg_alpha z;
         p \<leftarrow> c_pow L (eta * u - eta + 1) alpha;
         v \<leftarrow> cut_u64 (dbl_u64 (zg_base z) + dbl_u64 num * p);
         Some (v, z\<lparr>zg_last_value := v\<rparr>, r) } } }"

definition Zipfian_Next ::
    "bool \<Rightarrow> ('g, 'r, 's) cpp_lib \<Rightarrow> ZipfianGenerator \<Rightarrow> 'r \<Rightarrow> (u64 \<times> ZipfianGenerator \<times> 'r) option" where
  "Zipfian_Next nd L z r = Zipfian_Next_of nd L (zg_num_items z) z r"

definition new_ZipfianGenerator ::
    "bool \<Rightarrow> ('g, 'r, 's) cpp_lib \<Rightarrow> u64 \<Rightarrow> u64 \<Rightarrow> rat \<Rightarrow> 'r \<Rightarrow> (ZipfianGenerator \<times> 'r) option" where
  "new_ZipfianGenerator nd L lo hi zipfian_const r = do {
     let n = hi - lo + 1;
     _ \<leftarrow> cpp_assert nd (n \<ge> 2 \<and> n < kMaxNumItems);
     zeta_2 \<leftarrow> Zeta L 0 2 zipfian_const 0;
     z \<leftarrow> RaiseZeta nd L n
       \<lparr>zg_num_items = n, zg_base = lo, zg_theta = zipfian_const, zg_zeta_n = 0, zg_eta = None,
        zg_alpha = fdiv 1 (1 - zipfian_const), zg_zeta_2 = zeta_2, zg_n_for_zeta = 0, zg_last_value = 0\<rparr>;
     let z = z\<lparr>zg_eta := zipf_Eta L z\<rparr>;
     (_, z, r) \<leftarrow> Zipfian_Next nd L z r;
     Some (z, r) }"

record ScrambledZipfianGenerator =
  sz_base :: u64
  sz_num_items :: u64
  sz_generator :: ZipfianGenerator
  sz_last :: u64

definition new_ScrambledZipfianGenerator ::
    "bool \<Rightarrow> ('g, 'r, 's) cpp_lib \<Rightarrow> u64 \<Rightarrow> 'r \<Rightarrow> (ScrambledZipfianGenerator \<times> 'r) option" where
  "new_ScrambledZipfianGenerator nd L num_items r = do {
     let lo = 0;
     let hi = num_items - 1;
     (z, r) \<leftarrow> new_ZipfianGenerator nd L lo hi kZipfianConst r;
     Some (\<lparr>sz_base = lo, sz_num_items = hi - lo + 1, sz_generator = z, sz_last = 0\<rparr>, r) }"

definition Scrambled_Next ::
    "bool \<Rightarrow> ('g, 'r, 's) cpp_lib \<Rightarrow> ScrambledZipfianGenerator \<Rightarrow> 'r \<Rightarrow> (u64 \<times> ScrambledZipfianGenerator \<times> 'r) option" where
  "Scrambled_Next nd L sz r = do {
     (v, z, r) \<leftarrow> Zipfian_Next nd L (sz_generator sz) r;
     _ \<leftarrow> (if sz_num_items sz = 0 then None else Some ());
     let v = sz_base sz + FNVHash64 v mod sz_num_items sz;
     Some (v, sz\<lparr>sz_generator := z, sz_last := v\<rparr>, r) }"

text \<open>The generator of latest items refers to the counter of the workload, which is passed to it.\<close>

record SkewedLatestGenerator =
  sl_zipfian :: ZipfianGenerator
  sl_last :: u64

definition Latest_Next ::
    "bool \<Rightarrow> ('g, 'r, 's) cpp_lib \<Rightarrow> u64 \<Rightarrow> SkewedLatestGenerator \<Rightarrow> 'r \<Rightarrow> (u64 \<times> SkewedLatestGenerator \<times> 'r) option" where
  "Latest_Next nd L basis sl r = do {
     let hi = Counter_Last basis;
     (n, z, r) \<leftarrow> Zipfian_Next_of nd L hi (sl_zipfian sl) r;
     let v = hi - n;
     Some (v, sl\<lparr>sl_zipfian := z, sl_last := v\<rparr>, r) }"

definition new_SkewedLatestGenerator ::
    "bool \<Rightarrow> ('g, 'r, 's) cpp_lib \<Rightarrow> u64 \<Rightarrow> 'r \<Rightarrow> (SkewedLatestGenerator \<times> 'r) option" where
  "new_SkewedLatestGenerator nd L basis r = do {
     (z, r) \<leftarrow> new_ZipfianGenerator nd L 0 (Counter_Last basis - 1) kZipfianConst r;
     (_, sl, r) \<leftarrow> Latest_Next nd L basis \<lparr>sl_zipfian = z, sl_last = 0\<rparr> r;
     Some (sl, r) }"

subsection \<open>Sizes by ratio and by a Pareto distribution\<close>

record 'g RatioGenerator =
  rg_last_int :: u64
  rg_generator :: 'g
  rg_dists :: "(u64 \<times> u64) list"
  rg_d :: "int DiscreteGenerator"

definition Ratio_Next ::
    "bool \<Rightarrow> ('g, 'r, 's) cpp_lib \<Rightarrow> 'g RatioGenerator \<Rightarrow> 'r \<Rightarrow> (u64 \<times> 'g RatioGenerator \<times> 'r) option" where
  "Ratio_Next nd L g r = do {
     (choosen, d, r) \<leftarrow> Discrete_Next nd L (rg_d g) r;
     let i = (if choosen = 1 then 0 else if choosen = 2 then 1 else if choosen = 3 then 2 else 1);
     let (lo, hi) = rg_dists g ! i;
     _ \<leftarrow> (if lo \<le> hi then Some () else None);
     let (n, e) = mt_uniform L lo hi (rg_generator g);
     Some (n, g\<lparr>rg_last_int := n, rg_generator := e, rg_d := d\<rparr>, r) }"

definition new_RatioGenerator ::
    "bool \<Rightarrow> ('g, 'r, 's) cpp_lib \<Rightarrow> rat \<Rightarrow> rat \<Rightarrow> rat \<Rightarrow> int \<Rightarrow> int \<Rightarrow> int \<Rightarrow> 'r \<Rightarrow> ('g RatioGenerator \<times> 'r) option" where
  "new_RatioGenerator nd L smallratio midratio largeratio smallsize midsize largesize r = do {
     _ \<leftarrow> (if smallsize + 1 < 2 ^ 31 \<and> midsize + 1 < 2 ^ 31 then Some () else None);
     let dists = [(1, of_int smallsize), (of_int (smallsize + 1), of_int midsize), (of_int (midsize + 1), of_int largesize)];
     _ \<leftarrow> (if list_all (\<lambda>(lo, hi). lo \<le> hi) dists then Some () else None);
     let d = AddValue 3 largeratio (AddValue 2 midratio (AddValue 1 smallratio new_DiscreteGenerator));
     (_, g, r) \<leftarrow> Ratio_Next nd L
       \<lparr>rg_last_int = 0, rg_generator = mt_seed L default_seed, rg_dists = dists, rg_d = d\<rparr> r;
     Some (g, r) }"

record 'g ParetoGenerator =
  pg_num :: u64
  pg_theta :: rat
  pg_k :: rat
  pg_sigma :: rat
  pg_last_value :: u64
  pg_max_value :: u64
  pg_rand :: 'g

definition pareto_draw :: "('g, 'r, 's) cpp_lib \<Rightarrow> 'g ParetoGenerator \<Rightarrow> (u64 \<times> 'g) option" where
  "pareto_draw L p = do {
     let (n, g) = mt_next L (pg_rand p);
     _ \<leftarrow> (if pg_num p = 0 then None else Some ());
     let rand_v = sint (n mod pg_num p);
     let u = of_int rand_v / dbl_u64 (pg_num p);
     ret \<leftarrow> (if pg_k p = 0 then do { l \<leftarrow> c_log L u; Some (pg_theta p - pg_sigma p * l) }
             else do { q \<leftarrow> c_pow L u (- 1 * pg_k p); Some (pg_theta p + pg_sigma p * (q - 1) / pg_k p) });
     let c = \<lceil>ret\<rceil>;
     if - (2 ^ 63) \<le> c \<and> c < 2 ^ 63 then Some (of_int c, g) else None }"

partial_function (option) Pareto_Next ::
    "('g, 'r, 's) cpp_lib \<Rightarrow> 'g ParetoGenerator \<Rightarrow> (u64 \<times> 'g ParetoGenerator) option" where
  "Pareto_Next L p = do {
     (v, g) \<leftarrow> pareto_draw L p;
     let p = p\<lparr>pg_rand := g\<rparr>;
     if v > pg_max_value p then Pareto_Next L p else Some (v, p\<lparr>pg_last_value := v\<rparr>) }"

definition new_ParetoGenerator ::
    "('g, 'r, 's) cpp_lib \<Rightarrow> u64 \<Rightarrow> rat \<Rightarrow> rat \<Rightarrow> rat \<Rightarrow> 'g ParetoGenerator option" where
  "new_ParetoGenerator L num theta k sigma =
     map_option snd (Pareto_Next L
       \<lparr>pg_num = num, pg_theta = theta, pg_k = k, pg_sigma = sigma, pg_last_value = 0,
        pg_max_value = 128 * 1024, pg_rand = mt_seed L 1000\<rparr>)"

subsection \<open>The common interface\<close>

datatype 'g Generator =
    ConstGenerator u64
  | CounterGenerator u64
  | Uniform "'g UniformGenerator"
  | Zipfian ZipfianGenerator
  | Scrambled ScrambledZipfianGenerator
  | SkewedLatest SkewedLatestGenerator
  | Ratio "'g RatioGenerator"
  | Pareto "'g ParetoGenerator"

text \<open>\<open>basis\<close> is the counter that a generator of latest items refers to.\<close>

fun Generator_Next ::
    "bool \<Rightarrow> ('g, 'r, 's) cpp_lib \<Rightarrow> u64 \<Rightarrow> 'g Generator \<Rightarrow> 'r \<Rightarrow> (u64 \<times> 'g Generator \<times> 'r) option" where
  "Generator_Next nd L basis (ConstGenerator c) r = Some (c, ConstGenerator c, r)"
| "Generator_Next nd L basis (CounterGenerator c) r = (let (n, c) = Counter_Next c in Some (n, CounterGenerator c, r))"
| "Generator_Next nd L basis (Uniform u) r = (let (n, u) = Uniform_Next L u in Some (n, Uniform u, r))"
| "Generator_Next nd L basis (Zipfian z) r = do { (n, z, r) \<leftarrow> Zipfian_Next nd L z r; Some (n, Zipfian z, r) }"
| "Generator_Next nd L basis (Scrambled z) r = do { (n, z, r) \<leftarrow> Scrambled_Next nd L z r; Some (n, Scrambled z, r) }"
| "Generator_Next nd L basis (SkewedLatest z) r = do { (n, z, r) \<leftarrow> Latest_Next nd L basis z r; Some (n, SkewedLatest z, r) }"
| "Generator_Next nd L basis (Ratio g) r = do { (n, g, r) \<leftarrow> Ratio_Next nd L g r; Some (n, Ratio g, r) }"
| "Generator_Next nd L basis (Pareto p) r = do { (n, p) \<leftarrow> Pareto_Next L p; Some (n, Pareto p, r) }"

fun Generator_Last :: "'g Generator \<Rightarrow> u64" where
  "Generator_Last (ConstGenerator c) = c"
| "Generator_Last (CounterGenerator c) = Counter_Last c"
| "Generator_Last (Uniform u) = ug_last_int u"
| "Generator_Last (Zipfian z) = zg_last_value z"
| "Generator_Last (Scrambled z) = sz_last z"
| "Generator_Last (SkewedLatest z) = sl_last z"
| "Generator_Last (Ratio g) = rg_last_int g"
| "Generator_Last (Pareto p) = pg_last_value p"

section \<open>The workload\<close>

datatype Operation = INSERT | READ | UPDATE | SCAN | READMODIFYWRITE

text \<open>The object, with the two random engines of the process. A generator that is not set yet is \<open>None\<close>.\<close>

record ('g, 'r, 's) CoreWorkload =
  wl_table_name :: string
  wl_field_count :: int
  wl_read_all_fields :: bool
  wl_write_all_fields :: bool
  wl_field_len_generator :: "'g Generator option"
  wl_key_generator :: "'g Generator option"
  wl_op_chooser :: "Operation DiscreteGenerator"
  wl_key_chooser :: "'g Generator option"
  wl_field_chooser :: "'g Generator option"
  wl_scan_len_chooser :: "'g Generator option"
  wl_insert_key_sequence :: u64
  wl_ordered_inserts :: bool
  wl_record_count :: u64
  wl_operation_count :: u64
  wl_is_run_phase :: bool
  wl_engine :: 'r
  wl_rand :: 's

definition new_CoreWorkload :: "'r \<Rightarrow> 's \<Rightarrow> ('g, 'r, 's) CoreWorkload" where
  "new_CoreWorkload r s =
     \<lparr>wl_table_name = [], wl_field_count = 0, wl_read_all_fields = False, wl_write_all_fields = False,
      wl_field_len_generator = None, wl_key_generator = None, wl_op_chooser = new_DiscreteGenerator,
      wl_key_chooser = None, wl_field_chooser = None, wl_scan_len_chooser = None,
      wl_insert_key_sequence = 3, wl_ordered_inserts = True, wl_record_count = 0,
      wl_operation_count = 0, wl_is_run_phase = False, wl_engine = r, wl_rand = s\<rparr>"

definition get_double :: "('g, 'r, 's) cpp_lib \<Rightarrow> Properties \<Rightarrow> string \<Rightarrow> string \<Rightarrow> rat option" where
  "get_double L p key d = c_stod L (GetProperty key d p)"

definition get_int :: "Properties \<Rightarrow> string \<Rightarrow> string \<Rightarrow> int option" where
  "get_int p key d = cpp_stoi (GetProperty key d p)"

definition pareto_num :: "('g, 'r, 's) cpp_lib \<Rightarrow> Properties \<Rightarrow> ('g, 'r, 's) CoreWorkload \<Rightarrow> u64 option" where
  "pareto_num L p w =
     (if wl_is_run_phase w then do {
        update_proportion \<leftarrow> get_double L p ''updateproportion'' ''0.05'';
        insert_proportion \<leftarrow> get_double L p ''insertproportion'' ''0.0'';
        num \<leftarrow> cut_u64 (dbl_u64 (wl_operation_count w) * (update_proportion + insert_proportion));
        Some (if num = 0 then wl_record_count w else num) }
      else Some (wl_record_count w))"

definition GetFieldLenGenerator ::
    "bool \<Rightarrow> ('g, 'r, 's) cpp_lib \<Rightarrow> Properties \<Rightarrow> ('g, 'r, 's) CoreWorkload \<Rightarrow> ('g Generator \<times> 'r) option" where
  "GetFieldLenGenerator nd L p w = do {
     let field_len_dist = GetProperty ''field_len_dist'' ''constant'' p;
     field_len \<leftarrow> get_int p ''fieldlength'' ''100'';
     let r = wl_engine w;
     if field_len_dist = ''constant'' then Some (ConstGenerator (new_ConstGenerator field_len), r)
     else if field_len_dist = ''uniform'' then do {
       u \<leftarrow> new_UniformGenerator L 1 (of_int field_len); Some (Uniform u, r) }
     else if field_len_dist = ''zipfian'' then do {
       (z, r) \<leftarrow> new_ZipfianGenerator nd L 1 (of_int field_len) kZipfianConst r; Some (Zipfian z, r) }
     else if field_len_dist = ''ratio'' then do {
       small_ratio \<leftarrow> get_double L p ''smallproportion'' [];
       mid_ratio \<leftarrow> get_double L p ''midproportion'' [];
       large_ratio \<leftarrow> get_double L p ''largeproportion'' [];
       small_size \<leftarrow> get_int p ''smallsize'' [];
       mid_size \<leftarrow> get_int p ''midsize'' [];
       large_size \<leftarrow> get_int p ''largesize'' [];
       (g, r) \<leftarrow> new_RatioGenerator nd L small_ratio mid_ratio large_ratio small_size mid_size large_size r;
       Some (Ratio g, r) }
     else if field_len_dist = ''pareto'' then do {
       k \<leftarrow> get_double L p ''pareto_k'' [];
       theta \<leftarrow> get_double L p ''pareto_theta'' [];
       sigma \<leftarrow> get_double L p ''pareto_sigma'' [];
       num \<leftarrow> pareto_num L p w;
       g \<leftarrow> new_ParetoGenerator L num theta k sigma;
       Some (Pareto g, r) }
     else None }"

definition add_operation :: "Operation \<Rightarrow> rat \<Rightarrow> Operation DiscreteGenerator \<Rightarrow> Operation DiscreteGenerator" where
  "add_operation x proportion d = (if proportion > 0 then AddValue x proportion d else d)"

definition new_key_chooser ::
    "bool \<Rightarrow> ('g, 'r, 's) cpp_lib \<Rightarrow> Properties \<Rightarrow> string \<Rightarrow> rat \<Rightarrow> ('g, 'r, 's) CoreWorkload \<Rightarrow> ('g Generator \<times> 'r) option" where
  "new_key_chooser nd L p request_dist insert_proportion w =
     (let r = wl_engine w in
      if request_dist = ''uniform'' then do {
        u \<leftarrow> new_UniformGenerator L 0 (wl_record_count w - 1); Some (Uniform u, r) }
      else if request_dist = ''zipfian'' then do {
        op_count \<leftarrow> get_int p ''operationcount'' [];
        let x = of_int op_count * insert_proportion * 2;
        let new_keys = (if x < 0 then \<lceil>x\<rceil> else \<lfloor>x\<rfloor>);
        _ \<leftarrow> (if - (2 ^ 31) \<le> new_keys \<and> new_keys < 2 ^ 31 then Some () else None);
        (z, r) \<leftarrow> new_ScrambledZipfianGenerator nd L (wl_record_count w + of_int new_keys) r;
        Some (Scrambled z, r) }
      else if request_dist = ''latest'' then do {
        (z, r) \<leftarrow> new_SkewedLatestGenerator nd L (wl_insert_key_sequence w) r; Some (SkewedLatest z, r) }
      else None)"

definition new_scan_len_chooser ::
    "bool \<Rightarrow> ('g, 'r, 's) cpp_lib \<Rightarrow> string \<Rightarrow> int \<Rightarrow> 'r \<Rightarrow> ('g Generator \<times> 'r) option" where
  "new_scan_len_chooser nd L scan_len_dist max_scan_len r =
     (if scan_len_dist = ''uniform'' then do {
        u \<leftarrow> new_UniformGenerator L 1 (of_int max_scan_len); Some (Uniform u, r) }
      else if scan_len_dist = ''zipfian'' then do {
        (z, r) \<leftarrow> new_ZipfianGenerator nd L 1 (of_int max_scan_len) kZipfianConst r; Some (Zipfian z, r) }
      else if scan_len_dist = ''constant'' then do {
        u \<leftarrow> new_UniformGenerator L (of_int max_scan_len) (of_int max_scan_len); Some (Uniform u, r) }
      else None)"

definition Workload_Init ::
    "bool \<Rightarrow> ('g, 'r, 's) cpp_lib \<Rightarrow> Properties \<Rightarrow> bool \<Rightarrow> ('g, 'r, 's) CoreWorkload \<Rightarrow> ('g, 'r, 's) CoreWorkload option" where
  "Workload_Init nd L p run_phase w = do {
     let w = (if run_phase then w\<lparr>wl_is_run_phase := True\<rparr> else w);
     let w = w\<lparr>wl_table_name := GetProperty ''table'' ''usertable'' p\<rparr>;
     field_count \<leftarrow> cpp_stoul (GetProperty ''fieldcount'' ''1'' p);
     record_count \<leftarrow> cpp_stoul (GetProperty ''recordcount'' [] p);
     operation_count \<leftarrow> cpp_stoul (GetProperty ''operationcount'' [] p);
     let w = w\<lparr>wl_field_count := sint (ucast field_count :: 32 word), wl_record_count := record_count,
              wl_operation_count := operation_count\<rparr>;
     (g, r) \<leftarrow> GetFieldLenGenerator nd L p w;
     let w = w\<lparr>wl_field_len_generator := Some g, wl_engine := r\<rparr>;
     read_proportion \<leftarrow> get_double L p ''readproportion'' ''0.95'';
     update_proportion \<leftarrow> get_double L p ''updateproportion'' ''0.05'';
     insert_proportion \<leftarrow> get_double L p ''insertproportion'' ''0.0'';
     scan_proportion \<leftarrow> get_double L p ''scanproportion'' ''0.0'';
     readmodifywrite_proportion \<leftarrow> get_double L p ''readmodifywriteproportion'' ''0.0'';
     let request_dist = GetProperty ''requestdistribution'' ''uniform'' p;
     max_scan_len \<leftarrow> get_int p ''maxscanlength'' ''1000'';
     let scan_len_dist = GetProperty ''scanlengthdistribution'' ''uniform'' p;
     insert_start \<leftarrow> get_int p ''insertstart'' ''0'';
     read_all \<leftarrow> StrToBool (GetProperty ''readallfields'' ''true'' p);
     write_all \<leftarrow> StrToBool (GetProperty ''writeallfields'' ''false'' p);
     let w = w\<lparr>wl_read_all_fields := read_all, wl_write_all_fields := write_all,
              wl_ordered_inserts := GetProperty ''insertorder'' ''hashed'' p \<noteq> ''hashed'',
              wl_key_generator := Some (CounterGenerator (of_int insert_start)),
              wl_op_chooser := add_operation READMODIFYWRITE readmodifywrite_proportion
                (add_operation SCAN scan_proportion (add_operation INSERT insert_proportion
                (add_operation UPDATE update_proportion (add_operation READ read_proportion (wl_op_chooser w))))),
              wl_insert_key_sequence := Counter_Set (wl_record_count w) (wl_insert_key_sequence w)\<rparr>;
     (kc, r) \<leftarrow> new_key_chooser nd L p request_dist insert_proportion w;
     let w = w\<lparr>wl_key_chooser := Some kc, wl_engine := r\<rparr>;
     _ \<leftarrow> (if wl_field_count w = - (2 ^ 31) then None else Some ());
     fc \<leftarrow> new_UniformGenerator L 0 (of_int (wl_field_count w - 1));
     let w = w\<lparr>wl_field_chooser := Some (Uniform fc)\<rparr>;
     (sc, r) \<leftarrow> new_scan_len_chooser nd L scan_len_dist max_scan_len (wl_engine w);
     Some (w\<lparr>wl_scan_len_chooser := Some sc, wl_engine := r\<rparr>) }"

definition BuildKeyName :: "('g, 'r, 's) CoreWorkload \<Rightarrow> u64 \<Rightarrow> string" where
  "BuildKeyName w key_num =
     (let key_num = (if \<not> wl_ordered_inserts w then utils_Hash key_num else key_num)
      in ''user'' @ to_string key_num)"

definition NextSequenceKey ::
    "bool \<Rightarrow> ('g, 'r, 's) cpp_lib \<Rightarrow> ('g, 'r, 's) CoreWorkload \<Rightarrow> (string \<times> ('g, 'r, 's) CoreWorkload) option" where
  "NextSequenceKey nd L w = do {
     g \<leftarrow> wl_key_generator w;
     (key_num, g, r) \<leftarrow> Generator_Next nd L (wl_insert_key_sequence w) g (wl_engine w);
     Some (BuildKeyName w key_num, w\<lparr>wl_key_generator := Some g, wl_engine := r\<rparr>) }"

text \<open>Numbers are drawn until one is not above the last key; that may never happen.\<close>

partial_function (option) draw_key ::
    "bool \<Rightarrow> ('g, 'r, 's) cpp_lib \<Rightarrow> u64 \<Rightarrow> 'g Generator \<Rightarrow> 'r \<Rightarrow> (u64 \<times> 'g Generator \<times> 'r) option" where
  "draw_key nd L basis g r = do {
     (key_num, g, r) \<leftarrow> Generator_Next nd L basis g r;
     if key_num > Counter_Last basis then draw_key nd L basis g r else Some (key_num, g, r) }"

definition NextTransactionKey ::
    "bool \<Rightarrow> ('g, 'r, 's) cpp_lib \<Rightarrow> ('g, 'r, 's) CoreWorkload \<Rightarrow> (string \<times> ('g, 'r, 's) CoreWorkload) option" where
  "NextTransactionKey nd L w = do {
     g \<leftarrow> wl_key_chooser w;
     (key_num, g, r) \<leftarrow> draw_key nd L (wl_insert_key_sequence w) g (wl_engine w);
     Some (BuildKeyName w key_num, w\<lparr>wl_key_chooser := Some g, wl_engine := r\<rparr>) }"

definition NextOperation ::
    "bool \<Rightarrow> ('g, 'r, 's) cpp_lib \<Rightarrow> ('g, 'r, 's) CoreWorkload \<Rightarrow> (Operation \<times> ('g, 'r, 's) CoreWorkload) option" where
  "NextOperation nd L w = do {
     (x, d, r) \<leftarrow> Discrete_Next nd L (wl_op_chooser w) (wl_engine w);
     Some (x, w\<lparr>wl_op_chooser := d, wl_engine := r\<rparr>) }"

definition NextFieldName ::
    "bool \<Rightarrow> ('g, 'r, 's) cpp_lib \<Rightarrow> ('g, 'r, 's) CoreWorkload \<Rightarrow> (string \<times> ('g, 'r, 's) CoreWorkload) option" where
  "NextFieldName nd L w = do {
     g \<leftarrow> wl_field_chooser w;
     (n, g, r) \<leftarrow> Generator_Next nd L (wl_insert_key_sequence w) g (wl_engine w);
     Some (''field'' @ to_string n, w\<lparr>wl_field_chooser := Some g, wl_engine := r\<rparr>) }"

definition NextScanLength ::
    "bool \<Rightarrow> ('g, 'r, 's) cpp_lib \<Rightarrow> ('g, 'r, 's) CoreWorkload \<Rightarrow> (u64 \<times> ('g, 'r, 's) CoreWorkload) option" where
  "NextScanLength nd L w = do {
     g \<leftarrow> wl_scan_len_chooser w;
     (n, g, r) \<leftarrow> Generator_Next nd L (wl_insert_key_sequence w) g (wl_engine w);
     Some (n, w\<lparr>wl_scan_len_chooser := Some g, wl_engine := r\<rparr>) }"

definition next_value ::
    "bool \<Rightarrow> ('g, 'r, 's) cpp_lib \<Rightarrow> ('g, 'r, 's) CoreWorkload \<Rightarrow> (string \<times> ('g, 'r, 's) CoreWorkload) option" where
  "next_value nd L w = do {
     g \<leftarrow> wl_field_len_generator w;
     (n, g, r) \<leftarrow> Generator_Next nd L (wl_insert_key_sequence w) g (wl_engine w);
     let (c, s) = RandomPrintChar L (wl_rand w);
     Some (replicate (unat n) c, w\<lparr>wl_field_len_generator := Some g, wl_engine := r, wl_rand := s\<rparr>) }"

definition field_name :: "nat \<Rightarrow> string" where
  "field_name i = ''field'' @ nat_to_string i"

fun build_values ::
    "bool \<Rightarrow> ('g, 'r, 's) cpp_lib \<Rightarrow> nat list \<Rightarrow> ('g, 'r, 's) CoreWorkload \<Rightarrow> ((string \<times> string) list \<times> ('g, 'r, 's) CoreWorkload) option" where
  "build_values nd L [] w = Some ([], w)"
| "build_values nd L (i # is) w = do {
     (v, w) \<leftarrow> next_value nd L w;
     (vs, w) \<leftarrow> build_values nd L is w;
     Some ((field_name i, v) # vs, w) }"

definition BuildValues ::
    "bool \<Rightarrow> ('g, 'r, 's) cpp_lib \<Rightarrow> ('g, 'r, 's) CoreWorkload \<Rightarrow> ((string \<times> string) list \<times> ('g, 'r, 's) CoreWorkload) option" where
  "BuildValues nd L w = build_values nd L [0..<nat (wl_field_count w)] w"

definition BuildUpdate ::
    "bool \<Rightarrow> ('g, 'r, 's) cpp_lib \<Rightarrow> ('g, 'r, 's) CoreWorkload \<Rightarrow> ((string \<times> string) list \<times> ('g, 'r, 's) CoreWorkload) option" where
  "BuildUpdate nd L w = do {
     (f, w) \<leftarrow> NextFieldName nd L w;
     (v, w) \<leftarrow> next_value nd L w;
     Some ([(f, v)], w) }"

section \<open>The client\<close>

text \<open>The interface of a database; reads and scans also return what they found.\<close>

record 'd DB =
  db_Read :: "string \<Rightarrow> string \<Rightarrow> string list option \<Rightarrow> 'd \<Rightarrow> int \<times> (string \<times> string) list \<times> 'd"
  db_Scan :: "string \<Rightarrow> string \<Rightarrow> int \<Rightarrow> string list option \<Rightarrow> 'd \<Rightarrow> int \<times> (string \<times> string) list list \<times> 'd"
  db_Update :: "string \<Rightarrow> string \<Rightarrow> (string \<times> string) list \<Rightarrow> 'd \<Rightarrow> int \<times> 'd"
  db_Insert :: "string \<Rightarrow> string \<Rightarrow> (string \<times> string) list \<Rightarrow> 'd \<Rightarrow> int \<times> 'd"
  db_Delete :: "string \<Rightarrow> string \<Rightarrow> 'd \<Rightarrow> int \<times> 'd"

record ('g, 'r, 's, 'd) Client =
  cl_db :: 'd
  cl_workload :: "('g, 'r, 's) CoreWorkload"
  ops_cnt :: "Operation \<Rightarrow> int"

text \<open>A number is an \<open>int\<close> of 32 bits where the source narrows it.\<close>

definition cl_fields ::
    "bool \<Rightarrow> ('g, 'r, 's) cpp_lib \<Rightarrow> ('g, 'r, 's) CoreWorkload \<Rightarrow> (string list option \<times> ('g, 'r, 's) CoreWorkload) option" where
  "cl_fields nd L w =
     (if \<not> wl_read_all_fields w then do {
        (f, w) \<leftarrow> NextFieldName nd L w;
        Some (Some [''field'' @ f], w) }
      else Some (None, w))"

definition cl_values ::
    "bool \<Rightarrow> ('g, 'r, 's) cpp_lib \<Rightarrow> ('g, 'r, 's) CoreWorkload \<Rightarrow> ((string \<times> string) list \<times> ('g, 'r, 's) CoreWorkload) option" where
  "cl_values nd L w = (if wl_write_all_fields w then BuildValues nd L w else BuildUpdate nd L w)"

definition TransactionRead ::
    "bool \<Rightarrow> ('g, 'r, 's) cpp_lib \<Rightarrow> 'd DB \<Rightarrow> ('g, 'r, 's, 'd) Client \<Rightarrow> (int \<times> ('g, 'r, 's, 'd) Client) option" where
  "TransactionRead nd L D c = do {
     let w = cl_workload c;
     let table = wl_table_name w;
     (key, w) \<leftarrow> NextTransactionKey nd L w;
     (fs, w) \<leftarrow> cl_fields nd L w;
     let (status, _, db) = db_Read D table key fs (cl_db c);
     Some (status, c\<lparr>cl_db := db, cl_workload := w\<rparr>) }"

definition TransactionReadModifyWrite ::
    "bool \<Rightarrow> ('g, 'r, 's) cpp_lib \<Rightarrow> 'd DB \<Rightarrow> ('g, 'r, 's, 'd) Client \<Rightarrow> (int \<times> ('g, 'r, 's, 'd) Client) option" where
  "TransactionReadModifyWrite nd L D c = do {
     let w = cl_workload c;
     let table = wl_table_name w;
     (key, w) \<leftarrow> NextTransactionKey nd L w;
     (fs, w) \<leftarrow> cl_fields nd L w;
     let (_, _, db) = db_Read D table key fs (cl_db c);
     (values, w) \<leftarrow> cl_values nd L w;
     let (status, db) = db_Update D table key values db;
     Some (status, c\<lparr>cl_db := db, cl_workload := w\<rparr>) }"

definition TransactionScan ::
    "bool \<Rightarrow> ('g, 'r, 's) cpp_lib \<Rightarrow> 'd DB \<Rightarrow> ('g, 'r, 's, 'd) Client \<Rightarrow> (int \<times> ('g, 'r, 's, 'd) Client) option" where
  "TransactionScan nd L D c = do {
     let w = cl_workload c;
     let table = wl_table_name w;
     (key, w) \<leftarrow> NextTransactionKey nd L w;
     (len, w) \<leftarrow> NextScanLength nd L w;
     (fs, w) \<leftarrow> cl_fields nd L w;
     let (status, _, db) = db_Scan D table key (sint (ucast len :: 32 word)) fs (cl_db c);
     Some (status, c\<lparr>cl_db := db, cl_workload := w\<rparr>) }"

definition TransactionUpdate ::
    "bool \<Rightarrow> ('g, 'r, 's) cpp_lib \<Rightarrow> 'd DB \<Rightarrow> ('g, 'r, 's, 'd) Client \<Rightarrow> (int \<times> ('g, 'r, 's, 'd) Client) option" where
  "TransactionUpdate nd L D c = do {
     let w = cl_workload c;
     let table = wl_table_name w;
     (key, w) \<leftarrow> NextTransactionKey nd L w;
     (values, w) \<leftarrow> cl_values nd L w;
     let (status, db) = db_Update D table key values (cl_db c);
     Some (status, c\<lparr>cl_db := db, cl_workload := w\<rparr>) }"

definition TransactionInsert ::
    "bool \<Rightarrow> ('g, 'r, 's) cpp_lib \<Rightarrow> 'd DB \<Rightarrow> ('g, 'r, 's, 'd) Client \<Rightarrow> (int \<times> ('g, 'r, 's, 'd) Client) option" where
  "TransactionInsert nd L D c = do {
     let w = cl_workload c;
     let table = wl_table_name w;
     (key, w) \<leftarrow> NextSequenceKey nd L w;
     (values, w) \<leftarrow> BuildValues nd L w;
     let (status, db) = db_Insert D table key values (cl_db c);
     Some (status, c\<lparr>cl_db := db, cl_workload := w\<rparr>) }"

text \<open>The insertion is the argument of an assertion: a release build does not run it.\<close>

definition DoInsert ::
    "bool \<Rightarrow> ('g, 'r, 's) cpp_lib \<Rightarrow> 'd DB \<Rightarrow> ('g, 'r, 's, 'd) Client \<Rightarrow> (Operation \<times> ('g, 'r, 's, 'd) Client) option" where
  "DoInsert nd L D c = do {
     (key, w) \<leftarrow> NextSequenceKey nd L (cl_workload c);
     (pairs, w) \<leftarrow> BuildValues nd L w;
     let c = c\<lparr>cl_workload := w\<rparr>;
     if nd then Some (INSERT, c)
     else do {
       let (status, db) = db_Insert D (wl_table_name w) key pairs (cl_db c);
       _ \<leftarrow> cpp_assert nd (status \<ge> 0);
       Some (INSERT, c\<lparr>cl_db := db\<rparr>) } }"

fun count_op :: "Operation \<Rightarrow> (Operation \<Rightarrow> int) \<Rightarrow> Operation \<Rightarrow> int" where
  "count_op READ n = n(READ := n READ + 1)"
| "count_op UPDATE n = n(INSERT := n INSERT + 1)"
| "count_op INSERT n = n(INSERT := n INSERT + 1)"
| "count_op SCAN n = n(SCAN := n SCAN + 1)"
| "count_op READMODIFYWRITE n = n"

fun run_transaction ::
    "bool \<Rightarrow> ('g, 'r, 's) cpp_lib \<Rightarrow> 'd DB \<Rightarrow> Operation \<Rightarrow> ('g, 'r, 's, 'd) Client \<Rightarrow> (int \<times> ('g, 'r, 's, 'd) Client) option" where
  "run_transaction nd L D READ c = TransactionRead nd L D c"
| "run_transaction nd L D UPDATE c = TransactionUpdate nd L D c"
| "run_transaction nd L D INSERT c = TransactionInsert nd L D c"
| "run_transaction nd L D SCAN c = TransactionScan nd L D c"
| "run_transaction nd L D READMODIFYWRITE c = TransactionReadModifyWrite nd L D c"

definition DoTransaction ::
    "bool \<Rightarrow> ('g, 'r, 's) cpp_lib \<Rightarrow> 'd DB \<Rightarrow> ('g, 'r, 's, 'd) Client \<Rightarrow> (Operation \<times> ('g, 'r, 's, 'd) Client) option" where
  "DoTransaction nd L D c = do {
     (operation_type, w) \<leftarrow> NextOperation nd L (cl_workload c);
     (x, w) \<leftarrow> NextOperation nd L w;
     (status, c) \<leftarrow> run_transaction nd L D x (c\<lparr>cl_workload := w\<rparr>);
     let c = c\<lparr>ops_cnt := count_op x (ops_cnt c)\<rparr>;
     _ \<leftarrow> cpp_assert nd (status \<ge> 0);
     Some (operation_type, c) }"

text \<open>The in-memory store as such a database.\<close>

definition hashtable_db :: "HashtableDB DB" where
  "hashtable_db = \<lparr>
     db_Read = (\<lambda>table key fs db. let (r, res) = HashtableDB_Read table key fs [] db in (r, res, db)),
     db_Scan = (\<lambda>table key n fs db. let (r, res) = HashtableDB_Scan table key n fs db in (r, res, db)),
     db_Update = HashtableDB_Update,
     db_Insert = HashtableDB_Insert,
     db_Delete = HashtableDB_Delete\<rparr>"

section \<open>What the parts do\<close>

text \<open>Trimming removes the white space on both sides and nothing else.\<close>

lemma Trim_core:
  assumes "list_all isspace a" "list_all isspace b" "s \<noteq> []" "\<not> isspace (hd s)" "\<not> isspace (last s)"
  shows "Trim (a @ s @ b) = s"
proof -
  have d: "dropWhile isspace (xs @ ys) = ys"
    if "list_all isspace xs" "ys \<noteq> []" "\<not> isspace (hd ys)" for xs ys
    using that by (cases ys) (auto simp: list_all_iff dropWhile_append2)
  have "dropWhile isspace (rev b @ rev s) = rev s"
    using assms by (intro d) (auto simp: hd_rev)
  then show ?thesis
    using assms d [of a "s @ b"] by (simp add: Trim_def)
qed

text \<open>A weighted choice with positive weights always finds a value.\<close>

lemma choose_value_total:
  assumes "0 < s" "0 \<le> chooser" "chooser < sum_list (map snd ps) / s"
  shows "\<exists>v. choose_value s chooser ps = Some v \<and> v \<in> fst ` set ps"
  using assms(2,3)
proof (induction ps arbitrary: chooser)
  case (Cons p ps)
  obtain v w where p: "p = (v, w)"
    by fastforce
  show ?case
  proof (cases "chooser < w / s")
    case False
    then have "0 \<le> chooser - w / s" "chooser - w / s < sum_list (map snd ps) / s"
      using Cons.prems(2) by (simp_all add: p add_divide_distrib)
    from Cons.IH [OF this] False show ?thesis
      by (auto simp: p)
  qed (simp add: p)
qed (use assms(1) in auto)

definition chooser_ok :: "'v DiscreteGenerator \<Rightarrow> bool" where
  "chooser_ok d = (list_all (\<lambda>(_, w). 0 < w) (dg_values d) \<and> dg_sum d = sum_list (map snd (dg_values d)))"

lemma chooser_ok_new [simp]: "chooser_ok new_DiscreteGenerator"
  by (simp add: chooser_ok_def new_DiscreteGenerator_def)

lemma chooser_ok_add: "chooser_ok d \<Longrightarrow> chooser_ok (add_operation x p d)"
  by (simp add: chooser_ok_def add_operation_def AddValue_def Let_def)

lemma Discrete_Next_total:
  fixes d :: "'v DiscreteGenerator"
  assumes "chooser_ok d" "dg_values d \<noteq> []" "RandomDouble L r = (u, r')" "0 \<le> u" "u < 1"
  shows "\<exists>v. Discrete_Next nd L d r = Some (v, d\<lparr>dg_last := Some v\<rparr>, r') \<and> v \<in> fst ` set (dg_values d)"
proof -
  have "0 < sum_list (map snd ps)" if "list_all (\<lambda>(_, w). 0 < w) ps" "ps \<noteq> []" for ps :: "('v \<times> rat) list"
    using that
  proof (induction ps)
    case (Cons p ps)
    then show ?case
      by (cases ps) auto
  qed simp
  then have s: "0 < dg_sum d"
    using assms(1,2) by (simp add: chooser_ok_def)
  moreover have "u < sum_list (map snd (dg_values d)) / dg_sum d"
    using s assms(1,5) by (simp add: chooser_ok_def)
  ultimately obtain v where "choose_value (dg_sum d) u (dg_values d) = Some v" "v \<in> fst ` set (dg_values d)"
    using choose_value_total [OF _ assms(4)] by blast
  with s show ?thesis
    by (simp add: Discrete_Next_def assms(3) pick_value_def)
qed

text \<open>A key drawn is never above the last key; a uniform choice within the keys is taken at once.\<close>

lemma draw_key_uniform:
  assumes "mt_uniform L (ug_min u) (ug_max u) (ug_generator u) = (n, g)" "n \<le> ug_max u" "ug_max u \<le> Counter_Last basis"
  shows "draw_key nd L basis (Uniform u) r = Some (n, Uniform (u\<lparr>ug_last_int := n, ug_generator := g\<rparr>), r)"
  using assms by (subst draw_key.simps) (auto simp: Uniform_Next_def)

lemma draw_key_bound:
  assumes "draw_key nd L basis g r = Some y"
  shows "fst y \<le> Counter_Last basis"
proof (rule draw_key.raw_induct [where P = "\<lambda>nd L basis g r y. fst y \<le> Counter_Last basis", OF _ assms])
  fix draw and nd and L :: "('a, 'b, 'c) cpp_lib" and basis and g :: "'a Generator" and r :: 'b and y
  assume "\<And>nd L basis g r y. draw nd L basis g r = Some y \<Longrightarrow> fst y \<le> Counter_Last basis"
    and "Generator_Next nd L basis g r \<bind>
       (\<lambda>(n, g, r). if Counter_Last basis < n then draw nd L basis g r else Some (n, g, r)) = Some y"
  then show "fst y \<le> Counter_Last basis"
    by (cases y) (auto simp: bind_eq_Some_conv split: if_splits)
qed

text \<open>The number below which a generator of Zipfian numbers starts is not respected.\<close>

lemma zipfian_below_its_minimum:
  assumes "2 \<le> num" "num < kMaxNumItems" "num \<le> zg_n_for_zeta z" "RandomDouble L r = (u, r')" "u * zg_zeta_n z < 1"
  shows "Zipfian_Next_of nd L num z r = Some (0, z\<lparr>zg_last_value := 0\<rparr>, r')"
  using assms by (simp add: Zipfian_Next_of_def zipf_raise_def leD)

text \<open>A release build loads nothing, because the insertion is inside an assertion.\<close>

lemma release_build_loads_nothing: "DoInsert True L D c = Some (x, c') \<Longrightarrow> cl_db c' = cl_db c"
  by (auto simp: DoInsert_def bind_eq_Some_conv)

text \<open>
  The name that a read of one field asks for has the prefix \<open>field\<close> twice: none of the fields that
  the workload writes has that name.
\<close>

lemma nat_to_string_digit: "\<exists>c cs. nat_to_string n = c # cs \<and> isdigit c"
proof (induction n rule: nat_to_string.induct)
  case (1 n)
  show ?case
  proof (cases "n < 10")
    case True
    then show ?thesis
      by (subst nat_to_string.simps) (auto simp: isdigit_def)
  next
    case False
    then show ?thesis
      using 1 by (subst nat_to_string.simps) auto
  qed
qed

lemma field_name_single: "field_name i \<noteq> ''fieldfield'' @ n"
proof
  assume "field_name i = ''fieldfield'' @ n"
  then have "nat_to_string i = ''field'' @ n"
    by (simp add: field_name_def)
  with nat_to_string_digit [of i] show False
    by (auto simp: isdigit_def)
qed

lemma build_values_names: "build_values nd L is w = Some (vs, w') \<Longrightarrow> map fst vs = map field_name is"
  by (induction "is" arbitrary: w vs) (auto simp: bind_eq_Some_conv)

lemma requested_field_not_written:
  assumes "cl_fields nd L w = Some (Some fs, w')" "BuildValues nd L u = Some (vs, u')"
  shows "set fs \<inter> fst ` set vs = {}"
proof -
  obtain n where fs: "fs = [''fieldfield'' @ n]"
    using assms(1) by (auto simp: cl_fields_def NextFieldName_def bind_eq_Some_conv split: if_splits)
  have "fst ` set vs = field_name ` {0..<nat (wl_field_count u)}"
    using build_values_names [OF assms(2) [unfolded BuildValues_def]] by (metis set_map set_upt)
  then have "fst ` set vs \<subseteq> range field_name"
    by blast
  moreover have "''fieldfield'' @ n \<notin> range field_name"
  proof
    assume "''fieldfield'' @ n \<in> range field_name"
    then obtain i where "''fieldfield'' @ n = field_name i" ..
    with field_name_single [of i n] show False
      by metis
  qed
  ultimately have "''fieldfield'' @ n \<notin> fst ` set vs"
    by (rule contra_subsetD)
  then show ?thesis
    by (simp only: fs list.set insert_disjoint(1) Int_empty_left not_False_eq_True simp_thms)
qed

text \<open>Transactions keep the in-memory store well typed and never count up the sequence of inserted keys.\<close>

lemma hashtable_db_ok:
  assumes "store_ok db"
  shows "store_ok (snd (db_Update hashtable_db t k vs db))" "store_ok (snd (db_Insert hashtable_db t k vs db))"
    "store_ok (snd (snd (db_Read hashtable_db t k fs db)))" "store_ok (snd (snd (db_Scan hashtable_db t k n fs db)))"
  using assms store_refines [of db] by (simp_all add: hashtable_db_def split: prod.split)

lemma run_transaction_store_ok:
  assumes "run_transaction nd L hashtable_db x c = Some (status, c')" "store_ok (cl_db c)"
  shows "store_ok (cl_db c')"
  using assms(1) hashtable_db_ok [OF assms(2)]
  by (cases x)
    (auto simp: TransactionRead_def TransactionUpdate_def TransactionInsert_def TransactionScan_def
      TransactionReadModifyWrite_def bind_eq_Some_conv hashtable_db_ok Let_def case_prod_beta)

lemma DoTransaction_store_ok:
  "DoTransaction nd L hashtable_db c = Some (x, c') \<Longrightarrow> store_ok (cl_db c) \<Longrightarrow> store_ok (cl_db c')"
  by (auto simp: DoTransaction_def bind_eq_Some_conv dest: run_transaction_store_ok)

end
