(* ===== verification/Ycsb_Histogram.thy ===== *)
theory Ycsb_Histogram
  imports Titan_Prelude
begin

text \<open>
  The latency histogram of the YCSB benchmark (\<open>core/histogram.h\<close>, \<open>core/histogram.cc\<close>): 154
  buckets whose limits grow by about a tenth to a third. Doubles are exact rationals; a division
  by zero gives NaN or an infinity, which only the percentiles meet. The two ways of adding a
  sample, by searching the bucket and by computing it, are shown to agree, merging is shown to
  give the histogram of the samples of both sides, and percentiles stay between the extremes.
  The formatted report is not modelled.
\<close>

section \<open>State\<close>

datatype RecordUnit = h_nanoseconds | h_microseconds | h_milliseconds | h_seconds

record Histogram =
  hist_record_unit :: RecordUnit
  hist_record_unit_name :: string
  hist_min :: rat
  hist_max :: rat
  hist_num :: rat
  hist_sum :: rat
  hist_sum_squares :: rat
  hist_buckets :: "rat list"

definition kNumBuckets :: nat where "kNumBuckets = 154"

definition kBucketLimit :: "rat list" where
  "kBucketLimit =
    [1, 2, 3, 4, 5, 6, 7, 8, 9, 10,
     12, 14, 16, 18, 20, 25, 30, 35, 40, 45, 50, 60, 70, 80, 90, 100,
     120, 140, 160, 180, 200, 250, 300, 350, 400, 450, 500, 600, 700, 800, 900, 1000,
     1200, 1400, 1600, 1800, 2000, 2500, 3000, 3500, 4000, 4500, 5000, 6000, 7000, 8000, 9000, 10000,
     12000, 14000, 16000, 18000, 20000, 25000, 30000, 35000, 40000, 45000, 50000, 60000, 70000, 80000, 90000, 100000,
     120000, 140000, 160000, 180000, 200000, 250000, 300000, 350000, 400000, 450000, 500000, 600000, 700000, 800000, 900000, 1000000,
     1200000, 1400000, 1600000, 1800000, 2000000, 2500000, 3000000, 3500000, 4000000, 4500000, 5000000, 6000000, 7000000, 8000000, 9000000, 10000000,
     12000000, 14000000, 16000000, 18000000, 20000000, 25000000, 30000000, 35000000, 40000000, 45000000, 50000000, 60000000, 70000000, 80000000, 90000000, 100000000,
     120000000, 140000000, 160000000, 180000000, 200000000, 250000000, 300000000, 350000000, 400000000, 450000000, 500000000, 600000000, 700000000, 800000000, 900000000, 1000000000,
     1200000000, 1400000000, 1600000000, 1800000000, 2000000000, 2500000000, 3000000000, 3500000000, 4000000000, 4500000000, 5000000000, 6000000000, 7000000000, 8000000000, 9000000000,
     10 ^ 200]"

section \<open>Operations\<close>

definition Hist_Clear :: "Histogram \<Rightarrow> Histogram" where
  "Hist_Clear h = h\<lparr>hist_min := kBucketLimit ! (kNumBuckets - 1), hist_max := 0, hist_num := 0, hist_sum := 0,
     hist_sum_squares := 0, hist_buckets := replicate kNumBuckets 0\<rparr>"

fun unit_name :: "RecordUnit \<Rightarrow> string" where
  "unit_name h_seconds = ''seconds''"
| "unit_name h_milliseconds = ''milliseconds''"
| "unit_name h_microseconds = ''microseconds''"
| "unit_name h_nanoseconds = ''nanoseconds''"

definition new_Histogram :: "RecordUnit \<Rightarrow> Histogram" where
  "new_Histogram u = Hist_Clear
     \<lparr>hist_record_unit = u, hist_record_unit_name = unit_name u, hist_min = 0, hist_max = 0, hist_num = 0, hist_sum = 0,
      hist_sum_squares = 0, hist_buckets = []\<rparr>"

text \<open>The search of the bucket: the limits that are at most the value are passed, the last one never.\<close>

fun search_bucket :: "rat \<Rightarrow> rat list \<Rightarrow> nat \<Rightarrow> nat" where
  "search_bucket v (l # l' # ls) b = (if l \<le> v then search_bucket v (l' # ls) (b + 1) else b)"
| "search_bucket v _ b = b"

definition count_sample :: "nat \<Rightarrow> rat \<Rightarrow> Histogram \<Rightarrow> Histogram" where
  "count_sample b v h = h\<lparr>
     hist_buckets := (hist_buckets h)[b := hist_buckets h ! b + 1],
     hist_min := if hist_min h > v then v else hist_min h,
     hist_max := if hist_max h < v then v else hist_max h,
     hist_num := hist_num h + 1,
     hist_sum := hist_sum h + v,
     hist_sum_squares := hist_sum_squares h + v * v\<rparr>"

definition Hist_Add :: "rat \<Rightarrow> Histogram \<Rightarrow> Histogram" where
  "Hist_Add v h = count_sample (search_bucket v kBucketLimit 0) v h"

text \<open>The computed bucket. An integer to which a double is added is truncated afterwards.\<close>

function scale_down :: "rat \<Rightarrow> int \<Rightarrow> rat \<times> int" where
  "scale_down b pos = (if b \<ge> 100 then scale_down (b / 10) (pos + 16) else (b, pos))"
  by pat_completeness auto
termination
proof (relation "measure (\<lambda>(b, _). nat \<lfloor>b\<rfloor>)")
  fix b :: rat and pos :: int
  assume "100 \<le> b"
  then have "\<lfloor>b / 10\<rfloor> < \<lfloor>b\<rfloor>" "0 < \<lfloor>b\<rfloor>"
    by linarith+
  then show "((b / 10, pos + 16), b, pos) \<in> measure (\<lambda>(b, _). nat \<lfloor>b\<rfloor>)"
    by simp
qed simp

declare scale_down.simps [simp del]

definition fast_bucket :: "rat \<Rightarrow> int" where
  "fast_bucket value =
     (let cal_pos =
        (if value \<ge> 0 \<and> value < 10 then \<lfloor>value\<rfloor>
         else let (b, pos) = scale_down value 0
              in if b \<ge> 10 \<and> b < 20 then \<lfloor>of_int pos + (10 + (b - 10) / 2)\<rfloor>
                 else if b \<ge> 20 \<and> b < 50 then \<lfloor>of_int pos + (15 + (b - 20) / 5)\<rfloor>
                 else if b \<ge> 50 \<and> b < 100 then \<lfloor>of_int pos + (21 + (b - 50) / 10)\<rfloor>
                 else pos)
      in if cal_pos \<ge> int kNumBuckets then int kNumBuckets - 1 else cal_pos)"

definition Hist_Add_Fast :: "rat \<Rightarrow> Histogram \<Rightarrow> Histogram" where
  "Hist_Add_Fast v h = count_sample (nat (fast_bucket v)) v h"

definition Hist_Merge :: "Histogram \<Rightarrow> Histogram \<Rightarrow> Histogram" where
  "Hist_Merge other h = h\<lparr>
     hist_min := if hist_min other < hist_min h then hist_min other else hist_min h,
     hist_max := if hist_max other > hist_max h then hist_max other else hist_max h,
     hist_num := hist_num h + hist_num other,
     hist_sum := hist_sum h + hist_sum other,
     hist_sum_squares := hist_sum_squares h + hist_sum_squares other,
     hist_buckets := map2 (+) (hist_buckets h) (hist_buckets other)\<rparr>"

text \<open>
  The value inside a bucket. With an empty bucket the quotient is NaN or an infinity; NaN passes
  both comparisons, an infinity is cut to an extreme.
\<close>

definition cut_to :: "Histogram \<Rightarrow> rat \<Rightarrow> rat" where
  "cut_to h r = (let r = (if r < hist_min h then hist_min h else r) in if r > hist_max h then hist_max h else r)"

definition bucket_point :: "Histogram \<Rightarrow> rat \<Rightarrow> rat \<Rightarrow> rat \<Rightarrow> rat \<Rightarrow> rat \<Rightarrow> dbl" where
  "bucket_point h threshold left_point right_point left_sum right_sum =
     (let d = right_sum - left_sum; n = threshold - left_sum in
      if d = 0 then
        if n = 0 then NaN
        else if n < 0 then Fin (if hist_min h > hist_max h then hist_max h else hist_min h)
        else Fin (hist_max h)
      else Fin (cut_to h (left_point + (right_point - left_point) * (n / d))))"

fun find_percentile :: "Histogram \<Rightarrow> rat \<Rightarrow> rat \<Rightarrow> rat \<Rightarrow> rat list \<Rightarrow> rat list \<Rightarrow> dbl" where
  "find_percentile h threshold left_point s (n # ns) (l # ls) =
     (let s' = s + n in
      if s' \<ge> threshold then bucket_point h threshold left_point l (s' - n) s'
      else find_percentile h threshold l s' ns ls)"
| "find_percentile h threshold left_point s _ _ = Fin (hist_max h)"

definition Hist_Percentile :: "rat \<Rightarrow> Histogram \<Rightarrow> dbl" where
  "Hist_Percentile p h = find_percentile h (hist_num h * (p / 100)) 0 0 (hist_buckets h) kBucketLimit"

definition Hist_Median :: "Histogram \<Rightarrow> dbl" where
  "Hist_Median h = Hist_Percentile 50 h"

definition Hist_Average :: "Histogram \<Rightarrow> rat" where
  "Hist_Average h = (if hist_num h = 0 then 0 else hist_sum h / hist_num h)"

text \<open>The square root of the C library is an argument.\<close>

definition Hist_StandardDeviation :: "(rat \<Rightarrow> rat) \<Rightarrow> Histogram \<Rightarrow> rat" where
  "Hist_StandardDeviation sqroot h =
     (if hist_num h = 0 then 0
      else let variance = (hist_sum_squares h * hist_num h - hist_sum h * hist_sum h) / (hist_num h * hist_num h) in sqroot variance)"

section \<open>The computed bucket is the searched one\<close>

text \<open>The limits from the eleventh on repeat with a factor of ten, up to the last.\<close>

definition units :: "rat list" where
  "units = [1, 2, 3, 4, 5, 6, 7, 8, 9, 10]"

definition decade :: "rat list" where
  "decade = [12, 14, 16, 18, 20, 25, 30, 35, 40, 45, 50, 60, 70, 80, 90, 100]"

fun decades :: "nat \<Rightarrow> rat list" where
  "decades 0 = []"
| "decades (Suc n) = decade @ map (\<lambda>x. x * 10) (decades n)"

definition passed :: "rat \<Rightarrow> rat list \<Rightarrow> nat" where
  "passed v ls = length (takeWhile (\<lambda>l. l \<le> v) ls)"

lemma search_bucket_passed: "search_bucket v ls b = b + passed v (butlast ls)"
  by (induction v ls b rule: search_bucket.induct) (auto simp: passed_def)

lemma passed_simps [simp]:
  "passed v [] = 0"
  "passed v (l # ls) = (if l \<le> v then Suc (passed v ls) else 0)"
  by (simp_all add: passed_def)

lemma passed_append: "(\<And>l. l \<in> set xs \<Longrightarrow> l \<le> v) \<Longrightarrow> passed v (xs @ ys) = length xs + passed v ys"
  by (induction xs) auto

lemma passed_stop: "l \<in> set xs \<Longrightarrow> v < l \<Longrightarrow> passed v (xs @ ys) = passed v xs"
  by (induction xs) auto

lemma passed_scaled: "passed v (map (\<lambda>x. x * 10) ls) = passed (v / 10) ls"
  by (induction ls) (auto simp: field_simps)

lemma passed_butlast: "passed v (butlast ls) = min (length ls - 1) (passed v ls)"
proof (induction ls)
  case (Cons a ls)
  then show ?case
    by (cases ls) auto
qed simp

lemma passed_le: "passed v ls \<le> length ls"
  by (simp add: passed_def length_takeWhile_le)

lemma length_decades: "length (decades n) = 16 * n"
  by (induction n) (auto simp: decade_def)

lemma kBucketLimit_decades: "butlast kBucketLimit = butlast (units @ decades 9)"
  by (simp add: kBucketLimit_def units_def decade_def numeral_eq_Suc)

lemma scale_down_add: "scale_down b (p + q) = (case scale_down b p of (c, r) \<Rightarrow> (c, r + q))"
proof (induction b p rule: scale_down.induct)
  case (1 b p)
  show ?case
    using 1 by (subst (1 2) scale_down.simps) (simp add: algebra_simps)
qed

lemma scale_down_below: "b < 100 \<Longrightarrow> scale_down b p = (b, p)"
  by (simp add: scale_down.simps)

text \<open>The computed position before it is cut to the last bucket.\<close>

definition uncut :: "rat \<Rightarrow> int" where
  "uncut v = (case scale_down v 0 of (b, pos) \<Rightarrow>
     if b \<ge> 10 \<and> b < 20 then \<lfloor>of_int pos + (10 + (b - 10) / 2)\<rfloor>
     else if b \<ge> 20 \<and> b < 50 then \<lfloor>of_int pos + (15 + (b - 20) / 5)\<rfloor>
     else if b \<ge> 50 \<and> b < 100 then \<lfloor>of_int pos + (21 + (b - 50) / 10)\<rfloor>
     else pos)"

lemma uncut_scale: "100 \<le> v \<Longrightarrow> uncut v = 16 + uncut (v / 10)"
proof -
  assume v: "100 \<le> v"
  obtain b p where s: "scale_down (v / 10) 0 = (b, p)"
    by fastforce
  have "scale_down v 0 = scale_down (v / 10) (0 + 16)"
    using v by (simp add: scale_down.simps [of v])
  also have "\<dots> = (b, p + 16)"
    by (simp only: scale_down_add s prod.case)
  finally show ?thesis
    by (simp add: uncut_def s floor_add_int [symmetric] algebra_simps flip: floor_add_int)
qed

lemma uncut_below:
  assumes "10 \<le> v" "v < 100"
  shows "uncut v = 10 + int (passed v decade)"
  using assms by (auto simp: uncut_def scale_down_below decade_def intro!: floor_unique)

lemma uncut_ge: "10 \<le> v \<Longrightarrow> 10 \<le> uncut v"
proof (induction v rule: measure_induct_rule [where f = "\<lambda>v. nat \<lfloor>v\<rfloor>"])
  case (less v)
  show ?case
  proof (cases "100 \<le> v")
    case True
    moreover from True have "\<lfloor>v / 10\<rfloor> < \<lfloor>v\<rfloor>" "0 < \<lfloor>v\<rfloor>"
      by linarith+
    then have "nat \<lfloor>v / 10\<rfloor> < nat \<lfloor>v\<rfloor>"
      by simp
    ultimately show ?thesis
      using less.IH [of "v / 10"] by (simp add: uncut_scale)
  qed (use less.prems in \<open>simp add: uncut_below\<close>)
qed

lemma uncut_passed: "10 \<le> v \<Longrightarrow> min (10 + 16 * int n) (uncut v) = int (passed v (units @ decades n))"
proof (induction n arbitrary: v)
  case 0
  then show ?case
    using uncut_ge [of v] by (simp add: units_def)
next
  case (Suc n)
  have u: "passed v (units @ ls) = 10 + passed v ls" if "10 \<le> v" for v ls
    using passed_append [of units v ls] that by (simp add: units_def)
  show ?case
  proof (cases "100 \<le> v")
    case True
    then have "passed v (decades (Suc n)) = 16 + passed (v / 10) (decades n)"
      using passed_append [of decade v] by (auto simp: decade_def passed_scaled)
    with True Suc.IH [of "v / 10"] show ?thesis
      by (simp add: u uncut_scale)
  next
    case False
    then have "passed v (decades (Suc n)) = passed v decade" "passed v decade \<le> 16"
      using passed_stop [of 100 decade v] passed_le [of v decade] by (auto simp: decade_def)
    with False Suc.prems show ?thesis
      by (simp add: u uncut_below)
  qed
qed

lemma fast_bucket_uncut:
  "fast_bucket v = min 153 (if 0 \<le> v \<and> v < 10 then \<lfloor>v\<rfloor> else uncut v)"
  by (simp add: fast_bucket_def uncut_def Let_def kNumBuckets_def case_prod_beta)

lemma fast_bucket_search: "fast_bucket v = int (search_bucket v kBucketLimit 0)"
proof -
  have l: "length (units @ decades 9) = 154"
    by (simp add: units_def length_decades)
  have b: "search_bucket v kBucketLimit 0 = min 153 (passed v (units @ decades 9))"
    by (simp only: search_bucket_passed kBucketLimit_decades passed_butlast l)
  show ?thesis
  proof (cases "10 \<le> v")
    case True
    then show ?thesis
      using uncut_passed [OF True, of 9] by (simp add: fast_bucket_uncut b)
  next
    case False
    then have "passed v (units @ decades 9) = passed v units"
      using passed_stop [of 10 units v] by (auto simp: units_def)
    moreover from False have "int (passed v units) = (if 0 \<le> v then \<lfloor>v\<rfloor> else 0)"
      by (auto simp: units_def intro!: floor_unique)
    moreover from False have "uncut v = 0" if "v < 0"
      using that by (simp add: uncut_def scale_down_below)
    ultimately show ?thesis
      using False passed_le [of v units] by (auto simp: fast_bucket_uncut b floor_le_iff min_def units_def split: if_splits)
  qed
qed

section \<open>Merging and percentiles\<close>

text \<open>What every history of a histogram keeps.\<close>

definition hist_ok :: "Histogram \<Rightarrow> bool" where
  "hist_ok h = (length (hist_buckets h) = kNumBuckets \<and> hist_min h \<le> 10 ^ 200 \<and> 0 \<le> hist_max h
     \<and> list_all (\<lambda>n. 0 \<le> n) (hist_buckets h) \<and> hist_num h = sum_list (hist_buckets h)
     \<and> (0 < hist_num h \<longrightarrow> hist_min h \<le> hist_max h))"

definition hist_of :: "RecordUnit \<Rightarrow> rat list \<Rightarrow> Histogram" where
  "hist_of u vs = fold Hist_Add vs (new_Histogram u)"

lemma last_limit: "kBucketLimit ! (kNumBuckets - Suc 0) = 10 ^ 200"
  by (simp add: kBucketLimit_def kNumBuckets_def)

lemma search_bucket_less: "search_bucket v kBucketLimit 0 < kNumBuckets"
proof -
  have "search_bucket v kBucketLimit 0 \<le> length (butlast kBucketLimit)"
    by (simp only: search_bucket_passed add_0 passed_le)
  also have "length (butlast kBucketLimit) < kNumBuckets"
    by (simp add: kBucketLimit_def kNumBuckets_def)
  finally show ?thesis .
qed

lemma new_hist_ok: "hist_ok (new_Histogram u)"
  by (simp add: hist_ok_def new_Histogram_def Hist_Clear_def last_limit sum_list_replicate list_all_iff)

lemma sum_list_bump: "b < length ns \<Longrightarrow> sum_list (ns[b := ns ! b + 1]) = sum_list ns + (1 :: rat)"
  by (induction ns arbitrary: b) (auto split: nat.splits)

lemma Add_ok: "hist_ok h \<Longrightarrow> hist_ok (Hist_Add v h)"
  using search_bucket_less [of v]
  by (auto simp: hist_ok_def Hist_Add_def count_sample_def sum_list_bump list_all_length nth_list_update)

lemma hist_of_ok: "hist_ok (hist_of u vs)"
  unfolding hist_of_def
proof (induction vs rule: rev_induct)
  case (snoc v vs)
  then show ?case
    by (simp add: Add_ok)
qed (simp add: new_hist_ok)

lemma Merge_new: "hist_ok h \<Longrightarrow> Hist_Merge (new_Histogram u) h = h"
  by (auto simp: Hist_Merge_def new_Histogram_def Hist_Clear_def hist_ok_def last_limit zip_replicate2 comp_def)

lemma Merge_Add:
  assumes "length (hist_buckets h) = kNumBuckets" "length (hist_buckets other) = kNumBuckets"
  shows "Hist_Merge (Hist_Add v other) h = Hist_Add v (Hist_Merge other h)"
proof -
  have "map2 (+) xs (ys[b := ys ! b + 1]) = (map2 (+) xs ys)[b := map2 (+) xs ys ! b + (1 :: rat)]"
    if "b < length xs" "length xs = length ys" for xs ys b
    using that by (intro nth_equalityI) (auto simp: nth_list_update)
  then show ?thesis
    using assms search_bucket_less [of v]
    by (auto simp: Hist_Merge_def Hist_Add_def count_sample_def)
qed

lemma Merge_hist_of: "Hist_Merge (hist_of u' ws) (hist_of u vs) = hist_of u (vs @ ws)"
proof (induction ws rule: rev_induct)
  case Nil
  show ?case
    using Merge_new [OF hist_of_ok] by (simp add: hist_of_def)
next
  case (snoc w ws)
  have "length (hist_buckets (hist_of v xs)) = kNumBuckets" for v xs
    using hist_of_ok [of v xs] by (simp add: hist_ok_def)
  then show ?case
    using snoc Merge_Add [of "hist_of u vs" "hist_of u' ws" w] by (simp add: hist_of_def)
qed

lemma cut_to_between: "hist_min h \<le> hist_max h \<Longrightarrow> hist_min h \<le> cut_to h r \<and> cut_to h r \<le> hist_max h"
  by (simp add: cut_to_def Let_def)

lemma find_percentile_between:
  assumes "hist_min h \<le> hist_max h" "list_all (\<lambda>n. 0 \<le> n) ns" "s < t"
  shows "\<exists>r. find_percentile h t left_point s ns ls = Fin r \<and> hist_min h \<le> r \<and> r \<le> hist_max h"
  using assms
proof (induction h t left_point s ns ls rule: find_percentile.induct)
  case (1 h t left_point s n ns l ls)
  show ?case
  proof (cases "s + n \<ge> t")
    case True
    then have "n \<noteq> 0"
      using 1(4) by auto
    with True show ?thesis
      using cut_to_between [OF 1(2)] by (simp add: bucket_point_def Let_def)
  next
    case False
    then show ?thesis
      using 1 by simp
  qed
qed auto

lemma Percentile_between:
  assumes "vs \<noteq> []" "0 < p"
  shows "\<exists>r. Hist_Percentile p (hist_of u vs) = Fin r
     \<and> hist_min (hist_of u vs) \<le> r \<and> r \<le> hist_max (hist_of u vs)"
proof -
  have n: "hist_num (hist_of u vs) = of_nat (length vs)"
    unfolding hist_of_def
    by (induction vs rule: rev_induct)
      (simp_all add: Hist_Add_def count_sample_def new_Histogram_def Hist_Clear_def)
  with assms(1) have "0 < hist_num (hist_of u vs)"
    by simp
  then show ?thesis
    unfolding Hist_Percentile_def
    using hist_of_ok [of u vs] assms(2) by (intro find_percentile_between) (auto simp: hist_ok_def)
qed

text \<open>The percentiles of a histogram without samples are not numbers.\<close>

lemma empty_median_is_NaN: "Hist_Median (new_Histogram u) = NaN"
  by (simp add: Hist_Median_def Hist_Percentile_def new_Histogram_def Hist_Clear_def kNumBuckets_def
      kBucketLimit_def numeral_eq_Suc bucket_point_def)


end
