(* ===== verification/Spec2Isabelle.thy ===== *)
theory Spec2Isabelle
  imports DB_Props Ycsb_Workload Ycsb_Histogram
begin

text \<open>
  A verification library for diffkv, a key-value store derived from TitanDB. Large values are
  kept in blob files beside RocksDB; the LSM tree holds references to them.

  \<^bold>\<open>How the program is modelled.\<close> A class is a record, a method a function that takes the object
  and returns it updated. A result \<open>None\<close> is undefined behaviour, a failed assertion, a null
  dereference or an abort; \<open>nd\<close> says whether assertions are compiled out. A \<open>Status\<close> is a value of
  the datatype \<open>status\<close>. Integers keep their width as words. An \<open>unordered_map\<close> is an association
  list with distinct keys, a \<open>std::map\<close> a sorted one. Doubles are exact rationals with infinity
  and NaN, so rounding is not modelled. Objects that the source shares by pointer have one owner
  in the model and are referred to by number. Code outside the repository (RocksDB's coding, cache,
  files, log, table builder, iterators and the base database, and the compression library) is a
  record of functions, and what the proofs need of it are the laws of a locale with a concrete
  instance: \<open>coding_laws\<close>, \<open>codec_laws\<close>, \<open>wfile_laws\<close>, \<open>rfile_laws\<close>, \<open>cache_laws\<close>, \<open>comparator_laws\<close>,
  \<open>manifest_laws\<close>, \<open>table_builder_laws\<close>, \<open>internal_key_laws\<close>, \<open>blob_fs_laws\<close>.

  \<^bold>\<open>The parts and their theories.\<close>
  \<^item> \<open>Titan_Prelude\<close>, \<open>Std_Algorithms\<close>, \<open>Coding\<close>, \<open>File_IO\<close>: statuses, assertions, maps, doubles,
    \<open>std::sort\<close>, the loops that may fail, and the interfaces of the libraries.
  \<^item> \<open>Titan_Util\<close>, \<open>Titan_Stats\<close>, \<open>Titan_Options\<close>: \<open>util.h\<close>, \<open>titan_stats.h\<close>, \<open>options.h\<close>.
  \<^item> \<open>Blob_Format\<close>: records, references, file metadata and its state machine (\<open>blob_format.cc\<close>).
    Encoding and decoding are inverse, an obsolete file stays obsolete, sizes stay in bounds.
  \<^item> \<open>Blob_File_Builder\<close>, \<open>Blob_File_Reader\<close>, \<open>Blob_File_Iterator\<close>: writing, reading and scanning
    one file, the two caches and the merging iterator. What is added is found again under its
    handle, with and without the cache; a scan visits every record once, a merge in key order.
  \<^item> \<open>Version_Edit\<close>, \<open>Edit_Collector\<close>, \<open>Blob_File_Set\<close>, \<open>Manifest_Props\<close>: the manifest. Edits round
    trip, a batch that is sealed can be applied, a snapshot recovers the live files, a change
    is logged before it is applied.
  \<^item> \<open>Blob_Storage\<close>, \<open>Storage_Props\<close>: the files of a column family (\<open>blob_storage.cc\<close>). The indexes
    agree with the files in every history, and the storage refines a set of live files.
  \<^item> \<open>Size_Collector\<close>: the table property that counts references per blob file.
  \<^item> \<open>Blob_GC\<close>, \<open>GC_Job\<close>: choosing the inputs of a collection and the collection itself
    (\<open>blob_gc_picker.cc\<close>, \<open>blob_gc_job.cc\<close>, \<open>db_impl_gc.cc\<close>).
  \<^item> \<open>Blob_Manager\<close>, \<open>Table_Builder\<close>, \<open>Table_Props\<close>, \<open>Foreground_Builder\<close>: separating values while a
    table is built or before the memtable (\<open>table_builder.cc\<close>, \<open>table_factory.cc\<close>).
  \<^item> \<open>Titan_DB\<close>, \<open>DB_Ops\<close>, \<open>DB_Events\<close>, \<open>DB_Iter\<close>: the database (\<open>db_impl.cc\<close>, \<open>db_impl.h\<close>,
    \<open>db_impl_files.cc\<close>, \<open>db.cc\<close>, \<open>base_db_listener.cc\<close>, \<open>db_iter.h\<close>). An operation that waits on a
    condition variable returns the state in which it waits.
  \<^item> \<open>DB_Props\<close>: the parts together. A value that a flush has separated is read back through the
    database, from the table entry over the manifest and the file to the record.
  \<^item> \<open>Ycsb_Store\<close>, \<open>Ycsb_Histogram\<close>, \<open>Ycsb_Workload\<close>: the YCSB benchmark under \<open>bench_tools/YCSB-C\<close>:
    the in-memory store, which refines a map of records, the latency histogram, whose fast way of
    adding a sample equals the plain one, and the workload with its generators and client.

  \<^bold>\<open>Loops.\<close> Loops over containers are structural. The growth of the read-ahead and the backward
  search in a blob file have fuel, with lemmas that the fuel given is enough; the loop of
  the manifest decoder is a function with a termination proof. The loop of a collection, the
  drawing of a key and the Pareto generator, which may not end, are partial functions whose
  \<open>None\<close> includes not returning.

  \<^bold>\<open>Not modelled.\<close> Threads: an operation is one step under the database mutex, except where the
  source waits or releases it. Time counters, log messages and RocksDB's histograms. The benchmark
  and stress tools, and the adapters and network clients of the YCSB benchmark, which only drive
  other databases.
\<close>

end
